(* ===== verification/Prelude.thy ===== *)
theory Prelude
  imports Main "HOL-Library.Word" "HOL-Library.Code_Target_Nat" "HOL-Library.Char_ord" "HOL-Library.List_Lexorder"
    "HOL-Library.Product_Lexorder" "HOL-Library.Sublist"
begin

text \<open>
  Shared vocabulary of the development: the parts of the Rust standard library the
  runtime is written with.
  \<^item> \<open>('k, 'v) btree\<close> is \<open>std::collections::BTreeMap\<close>: an association list in strictly
    increasing key order (\<open>bt_wf\<close>), with \<open>bt_get\<close>, \<open>bt_insert\<close>, \<open>bt_remove\<close>,
    \<open>bt_retain\<close>, \<open>bt_modify\<close> (\<open>get_mut\<close>); iteration is the list itself.
  \<^item> \<open>checked_add\<close> is the 64-bit \<open>checked_add\<close> of \<open>u64\<close> and of \<open>usize\<close> on the
    64-bit release target.
  \<^item> \<open>string\<close> is a Rust \<open>str\<close> by its UTF-8 bytes, \<open>utf8_chars\<close> its \<open>chars()\<close>;
    \<open>split_on\<close>, \<open>strip_prefix\<close>, \<open>trim_chars\<close> are \<open>split\<close>, \<open>strip_prefix\<close>, \<open>trim\<close>.
  \<^item> \<open>duration\<close> and \<open>instant\<close> count nanoseconds.
\<close>

unbundle bit_operations_syntax

named_theorems bt_simps \<open>lookup, size and order of ordered maps\<close>
named_theorems result_simps \<open>case analysis on results\<close>

section \<open>Results\<close>

abbreviation is_ok :: "'e + 'a \<Rightarrow> bool" where
  "is_ok r \<equiv> \<not> isl r"

definition ok_or :: "'e \<Rightarrow> 'a option \<Rightarrow> 'e + 'a" where
  "ok_or e x = (case x of None \<Rightarrow> Inl e | Some v \<Rightarrow> Inr v)"

lemma ok_or_simps [simp]:
  "ok_or e None = Inl e" "ok_or e (Some v) = Inr v"
  by (simp_all add: ok_or_def)

lemma ok_or_eq_iff [simp]:
  "ok_or e x = Inr v \<longleftrightarrow> x = Some v"
  "ok_or e x = Inl e' \<longleftrightarrow> x = None \<and> e' = e"
  by (auto simp: ok_or_def split: option.splits)

fun map_result :: "('a \<Rightarrow> 'b) \<Rightarrow> 'e + 'a \<Rightarrow> 'e + 'b" where
  "map_result f (Inl e) = Inl e"
| "map_result f (Inr x) = Inr (f x)"

fun map_err :: "('e \<Rightarrow> 'f) \<Rightarrow> 'e + 'a \<Rightarrow> 'f + 'a" where
  "map_err f (Inl e) = Inl (f e)"
| "map_err f (Inr x) = Inr x"

lemma map_result_eq_iff [simp]:
  "map_result f r = Inr y \<longleftrightarrow> (\<exists>x. r = Inr x \<and> y = f x)"
  "map_result f r = Inl e \<longleftrightarrow> r = Inl e"
  by (cases r; auto)+

lemma map_err_eq_iff [simp]:
  "map_err f r = Inr y \<longleftrightarrow> r = Inr y"
  "map_err f r = Inl e' \<longleftrightarrow> (\<exists>e. r = Inl e \<and> e' = f e)"
  by (cases r; auto)+

text \<open>\<open>iter.map(f).collect::<Result<Vec<_>, _>>()\<close>: the first error stops the iteration.\<close>

fun collect_results :: "('a \<Rightarrow> 'e + 'b) \<Rightarrow> 'a list \<Rightarrow> 'e + 'b list" where
  "collect_results f [] = Inr []"
| "collect_results f (x # xs) =
     (case f x of Inl e \<Rightarrow> Inl e
      | Inr y \<Rightarrow> (case collect_results f xs of Inl e \<Rightarrow> Inl e | Inr ys \<Rightarrow> Inr (y # ys)))"

lemma collect_results_Inr:
  "(\<And>x. x \<in> set xs \<Longrightarrow> f x = Inr (g x)) \<Longrightarrow> collect_results f xs = Inr (map g xs)"
  by (induction xs) auto

lemma collect_results_map:
  "(\<And>x. x \<in> set xs \<Longrightarrow> f (h x) = Inr (g x)) \<Longrightarrow> collect_results f (map h xs) = Inr (map g xs)"
  by (induction xs) auto

lemma collect_results_InrD:
  "collect_results f xs = Inr ys \<Longrightarrow> list_all2 (\<lambda>x y. f x = Inr y) xs ys"
  by (induction xs arbitrary: ys) (auto split: sum.splits)

section \<open>Ordered maps\<close>

type_synonym ('k, 'v) btree = "('k \<times> 'v) list"

abbreviation bt_get :: "('k, 'v) btree \<Rightarrow> 'k \<Rightarrow> 'v option" where
  "bt_get \<equiv> map_of"

abbreviation bt_keys :: "('k, 'v) btree \<Rightarrow> 'k list" where
  "bt_keys m \<equiv> map fst m"

abbreviation bt_values :: "('k, 'v) btree \<Rightarrow> 'v list" where
  "bt_values m \<equiv> map snd m"

definition bt_contains :: "('k, 'v) btree \<Rightarrow> 'k \<Rightarrow> bool" where
  "bt_contains m k \<longleftrightarrow> bt_get m k \<noteq> None"

primrec bt_insert :: "'k::linorder \<Rightarrow> 'v \<Rightarrow> ('k, 'v) btree \<Rightarrow> ('k, 'v) btree" where
  "bt_insert k v [] = [(k, v)]"
| "bt_insert k v (e # m) =
     (if fst e < k then e # bt_insert k v m
      else if fst e = k then (k, v) # m
      else (k, v) # e # m)"

definition bt_remove :: "'k \<Rightarrow> ('k, 'v) btree \<Rightarrow> ('k, 'v) btree" where
  "bt_remove k m = filter (\<lambda>e. fst e \<noteq> k) m"

definition bt_retain :: "('k \<Rightarrow> 'v \<Rightarrow> bool) \<Rightarrow> ('k, 'v) btree \<Rightarrow> ('k, 'v) btree" where
  "bt_retain P m = filter (\<lambda>e. P (fst e) (snd e)) m"

definition bt_modify :: "'k \<Rightarrow> ('v \<Rightarrow> 'v) \<Rightarrow> ('k, 'v) btree \<Rightarrow> ('k, 'v) btree" where
  "bt_modify k f m = map (\<lambda>e. if fst e = k then (k, f (snd e)) else e) m"

definition bt_wf :: "('k::linorder, 'v) btree \<Rightarrow> bool" where
  "bt_wf m \<longleftrightarrow> sorted_wrt (<) (bt_keys m)"

lemma bt_get_insert [simp, bt_simps]: "bt_get (bt_insert k v m) = (bt_get m)(k \<mapsto> v)"
  by (induction m) (auto simp: fun_eq_iff)

lemma bt_get_remove [simp, bt_simps]: "bt_get (bt_remove k m) = (bt_get m)(k := None)"
  by (induction m) (auto simp: bt_remove_def fun_eq_iff)

lemma bt_get_modify [simp, bt_simps]:
  "bt_get (bt_modify k f m) = (bt_get m)(k := map_option f (bt_get m k))"
  by (induction m) (auto simp: bt_modify_def fun_eq_iff)

lemma bt_keys_modify [simp, bt_simps]: "bt_keys (bt_modify k f m) = bt_keys m"
  by (induction m) (auto simp: bt_modify_def)

lemma set_bt_keys_insert [simp, bt_simps]: "fst ` set (bt_insert k v m) = insert k (fst ` set m)"
  by (induction m) auto

lemma bt_wf_Nil [simp]: "bt_wf []"
  by (simp add: bt_wf_def)

lemma bt_wf_Cons: "bt_wf (e # m) \<longleftrightarrow> (\<forall>k \<in> fst ` set m. fst e < k) \<and> bt_wf m"
  by (auto simp: bt_wf_def)

lemma bt_wf_insert [simp, intro]: "bt_wf m \<Longrightarrow> bt_wf (bt_insert k v m)"
  by (induction m) (auto simp: bt_wf_Cons)

lemma bt_wf_filter: "bt_wf m \<Longrightarrow> bt_wf (filter P m)"
  by (induction m) (auto simp: bt_wf_Cons)

lemma bt_wf_remove [simp, intro]: "bt_wf m \<Longrightarrow> bt_wf (bt_remove k m)"
  by (simp add: bt_remove_def bt_wf_filter)

lemma bt_wf_retain [simp, intro]: "bt_wf m \<Longrightarrow> bt_wf (bt_retain P m)"
  by (simp add: bt_retain_def bt_wf_filter)

lemma bt_wf_modify [simp, intro]: "bt_wf m \<Longrightarrow> bt_wf (bt_modify k f m)"
  by (simp add: bt_wf_def)

lemma bt_wf_distinct: "bt_wf m \<Longrightarrow> distinct (bt_keys m)"
  by (simp add: bt_wf_def strict_sorted_iff)

lemma bt_mem_get: "bt_wf m \<Longrightarrow> (k, v) \<in> set m \<longleftrightarrow> bt_get m k = Some v"
  by (simp add: bt_wf_distinct)

lemma bt_get_in_keys: "bt_get m k = Some v \<Longrightarrow> k \<in> fst ` set m"
  by (force dest: map_of_SomeD)

lemma bt_get_None_keys: "bt_get m k = None \<longleftrightarrow> k \<notin> fst ` set m"
  by (simp add: map_of_eq_None_iff)

lemma bt_get_retain [bt_simps]:
  "bt_wf m \<Longrightarrow> bt_get (bt_retain P m) k =
     (case bt_get m k of None \<Rightarrow> None | Some v \<Rightarrow> if P k v then Some v else None)"
  by (induction m)
    (auto simp: bt_retain_def bt_wf_Cons bt_get_None_keys split: option.splits)

lemma bt_values_ex: "bt_wf m \<Longrightarrow> (\<exists>v \<in> set (bt_values m). P v) \<longleftrightarrow> (\<exists>k v. bt_get m k = Some v \<and> P v)"
  by (force simp: bt_mem_get [symmetric])

lemma bt_length_insert [bt_simps]:
  "bt_wf m \<Longrightarrow> length (bt_insert k v m) = (if bt_get m k = None then Suc (length m) else length m)"
  by (induction m) (auto simp: bt_wf_Cons bt_get_None_keys)

lemma bt_remove_absent: "bt_get m k = None \<Longrightarrow> bt_remove k m = m"
  by (auto simp: bt_remove_def filter_id_conv bt_get_None_keys)

lemma bt_length_remove:
  "bt_wf m \<Longrightarrow> length (bt_remove k m) = (if bt_get m k = None then length m else length m - 1)"
proof (induction m)
  case (Cons e m)
  have keep: "bt_remove k m = m" if "fst e = k"
    using Cons.prems that by (intro bt_remove_absent) (auto simp: bt_wf_Cons bt_get_None_keys)
  have "m \<noteq> []" if "bt_get m k \<noteq> None"
    using that by auto
  with Cons keep show ?case
    by (cases m) (auto simp: bt_remove_def bt_wf_Cons)
qed (simp add: bt_remove_def)

lemma bt_length_remove_le [simp]: "length (bt_remove k m) \<le> length m"
  by (simp add: bt_remove_def)

lemma bt_length_modify [simp]: "length (bt_modify k f m) = length m"
  by (simp add: bt_modify_def)

lemma bt_length_retain_le [simp]: "length (bt_retain P m) \<le> length m"
  by (simp add: bt_retain_def)

lemma bt_contains_iff [simp]: "bt_contains m k \<longleftrightarrow> k \<in> dom (bt_get m)"
  by (auto simp: bt_contains_def)

lemma bt_wf_eqI:
  assumes "bt_wf m" "bt_wf n" "bt_get m = bt_get n" shows "m = n"
proof -
  have eq: "set m = set n"
    using assms by (metis subrelI subset_antisym bt_mem_get)
  have "inj_on fst (set m)"
    using assms by (simp add: bt_wf_distinct distinct_map [THEN iffD1])
  with assms eq show ?thesis
    by (intro map_sorted_distinct_set_unique [where f = fst])
      (auto simp: bt_wf_def strict_sorted_iff)
qed

section \<open>Machine integers, durations and instants\<close>

type_synonym u8 = "8 word"
type_synonym u16 = "16 word"
type_synonym u32 = "32 word"
type_synonym u64 = "64 word"

definition checked_add :: "nat \<Rightarrow> nat \<Rightarrow> nat option" where
  "checked_add a b = (if a + b < 2 ^ 64 then Some (a + b) else None)"

lemma checked_add_Some [simp]: "checked_add a b = Some c \<longleftrightarrow> c = a + b \<and> a + b < 2 ^ 64"
  by (auto simp: checked_add_def)

lemma checked_add_None [simp]: "checked_add a b = None \<longleftrightarrow> 2 ^ 64 \<le> a + b"
  by (auto simp: checked_add_def)

text \<open>\<open>usize::saturating_add\<close>.\<close>

definition saturating_add :: "nat \<Rightarrow> nat \<Rightarrow> nat" where
  "saturating_add a b = min (a + b) (2 ^ 64 - 1)"

type_synonym duration = nat
type_synonym instant = nat

definition from_nanos :: "nat \<Rightarrow> duration" where
  "from_nanos n = n"

definition from_millis :: "nat \<Rightarrow> duration" where
  "from_millis ms = ms * 1000000"

definition from_secs :: "nat \<Rightarrow> duration" where
  "from_secs s = s * 1000000000"

definition as_millis :: "duration \<Rightarrow> nat" where
  "as_millis d = d div 1000000"

definition as_micros :: "duration \<Rightarrow> nat" where
  "as_micros d = d div 1000"

text \<open>An \<open>Instant\<close> is an \<open>i64\<close> of seconds and a nanosecond part; \<open>checked_add\<close> fails
  when the seconds overflow.\<close>

definition instant_checked_add :: "instant \<Rightarrow> duration \<Rightarrow> instant option" where
  "instant_checked_add t d = (if (t + d) div 1000000000 < 2 ^ 63 then Some (t + d) else None)"

text \<open>\<open>Instant::elapsed\<close> with the clock reading given: zero when the reading is earlier.\<close>

definition elapsed :: "instant \<Rightarrow> instant \<Rightarrow> duration" where
  "elapsed t now = now - t"

section \<open>Bytes of a 32-bit word, little endian\<close>

definition u32_to_ne_bytes :: "u32 \<Rightarrow> u8 list" where
  "u32_to_ne_bytes w = [ucast w, ucast (drop_bit 8 w), ucast (drop_bit 16 w), ucast (drop_bit 24 w)]"

definition u32_from_ne_bytes :: "u8 \<Rightarrow> u8 \<Rightarrow> u8 \<Rightarrow> u8 \<Rightarrow> u32" where
  "u32_from_ne_bytes a b c d = ucast a OR push_bit 8 (ucast b) OR push_bit 16 (ucast c) OR push_bit 24 (ucast d)"

lemma u32_ne_roundtrip:
  "u32_from_ne_bytes (ucast w) (ucast (drop_bit 8 w)) (ucast (drop_bit 16 w)) (ucast (drop_bit 24 w)) = w"
proof (rule bit_word_eqI)
  fix n assume "n < LENGTH(32)"
  then consider "n < 8" | "8 \<le> n" "n < 16" | "16 \<le> n" "n < 24" | "24 \<le> n" "n < 32" by fastforce
  then show "bit (u32_from_ne_bytes (ucast w) (ucast (drop_bit 8 w)) (ucast (drop_bit 16 w)) (ucast (drop_bit 24 w))) n = bit w n"
    by cases (auto simp: u32_from_ne_bytes_def bit_simps)
qed

section \<open>Strings\<close>

definition byte_of :: "char \<Rightarrow> nat" where
  "byte_of c = of_char c"

definition is_ascii_digit :: "char \<Rightarrow> bool" where
  "is_ascii_digit c \<longleftrightarrow> 48 \<le> byte_of c \<and> byte_of c \<le> 57"

definition is_ascii_uppercase :: "char \<Rightarrow> bool" where
  "is_ascii_uppercase c \<longleftrightarrow> 65 \<le> byte_of c \<and> byte_of c \<le> 90"

definition is_ascii_lowercase :: "char \<Rightarrow> bool" where
  "is_ascii_lowercase c \<longleftrightarrow> 97 \<le> byte_of c \<and> byte_of c \<le> 122"

definition is_ascii_alphabetic :: "char \<Rightarrow> bool" where
  "is_ascii_alphabetic c \<longleftrightarrow> is_ascii_uppercase c \<or> is_ascii_lowercase c"

definition is_ascii_alphanumeric :: "char \<Rightarrow> bool" where
  "is_ascii_alphanumeric c \<longleftrightarrow> is_ascii_alphabetic c \<or> is_ascii_digit c"

lemmas ascii_defs = is_ascii_digit_def is_ascii_uppercase_def is_ascii_lowercase_def
  is_ascii_alphabetic_def is_ascii_alphanumeric_def byte_of_def

text \<open>\<open>str::to_ascii_lowercase\<close>, byte by byte.\<close>

definition to_ascii_lowercase :: "string \<Rightarrow> string" where
  "to_ascii_lowercase s =
     map (\<lambda>c. if is_ascii_uppercase c then char_of (byte_of c + 32) else c) s"

lemma to_ascii_lowercase_id_iff:
  "to_ascii_lowercase s = s \<longleftrightarrow> (\<forall>c \<in> set s. \<not> is_ascii_uppercase c)"
proof -
  have "char_of (byte_of c + 32) \<noteq> c" if "is_ascii_uppercase c" for c
  proof
    assume "char_of (byte_of c + 32) = c"
    then have "of_char (char_of (byte_of c + 32) :: char) = byte_of c"
      by (simp add: byte_of_def)
    with that show False
      by (simp add: is_ascii_uppercase_def byte_of_def)
  qed
  moreover have "map f s = s \<longleftrightarrow> (\<forall>c \<in> set s. f c = c)" for f :: "char \<Rightarrow> char"
    by (induction s) auto
  ultimately show ?thesis
    by (auto simp: to_ascii_lowercase_def)
qed

text \<open>\<open>str::split(char)\<close>: always at least one part.\<close>

fun split_on :: "'a \<Rightarrow> 'a list \<Rightarrow> 'a list list" where
  "split_on d [] = [[]]"
| "split_on d (c # cs) =
     (if c = d then [] # split_on d cs
      else (case split_on d cs of [] \<Rightarrow> [[c]] | w # ws \<Rightarrow> (c # w) # ws))"

fun join_with :: "'a \<Rightarrow> 'a list list \<Rightarrow> 'a list" where
  "join_with d [] = []"
| "join_with d [w] = w"
| "join_with d (w # ws) = w @ d # join_with d ws"

lemma split_on_nonempty [simp]: "split_on d s \<noteq> []"
  by (induction s) (auto split: list.splits)

lemma join_split_on [simp]: "join_with d (split_on d s) = s"
proof (induction s)
  case (Cons c s)
  then show ?case
    by (cases "split_on d s" rule: list.exhaust; cases "tl (split_on d s)") auto
qed simp

lemma split_on_no_delim: "w \<in> set (split_on d s) \<Longrightarrow> d \<notin> set w"
proof (induction s arbitrary: w)
  case (Cons c s)
  then show ?case by (cases "split_on d s") (auto split: if_splits)
qed simp

lemma split_on_append_delim: "split_on d (xs @ d # ys) = split_on d xs @ split_on d ys"
proof (induction xs)
  case (Cons c xs)
  then show ?case by (cases "split_on d xs") auto
qed simp

lemma split_on_single: "d \<notin> set w \<Longrightarrow> split_on d w = [w]"
  by (induction w) auto

lemma split_on_inj: "split_on d xs = split_on d ys \<Longrightarrow> xs = ys"
  by (metis join_split_on)

lemma split_on_join:
  "ws \<noteq> [] \<Longrightarrow> \<forall>w \<in> set ws. d \<notin> set w \<Longrightarrow> split_on d (join_with d ws) = ws"
  by (induction d ws rule: join_with.induct) (auto simp: split_on_single split_on_append_delim)

fun strip_prefix :: "'a list \<Rightarrow> 'a list \<Rightarrow> 'a list option" where
  "strip_prefix [] s = Some s"
| "strip_prefix (p # ps) [] = None"
| "strip_prefix (p # ps) (c # cs) = (if p = c then strip_prefix ps cs else None)"

lemma strip_prefix_Some [simp]: "strip_prefix p s = Some r \<longleftrightarrow> s = p @ r"
  by (induction p s rule: strip_prefix.induct) auto

lemma strip_prefix_append [simp]: "strip_prefix p (p @ r) = Some r"
  by simp

definition starts_with :: "'a list \<Rightarrow> 'a list \<Rightarrow> bool" where
  "starts_with s p \<longleftrightarrow> prefix p s"

lemma starts_with_code [code]: "starts_with s p \<longleftrightarrow> strip_prefix p s \<noteq> None"
  by (cases "strip_prefix p s") (auto simp: starts_with_def prefix_def simp flip: strip_prefix_Some)

text \<open>\<open>str::chars\<close>: the code points of a UTF-8 byte string, by the length that the
  lead byte announces.\<close>

fun utf8_chars :: "string \<Rightarrow> nat list" where
  "utf8_chars [] = []"
| "utf8_chars (a # s) =
     (let x = byte_of a in
      if x < 128 then x # utf8_chars s
      else if x < 224 then
        (case s of b # s' \<Rightarrow> ((x - 192) * 64 + (byte_of b - 128)) # utf8_chars s'
         | _ \<Rightarrow> [x])
      else if x < 240 then
        (case s of b # c # s' \<Rightarrow>
           ((x - 224) * 4096 + (byte_of b - 128) * 64 + (byte_of c - 128)) # utf8_chars s'
         | _ \<Rightarrow> [x])
      else
        (case s of b # c # e # s' \<Rightarrow>
           ((x - 240) * 262144 + (byte_of b - 128) * 4096 + (byte_of c - 128) * 64
             + (byte_of e - 128)) # utf8_chars s'
         | _ \<Rightarrow> [x]))"

text \<open>\<open>char::is_whitespace\<close>: the Unicode \<open>White_Space\<close> property.\<close>

definition is_whitespace :: "nat \<Rightarrow> bool" where
  "is_whitespace u \<longleftrightarrow> 9 \<le> u \<and> u \<le> 13 \<or> u = 32 \<or> u = 133 \<or> u = 160 \<or> u = 5760
     \<or> 8192 \<le> u \<and> u \<le> 8202 \<or> u = 8232 \<or> u = 8233 \<or> u = 8239 \<or> u = 8287 \<or> u = 12288"

definition trim_chars :: "nat list \<Rightarrow> nat list" where
  "trim_chars cs = rev (dropWhile is_whitespace (rev (dropWhile is_whitespace cs)))"

lemma trim_chars_empty_iff: "trim_chars cs = [] \<longleftrightarrow> (\<forall>u \<in> set cs. is_whitespace u)"
  by (auto simp: trim_chars_def dropWhile_eq_Nil_conv dest: set_dropWhileD)
    (metis dropWhile_eq_Nil_conv hd_dropWhile hd_in_set)

lemma utf8_chars_ascii:
  "\<forall>c \<in> set s. byte_of c < 128 \<Longrightarrow> utf8_chars s = map byte_of s"
  by (induction s rule: utf8_chars.induct) auto

text \<open>\<open>Display\<close> for unsigned integers and the matching \<open>str::parse\<close> (a leading \<open>+\<close>
  is accepted, as the standard library does).\<close>

fun show_nat :: "nat \<Rightarrow> string" where
  "show_nat n = (if n < 10 then [char_of (48 + n)] else show_nat (n div 10) @ [char_of (48 + n mod 10)])"

declare show_nat.simps [simp del]

lemma show_nat_digits: "c \<in> set (show_nat n) \<Longrightarrow> is_ascii_digit c"
proof (induction n rule: show_nat.induct)
  case (1 n)
  have "is_ascii_digit (char_of (48 + d))" if "d < 10" for d :: nat
    using that by (simp add: ascii_defs)
  with 1 show ?case
    by (subst (asm) show_nat.simps) (auto split: if_splits)
qed

end
