(* ===== verification/Core_State.thy ===== *)
theory Core_State
  imports Prelude
begin

text \<open>
  \<open>aios-core/src/state.rs\<close> and \<open>error.rs\<close>: the task lifecycle and the stable error
  values. \<open>transition_to\<close> and \<open>cancel\<close> mutate \<open>self\<close>; here they return the new state
  with the result.
\<close>

datatype task_state =
  Submitted | Validating | Rejected | Queued | Running | WaitingApproval
  | Succeeded | Failed | Cancelled

datatype error_code =
  InvalidTask | IdempotencyConflictCode | CapabilityDenied | ApprovalExpiredCode
  | BudgetExceeded | RuntimeRestarted | RuntimeUnavailable | InternalError

record validation_error =
  ve_field :: string
  ve_message :: string

definition new_validation_error :: "string \<Rightarrow> string \<Rightarrow> validation_error" where
  "new_validation_error f m = \<lparr>ve_field = f, ve_message = m\<rparr>"

definition validation_error_code :: "validation_error \<Rightarrow> error_code" where
  "validation_error_code e = InvalidTask"

definition validation_error_display :: "validation_error \<Rightarrow> string" where
  "validation_error_display e = ve_field e @ '': '' @ ve_message e"

type_synonym validation_errors = "validation_error list"

definition new_validation_errors :: "validation_error list \<Rightarrow> validation_errors option" where
  "new_validation_errors errors = (if errors = [] then None else Some errors)"

record state_transition_error =
  ste_from :: task_state
  ste_to :: task_state

definition is_terminal :: "task_state \<Rightarrow> bool" where
  "is_terminal s \<longleftrightarrow>
     (case s of Rejected \<Rightarrow> True | Succeeded \<Rightarrow> True | Failed \<Rightarrow> True | Cancelled \<Rightarrow> True
      | _ \<Rightarrow> False)"

definition can_transition_to :: "task_state \<Rightarrow> task_state \<Rightarrow> bool" where
  "can_transition_to s next \<longleftrightarrow>
     (case (s, next) of
        (Submitted, Validating) \<Rightarrow> True
      | (Validating, Rejected) \<Rightarrow> True
      | (Validating, Queued) \<Rightarrow> True
      | (Queued, Running) \<Rightarrow> True
      | (Running, WaitingApproval) \<Rightarrow> True
      | (Running, Succeeded) \<Rightarrow> True
      | (Running, Failed) \<Rightarrow> True
      | (WaitingApproval, Running) \<Rightarrow> True
      | (WaitingApproval, Failed) \<Rightarrow> True
      | _ \<Rightarrow> False)
     \<or> (\<not> is_terminal s \<and> next = Cancelled)"

definition transition_to :: "task_state \<Rightarrow> task_state \<Rightarrow> (state_transition_error + unit) \<times> task_state" where
  "transition_to s next =
     (if \<not> can_transition_to s next then (Inl \<lparr>ste_from = s, ste_to = next\<rparr>, s)
      else (Inr (), next))"

definition cancel_state :: "task_state \<Rightarrow> bool \<times> task_state" where
  "cancel_state s = (if is_terminal s then (False, s) else (True, Cancelled))"

lemma is_terminal_simps [simp]:
  "\<not> is_terminal Submitted" "\<not> is_terminal Validating" "is_terminal Rejected"
  "\<not> is_terminal Queued" "\<not> is_terminal Running" "\<not> is_terminal WaitingApproval"
  "is_terminal Succeeded" "is_terminal Failed" "is_terminal Cancelled"
  by (simp_all add: is_terminal_def)

lemma is_terminal_iff: "is_terminal s \<longleftrightarrow> s \<in> {Rejected, Succeeded, Failed, Cancelled}"
  by (cases s) simp_all

lemma can_transition_targets:
  "can_transition_to s Running \<longleftrightarrow> s = Queued \<or> s = WaitingApproval"
  "can_transition_to s WaitingApproval \<longleftrightarrow> s = Running"
  "can_transition_to s Succeeded \<longleftrightarrow> s = Running"
  "can_transition_to s Failed \<longleftrightarrow> s = Running \<or> s = WaitingApproval"
  "can_transition_to s Queued \<longleftrightarrow> s = Validating"
  "can_transition_to s Rejected \<longleftrightarrow> s = Validating"
  "can_transition_to s Validating \<longleftrightarrow> s = Submitted"
  "can_transition_to s Submitted \<longleftrightarrow> False"
  "can_transition_to s Cancelled \<longleftrightarrow> \<not> is_terminal s"
  by (cases s; simp add: can_transition_to_def)+

lemma can_transition_not_terminal: "can_transition_to s n \<Longrightarrow> \<not> is_terminal s"
  by (cases n) (auto simp: can_transition_targets)

lemma transition_to_fst [simp]:
  "fst (transition_to s n) = Inr () \<longleftrightarrow> can_transition_to s n"
  "fst (transition_to s n) = Inl e \<longleftrightarrow> \<not> can_transition_to s n \<and> e = \<lparr>ste_from = s, ste_to = n\<rparr>"
  by (auto simp: transition_to_def)

section \<open>Runs of the lifecycle\<close>

text \<open>A run applies \<open>transition_to\<close> to a list of requested states and stops at the
  first error.\<close>

fun run_states :: "task_state \<Rightarrow> task_state list \<Rightarrow> (state_transition_error + unit) \<times> task_state" where
  "run_states s [] = (Inr (), s)"
| "run_states s (n # ns) =
     (case transition_to s n of (Inl e, s') \<Rightarrow> (Inl e, s') | (Inr _, s') \<Rightarrow> run_states s' ns)"

definition reached_execution :: "task_state \<Rightarrow> bool" where
  "reached_execution s \<longleftrightarrow> s \<in> {Running, WaitingApproval, Succeeded, Failed}"

lemma run_states_Cons_ok:
  "run_states s (n # ns) = (Inr (), t) \<longleftrightarrow> can_transition_to s n \<and> run_states n ns = (Inr (), t)"
  by (auto simp: transition_to_def)

lemma run_states_terminal:
  "is_terminal s \<Longrightarrow> run_states s ns = (Inr (), t) \<Longrightarrow> ns = [] \<and> t = s"
  by (cases ns) (auto simp: run_states_Cons_ok simp del: run_states.simps(2)
      dest: can_transition_not_terminal)

lemma run_states_next:
  assumes "run_states s ns = (Inr (), t)" and "reached_execution t" and "\<not> reached_execution s"
  obtains n rest where "ns = n # rest" and "can_transition_to s n"
    and "run_states n rest = (Inr (), t)" and "\<not> is_terminal n \<or> n = Failed \<or> n = Succeeded"
proof (cases ns)
  case (Cons n rest)
  with assms(1) have r: "can_transition_to s n" "run_states n rest = (Inr (), t)"
    by (simp_all only: run_states_Cons_ok)
  with assms(2) have "\<not> is_terminal n \<or> n = Failed \<or> n = Succeeded"
    using run_states_terminal by (fastforce simp: is_terminal_iff reached_execution_def)
  with Cons r that show ?thesis by blast
qed (use assms in auto)

text \<open>A task is executed only after validation. Any sequence of transitions that
  \<open>transition_to\<close> accepts from \<open>Submitted\<close> and that ends in a state in which work has
  been done begins with \<open>Validating\<close>, then \<open>Queued\<close>, then \<open>Running\<close>.\<close>

theorem executed_only_after_validation:
  assumes "run_states Submitted ns = (Inr (), t)" and "reached_execution t"
  shows "\<exists>rest. ns = Validating # Queued # Running # rest"
proof -
  obtain n1 r1 where 1: "ns = n1 # r1" "can_transition_to Submitted n1"
      "run_states n1 r1 = (Inr (), t)" "\<not> is_terminal n1 \<or> n1 = Failed \<or> n1 = Succeeded"
    using run_states_next [OF assms] by (auto simp: reached_execution_def)
  then have n1: "n1 = Validating" by (cases n1) (auto simp: can_transition_targets)
  obtain n2 r2 where 2: "r1 = n2 # r2" "can_transition_to Validating n2"
      "run_states n2 r2 = (Inr (), t)" "\<not> is_terminal n2 \<or> n2 = Failed \<or> n2 = Succeeded"
    using run_states_next [OF 1(3) assms(2)] n1 by (auto simp: reached_execution_def)
  then have n2: "n2 = Queued" by (cases n2) (auto simp: can_transition_targets)
  obtain n3 r3 where 3: "r2 = n3 # r3" "can_transition_to Queued n3"
      "run_states n3 r3 = (Inr (), t)" "\<not> is_terminal n3 \<or> n3 = Failed \<or> n3 = Succeeded"
    using run_states_next [OF 2(3) assms(2)] n2 by (auto simp: reached_execution_def)
  then have "n3 = Running" by (cases n3) (auto simp: can_transition_targets)
  with 1 2 3 n1 n2 show ?thesis by simp
qed

theorem executed_only_after_validation_witness:
  "\<exists>rest. [Validating, Queued, Running, WaitingApproval, Running, Succeeded]
            = Validating # Queued # Running # rest"
  by (rule executed_only_after_validation [of _ Succeeded])
    (simp_all add: transition_to_def can_transition_targets reached_execution_def)

text \<open>Terminal states are final and cancellation is idempotent. A terminal state
  refuses every transition and keeps its value, \<open>cancel\<close> on it reports no change; on any
  other state \<open>cancel\<close> reports a change, ends in \<open>Cancelled\<close>, and agrees with
  \<open>transition_to(Cancelled)\<close>.\<close>

theorem terminal_states_final:
  "if is_terminal s
   then transition_to s n = (Inl \<lparr>ste_from = s, ste_to = n\<rparr>, s) \<and> cancel_state s = (False, s)
   else cancel_state s = (True, Cancelled) \<and> transition_to s Cancelled = (Inr (), Cancelled)
      \<and> cancel_state (snd (cancel_state s)) = (False, Cancelled)"
  using can_transition_not_terminal [of s n]
  by (auto simp: transition_to_def cancel_state_def can_transition_targets)

end
