(* ===== verification/Net_Addr.thy ===== *)
theory Net_Addr
  imports Prelude
begin

text \<open>
  \<open>std::net::IpAddr\<close> and its \<open>FromStr\<close>, which decide what a network host may be
  (\<open>aios-core/src/task.rs\<close>) and where the network adapter connects
  (\<open>aios-adapter-network/src/lib.rs\<close>). A parser takes the remaining text and returns
  a value with the text left over; \<open>None\<close> leaves the caller where it was, as
  \<open>read_atomically\<close> does.
\<close>

datatype ip_addr = V4 nat nat nat nat | V6 "nat list"

type_synonym 'a reader = "string \<Rightarrow> ('a \<times> string) option"

definition to_digit :: "nat \<Rightarrow> char \<Rightarrow> nat option" where
  "to_digit radix c =
     (let b = byte_of c;
          d = (if is_ascii_digit c then Some (b - 48)
               else if is_ascii_lowercase c then Some (b - 87)
               else if is_ascii_uppercase c then Some (b - 55)
               else None)
      in case d of None \<Rightarrow> None | Some v \<Rightarrow> if v < radix then Some v else None)"

fun read_digits :: "nat \<Rightarrow> nat \<Rightarrow> nat \<Rightarrow> nat \<Rightarrow> nat \<Rightarrow> string \<Rightarrow> (nat \<times> nat \<times> string) option" where
  "read_digits radix bound limit acc n [] = Some (acc, n, [])"
| "read_digits radix bound limit acc n (c # cs) =
     (case to_digit radix c of
        None \<Rightarrow> Some (acc, n, c # cs)
      | Some d \<Rightarrow>
          if bound \<le> acc * radix + d \<or> limit \<le> n then None
          else read_digits radix bound limit (acc * radix + d) (Suc n) cs)"

definition read_number :: "nat \<Rightarrow> nat \<Rightarrow> bool \<Rightarrow> nat \<Rightarrow> nat reader" where
  "read_number radix limit allow_zero_prefix bound s =
     (case read_digits radix bound limit 0 0 s of
        None \<Rightarrow> None
      | Some (v, n, rest) \<Rightarrow>
          if n = 0 then None
          else if \<not> allow_zero_prefix \<and> starts_with s ''0'' \<and> 1 < n then None
          else Some (v, rest))"

definition read_separator :: "char \<Rightarrow> nat \<Rightarrow> 'a reader \<Rightarrow> 'a reader" where
  "read_separator sep index inner s =
     (if index = 0 then inner s
      else case s of [] \<Rightarrow> None | c # cs \<Rightarrow> if c = sep then inner cs else None)"

definition read_octet :: "nat \<Rightarrow> nat reader" where
  "read_octet index = read_separator (CHR ''.'') index (read_number 10 3 False 256)"

definition read_ipv4_addr :: "(nat \<times> nat \<times> nat \<times> nat) reader" where
  "read_ipv4_addr s =
     (case read_octet 0 s of None \<Rightarrow> None | Some (a, s1) \<Rightarrow>
      case read_octet 1 s1 of None \<Rightarrow> None | Some (b, s2) \<Rightarrow>
      case read_octet 2 s2 of None \<Rightarrow> None | Some (c, s3) \<Rightarrow>
      case read_octet 3 s3 of None \<Rightarrow> None | Some (d, s4) \<Rightarrow> Some ((a, b, c, d), s4))"

text \<open>Up to \<open>k\<close> groups starting at slot \<open>i\<close>: the groups read, whether they end in an
  embedded IPv4 address, and the rest. An embedded address needs two free slots.\<close>

fun read_groups :: "nat \<Rightarrow> nat \<Rightarrow> string \<Rightarrow> nat list \<times> bool \<times> string" where
  "read_groups 0 i s = ([], False, s)"
| "read_groups (Suc k) i s =
     (case (if 0 < k then read_separator (CHR '':'') i read_ipv4_addr s else None) of
        Some ((a, b, c, d), s') \<Rightarrow> ([a * 256 + b, c * 256 + d], True, s')
      | None \<Rightarrow>
          (case read_separator (CHR '':'') i (read_number 16 4 True 65536) s of
             None \<Rightarrow> ([], False, s)
           | Some (g, s') \<Rightarrow>
               (case read_groups k (Suc i) s' of (gs, v4, r) \<Rightarrow> (g # gs, v4, r))))"

definition read_ipv6_addr :: "(nat list) reader" where
  "read_ipv6_addr s =
     (case read_groups 8 0 s of (head, head_ipv4, s1) \<Rightarrow>
        if length head = 8 then Some (head, s1)
        else if head_ipv4 then None
        else (case strip_prefix ''::'' s1 of
                None \<Rightarrow> None
              | Some s2 \<Rightarrow>
                  (case read_groups (8 - (length head + 1)) 0 s2 of (tail, _, s3) \<Rightarrow>
                     Some (head @ replicate (8 - length head - length tail) 0 @ tail, s3))))"

definition parse_ip :: "string \<Rightarrow> ip_addr option" where
  "parse_ip s =
     (case (case read_ipv4_addr s of
              Some ((a, b, c, d), r) \<Rightarrow> Some (V4 a b c d, r)
            | None \<Rightarrow> map_option (\<lambda>(gs, r). (V6 gs, r)) (read_ipv6_addr s)) of
        Some (ip, []) \<Rightarrow> Some ip
      | _ \<Rightarrow> None)"

fun is_unspecified :: "ip_addr \<Rightarrow> bool" where
  "is_unspecified (V4 a b c d) = (a = 0 \<and> b = 0 \<and> c = 0 \<and> d = 0)"
| "is_unspecified (V6 gs) = list_all (\<lambda>g. g = 0) gs"

fun is_multicast :: "ip_addr \<Rightarrow> bool" where
  "is_multicast (V4 a b c d) = (224 \<le> a \<and> a \<le> 239)"
| "is_multicast (V6 gs) = (case gs of [] \<Rightarrow> False | g # _ \<Rightarrow> g div 256 = 255)"

fun ip_wf :: "ip_addr \<Rightarrow> bool" where
  "ip_wf (V4 a b c d) = (a < 256 \<and> b < 256 \<and> c < 256 \<and> d < 256)"
| "ip_wf (V6 gs) = (length gs = 8 \<and> (\<forall>g \<in> set gs. g < 65536))"

lemma read_digits_bound:
  "read_digits radix bound limit acc n s = Some (v, m, r) \<Longrightarrow> acc < bound \<Longrightarrow> v < bound"
  by (induction radix bound limit acc n s rule: read_digits.induct)
    (auto split: option.splits if_splits)

lemma read_number_bound:
  "read_number radix limit z bound s = Some (v, r) \<Longrightarrow> 0 < bound \<Longrightarrow> v < bound"
  by (auto simp: read_number_def split: option.splits if_splits dest: read_digits_bound)

lemma read_separator_number_bound:
  "read_separator sep i (read_number radix limit z bound) s = Some (v, r) \<Longrightarrow> 0 < bound \<Longrightarrow> v < bound"
  by (auto simp: read_separator_def split: if_splits list.splits dest: read_number_bound)

lemma read_ipv4_wf: "read_ipv4_addr s = Some ((a, b, c, d), r) \<Longrightarrow> ip_wf (V4 a b c d)"
  by (auto simp: read_ipv4_addr_def read_octet_def split: option.splits
      dest!: read_separator_number_bound)

lemma read_separator_ipv4_wf:
  "read_separator sep i read_ipv4_addr s = Some ((a, b, c, d), r) \<Longrightarrow> ip_wf (V4 a b c d)"
  by (auto simp: read_separator_def split: if_splits list.splits dest: read_ipv4_wf simp del: ip_wf.simps)

lemma read_groups_wf:
  "read_groups k i s = (gs, v4, r) \<Longrightarrow> length gs \<le> k \<and> (\<forall>g \<in> set gs. g < 65536)"
proof (induction k i s arbitrary: gs v4 r rule: read_groups.induct)
  case (2 k i s)
  show ?case
  proof (cases "if 0 < k then read_separator (CHR '':'') i read_ipv4_addr s else None")
    case None
    then show ?thesis
      using 2 by (auto split: option.splits prod.splits dest!: read_separator_number_bound)
  next
    case (Some q)
    obtain a b c d s' where q: "q = ((a, b, c, d), s')" by (metis prod.exhaust)
    with Some have "ip_wf (V4 a b c d)" "0 < k"
      by (auto split: if_splits dest: read_separator_ipv4_wf simp del: ip_wf.simps)
    with 2 Some q show ?thesis by auto
  qed
qed simp

lemma read_ipv6_wf: "read_ipv6_addr s = Some (gs, r) \<Longrightarrow> ip_wf (V6 gs)"
  by (auto simp: read_ipv6_addr_def split: prod.splits if_splits option.splits
      dest!: read_groups_wf)

lemma parse_ip_wf: "parse_ip s = Some ip \<Longrightarrow> ip_wf ip"
  by (auto simp: parse_ip_def split: option.splits list.splits
      dest: read_ipv4_wf read_ipv6_wf simp del: ip_wf.simps)

end
