(* ===== verification/Core_Task.thy ===== *)
theory Core_Task
  imports Core_State Net_Addr
begin

text \<open>
  \<open>aios-core/src/task.rs\<close>: the task contract and its validation. The functions that
  push onto \<open>errors: &mut Vec<ValidationError>\<close> take the list so far and return the
  extended list; the \<open>BTreeSet\<close>s that detect duplicates are lists of the values seen.
\<close>

definition MAX_GOAL_CHARS :: nat where "MAX_GOAL_CHARS = 8192"
definition MAX_IDEMPOTENCY_KEY_BYTES :: nat where "MAX_IDEMPOTENCY_KEY_BYTES = 128"
definition MAX_FILESYSTEM_CAPABILITIES :: nat where "MAX_FILESYSTEM_CAPABILITIES = 128"
definition MAX_TOOLS :: nat where "MAX_TOOLS = 64"
definition MAX_APPROVAL_ACTIONS :: nat where "MAX_APPROVAL_ACTIONS = 64"
definition MAX_NETWORK_DESTINATIONS :: nat where "MAX_NETWORK_DESTINATIONS = 64"
definition MAX_PATH_BYTES :: nat where "MAX_PATH_BYTES = 4096"
definition MAX_IDENTIFIER_BYTES :: nat where "MAX_IDENTIFIER_BYTES = 64"

lemmas task_limits = MAX_GOAL_CHARS_def MAX_IDEMPOTENCY_KEY_BYTES_def
  MAX_FILESYSTEM_CAPABILITIES_def MAX_TOOLS_def MAX_APPROVAL_ACTIONS_def
  MAX_NETWORK_DESTINATIONS_def MAX_PATH_BYTES_def MAX_IDENTIFIER_BYTES_def

datatype file_access = Read | Write

record file_capability =
  fc_path :: string
  fc_access :: file_access

datatype network_transport = Tcp

record network_destination =
  nd_host :: string
  nd_transport :: network_transport
  nd_port :: u16

datatype network_policy = NetDeny | NetAllow "network_destination list"

record capability_set =
  cs_filesystem :: "file_capability list"
  cs_network :: network_policy
  cs_tools :: "string list"

record budget =
  wall_time_seconds :: u64
  memory_bytes :: u64
  max_parallel_agents :: u8

record approval_policy =
  required_for :: "string list"

record task_spec =
  ts_idempotency_key :: string
  ts_goal :: string
  ts_capabilities :: capability_set
  ts_budget :: budget
  ts_approval :: approval_policy

section \<open>Field predicates\<close>

definition is_identifier_char :: "char \<Rightarrow> bool" where
  "is_identifier_char c \<longleftrightarrow> is_ascii_alphanumeric c
     \<or> c = CHR ''.'' \<or> c = CHR ''_'' \<or> c = CHR '':'' \<or> c = CHR ''-''"

definition is_valid_identifier :: "string \<Rightarrow> nat \<Rightarrow> bool" where
  "is_valid_identifier value max_bytes \<longleftrightarrow>
     value \<noteq> [] \<and> length value \<le> max_bytes \<and> list_all is_identifier_char value"

definition path_component_ok :: "string \<Rightarrow> bool" where
  "path_component_ok component \<longleftrightarrow> component \<noteq> [] \<and> component \<noteq> ''.'' \<and> component \<noteq> ''..''"

definition is_normalized_absolute_path :: "string \<Rightarrow> bool" where
  "is_normalized_absolute_path path \<longleftrightarrow>
     starts_with path ''/'' \<and> path \<noteq> ''/'' \<and> length path \<le> MAX_PATH_BYTES
     \<and> \<not> List.member path (CHR 0x00)
     \<and> list_all path_component_ok (drop 1 (split_on (CHR ''/'') path))"

definition host_label_ok :: "string \<Rightarrow> bool" where
  "host_label_ok label \<longleftrightarrow>
     label \<noteq> [] \<and> length label \<le> 63
     \<and> is_ascii_alphanumeric (hd label) \<and> is_ascii_alphanumeric (last label)
     \<and> list_all (\<lambda>c. is_ascii_alphanumeric c \<or> c = CHR ''-'') label"

definition is_valid_network_host :: "string \<Rightarrow> bool" where
  "is_valid_network_host host \<longleftrightarrow>
     (if host = [] \<or> 253 < length host \<or> host \<noteq> to_ascii_lowercase host then False
      else if parse_ip host \<noteq> None then True
      else list_all host_label_ok (split_on (CHR ''.'') host))"

section \<open>Validation\<close>

definition validate_goal :: "string \<Rightarrow> validation_error list \<Rightarrow> validation_error list" where
  "validate_goal goal errors =
     (let cs = utf8_chars goal in
      if trim_chars cs = [] \<or> MAX_GOAL_CHARS < length cs
      then errors @ [new_validation_error ''goal''
             (''must contain between 1 and '' @ show_nat MAX_GOAL_CHARS @ '' non-blank characters'')]
      else errors)"

definition identifier_message :: "nat \<Rightarrow> string" where
  "identifier_message max_bytes =
     ''must be 1 to '' @ show_nat max_bytes
       @ '' ASCII letters, digits, '.', '_', ':', or '-'' @ [CHR 0x27]"

definition at_most_message :: "nat \<Rightarrow> string" where
  "at_most_message limit = ''must contain at most '' @ show_nat limit @ '' entries''"

definition validate_identifier ::
  "string \<Rightarrow> string \<Rightarrow> nat \<Rightarrow> validation_error list \<Rightarrow> validation_error list" where
  "validate_identifier fld value max_bytes errors =
     (if \<not> is_valid_identifier value max_bytes
      then errors @ [new_validation_error fld (identifier_message max_bytes)]
      else errors)"

definition validate_absolute_normalized_path ::
  "string \<Rightarrow> validation_error list \<Rightarrow> validation_error list" where
  "validate_absolute_normalized_path path errors =
     (if \<not> is_normalized_absolute_path path
      then errors @ [new_validation_error ''capabilities.filesystem.path''
             ''must be a normalized absolute path below the filesystem root'']
      else errors)"

text \<open>The \<open>for\<close> loop over the filesystem capabilities, with the set of pairs seen.\<close>

fun validate_file_loop ::
  "(string \<times> file_access) list \<Rightarrow> file_capability list \<Rightarrow> validation_error list \<Rightarrow> validation_error list" where
  "validate_file_loop seen [] errors = errors"
| "validate_file_loop seen (capability # rest) errors =
     (let errors = validate_absolute_normalized_path (fc_path capability) errors;
          key = (fc_path capability, fc_access capability);
          errors = (if List.member seen key
                    then errors @ [new_validation_error ''capabilities.filesystem''
                           ''must not contain duplicate path and access entries'']
                    else errors)
      in validate_file_loop (key # seen) rest errors)"

text \<open>The loops over tool names and over approval actions have the same body.\<close>

fun validate_names_loop ::
  "string \<Rightarrow> string list \<Rightarrow> string list \<Rightarrow> validation_error list \<Rightarrow> validation_error list" where
  "validate_names_loop fld seen [] errors = errors"
| "validate_names_loop fld seen (name # rest) errors =
     (let errors = validate_identifier fld name MAX_IDENTIFIER_BYTES errors;
          errors = (if List.member seen name
                    then errors @ [new_validation_error fld ''must not contain duplicate entries'']
                    else errors)
      in validate_names_loop fld (name # seen) rest errors)"

fun validate_destination_loop ::
  "(string \<times> network_transport \<times> u16) list \<Rightarrow> network_destination list
   \<Rightarrow> validation_error list \<Rightarrow> validation_error list" where
  "validate_destination_loop seen [] errors = errors"
| "validate_destination_loop seen (destination # rest) errors =
     (let errors = (if \<not> is_valid_network_host (nd_host destination)
                    then errors @ [new_validation_error ''capabilities.network.destinations.host''
                      ''must contain lowercase host names or IP addresses without schemes or paths'']
                    else errors);
          errors = (if nd_port destination = 0
                    then errors @ [new_validation_error ''capabilities.network.destinations.port''
                           ''must be between 1 and 65535'']
                    else errors);
          key = (nd_host destination, nd_transport destination, nd_port destination);
          errors = (if List.member seen key
                    then errors @ [new_validation_error ''capabilities.network.destinations''
                           ''must not contain duplicate entries'']
                    else errors)
      in validate_destination_loop (key # seen) rest errors)"

definition validate_network :: "network_policy \<Rightarrow> validation_error list \<Rightarrow> validation_error list" where
  "validate_network policy errors =
     (case policy of
        NetDeny \<Rightarrow> errors
      | NetAllow destinations \<Rightarrow>
          (let errors = (if destinations = [] \<or> MAX_NETWORK_DESTINATIONS < length destinations
                         then errors @ [new_validation_error ''capabilities.network.destinations''
                                (''must contain between 1 and '' @ show_nat MAX_NETWORK_DESTINATIONS @ '' entries'')]
                         else errors)
           in validate_destination_loop [] destinations errors))"

definition validate_capabilities :: "capability_set \<Rightarrow> validation_error list \<Rightarrow> validation_error list" where
  "validate_capabilities cs errors =
     (let errors = (if MAX_FILESYSTEM_CAPABILITIES < length (cs_filesystem cs)
                    then errors @ [new_validation_error ''capabilities.filesystem''
                           (at_most_message MAX_FILESYSTEM_CAPABILITIES)]
                    else errors);
          errors = validate_file_loop [] (cs_filesystem cs) errors;
          errors = validate_network (cs_network cs) errors;
          errors = (if MAX_TOOLS < length (cs_tools cs)
                    then errors @ [new_validation_error ''capabilities.tools''
                           (at_most_message MAX_TOOLS)]
                    else errors)
      in validate_names_loop ''capabilities.tools'' [] (cs_tools cs) errors)"

definition validate_budget :: "budget \<Rightarrow> validation_error list \<Rightarrow> validation_error list" where
  "validate_budget b errors =
     (let errors = (if wall_time_seconds b = 0
                    then errors @ [new_validation_error ''budget.wall_time_seconds''
                           ''must be greater than zero'']
                    else errors);
          errors = (if memory_bytes b = 0
                    then errors @ [new_validation_error ''budget.memory_bytes''
                           ''must be greater than zero'']
                    else errors)
      in (if \<not> (1 \<le> max_parallel_agents b \<and> max_parallel_agents b \<le> 8)
          then errors @ [new_validation_error ''budget.max_parallel_agents''
                 ''must be between 1 and 8'']
          else errors))"

definition validate_approval :: "approval_policy \<Rightarrow> validation_error list \<Rightarrow> validation_error list" where
  "validate_approval p errors =
     (let errors = (if MAX_APPROVAL_ACTIONS < length (required_for p)
                    then errors @ [new_validation_error ''approval.required_for''
                           (at_most_message MAX_APPROVAL_ACTIONS)]
                    else errors)
      in validate_names_loop ''approval.required_for'' [] (required_for p) errors)"

definition validate :: "task_spec \<Rightarrow> validation_errors + unit" where
  "validate spec =
     (let errors = validate_goal (ts_goal spec) [];
          errors = validate_identifier ''idempotency_key'' (ts_idempotency_key spec)
                     MAX_IDEMPOTENCY_KEY_BYTES errors;
          errors = validate_capabilities (ts_capabilities spec) errors;
          errors = validate_budget (ts_budget spec) errors;
          errors = validate_approval (ts_approval spec) errors
      in case new_validation_errors errors of
           Some errors \<Rightarrow> Inl errors
         | None \<Rightarrow> Inr ())"

section \<open>What validation accepts\<close>

definition goal_ok :: "string \<Rightarrow> bool" where
  "goal_ok goal \<longleftrightarrow> (\<exists>u \<in> set (utf8_chars goal). \<not> is_whitespace u)
     \<and> length (utf8_chars goal) \<le> MAX_GOAL_CHARS"

definition names_ok :: "nat \<Rightarrow> string list \<Rightarrow> bool" where
  "names_ok limit names \<longleftrightarrow> length names \<le> limit \<and> distinct names
     \<and> (\<forall>n \<in> set names. is_valid_identifier n MAX_IDENTIFIER_BYTES)"

definition files_ok :: "file_capability list \<Rightarrow> bool" where
  "files_ok caps \<longleftrightarrow> length caps \<le> MAX_FILESYSTEM_CAPABILITIES \<and> distinct caps
     \<and> (\<forall>c \<in> set caps. is_normalized_absolute_path (fc_path c))"

definition network_ok :: "network_policy \<Rightarrow> bool" where
  "network_ok policy \<longleftrightarrow>
     (case policy of NetDeny \<Rightarrow> True
      | NetAllow ds \<Rightarrow> ds \<noteq> [] \<and> length ds \<le> MAX_NETWORK_DESTINATIONS \<and> distinct ds
          \<and> (\<forall>d \<in> set ds. is_valid_network_host (nd_host d) \<and> nd_port d \<noteq> 0))"

definition budget_ok :: "budget \<Rightarrow> bool" where
  "budget_ok b \<longleftrightarrow> 0 < wall_time_seconds b \<and> 0 < memory_bytes b
     \<and> max_parallel_agents b \<in> {1..8}"

definition task_ok :: "task_spec \<Rightarrow> bool" where
  "task_ok spec \<longleftrightarrow> goal_ok (ts_goal spec)
     \<and> is_valid_identifier (ts_idempotency_key spec) MAX_IDEMPOTENCY_KEY_BYTES
     \<and> files_ok (cs_filesystem (ts_capabilities spec))
     \<and> network_ok (cs_network (ts_capabilities spec))
     \<and> names_ok MAX_TOOLS (cs_tools (ts_capabilities spec))
     \<and> budget_ok (ts_budget spec)
     \<and> names_ok MAX_APPROVAL_ACTIONS (required_for (ts_approval spec))"

lemma validate_goal_Nil:
  "validate_goal goal errors = [] \<longleftrightarrow> errors = [] \<and> goal_ok goal"
  by (auto simp: validate_goal_def goal_ok_def Let_def trim_chars_empty_iff)

lemma validate_identifier_Nil:
  "validate_identifier fld v m errors = [] \<longleftrightarrow> errors = [] \<and> is_valid_identifier v m"
  by (auto simp: validate_identifier_def)

lemma validate_path_Nil:
  "validate_absolute_normalized_path p errors = [] \<longleftrightarrow> errors = [] \<and> is_normalized_absolute_path p"
  by (auto simp: validate_absolute_normalized_path_def)

lemma file_key_inj: "inj (\<lambda>c :: file_capability. (fc_path c, fc_access c))"
  by (rule injI) (simp add: file_capability.equality)

lemma destination_key_inj: "inj (\<lambda>d :: network_destination. (nd_host d, nd_transport d, nd_port d))"
  by (rule injI) (simp add: network_destination.equality)

lemma validate_file_loop_Nil:
  "validate_file_loop seen caps errors = [] \<longleftrightarrow>
     errors = [] \<and> (\<forall>c \<in> set caps. is_normalized_absolute_path (fc_path c))
     \<and> distinct (map (\<lambda>c. (fc_path c, fc_access c)) caps)
     \<and> (\<lambda>c. (fc_path c, fc_access c)) ` set caps \<inter> set seen = {}"
proof (induction caps arbitrary: seen errors)
  case (Cons c caps)
  then show ?case
    by (simp add: Let_def validate_path_Nil) blast
qed simp

lemma validate_names_loop_Nil:
  "validate_names_loop fld seen names errors = [] \<longleftrightarrow>
     errors = [] \<and> (\<forall>n \<in> set names. is_valid_identifier n MAX_IDENTIFIER_BYTES)
     \<and> distinct names \<and> set names \<inter> set seen = {}"
  by (induction fld seen names errors rule: validate_names_loop.induct)
    (auto simp: Let_def validate_identifier_Nil)

lemma validate_destination_loop_Nil:
  "validate_destination_loop seen ds errors = [] \<longleftrightarrow>
     errors = [] \<and> (\<forall>d \<in> set ds. is_valid_network_host (nd_host d) \<and> nd_port d \<noteq> 0)
     \<and> distinct (map (\<lambda>d. (nd_host d, nd_transport d, nd_port d)) ds)
     \<and> (\<lambda>d. (nd_host d, nd_transport d, nd_port d)) ` set ds \<inter> set seen = {}"
proof (induction ds arbitrary: seen errors)
  case (Cons d ds)
  then show ?case
    by (simp add: Let_def) blast
qed simp

lemma validate_network_Nil:
  "validate_network policy errors = [] \<longleftrightarrow> errors = [] \<and> network_ok policy"
  by (auto simp: validate_network_def network_ok_def Let_def validate_destination_loop_Nil
      distinct_map inj_on_subset [OF destination_key_inj] split: network_policy.splits)

lemma validate_capabilities_Nil:
  "validate_capabilities cs errors = [] \<longleftrightarrow> errors = []
     \<and> files_ok (cs_filesystem cs) \<and> network_ok (cs_network cs) \<and> names_ok MAX_TOOLS (cs_tools cs)"
  by (auto simp: validate_capabilities_def Let_def validate_names_loop_Nil validate_network_Nil
      validate_file_loop_Nil files_ok_def names_ok_def distinct_map
      inj_on_subset [OF file_key_inj])

lemma validate_budget_Nil:
  "validate_budget b errors = [] \<longleftrightarrow> errors = [] \<and> budget_ok b"
  by (auto simp: validate_budget_def budget_ok_def Let_def word_neq_0_conv)

lemma validate_approval_Nil:
  "validate_approval p errors = [] \<longleftrightarrow> errors = [] \<and> names_ok MAX_APPROVAL_ACTIONS (required_for p)"
  by (auto simp: validate_approval_def names_ok_def Let_def validate_names_loop_Nil)

lemmas validate_Nil_simps = validate_goal_Nil validate_identifier_Nil validate_capabilities_Nil
  validate_budget_Nil validate_approval_Nil

lemma validate_Ok_iff: "validate spec = Inr () \<longleftrightarrow> task_ok spec"
proof -
  let ?errors = "validate_approval (ts_approval spec) (validate_budget (ts_budget spec)
     (validate_capabilities (ts_capabilities spec)
       (validate_identifier ''idempotency_key'' (ts_idempotency_key spec)
         MAX_IDEMPOTENCY_KEY_BYTES (validate_goal (ts_goal spec) []))))"
  have "validate spec = Inr () \<longleftrightarrow> ?errors = []"
    by (simp add: validate_def Let_def new_validation_errors_def)
  also have "\<dots> \<longleftrightarrow> task_ok spec"
    by (auto simp: validate_Nil_simps task_ok_def)
  finally show ?thesis .
qed

text \<open>C22: validation accepts exactly the task contract. \<open>validate\<close> returns \<open>Ok\<close> if and
  only if the goal has between 1 and 8192 characters and is not blank, the idempotency
  key is an identifier of at most 128 bytes, at most 128 distinct filesystem
  capabilities name normalized absolute paths, the network is denied or allows between 1
  and 64 distinct valid destinations, tools and approval actions are at most 64 distinct
  identifiers each, and the budgets are positive with 1 to 8 parallel agents.\<close>

theorem validate_iff: "validate spec = Inr () \<longleftrightarrow> task_ok spec"
  by (rule validate_Ok_iff)

section \<open>What validation reports\<close>

definition known_errors :: "validation_error set" where
  "known_errors = (\<lambda>(f, m). new_validation_error f m) ` {
     (''goal'', ''must contain between 1 and '' @ show_nat MAX_GOAL_CHARS @ '' non-blank characters''),
     (''idempotency_key'', identifier_message MAX_IDEMPOTENCY_KEY_BYTES),
     (''capabilities.filesystem'', at_most_message MAX_FILESYSTEM_CAPABILITIES),
     (''capabilities.filesystem.path'', ''must be a normalized absolute path below the filesystem root''),
     (''capabilities.filesystem'', ''must not contain duplicate path and access entries''),
     (''capabilities.network.destinations'',
        ''must contain between 1 and '' @ show_nat MAX_NETWORK_DESTINATIONS @ '' entries''),
     (''capabilities.network.destinations.host'',
        ''must contain lowercase host names or IP addresses without schemes or paths''),
     (''capabilities.network.destinations.port'', ''must be between 1 and 65535''),
     (''capabilities.network.destinations'', ''must not contain duplicate entries''),
     (''capabilities.tools'', at_most_message MAX_TOOLS),
     (''capabilities.tools'', identifier_message MAX_IDENTIFIER_BYTES),
     (''capabilities.tools'', ''must not contain duplicate entries''),
     (''budget.wall_time_seconds'', ''must be greater than zero''),
     (''budget.memory_bytes'', ''must be greater than zero''),
     (''budget.max_parallel_agents'', ''must be between 1 and 8''),
     (''approval.required_for'', at_most_message MAX_APPROVAL_ACTIONS),
     (''approval.required_for'', identifier_message MAX_IDENTIFIER_BYTES),
     (''approval.required_for'', ''must not contain duplicate entries'')}"

definition only_known :: "validation_error list \<Rightarrow> bool" where
  "only_known errors \<longleftrightarrow> set errors \<subseteq> known_errors"

lemma only_known_push:
  "only_known errors \<Longrightarrow> new_validation_error f m \<in> known_errors
   \<Longrightarrow> only_known (if b then errors @ [new_validation_error f m] else errors)"
  by (simp add: only_known_def)

lemma only_known_leaf:
  assumes "only_known errors"
  shows "only_known (validate_goal goal errors)"
    "only_known (validate_identifier ''idempotency_key'' key MAX_IDEMPOTENCY_KEY_BYTES errors)"
    "only_known (validate_absolute_normalized_path path errors)"
    "only_known (validate_budget b errors)"
  unfolding validate_goal_def validate_identifier_def validate_absolute_normalized_path_def
    validate_budget_def Let_def
  by (intro only_known_push assms; simp add: known_errors_def)+

lemma only_known_file_loop:
  "only_known errors \<Longrightarrow> only_known (validate_file_loop seen caps errors)"
proof (induction caps arbitrary: seen errors)
  case (Cons c caps)
  show ?case
    unfolding validate_file_loop.simps Let_def
    by (intro Cons.IH only_known_push only_known_leaf Cons.prems) (simp add: known_errors_def)
qed simp

lemma only_known_names_loop:
  assumes "fld \<in> {''capabilities.tools'', ''approval.required_for''}"
  shows "only_known errors \<Longrightarrow> only_known (validate_names_loop fld seen names errors)"
proof (induction names arbitrary: seen errors)
  case (Cons n names)
  show ?case
    unfolding validate_names_loop.simps Let_def validate_identifier_def
    by (intro Cons.IH only_known_push Cons.prems) (use assms in \<open>auto simp: known_errors_def\<close>)
qed simp

lemma only_known_destination_loop:
  "only_known errors \<Longrightarrow> only_known (validate_destination_loop seen ds errors)"
proof (induction ds arbitrary: seen errors)
  case (Cons d ds)
  show ?case
    unfolding validate_destination_loop.simps Let_def
    by (intro Cons.IH only_known_push Cons.prems; simp add: known_errors_def)
qed simp

lemma only_known_network:
  "only_known errors \<Longrightarrow> only_known (validate_network policy errors)"
  unfolding validate_network_def Let_def
  by (cases policy; simp only: network_policy.case)
    (intro only_known_destination_loop only_known_push; simp add: known_errors_def)

lemma only_known_capabilities:
  "only_known errors \<Longrightarrow> only_known (validate_capabilities cs errors)"
  unfolding validate_capabilities_def Let_def
  by (intro only_known_names_loop only_known_push only_known_network only_known_file_loop;
      simp add: known_errors_def)

lemma only_known_approval:
  "only_known errors \<Longrightarrow> only_known (validate_approval p errors)"
  unfolding validate_approval_def Let_def
  by (intro only_known_names_loop only_known_push; simp add: known_errors_def)

text \<open>Validation errors carry no input. Whatever the task contains, a failed
  validation reports a non-empty list whose entries come from a fixed set of eighteen
  field-and-message pairs, so no goal, path, host or key of the task can appear in one.\<close>

theorem validation_errors_fixed:
  assumes "validate spec = Inl errors"
  shows "errors \<noteq> [] \<and> set errors \<subseteq> known_errors"
proof -
  let ?errors = "validate_approval (ts_approval spec) (validate_budget (ts_budget spec)
     (validate_capabilities (ts_capabilities spec)
       (validate_identifier ''idempotency_key'' (ts_idempotency_key spec)
         MAX_IDEMPOTENCY_KEY_BYTES (validate_goal (ts_goal spec) []))))"
  from assms have "errors \<noteq> []" and eq: "errors = ?errors"
    by (auto simp: validate_def Let_def new_validation_errors_def split: if_splits)
  moreover have "only_known ?errors"
    by (intro only_known_approval only_known_capabilities only_known_leaf) (simp add: only_known_def)
  ultimately show ?thesis by (simp add: only_known_def)
qed

definition blank_task :: task_spec where
  "blank_task = \<lparr>ts_idempotency_key = ''secret value'', ts_goal = '' '',
     ts_capabilities = \<lparr>cs_filesystem = [\<lparr>fc_path = ''/workspace/../secret'', fc_access = Read\<rparr>],
       cs_network = NetDeny, cs_tools = []\<rparr>,
     ts_budget = \<lparr>wall_time_seconds = 0, memory_bytes = 1, max_parallel_agents = 1\<rparr>,
     ts_approval = \<lparr>required_for = []\<rparr>\<rparr>"

theorem validation_errors_fixed_witness:
  "projl (validate blank_task) \<noteq> [] \<and> set (projl (validate blank_task)) \<subseteq> known_errors"
proof -
  have "\<not> task_ok blank_task"
    by (simp add: task_ok_def blank_task_def budget_ok_def)
  then have "validate blank_task \<noteq> Inr ()"
    by (simp add: validate_Ok_iff)
  then obtain errors where e: "validate blank_task = Inl errors"
    by (cases "validate blank_task") auto
  then show ?thesis
    using validation_errors_fixed [OF e] by simp
qed

end
