(* ===== verification/Core_Policy.thy ===== *)
theory Core_Policy
  imports Core_Task
begin

text \<open>
  \<open>aios-core/src/policy.rs\<close>: the deterministic capability policy. A
  \<open>CapabilityPolicy\<close> only borrows the validated task; \<open>from_task\<close> validates it first.
\<close>

definition MAX_ACTION_BYTES :: nat where "MAX_ACTION_BYTES = 64"
definition MAX_TOOL_NAME_BYTES :: nat where "MAX_TOOL_NAME_BYTES = 64"

datatype capability_request =
  FileRequest string file_access
  | NetworkRequest string network_transport u16
  | ToolRequest string string

datatype denial_reason = InvalidRequest | CapabilityNotGranted

datatype policy_decision = Allow | Deny denial_reason | ApprovalRequired

record capability_policy =
  cp_task :: task_spec

definition from_task :: "task_spec \<Rightarrow> validation_errors + capability_policy" where
  "from_task task = (case validate task of Inl e \<Rightarrow> Inl e | Inr _ \<Rightarrow> Inr \<lparr>cp_task = task\<rparr>)"

definition invalid_request :: policy_decision where
  "invalid_request = Deny InvalidRequest"

definition path_is_within :: "string \<Rightarrow> string \<Rightarrow> bool" where
  "path_is_within path capability_path \<longleftrightarrow>
     path = capability_path
     \<or> (case strip_prefix capability_path path of
          None \<Rightarrow> False | Some rest \<Rightarrow> starts_with rest ''/'')"

definition finish_decision :: "capability_policy \<Rightarrow> bool \<Rightarrow> string \<Rightarrow> policy_decision" where
  "finish_decision p granted action =
     (if \<not> granted then Deny CapabilityNotGranted
      else if list_ex (\<lambda>required. required = action) (required_for (ts_approval (cp_task p)))
      then ApprovalRequired
      else Allow)"

definition file_action :: "file_access \<Rightarrow> string" where
  "file_action access = (case access of Read \<Rightarrow> ''filesystem.read'' | Write \<Rightarrow> ''filesystem.write'')"

definition evaluate_file :: "capability_policy \<Rightarrow> string \<Rightarrow> file_access \<Rightarrow> policy_decision" where
  "evaluate_file p path access =
     (if \<not> is_normalized_absolute_path path then invalid_request
      else
        let granted = list_ex (\<lambda>c. fc_access c = access \<and> path_is_within path (fc_path c))
                        (cs_filesystem (ts_capabilities (cp_task p)))
        in finish_decision p granted (file_action access))"

definition evaluate_network ::
  "capability_policy \<Rightarrow> string \<Rightarrow> network_transport \<Rightarrow> u16 \<Rightarrow> policy_decision" where
  "evaluate_network p host transport port =
     (if \<not> is_valid_network_host host \<or> port = 0 then invalid_request
      else
        let granted = (case cs_network (ts_capabilities (cp_task p)) of
                         NetDeny \<Rightarrow> False
                       | NetAllow destinations \<Rightarrow>
                           list_ex (\<lambda>a. nd_host a = host \<and> nd_transport a = transport \<and> nd_port a = port)
                             destinations)
        in finish_decision p granted ''network.egress'')"

definition evaluate_tool :: "capability_policy \<Rightarrow> string \<Rightarrow> string \<Rightarrow> policy_decision" where
  "evaluate_tool p tool action =
     (if \<not> is_valid_identifier tool MAX_TOOL_NAME_BYTES \<or> \<not> is_valid_identifier action MAX_ACTION_BYTES
      then invalid_request
      else
        let granted = list_ex (\<lambda>allowed. allowed = tool) (cs_tools (ts_capabilities (cp_task p)))
        in finish_decision p granted action)"

definition evaluate :: "capability_policy \<Rightarrow> capability_request \<Rightarrow> policy_decision" where
  "evaluate p request =
     (case request of
        FileRequest path access \<Rightarrow> evaluate_file p path access
      | NetworkRequest host transport port \<Rightarrow> evaluate_network p host transport port
      | ToolRequest tool action \<Rightarrow> evaluate_tool p tool action)"

lemmas evaluate_defs = evaluate_def evaluate_file_def evaluate_network_def evaluate_tool_def
  finish_decision_def invalid_request_def Let_def list_ex_iff

section \<open>The policy as a specification\<close>

text \<open>The decision as four questions: is the request well formed, is the resource
  granted by the task, which action does it perform, does that action need approval.\<close>

definition request_valid :: "capability_request \<Rightarrow> bool" where
  "request_valid r =
     (case r of
        FileRequest path access \<Rightarrow> is_normalized_absolute_path path
      | NetworkRequest host transport port \<Rightarrow> is_valid_network_host host \<and> port \<noteq> 0
      | ToolRequest tool action \<Rightarrow>
          is_valid_identifier tool MAX_TOOL_NAME_BYTES \<and> is_valid_identifier action MAX_ACTION_BYTES)"

definition request_action :: "capability_request \<Rightarrow> string" where
  "request_action r =
     (case r of
        FileRequest path access \<Rightarrow> file_action access
      | NetworkRequest host transport port \<Rightarrow> ''network.egress''
      | ToolRequest tool action \<Rightarrow> action)"

definition components :: "string \<Rightarrow> string list" where
  "components path = split_on (CHR ''/'') path"

definition request_granted :: "task_spec \<Rightarrow> capability_request \<Rightarrow> bool" where
  "request_granted task r =
     (case r of
        FileRequest path access \<Rightarrow>
          (\<exists>c \<in> set (cs_filesystem (ts_capabilities task)).
             fc_access c = access \<and> prefix (components (fc_path c)) (components path))
      | NetworkRequest host transport port \<Rightarrow>
          (\<exists>ds. cs_network (ts_capabilities task) = NetAllow ds
             \<and> \<lparr>nd_host = host, nd_transport = transport, nd_port = port\<rparr> \<in> set ds)
      | ToolRequest tool action \<Rightarrow> tool \<in> set (cs_tools (ts_capabilities task)))"

lemma path_is_within_iff:
  "path_is_within path cap \<longleftrightarrow> prefix (components cap) (components path)"
proof
  assume "path_is_within path cap"
  then consider "path = cap" | rest where "path = cap @ CHR ''/'' # rest"
    by (auto simp: path_is_within_def starts_with_def prefix_def split: option.splits)
  then show "prefix (components cap) (components path)"
    by cases (auto simp: components_def split_on_append_delim)
next
  assume "prefix (components cap) (components path)"
  then obtain ws where ws: "split_on (CHR ''/'') path = split_on (CHR ''/'') cap @ ws"
    by (auto simp: components_def prefix_def)
  show "path_is_within path cap"
  proof (cases "ws = []")
    case True
    with ws show ?thesis by (auto simp: path_is_within_def dest: split_on_inj)
  next
    case False
    have "split_on (CHR ''/'') path = split_on (CHR ''/'') (cap @ CHR ''/'' # join_with (CHR ''/'') ws)"
      using ws False split_on_no_delim [of _ "CHR ''/''" path]
      by (simp add: split_on_append_delim split_on_join)
    then have "path = cap @ CHR ''/'' # join_with (CHR ''/'') ws"
      by (rule split_on_inj)
    then have "strip_prefix cap path = Some (CHR ''/'' # join_with (CHR ''/'') ws)"
      by simp
    then show ?thesis
      by (simp add: path_is_within_def starts_with_def)
  qed
qed

lemma destination_mem_iff:
  "\<lparr>nd_host = h, nd_transport = t, nd_port = p\<rparr> \<in> set ds
   \<longleftrightarrow> (\<exists>d \<in> set ds. nd_host d = h \<and> nd_transport d = t \<and> nd_port d = p)"
proof -
  have "d = \<lparr>nd_host = nd_host d, nd_transport = nd_transport d, nd_port = nd_port d\<rparr>"
    for d :: network_destination
    by simp
  then show ?thesis
    by (metis network_destination.select_convs(1-3))
qed

lemma evaluate_cases:
  "evaluate p r =
     (if \<not> request_valid r then Deny InvalidRequest
      else if \<not> request_granted (cp_task p) r then Deny CapabilityNotGranted
      else if request_action r \<in> set (required_for (ts_approval (cp_task p))) then ApprovalRequired
      else Allow)"
proof (cases r)
  case (FileRequest path access)
  then show ?thesis
    by (auto simp: evaluate_defs request_valid_def request_granted_def request_action_def
        path_is_within_iff)
next
  case (NetworkRequest host transport port)
  then show ?thesis
    by (auto simp: evaluate_defs request_valid_def request_granted_def request_action_def
        destination_mem_iff split: network_policy.splits)
next
  case (ToolRequest tool action)
  then show ?thesis
    by (auto simp: evaluate_defs request_valid_def request_granted_def request_action_def)
qed

text \<open>C21: the capability policy implements its specification. A request is answered by
  the first of four rules: a malformed resource is denied as invalid, a resource the task
  does not grant is denied, an action listed under \<open>required_for\<close> needs approval, and
  everything else is allowed. A file is granted when the path components of a capability
  with the same access mode are a prefix of the requested components, a destination when
  exactly that host, transport and port is listed, a tool when its name is listed.\<close>

theorem evaluate_spec:
  "evaluate p r =
     (if \<not> request_valid r then Deny InvalidRequest
      else if \<not> request_granted (cp_task p) r then Deny CapabilityNotGranted
      else if request_action r \<in> set (required_for (ts_approval (cp_task p))) then ApprovalRequired
      else Allow)"
  by (rule evaluate_cases)

section \<open>Confinement of granted paths\<close>

text \<open>Lexical resolution of a path: empty and \<open>.\<close> components are skipped, \<open>..\<close> leaves
  the directory.\<close>

fun resolve_onto :: "string list \<Rightarrow> string list \<Rightarrow> string list" where
  "resolve_onto acc [] = acc"
| "resolve_onto acc (c # cs) =
     (if c = [] \<or> c = ''.'' then resolve_onto acc cs
      else if c = ''..'' then resolve_onto (butlast acc) cs
      else resolve_onto (acc @ [c]) cs)"

definition resolve_path :: "string \<Rightarrow> string list" where
  "resolve_path path = resolve_onto [] (components path)"

lemma resolve_onto_append: "resolve_onto acc (xs @ ys) = resolve_onto (resolve_onto acc xs) ys"
  by (induction acc xs rule: resolve_onto.induct) auto

lemma resolve_onto_ok: "list_all path_component_ok cs \<Longrightarrow> resolve_onto acc cs = acc @ cs"
  by (induction acc cs rule: resolve_onto.induct) (auto simp: path_component_ok_def)

lemma normalized_components:
  assumes "is_normalized_absolute_path path"
  shows "components path = [] # drop 1 (components path)"
    and "list_all path_component_ok (drop 1 (components path))"
  using assms
  by (auto simp: is_normalized_absolute_path_def starts_with_def components_def prefix_def)

lemma granted_suffix_ok:
  assumes "is_normalized_absolute_path path" and "components path = components cap @ ws"
  shows "list_all path_component_ok ws"
  using normalized_components [OF assms(1)] assms(2)
  by (cases "components cap") (auto simp: components_def)

lemma from_task_Inr [simp]: "from_task task = Inr p \<longleftrightarrow> task_ok task \<and> p = \<lparr>cp_task = task\<rparr>"
  using validate_Ok_iff [of task] by (auto simp: from_task_def split: sum.splits)

text \<open>A granted path cannot escape its capability. When the policy built from a
  validated task does not deny a file request, some capability of that task with the same
  access mode resolves to a directory (or file) of which the requested path, resolved with
  \<open>.\<close> and \<open>..\<close>, is a descendant or the same entry; no traversal component survives.\<close>

theorem granted_path_confined:
  assumes "from_task task = Inr p"
    and "evaluate p (FileRequest path access) \<in> {Allow, ApprovalRequired}"
  shows "\<exists>c \<in> set (cs_filesystem (ts_capabilities task)).
           fc_access c = access \<and> prefix (resolve_path (fc_path c)) (resolve_path path)
           \<and> resolve_path path = drop 1 (components path)"
proof -
  from assms have n: "is_normalized_absolute_path path"
    and g: "request_granted task (FileRequest path access)"
    by (auto simp: evaluate_cases request_valid_def split: if_splits)
  from g obtain c ws where c: "c \<in> set (cs_filesystem (ts_capabilities task))" "fc_access c = access"
      and ws: "components path = components (fc_path c) @ ws"
    by (auto simp: request_granted_def prefix_def)
  have "resolve_path path = resolve_onto (resolve_path (fc_path c)) ws"
    by (simp add: resolve_path_def ws resolve_onto_append)
  also have "\<dots> = resolve_path (fc_path c) @ ws"
    by (rule resolve_onto_ok) (rule granted_suffix_ok [OF n ws])
  finally have "prefix (resolve_path (fc_path c)) (resolve_path path)"
    by (simp add: prefix_def)
  moreover have "resolve_path path = drop 1 (components path)"
    using normalized_components [OF n] resolve_onto_ok [of "drop 1 (components path)" "[]"]
    by (metis append_Nil resolve_onto.simps(2) resolve_path_def)
  ultimately show ?thesis using c by blast
qed

definition sample_task :: task_spec where
  "sample_task = \<lparr>ts_idempotency_key = ''policy-test-001'', ts_goal = ''Evaluate'',
     ts_capabilities = \<lparr>cs_filesystem = [\<lparr>fc_path = ''/workspace'', fc_access = Write\<rparr>],
       cs_network = NetAllow [\<lparr>nd_host = ''127.0.0.1'', nd_transport = Tcp, nd_port = 8080\<rparr>],
       cs_tools = [''git'']\<rparr>,
     ts_budget = \<lparr>wall_time_seconds = 60, memory_bytes = 1048576, max_parallel_agents = 1\<rparr>,
     ts_approval = \<lparr>required_for = [''filesystem.write'', ''git.commit'']\<rparr>\<rparr>"

lemma sample_host_valid: "is_valid_network_host ''127.0.0.1''"
  by code_simp

lemma sample_task_ok: "task_ok sample_task"
proof -
  have "goal_ok ''Evaluate''" "files_ok [\<lparr>fc_path = ''/workspace'', fc_access = Write\<rparr>]"
    "names_ok MAX_TOOLS [''git'']" "names_ok MAX_APPROVAL_ACTIONS [''filesystem.write'', ''git.commit'']"
    "is_valid_identifier ''policy-test-001'' MAX_IDEMPOTENCY_KEY_BYTES"
    by code_simp+
  moreover have "network_ok (NetAllow [\<lparr>nd_host = ''127.0.0.1'', nd_transport = Tcp, nd_port = 8080\<rparr>])"
    using sample_host_valid by (simp add: network_ok_def MAX_NETWORK_DESTINATIONS_def)
  ultimately show ?thesis
    by (simp add: task_ok_def sample_task_def budget_ok_def)
qed

theorem granted_path_confined_witness:
  "\<exists>c \<in> set (cs_filesystem (ts_capabilities sample_task)).
     fc_access c = Write \<and> prefix (resolve_path (fc_path c)) (resolve_path ''/workspace/out.txt'')
     \<and> resolve_path ''/workspace/out.txt'' = drop 1 (components ''/workspace/out.txt'')"
proof (rule granted_path_confined [where p = "\<lparr>cp_task = sample_task\<rparr>"])
  show "from_task sample_task = Inr \<lparr>cp_task = sample_task\<rparr>"
    by (simp add: sample_task_ok)
  show "evaluate \<lparr>cp_task = sample_task\<rparr> (FileRequest ''/workspace/out.txt'' Write) \<in> {Allow, ApprovalRequired}"
    by code_simp
qed

end
