(* ===== verification/Event_Store.thy ===== *)
theory Event_Store
  imports Core_Policy
begin

text \<open>
  \<open>aios-runtime/src/event.rs\<close>: identifiers, audit events, the \<open>EventStore\<close> interface and
  the bounded in-memory store. A UUID is its 128-bit value, ordered as its bytes are;
  generated identifiers and clock readings are arguments of the operations that use them.
  The interface is the locale \<open>event_store\<close>: what a client may assume of
  \<open>append_batch\<close> and \<open>list\<close>, in terms of the abstract log of each task. The first
  argument of \<open>append\<close> is whatever the outside world supplies to that one call (for the
  in-memory store, the wall-clock readings).
\<close>

section \<open>Identifiers\<close>

datatype task_id = TaskId (task_uuid: "128 word")
datatype approval_id = ApprovalId (approval_uuid: "128 word")
datatype operation_id = OperationId (operation_uuid: "128 word")

instantiation task_id :: linorder
begin
definition less_eq_task_id :: "task_id \<Rightarrow> task_id \<Rightarrow> bool" where
  "a \<le> b \<longleftrightarrow> task_uuid a \<le> task_uuid b"
definition less_task_id :: "task_id \<Rightarrow> task_id \<Rightarrow> bool" where
  "a < b \<longleftrightarrow> task_uuid a < task_uuid b"
instance
  by standard (auto simp: less_eq_task_id_def less_task_id_def task_id.expand)
end

instantiation approval_id :: linorder
begin
definition less_eq_approval_id :: "approval_id \<Rightarrow> approval_id \<Rightarrow> bool" where
  "a \<le> b \<longleftrightarrow> approval_uuid a \<le> approval_uuid b"
definition less_approval_id :: "approval_id \<Rightarrow> approval_id \<Rightarrow> bool" where
  "a < b \<longleftrightarrow> approval_uuid a < approval_uuid b"
instance
  by standard (auto simp: less_eq_approval_id_def less_approval_id_def approval_id.expand)
end

instantiation operation_id :: linorder
begin
definition less_eq_operation_id :: "operation_id \<Rightarrow> operation_id \<Rightarrow> bool" where
  "a \<le> b \<longleftrightarrow> operation_uuid a \<le> operation_uuid b"
definition less_operation_id :: "operation_id \<Rightarrow> operation_id \<Rightarrow> bool" where
  "a < b \<longleftrightarrow> operation_uuid a < operation_uuid b"
instance
  by standard (auto simp: less_eq_operation_id_def less_operation_id_def operation_id.expand)
end

lemmas id_order_defs = less_eq_task_id_def less_task_id_def less_eq_approval_id_def
  less_approval_id_def less_eq_operation_id_def less_operation_id_def

section \<open>Events\<close>

datatype event_kind =
  EvSubmitted
  | StateTransitioned task_state task_state
  | ValidationFailed nat
  | TaskFailed error_code
  | OperationAllowed
  | OperationDenied denial_reason
  | ApprovalRequested approval_id operation_id
  | ApprovalGranted approval_id operation_id
  | ApprovalDenied approval_id operation_id
  | ApprovalExpired approval_id operation_id
  | ApprovalRevoked approval_id operation_id
  | ApprovalConsumed approval_id operation_id

record task_event =
  ev_task_id :: task_id
  ev_sequence :: nat
  ev_occurred_at_unix_ms :: nat
  ev_kind :: event_kind

datatype event_store_error =
  StoreCapacityExceeded | SequenceExhausted | Corrupt | InsecurePermissions | Unavailable

definition u64_try_from :: "nat \<Rightarrow> nat option" where
  "u64_try_from n = (if n < 2 ^ 64 then Some n else None)"

text \<open>The argument is the number of milliseconds since the epoch that the clock reads,
  zero when it reads earlier.\<close>

definition unix_time_ms :: "nat \<Rightarrow> nat" where
  "unix_time_ms raw = (case u64_try_from raw of Some ms \<Rightarrow> ms | None \<Rightarrow> 2 ^ 64 - 1)"

definition task_event_now ::
  "nat \<Rightarrow> task_id \<Rightarrow> nat \<Rightarrow> event_kind \<Rightarrow> event_store_error + task_event" where
  "task_event_now raw task_id sequence kind =
     (if sequence = 0 then Inl SequenceExhausted
      else Inr \<lparr>ev_task_id = task_id, ev_sequence = sequence,
             ev_occurred_at_unix_ms = unix_time_ms raw, ev_kind = kind\<rparr>)"

section \<open>The interface of an event store\<close>

type_synonym ('w, 's) append_fn =
  "'w \<Rightarrow> 's \<Rightarrow> task_id \<Rightarrow> event_kind list \<Rightarrow> (event_store_error + task_event list) \<times> 's"

type_synonym 's list_fn = "'s \<Rightarrow> task_id \<Rightarrow> nat \<Rightarrow> event_store_error + task_event list"

definition log_wf :: "task_id \<Rightarrow> task_event list \<Rightarrow> bool" where
  "log_wf t events \<longleftrightarrow> map ev_sequence events = [1..<Suc (length events)]
     \<and> (\<forall>e \<in> set events. ev_task_id e = t) \<and> length events < 2 ^ 64"

locale event_store =
  fixes append :: "('w, 's) append_fn"
    and listing :: "'s list_fn"
    and log :: "'s \<Rightarrow> task_id \<Rightarrow> task_event list"
    and store_ok :: "'s \<Rightarrow> bool"
  assumes log_wf: "store_ok s \<Longrightarrow> log_wf t (log s t)"
    and append_ok: "store_ok s \<Longrightarrow> append w s t kinds = (Inr events, s')
      \<Longrightarrow> store_ok s' \<and> log s' = (log s)(t := log s t @ events) \<and> map ev_kind events = kinds"
    and append_err: "store_ok s \<Longrightarrow> append w s t kinds = (Inl e, s') \<Longrightarrow> store_ok s' \<and> log s' = log s"
    and list_ok: "store_ok s \<Longrightarrow> listing s t after = Inr events
      \<Longrightarrow> events = filter (\<lambda>e. after < ev_sequence e) (log s t)"
begin

lemma append_keeps_ok: "store_ok s \<Longrightarrow> append w s t kinds = (r, s') \<Longrightarrow> store_ok s'"
  by (cases r) (auto dest: append_ok append_err)

lemma append_log_prefix:
  assumes "store_ok s" and "append w s t kinds = (r, s')"
  shows "prefix (log s t') (log s' t')"
proof (cases r)
  case (Inl e)
  with assms have "log s' = log s" by (auto dest: append_err)
  then show ?thesis by simp
next
  case (Inr events)
  with assms have "log s' = (log s)(t := log s t @ events)" by (auto dest: append_ok)
  then show ?thesis by simp
qed

lemma append_kinds:
  "store_ok s \<Longrightarrow> append w s t kinds = (Inr events, s')
   \<Longrightarrow> map ev_kind (log s' t') = map ev_kind (log s t') @ (if t' = t then kinds else [])"
  by (auto dest: append_ok)

end

section \<open>The in-memory store\<close>

definition DEFAULT_MAX_EVENTS_PER_TASK :: nat where "DEFAULT_MAX_EVENTS_PER_TASK = 10000"

record in_memory_store =
  ims_events :: "(task_id, task_event list) btree"
  ims_max_events_per_task :: nat

definition in_memory_new :: "nat \<Rightarrow> event_store_error + in_memory_store" where
  "in_memory_new max_events =
     (if max_events = 0 then Inl StoreCapacityExceeded
      else Inr \<lparr>ims_events = [], ims_max_events_per_task = max_events\<rparr>)"

definition in_memory_default :: in_memory_store where
  "in_memory_default = \<lparr>ims_events = [], ims_max_events_per_task = DEFAULT_MAX_EVENTS_PER_TASK\<rparr>"

text \<open>The loop that numbers and stamps the events of a batch; \<open>clk i\<close> is the clock
  reading for the event at offset \<open>i\<close>.\<close>

fun build_events ::
  "(nat \<Rightarrow> nat) \<Rightarrow> task_id \<Rightarrow> nat \<Rightarrow> nat \<Rightarrow> event_kind list \<Rightarrow> event_store_error + task_event list" where
  "build_events clk task_id first offset [] = Inr []"
| "build_events clk task_id first offset (kind # kinds) =
     (case u64_try_from offset of
        None \<Rightarrow> Inl SequenceExhausted
      | Some off \<Rightarrow>
          (case checked_add first off of
             None \<Rightarrow> Inl SequenceExhausted
           | Some sequence \<Rightarrow>
               (case task_event_now (clk offset) task_id sequence kind of
                  Inl e \<Rightarrow> Inl e
                | Inr event \<Rightarrow>
                    (case build_events clk task_id first (Suc offset) kinds of
                       Inl e \<Rightarrow> Inl e
                     | Inr events \<Rightarrow> Inr (event # events)))))"

definition in_memory_append :: "(nat \<Rightarrow> nat, in_memory_store) append_fn" where
  "in_memory_append clk store task_id kinds =
     (if kinds = [] then (Inr [], store)
      else
        let existing = (case bt_get (ims_events store) task_id of None \<Rightarrow> [] | Some es \<Rightarrow> es) in
        case checked_add (length existing) (length kinds) of
          None \<Rightarrow> (Inl StoreCapacityExceeded, store)
        | Some resulting_length \<Rightarrow>
            if ims_max_events_per_task store < resulting_length
            then (Inl StoreCapacityExceeded, store)
            else
              (case u64_try_from (length existing) of
                 None \<Rightarrow> (Inl SequenceExhausted, store)
               | Some n \<Rightarrow>
                   (case checked_add n 1 of
                      None \<Rightarrow> (Inl SequenceExhausted, store)
                    | Some first_sequence \<Rightarrow>
                        (case build_events clk task_id first_sequence 0 kinds of
                           Inl e \<Rightarrow> (Inl e, store)
                         | Inr appended \<Rightarrow>
                             (Inr appended,
                              store\<lparr>ims_events := bt_insert task_id (existing @ appended)
                                     (ims_events store)\<rparr>)))))"

definition in_memory_list :: "in_memory_store list_fn" where
  "in_memory_list store task_id after_sequence =
     Inr (case bt_get (ims_events store) task_id of
            None \<Rightarrow> []
          | Some events \<Rightarrow> filter (\<lambda>event. after_sequence < ev_sequence event) events)"

text \<open>The abstraction: a task's log, empty when the task is unknown.\<close>

definition in_memory_log :: "in_memory_store \<Rightarrow> task_id \<Rightarrow> task_event list" where
  "in_memory_log store t = (case bt_get (ims_events store) t of None \<Rightarrow> [] | Some es \<Rightarrow> es)"

definition in_memory_ok :: "in_memory_store \<Rightarrow> bool" where
  "in_memory_ok store \<longleftrightarrow> bt_wf (ims_events store)
     \<and> (\<forall>t. log_wf t (in_memory_log store t)
          \<and> length (in_memory_log store t) \<le> ims_max_events_per_task store)"

lemma build_events_Cons_ok:
  "build_events clk t first off (k # kinds) = Inr events \<longleftrightarrow>
     off < 2 ^ 64 \<and> first + off < 2 ^ 64 \<and> first + off \<noteq> 0 \<and>
     (\<exists>rest. build_events clk t first (Suc off) kinds = Inr rest
        \<and> events = \<lparr>ev_task_id = t, ev_sequence = first + off,
             ev_occurred_at_unix_ms = unix_time_ms (clk off), ev_kind = k\<rparr> # rest)"
  by (cases "build_events clk t first (Suc off) kinds")
    (auto simp: task_event_now_def u64_try_from_def checked_add_def)

lemma build_events_ok:
  "build_events clk t first off kinds = Inr events \<Longrightarrow>
     map ev_kind events = kinds \<and> map ev_sequence events = [first + off..<first + off + length kinds]
     \<and> (\<forall>e \<in> set events. ev_task_id e = t)"
proof (induction kinds arbitrary: off events)
  case (Cons k kinds)
  from Cons.prems obtain rest where r: "build_events clk t first (Suc off) kinds = Inr rest"
    and e: "events = \<lparr>ev_task_id = t, ev_sequence = first + off,
             ev_occurred_at_unix_ms = unix_time_ms (clk off), ev_kind = k\<rparr> # rest"
    by (auto simp only: build_events_Cons_ok)
  from Cons.IH [OF r] e show ?case
    by (simp add: upt_conv_Cons del: upt_Suc)
qed simp

lemma build_events_success:
  assumes "0 < first" and "first + off + length kinds \<le> 2 ^ 64"
  shows "\<exists>events. build_events clk t first off kinds = Inr events"
  using assms
proof (induction kinds arbitrary: off)
  case (Cons k kinds)
  then have "\<exists>events. build_events clk t first (Suc off) kinds = Inr events" by simp
  with Cons.prems show ?case
    by (auto simp: u64_try_from_def checked_add_def task_event_now_def)
qed simp

lemma log_wf_append:
  assumes "log_wf t xs" and "map ev_sequence ys = [Suc (length xs)..<Suc (length xs) + length ys]"
    and "\<forall>e \<in> set ys. ev_task_id e = t" and "length xs + length ys < 2 ^ 64"
  shows "log_wf t (xs @ ys)"
  using assms upt_add_eq_append [of 1 "Suc (length xs)" "length ys"]
  by (auto simp: log_wf_def)

lemma log_wf_filter:
  assumes "log_wf t (xs @ ys)" and "log_wf t xs"
  shows "filter (\<lambda>e. length xs < ev_sequence e) (xs @ ys) = ys"
proof -
  have "map ev_sequence (xs @ ys) = [1..<Suc (length xs)] @ [Suc (length xs)..<Suc (length xs) + length ys]"
    using assms(1) upt_add_eq_append [of 1 "Suc (length xs)" "length ys"]
    by (simp add: log_wf_def del: upt_Suc)
  then have "map ev_sequence xs = [1..<Suc (length xs)]"
    and "map ev_sequence ys = [Suc (length xs)..<Suc (length xs) + length ys]"
    using assms(2) by (simp_all add: log_wf_def del: upt_Suc)
  then have "ev_sequence ` set xs = {1..<Suc (length xs)}"
    and "ev_sequence ` set ys = {Suc (length xs)..<Suc (length xs) + length ys}"
    by (metis list.set_map set_upt)+
  then have "ev_sequence ` set xs \<subseteq> {1..<Suc (length xs)}"
    and "ev_sequence ` set ys \<subseteq> {Suc (length xs)..<Suc (length xs) + length ys}" by simp_all
  then have "\<forall>e \<in> set xs. \<not> length xs < ev_sequence e" "\<forall>e \<in> set ys. length xs < ev_sequence e"
    unfolding image_subset_iff by fastforce+
  then show ?thesis by (simp add: filter_empty_conv filter_id_conv)
qed

lemma log_wf_take: "log_wf t log \<Longrightarrow> log_wf t (take n log)"
  by (auto simp: log_wf_def take_map [symmetric] take_upt min_def simp del: upt_Suc dest: in_set_takeD)

lemma log_wf_after: assumes "log_wf t log" shows "filter (\<lambda>e. n < ev_sequence e) log = drop n log"
proof (cases "n \<le> length log")
  case True
  then have "length (take n log) = n" by simp
  with log_wf_filter [of t "take n log" "drop n log"] assms log_wf_take [OF assms, of n] show ?thesis by simp
next
  case False
  have "ev_sequence ` set log = {1..<Suc (length log)}"
    using assms by (metis list.set_map set_upt log_wf_def)
  then have "ev_sequence e < Suc (length log)" if "e \<in> set log" for e
    using that by (metis atLeastLessThan_iff imageI)
  then have "\<forall>e \<in> set log. \<not> n < ev_sequence e" using False by fastforce
  with False show ?thesis by (simp add: filter_empty_conv)
qed

lemma in_memory_append_Inr:
  assumes "in_memory_ok store" and "in_memory_append clk store t kinds = (Inr events, store')"
  shows "map ev_kind events = kinds"
    and "in_memory_log store' = (in_memory_log store)(t := in_memory_log store t @ events)"
    and "in_memory_ok store'"
proof -
  let ?old = "in_memory_log store t"
  have old: "log_wf t ?old" "length ?old \<le> ims_max_events_per_task store" "bt_wf (ims_events store)"
    using assms(1) by (auto simp: in_memory_ok_def)
  show "map ev_kind events = kinds"
    and log: "in_memory_log store' = (in_memory_log store)(t := ?old @ events)"
    and "in_memory_ok store'"
  proof (atomize (full), cases "kinds = []")
    case True
    with assms show "map ev_kind events = kinds
      \<and> in_memory_log store' = (in_memory_log store)(t := ?old @ events) \<and> in_memory_ok store'"
      by (auto simp: in_memory_append_def)
  next
    case False
    from False assms(2) have len: "length ?old + length kinds \<le> ims_max_events_per_task store"
        "length ?old + length kinds < 2 ^ 64"
      and ev: "build_events clk t (Suc (length ?old)) 0 kinds = Inr events"
      and st: "store' = store\<lparr>ims_events := bt_insert t (?old @ events) (ims_events store)\<rparr>"
      by (auto simp: in_memory_append_def in_memory_log_def Let_def u64_try_from_def
          split: option.splits if_splits sum.splits)
    from build_events_ok [OF ev] have k: "map ev_kind events = kinds"
      and sq: "map ev_sequence events = [Suc (length ?old)..<Suc (length ?old) + length events]"
      and ids: "\<forall>e \<in> set events. ev_task_id e = t"
      by auto
    have l: "length events = length kinds" using k by auto
    have log: "in_memory_log store' = (in_memory_log store)(t := ?old @ events)"
      by (auto simp: st in_memory_log_def)
    have "log_wf t (?old @ events)"
      using log_wf_append [OF old(1) sq ids] len l by simp
    moreover have "bt_wf (ims_events store')"
        "ims_max_events_per_task store' = ims_max_events_per_task store"
      using old(3) by (simp_all add: st)
    ultimately have "in_memory_ok store'"
      using assms(1) len l by (auto simp: in_memory_ok_def log)
    with k log show "map ev_kind events = kinds
      \<and> in_memory_log store' = (in_memory_log store)(t := ?old @ events) \<and> in_memory_ok store'"
      by simp
  qed
qed

lemma in_memory_append_Inl: "in_memory_append clk store t kinds = (Inl e, store') \<Longrightarrow> store' = store"
  by (auto simp: in_memory_append_def Let_def split: if_splits option.splits sum.splits)

lemma in_memory_ok_log: "in_memory_ok store \<Longrightarrow> log_wf t (in_memory_log store t)"
  by (simp add: in_memory_ok_def)

lemma in_memory_list_eq:
  "in_memory_list store t after = Inr (filter (\<lambda>e. after < ev_sequence e) (in_memory_log store t))"
  by (auto simp: in_memory_list_def in_memory_log_def split: option.splits)

interpretation im: event_store in_memory_append in_memory_list in_memory_log in_memory_ok
  by unfold_locales
    (auto simp: in_memory_list_eq dest: in_memory_append_Inl in_memory_append_Inr in_memory_ok_log)

lemma in_memory_new_ok: "in_memory_new n = Inr store \<Longrightarrow> in_memory_ok store"
  by (auto simp: in_memory_new_def in_memory_ok_def in_memory_log_def log_wf_def split: if_splits)

lemma in_memory_default_ok: "in_memory_ok in_memory_default"
  by (simp add: in_memory_default_def in_memory_ok_def in_memory_log_def log_wf_def)

lemma in_memory_append_success:
  assumes "in_memory_ok store"
    and "length (in_memory_log store t) + length kinds \<le> ims_max_events_per_task store"
    and "length (in_memory_log store t) + length kinds < 2 ^ 64"
  shows "\<exists>events store'. in_memory_append clk store t kinds = (Inr events, store')"
proof -
  obtain events where "build_events clk t (Suc (length (in_memory_log store t))) 0 kinds = Inr events"
    using build_events_success [of "Suc (length (in_memory_log store t))" 0 kinds] assms by auto
  with assms show ?thesis
    by (cases kinds) (auto simp: in_memory_append_def in_memory_log_def Let_def u64_try_from_def
        checked_add_def split: option.splits)
qed

text \<open>The in-memory store is an atomic, bounded, append-only log. From a
  well-formed store, \<open>append_batch\<close> succeeds exactly when the batch fits the per-task
  capacity (and the 64-bit sequence); then the task's log grows by the batch in order,
  numbered on from the last sequence, and no other log changes. A batch that does not
  fit is refused with \<open>CapacityExceeded\<close> and the store is unchanged.\<close>

theorem in_memory_append_atomic:
  assumes "in_memory_ok store" and "length (in_memory_log store t) + length kinds < 2 ^ 64"
    and "kinds \<noteq> []"
  shows "if length (in_memory_log store t) + length kinds \<le> ims_max_events_per_task store
         then \<exists>events store'. in_memory_append clk store t kinds = (Inr events, store')
                \<and> in_memory_ok store' \<and> map ev_kind events = kinds
                \<and> map ev_sequence events = [Suc (length (in_memory_log store t))
                     ..<Suc (length (in_memory_log store t)) + length kinds]
                \<and> in_memory_log store' = (in_memory_log store)(t := in_memory_log store t @ events)
         else in_memory_append clk store t kinds = (Inl StoreCapacityExceeded, store)"
proof (cases "length (in_memory_log store t) + length kinds \<le> ims_max_events_per_task store")
  case True
  then obtain events store' where a: "in_memory_append clk store t kinds = (Inr events, store')"
    using in_memory_append_success assms by blast
  note r = in_memory_append_Inr [OF assms(1) a]
  have "log_wf t (in_memory_log store' t)" "log_wf t (in_memory_log store t)"
    using r(3) assms(1) by (auto simp: in_memory_ok_def)
  moreover have "length events = length kinds" using r(1) by auto
  ultimately have "map ev_sequence events = [Suc (length (in_memory_log store t))
                     ..<Suc (length (in_memory_log store t)) + length kinds]"
    using upt_add_eq_append [of 1 "Suc (length (in_memory_log store t))" "length kinds"]
    by (auto simp: r(2) log_wf_def)
  with True a r show ?thesis by auto
next
  case False
  with assms show ?thesis
    by (auto simp: in_memory_append_def in_memory_log_def Let_def checked_add_def split: option.splits)
qed

theorem in_memory_append_atomic_witness:
  "\<exists>events store'. in_memory_append (\<lambda>i. 1700 + i) in_memory_default (TaskId 7) [EvSubmitted, OperationAllowed]
       = (Inr events, store') \<and> map ev_kind events = [EvSubmitted, OperationAllowed]
     \<and> map ev_sequence events = [1, 2]"
proof -
  have e: "in_memory_log in_memory_default (TaskId 7) = []"
    "ims_max_events_per_task in_memory_default = 10000"
    by (simp_all add: in_memory_default_def in_memory_log_def DEFAULT_MAX_EVENTS_PER_TASK_def)
  show ?thesis
    using in_memory_append_atomic [OF in_memory_default_ok, of "TaskId 7" "[EvSubmitted, OperationAllowed]"
        "\<lambda>i. 1700 + i"]
    by (auto simp: e upt_conv_Cons)
qed

end
