(* ===== verification/Approval.thy ===== *)
theory Approval
  imports Event_Store
begin

text \<open>
  \<open>aios-runtime/src/approval.rs\<close>: the bounded authority for pending approvals and the
  linear grants it hands out. Each \<open>Instant::now()\<close> is an argument \<open>now\<close>, each generated
  \<open>ApprovalId\<close> an argument. A grant is consumed by being passed to \<open>grant_authorize\<close> or
  \<open>grant_restore\<close>: Rust's move is the caller not keeping the value.
\<close>

definition DEFAULT_MAX_PENDING_APPROVALS :: nat where "DEFAULT_MAX_PENDING_APPROVALS = 1024"
definition DEFAULT_MAX_TTL :: duration where "DEFAULT_MAX_TTL = from_secs (15 * 60)"
definition MAX_MAX_PENDING_APPROVALS :: nat where "MAX_MAX_PENDING_APPROVALS = 65536"
definition MAX_MAX_TTL :: duration where "MAX_MAX_TTL = from_secs (24 * 60 * 60)"
definition APPROVAL_MAX_ACTION_BYTES :: nat where "APPROVAL_MAX_ACTION_BYTES = 64"

record approval_request =
  ar_approval_id :: approval_id
  ar_task_id :: task_id
  ar_operation_id :: operation_id
  ar_action :: string
  ar_expires_after_ms :: nat

record approval_receipt =
  receipt_approval_id :: approval_id

record approval_grant =
  grant_approval_id :: approval_id
  grant_task_id :: task_id
  grant_operation_id :: operation_id
  grant_action :: string
  grant_deadline :: instant

record pending_approval =
  pa_task_id :: task_id
  pa_operation_id :: operation_id
  pa_action :: string
  pa_deadline :: instant

record approval_authority =
  aa_pending :: "(approval_id, pending_approval) btree"
  aa_operation_index :: "(task_id \<times> operation_id, approval_id) btree"
  aa_max_pending :: nat
  aa_max_ttl :: duration

datatype approval_error =
  InvalidConfig | InvalidApprovalRequest | DuplicateOperation | ApprovalCapacityExceeded
  | NotFound | Expired | ScopeMismatch

definition is_valid_action :: "string \<Rightarrow> bool" where
  "is_valid_action action \<longleftrightarrow> action \<noteq> [] \<and> length action \<le> APPROVAL_MAX_ACTION_BYTES
     \<and> list_all (\<lambda>c. is_ascii_alphanumeric c \<or> c = CHR ''.'' \<or> c = CHR ''_'' \<or> c = CHR '':'' \<or> c = CHR ''-'') action"

definition duration_ms :: "duration \<Rightarrow> approval_error + nat" where
  "duration_ms d = (case u64_try_from (as_millis d) of None \<Rightarrow> Inl InvalidApprovalRequest | Some ms \<Rightarrow> Inr ms)"

definition grant_authorize ::
  "instant \<Rightarrow> approval_grant \<Rightarrow> task_id \<Rightarrow> operation_id \<Rightarrow> string \<Rightarrow> approval_error + approval_receipt" where
  "grant_authorize now g task_id operation_id action =
     (if grant_deadline g \<le> now then Inl Expired
      else if grant_task_id g \<noteq> task_id \<or> grant_operation_id g \<noteq> operation_id \<or> grant_action g \<noteq> action
      then Inl ScopeMismatch
      else Inr \<lparr>receipt_approval_id = grant_approval_id g\<rparr>)"

definition grant_restore :: "approval_grant \<Rightarrow> approval_authority \<Rightarrow> approval_authority" where
  "grant_restore g authority = authority\<lparr>
     aa_pending := bt_insert (grant_approval_id g)
       \<lparr>pa_task_id = grant_task_id g, pa_operation_id = grant_operation_id g,
        pa_action = grant_action g, pa_deadline = grant_deadline g\<rparr> (aa_pending authority),
     aa_operation_index := bt_insert (grant_task_id g, grant_operation_id g) (grant_approval_id g)
       (aa_operation_index authority)\<rparr>"

definition authority_new :: "nat \<Rightarrow> duration \<Rightarrow> approval_error + approval_authority" where
  "authority_new max_pending max_ttl =
     (if max_pending = 0 \<or> MAX_MAX_PENDING_APPROVALS < max_pending \<or> max_ttl = 0 \<or> MAX_MAX_TTL < max_ttl
      then Inl InvalidConfig
      else Inr \<lparr>aa_pending = [], aa_operation_index = [], aa_max_pending = max_pending, aa_max_ttl = max_ttl\<rparr>)"

definition authority_request ::
  "instant \<Rightarrow> approval_id \<Rightarrow> approval_authority \<Rightarrow> task_id \<Rightarrow> operation_id \<Rightarrow> string \<Rightarrow> duration
   \<Rightarrow> (approval_error + approval_request) \<times> approval_authority" where
  "authority_request now approval_id authority task_id operation_id action ttl =
     (if \<not> is_valid_action action \<or> ttl < from_millis 1 \<or> aa_max_ttl authority < ttl
      then (Inl InvalidApprovalRequest, authority)
      else if bt_contains (aa_operation_index authority) (task_id, operation_id)
      then (Inl DuplicateOperation, authority)
      else if aa_max_pending authority \<le> length (aa_pending authority)
      then (Inl ApprovalCapacityExceeded, authority)
      else
        (case instant_checked_add now ttl of
           None \<Rightarrow> (Inl InvalidApprovalRequest, authority)
         | Some deadline \<Rightarrow>
             (let authority' = authority\<lparr>
                aa_pending := bt_insert approval_id
                  \<lparr>pa_task_id = task_id, pa_operation_id = operation_id, pa_action = action,
                   pa_deadline = deadline\<rparr> (aa_pending authority),
                aa_operation_index := bt_insert (task_id, operation_id) approval_id
                  (aa_operation_index authority)\<rparr>
              in case duration_ms ttl of
                   Inl e \<Rightarrow> (Inl e, authority')
                 | Inr ms \<Rightarrow>
                     (Inr \<lparr>ar_approval_id = approval_id, ar_task_id = task_id,
                        ar_operation_id = operation_id, ar_action = action,
                        ar_expires_after_ms = ms\<rparr>, authority'))))"

definition authority_remove ::
  "approval_authority \<Rightarrow> approval_id \<Rightarrow> pending_approval option \<times> approval_authority" where
  "authority_remove authority approval_id =
     (case bt_get (aa_pending authority) approval_id of
        None \<Rightarrow> (None, authority)
      | Some pending \<Rightarrow>
          (Some pending, authority\<lparr>
             aa_pending := bt_remove approval_id (aa_pending authority),
             aa_operation_index := bt_remove (pa_task_id pending, pa_operation_id pending)
               (aa_operation_index authority)\<rparr>))"

definition authority_approve ::
  "instant \<Rightarrow> approval_authority \<Rightarrow> approval_id \<Rightarrow> (approval_error + approval_grant) \<times> approval_authority" where
  "authority_approve now authority approval_id =
     (case bt_get (aa_pending authority) approval_id of
        None \<Rightarrow> (Inl NotFound, authority)
      | Some p \<Rightarrow>
          if pa_deadline p \<le> now then (Inl Expired, authority)
          else
            (case authority_remove authority approval_id of
               (None, authority') \<Rightarrow> (Inl NotFound, authority')
             | (Some pending, authority') \<Rightarrow>
                 (Inr \<lparr>grant_approval_id = approval_id, grant_task_id = pa_task_id pending,
                    grant_operation_id = pa_operation_id pending, grant_action = pa_action pending,
                    grant_deadline = pa_deadline pending\<rparr>, authority')))"

definition authority_deny ::
  "instant \<Rightarrow> approval_authority \<Rightarrow> approval_id \<Rightarrow> (approval_error + unit) \<times> approval_authority" where
  "authority_deny now authority approval_id =
     (case bt_get (aa_pending authority) approval_id of
        None \<Rightarrow> (Inl NotFound, authority)
      | Some p \<Rightarrow>
          if pa_deadline p \<le> now then (Inl Expired, authority)
          else
            (case authority_remove authority approval_id of
               (None, authority') \<Rightarrow> (Inl NotFound, authority')
             | (Some _, authority') \<Rightarrow> (Inr (), authority')))"

definition authority_contains :: "approval_authority \<Rightarrow> approval_id \<Rightarrow> bool" where
  "authority_contains authority approval_id = bt_contains (aa_pending authority) approval_id"

definition authority_revoke :: "approval_authority \<Rightarrow> approval_id \<Rightarrow> bool \<times> approval_authority" where
  "authority_revoke authority approval_id =
     (case authority_remove authority approval_id of (p, authority') \<Rightarrow> (p \<noteq> None, authority'))"

definition expired_ids :: "instant \<Rightarrow> approval_authority \<Rightarrow> approval_id list" where
  "expired_ids now authority =
     List.map_filter (\<lambda>(approval_id, pending). if pa_deadline pending \<le> now then Some approval_id else None)
       (aa_pending authority)"

definition purge_expired :: "instant \<Rightarrow> approval_authority \<Rightarrow> approval_authority" where
  "purge_expired now authority =
     fold (\<lambda>approval_id a. snd (authority_remove a approval_id))
       (List.map_filter (\<lambda>(approval_id, pending). if pa_deadline pending \<le> now then Some approval_id else None)
          (aa_pending authority)) authority"

definition pending_count :: "instant \<Rightarrow> approval_authority \<Rightarrow> nat \<times> approval_authority" where
  "pending_count now authority =
     (let authority' = purge_expired now authority in (length (aa_pending authority'), authority'))"

definition authority_default :: approval_authority where
  "authority_default = \<lparr>aa_pending = [], aa_operation_index = [],
     aa_max_pending = DEFAULT_MAX_PENDING_APPROVALS, aa_max_ttl = DEFAULT_MAX_TTL\<rparr>"

lemma authority_default_new:
  "authority_new DEFAULT_MAX_PENDING_APPROVALS DEFAULT_MAX_TTL = Inr authority_default"
  by (simp add: authority_new_def authority_default_def DEFAULT_MAX_PENDING_APPROVALS_def
      DEFAULT_MAX_TTL_def MAX_MAX_PENDING_APPROVALS_def MAX_MAX_TTL_def from_secs_def)

section \<open>The authority's invariant\<close>

text \<open>The two maps are inverse to each other, the number of pending requests is bounded
  and so is the lifetime of a request.\<close>

definition authority_ok :: "approval_authority \<Rightarrow> bool" where
  "authority_ok a \<longleftrightarrow> bt_wf (aa_pending a) \<and> bt_wf (aa_operation_index a)
     \<and> (\<forall>i p. bt_get (aa_pending a) i = Some p
          \<longrightarrow> bt_get (aa_operation_index a) (pa_task_id p, pa_operation_id p) = Some i)
     \<and> (\<forall>k i. bt_get (aa_operation_index a) k = Some i
          \<longrightarrow> (\<exists>p. bt_get (aa_pending a) i = Some p \<and> k = (pa_task_id p, pa_operation_id p)))
     \<and> length (aa_pending a) \<le> aa_max_pending a \<and> aa_max_ttl a \<le> MAX_MAX_TTL"

lemma authority_ok_default: "authority_ok authority_default"
  by (simp add: authority_ok_def authority_default_def DEFAULT_MAX_TTL_def MAX_MAX_TTL_def from_secs_def)

lemma authority_new_ok: "authority_new n ttl = Inr a \<Longrightarrow> authority_ok a"
  by (auto simp: authority_new_def authority_ok_def split: if_splits)

lemma authority_remove_eq:
  "authority_remove a i = (r, a') \<Longrightarrow> r = bt_get (aa_pending a) i
     \<and> aa_pending a' = bt_remove i (aa_pending a)
     \<and> aa_max_pending a' = aa_max_pending a \<and> aa_max_ttl a' = aa_max_ttl a"
  by (auto simp: authority_remove_def bt_remove_absent split: option.splits)

lemma authority_ok_pendingD:
  "authority_ok a \<Longrightarrow> bt_get (aa_pending a) i = Some p
   \<Longrightarrow> bt_get (aa_operation_index a) (pa_task_id p, pa_operation_id p) = Some i"
  by (simp add: authority_ok_def)

lemma authority_ok_indexD:
  "authority_ok a \<Longrightarrow> bt_get (aa_operation_index a) k = Some i
   \<Longrightarrow> \<exists>p. bt_get (aa_pending a) i = Some p \<and> k = (pa_task_id p, pa_operation_id p)"
  unfolding authority_ok_def by blast

lemma authority_remove_ok:
  assumes ok: "authority_ok a" shows "authority_ok (snd (authority_remove a i))"
proof (cases "bt_get (aa_pending a) i")
  case (Some p)
  let ?a = "snd (authority_remove a i)"
  have pend: "aa_pending ?a = bt_remove i (aa_pending a)"
    and idx: "aa_operation_index ?a = bt_remove (pa_task_id p, pa_operation_id p) (aa_operation_index a)"
    and cfg: "aa_max_pending ?a = aa_max_pending a" "aa_max_ttl ?a = aa_max_ttl a"
    by (simp_all add: authority_remove_def Some)
  have fwd: "bt_get (aa_operation_index ?a) (pa_task_id q, pa_operation_id q) = Some j"
    if q: "bt_get (aa_pending ?a) j = Some q" for j q
  proof -
    have j: "j \<noteq> i" "bt_get (aa_pending a) j = Some q" using q by (auto simp: pend split: if_splits)
    note kq = authority_ok_pendingD [OF ok j(2)] and kp = authority_ok_pendingD [OF ok Some]
    have "(pa_task_id q, pa_operation_id q) \<noteq> (pa_task_id p, pa_operation_id p)"
    proof
      assume "(pa_task_id q, pa_operation_id q) = (pa_task_id p, pa_operation_id p)"
      with kq kp j(1) show False by simp
    qed
    with kq show ?thesis by (simp add: idx)
  qed
  have bwd: "\<exists>q. bt_get (aa_pending ?a) j = Some q \<and> k = (pa_task_id q, pa_operation_id q)"
    if k: "bt_get (aa_operation_index ?a) k = Some j" for j k
  proof -
    have k': "k \<noteq> (pa_task_id p, pa_operation_id p)" "bt_get (aa_operation_index a) k = Some j"
      using k by (auto simp: idx split: if_splits)
    obtain q where q: "bt_get (aa_pending a) j = Some q" "k = (pa_task_id q, pa_operation_id q)"
      using authority_ok_indexD [OF ok k'(2)] by blast
    have "j \<noteq> i" using q Some k'(1) by auto
    with q show ?thesis by (simp add: pend)
  qed
  have "bt_wf (aa_pending ?a)" "bt_wf (aa_operation_index ?a)"
    using ok by (simp_all add: pend idx authority_ok_def)
  moreover have "length (aa_pending ?a) \<le> aa_max_pending ?a" "aa_max_ttl ?a \<le> MAX_MAX_TTL"
    using ok order_trans [OF bt_length_remove_le] by (auto simp: pend cfg authority_ok_def)
  ultimately show ?thesis using fwd bwd by (auto simp: authority_ok_def)
qed (use ok in \<open>simp add: authority_remove_def\<close>)

text \<open>Inserting a request under a fresh identifier, for an operation without one, keeps
  the maps inverse; both \<open>request\<close> and \<open>grant_restore\<close> insert this way.\<close>

definition authority_insert :: "approval_id \<Rightarrow> pending_approval \<Rightarrow> approval_authority \<Rightarrow> approval_authority" where
  "authority_insert i p a = a\<lparr>
     aa_pending := bt_insert i p (aa_pending a),
     aa_operation_index := bt_insert (pa_task_id p, pa_operation_id p) i (aa_operation_index a)\<rparr>"

lemma authority_insert_ok:
  assumes ok: "authority_ok a" and new: "bt_get (aa_pending a) i = None"
    and key: "bt_get (aa_operation_index a) (pa_task_id p, pa_operation_id p) = None"
    and room: "length (aa_pending a) < aa_max_pending a"
  shows "authority_ok (authority_insert i p a)"
proof -
  let ?a = "authority_insert i p a" and ?k = "(pa_task_id p, pa_operation_id p)"
  have fwd: "bt_get (aa_operation_index ?a) (pa_task_id q, pa_operation_id q) = Some j"
    if q: "bt_get (aa_pending ?a) j = Some q" for j q
  proof (cases "j = i")
    case False
    then have q': "bt_get (aa_pending a) j = Some q" using q by (simp add: authority_insert_def)
    note kq = authority_ok_pendingD [OF ok q']
    then have "(pa_task_id q, pa_operation_id q) \<noteq> ?k" using key by (metis option.distinct(1))
    with kq show ?thesis by (auto simp: authority_insert_def)
  qed (use q in \<open>simp add: authority_insert_def\<close>)
  have bwd: "\<exists>q. bt_get (aa_pending ?a) j = Some q \<and> k = (pa_task_id q, pa_operation_id q)"
    if k: "bt_get (aa_operation_index ?a) k = Some j" for j k
  proof (cases "k = ?k")
    case False
    then have k': "bt_get (aa_operation_index a) k = Some j" using k by (simp add: authority_insert_def)
    obtain q where q: "bt_get (aa_pending a) j = Some q" "k = (pa_task_id q, pa_operation_id q)"
      using authority_ok_indexD [OF ok k'] by blast
    then have "j \<noteq> i" using new by auto
    with q show ?thesis by (simp add: authority_insert_def)
  qed (use k in \<open>auto simp: authority_insert_def\<close>)
  have "bt_wf (aa_pending ?a)" "bt_wf (aa_operation_index ?a)" "aa_max_ttl ?a \<le> MAX_MAX_TTL"
    using ok by (simp_all add: authority_insert_def authority_ok_def)
  moreover have "length (aa_pending ?a) \<le> aa_max_pending ?a"
    using room new ok by (simp add: authority_insert_def bt_length_insert authority_ok_def)
  ultimately show ?thesis using fwd bwd by (auto simp: authority_ok_def)
qed

lemma pending_approval_eta [simp]:
  "\<lparr>pa_task_id = pa_task_id p, pa_operation_id = pa_operation_id p,
    pa_action = pa_action p, pa_deadline = pa_deadline p\<rparr> = p"
  by simp

lemma grant_restore_insert:
  "grant_restore g a = authority_insert (grant_approval_id g)
     \<lparr>pa_task_id = grant_task_id g, pa_operation_id = grant_operation_id g,
      pa_action = grant_action g, pa_deadline = grant_deadline g\<rparr> a"
  by (simp add: grant_restore_def authority_insert_def)

lemma duration_ms_bounded: "ttl \<le> MAX_MAX_TTL \<Longrightarrow> duration_ms ttl = Inr (as_millis ttl)"
proof -
  assume "ttl \<le> MAX_MAX_TTL"
  then have "as_millis ttl \<le> as_millis MAX_MAX_TTL" by (simp add: as_millis_def div_le_mono)
  also have "\<dots> < 2 ^ 64" by (simp add: as_millis_def MAX_MAX_TTL_def from_secs_def)
  finally show ?thesis by (simp add: duration_ms_def u64_try_from_def)
qed

lemma authority_request_cases:
  assumes "authority_ok a" and "authority_request now i a t o' act ttl = (r, a')"
  obtains (err) e where "r = Inl e" "a' = a"
  | (ok) deadline where "instant_checked_add now ttl = Some deadline" "is_valid_action act"
      "from_millis 1 \<le> ttl" "ttl \<le> aa_max_ttl a"
      "bt_get (aa_operation_index a) (t, o') = None" "length (aa_pending a) < aa_max_pending a"
      "a' = authority_insert i \<lparr>pa_task_id = t, pa_operation_id = o', pa_action = act, pa_deadline = deadline\<rparr> a"
      "r = Inr \<lparr>ar_approval_id = i, ar_task_id = t, ar_operation_id = o', ar_action = act,
             ar_expires_after_ms = as_millis ttl\<rparr>"
proof (cases r)
  case (Inl e)
  have "duration_ms ttl = Inr (as_millis ttl)" if "ttl \<le> aa_max_ttl a"
    using that assms(1) duration_ms_bounded [of ttl] by (simp add: authority_ok_def)
  with assms(2) Inl have "a' = a"
    by (auto simp: authority_request_def Let_def split: if_splits option.splits)
  with Inl err show ?thesis by blast
next
  case (Inr q)
  with assms(2) have g: "is_valid_action act" "from_millis 1 \<le> ttl" "ttl \<le> aa_max_ttl a"
      "bt_get (aa_operation_index a) (t, o') = None" "length (aa_pending a) < aa_max_pending a"
    by (auto simp: authority_request_def bt_contains_def split: if_splits)
  then have d: "duration_ms ttl = Inr (as_millis ttl)"
    using assms(1) duration_ms_bounded [of ttl] by (simp add: authority_ok_def)
  from g assms(2) Inr obtain dl where dl: "instant_checked_add now ttl = Some dl"
    by (auto simp: authority_request_def bt_contains_def split: if_splits option.splits)
  with g d assms(2) have "a' = authority_insert i
      \<lparr>pa_task_id = t, pa_operation_id = o', pa_action = act, pa_deadline = dl\<rparr> a"
    "r = Inr \<lparr>ar_approval_id = i, ar_task_id = t, ar_operation_id = o', ar_action = act,
             ar_expires_after_ms = as_millis ttl\<rparr>"
    by (auto simp: authority_request_def authority_insert_def bt_contains_def domIff)
  with g dl ok show ?thesis by blast
qed

lemma authority_request_ok:
  assumes "authority_ok a" and "bt_get (aa_pending a) i = None"
    and "authority_request now i a t o' act ttl = (r, a')"
  shows "authority_ok a'"
  using assms(1,3)
proof (cases rule: authority_request_cases)
  case (ok deadline)
  then show ?thesis using authority_insert_ok [OF assms(1,2)] by simp
qed (use assms in simp)

lemma authority_approve_cases:
  assumes "authority_approve now a i = (r, a')"
  obtains (missing) "bt_get (aa_pending a) i = None" "r = Inl NotFound" "a' = a"
  | (late) p where "bt_get (aa_pending a) i = Some p" "pa_deadline p \<le> now" "r = Inl Expired" "a' = a"
  | (granted) p where "bt_get (aa_pending a) i = Some p" "now < pa_deadline p"
      "r = Inr \<lparr>grant_approval_id = i, grant_task_id = pa_task_id p,
                 grant_operation_id = pa_operation_id p, grant_action = pa_action p,
                 grant_deadline = pa_deadline p\<rparr>"
      "a' = snd (authority_remove a i)"
  using assms
  by (cases "bt_get (aa_pending a) i")
    (auto simp: authority_approve_def authority_remove_def split: if_splits)

lemma authority_deny_cases:
  assumes "authority_deny now a i = (r, a')"
  obtains (missing) "bt_get (aa_pending a) i = None" "r = Inl NotFound" "a' = a"
  | (late) p where "bt_get (aa_pending a) i = Some p" "pa_deadline p \<le> now" "r = Inl Expired" "a' = a"
  | (denied) p where "bt_get (aa_pending a) i = Some p" "now < pa_deadline p" "r = Inr ()"
      "a' = snd (authority_remove a i)"
  using assms
  by (cases "bt_get (aa_pending a) i")
    (auto simp: authority_deny_def authority_remove_def split: if_splits)

lemma authority_approve_ok: "authority_ok a \<Longrightarrow> authority_approve now a i = (r, a') \<Longrightarrow> authority_ok a'"
  by (elim authority_approve_cases) (auto simp: authority_remove_ok)

lemma authority_deny_ok: "authority_ok a \<Longrightarrow> authority_deny now a i = (r, a') \<Longrightarrow> authority_ok a'"
  by (elim authority_deny_cases) (auto simp: authority_remove_ok)

lemma authority_revoke_eq:
  "authority_revoke a i = (bt_get (aa_pending a) i \<noteq> None, snd (authority_remove a i))"
  by (cases "authority_remove a i") (auto simp: authority_revoke_def dest!: authority_remove_eq)

lemma bt_insert_remove: "bt_wf m \<Longrightarrow> bt_get m k = Some v \<Longrightarrow> bt_insert k v (bt_remove k m) = m"
  by (rule bt_wf_eqI) auto

lemma restore_after_remove:
  assumes "authority_ok a" and "bt_get (aa_pending a) i = Some p"
  shows "authority_insert i p (snd (authority_remove a i)) = a"
  using assms authority_ok_pendingD [OF assms]
  by (simp add: authority_remove_def authority_insert_def bt_insert_remove authority_ok_def)

lemma remove_after_insert:
  assumes "authority_ok a" and "bt_get (aa_pending a) i = None"
    and "bt_get (aa_operation_index a) (pa_task_id p, pa_operation_id p) = None"
  shows "snd (authority_remove (authority_insert i p a) i) = a"
proof -
  have wf: "bt_wf (aa_pending a)" "bt_wf (aa_operation_index a)" using assms by (auto simp: authority_ok_def)
  then have "bt_remove i (bt_insert i p (aa_pending a)) = aa_pending a"
    "bt_remove (pa_task_id p, pa_operation_id p)
       (bt_insert (pa_task_id p, pa_operation_id p) i (aa_operation_index a)) = aa_operation_index a"
    using assms by (auto intro!: bt_wf_eqI)
  then show ?thesis by (simp add: authority_remove_def authority_insert_def)
qed

lemma fold_remove_ok:
  "authority_ok a \<Longrightarrow> authority_ok (fold (\<lambda>i a. snd (authority_remove a i)) is a)"
  by (induction "is" arbitrary: a) (auto simp: authority_remove_ok)

lemma fold_remove_pending:
  "bt_get (aa_pending (fold (\<lambda>i a. snd (authority_remove a i)) is a)) j
     = (if j \<in> set is then None else bt_get (aa_pending a) j)"
proof (induction "is" arbitrary: a)
  case (Cons i "is")
  have "aa_pending (snd (authority_remove a i)) = bt_remove i (aa_pending a)"
    by (cases "authority_remove a i") (auto dest: authority_remove_eq)
  with Cons.IH [of "snd (authority_remove a i)"] show ?case by auto
qed simp

lemma expired_ids_iff:
  "authority_ok a \<Longrightarrow> i \<in> set (expired_ids now a)
     \<longleftrightarrow> (\<exists>p. bt_get (aa_pending a) i = Some p \<and> pa_deadline p \<le> now)"
  by (auto simp: expired_ids_def authority_ok_def List.map_filter_def bt_mem_get image_iff split: if_splits prod.splits)

lemma purge_expired_fold:
  "purge_expired now a = fold (\<lambda>i a. snd (authority_remove a i)) (expired_ids now a) a"
  by (simp add: purge_expired_def expired_ids_def)

section \<open>Properties\<close>

text \<open>A grant is one-time and exactly scoped. When \<open>approve\<close> succeeds, the request was
  pending and unexpired; the grant authorizes precisely the requested task, operation
  and action, before the deadline, and nothing else; the request is gone, so approving
  or denying it again is \<open>NotFound\<close>; and restoring the unused grant gives back the
  authority as it was.\<close>

theorem approval_one_time:
  assumes "authority_ok a" and "authority_approve now a i = (Inr g, a')"
  shows "\<exists>p. bt_get (aa_pending a) i = Some p \<and> now < pa_deadline p
     \<and> (\<forall>later t o' act. is_ok (grant_authorize later g t o' act) \<longleftrightarrow>
          later < pa_deadline p \<and> t = pa_task_id p \<and> o' = pa_operation_id p \<and> act = pa_action p)
     \<and> (\<forall>later. authority_approve later a' i = (Inl NotFound, a')
          \<and> authority_deny later a' i = (Inl NotFound, a'))
     \<and> authority_ok a' \<and> grant_restore g a' = a"
  using assms(2)
proof (cases rule: authority_approve_cases)
  case (granted p)
  have gone: "bt_get (aa_pending a') i = None"
    using granted by (simp add: authority_remove_def)
  have "is_ok (grant_authorize later g t o' act) \<longleftrightarrow>
          later < pa_deadline p \<and> t = pa_task_id p \<and> o' = pa_operation_id p \<and> act = pa_action p"
    for later t o' act
    using granted by (auto simp: grant_authorize_def)
  moreover have "grant_restore g a' = a"
    using granted restore_after_remove [OF assms(1) granted(1)] by (simp add: grant_restore_insert)
  ultimately show ?thesis
    using granted gone authority_approve_ok [OF assms]
    by (auto simp: authority_approve_def authority_deny_def)
qed auto

definition sample_pending :: pending_approval where
  "sample_pending = \<lparr>pa_task_id = TaskId 1, pa_operation_id = OperationId 2, pa_action = ''tool.run'', pa_deadline = 50\<rparr>"

definition sample_authority :: approval_authority where
  "sample_authority = authority_insert (ApprovalId 3) sample_pending authority_default"

lemma sample_authority_ok: "authority_ok sample_authority"
  unfolding sample_authority_def
  by (rule authority_insert_ok [OF authority_ok_default])
    (simp_all add: authority_default_def DEFAULT_MAX_PENDING_APPROVALS_def)

theorem approval_one_time_witness:
  "\<exists>g a'. authority_approve 10 sample_authority (ApprovalId 3) = (Inr g, a')
     \<and> is_ok (grant_authorize 20 g (TaskId 1) (OperationId 2) ''tool.run'')
     \<and> \<not> is_ok (grant_authorize 60 g (TaskId 1) (OperationId 2) ''tool.run'')
     \<and> grant_restore g a' = sample_authority"
proof -
  have p: "bt_get (aa_pending sample_authority) (ApprovalId 3) = Some sample_pending"
    by (simp add: sample_authority_def authority_insert_def)
  then obtain g a' where ap: "authority_approve 10 sample_authority (ApprovalId 3) = (Inr g, a')"
    by (simp add: authority_approve_def authority_remove_def sample_pending_def)
  note one = approval_one_time [OF sample_authority_ok ap, unfolded p, simplified sample_pending_def, simplified]
  have "is_ok (grant_authorize 20 g (TaskId 1) (OperationId 2) ''tool.run'')"
    "\<not> is_ok (grant_authorize 60 g (TaskId 1) (OperationId 2) ''tool.run'')"
    using one by simp_all
  with one ap show ?thesis by blast
qed

text \<open>A registered request is exclusive, expiring and recoverable. From a well-formed
  authority and with a fresh identifier, a successful \<open>request\<close> stays within the
  configured bound, blocks a second request for the same operation, becomes a grant
  that authorizes exactly that operation when approved before the deadline (leaving the
  authority as it was before the request), and is \<open>Expired\<close> from the deadline on.\<close>

theorem approval_request_lifecycle:
  assumes "authority_ok a" and "bt_get (aa_pending a) i = None"
    and "authority_request now i a t o' act ttl = (Inr q, a')"
  shows "authority_ok a' \<and> length (aa_pending a') = Suc (length (aa_pending a))
     \<and> length (aa_pending a') \<le> aa_max_pending a'
     \<and> (\<forall>later j ttl'. from_millis 1 \<le> ttl' \<and> ttl' \<le> aa_max_ttl a \<longrightarrow>
          authority_request later j a' t o' act ttl' = (Inl DuplicateOperation, a'))
     \<and> (\<forall>later. if later < now + ttl
          then \<exists>g. authority_approve later a' i = (Inr g, a)
                 \<and> grant_authorize later g t o' act = Inr \<lparr>receipt_approval_id = ar_approval_id q\<rparr>
          else authority_approve later a' i = (Inl Expired, a'))"
  using assms(1,3)
proof (cases rule: authority_request_cases)
  case (ok deadline)
  let ?p = "\<lparr>pa_task_id = t, pa_operation_id = o', pa_action = act, pa_deadline = deadline\<rparr>"
  have dl: "deadline = now + ttl" using ok(1) by (simp add: instant_checked_add_def split: if_splits)
  have ok': "authority_ok a'" using authority_request_ok [OF assms] .
  have len: "length (aa_pending a') = Suc (length (aa_pending a))"
    using ok(7) assms(1,2) by (simp add: authority_insert_def bt_length_insert authority_ok_def)
  have dup: "authority_request later j a' t o' act ttl' = (Inl DuplicateOperation, a')"
    if "from_millis 1 \<le> ttl'" "ttl' \<le> aa_max_ttl a" for later j ttl'
    using that ok by (simp add: authority_request_def authority_insert_def)
  have get: "bt_get (aa_pending a') i = Some ?p" using ok(7) by (simp add: authority_insert_def)
  have rem: "snd (authority_remove a' i) = a"
    using remove_after_insert [OF assms(1,2), of ?p] ok by simp
  have app: "if later < now + ttl
          then \<exists>g. authority_approve later a' i = (Inr g, a)
                 \<and> grant_authorize later g t o' act = Inr \<lparr>receipt_approval_id = ar_approval_id q\<rparr>
          else authority_approve later a' i = (Inl Expired, a')" for later
  proof -
    obtain r b where ap: "authority_approve later a' i = (r, b)" by fastforce
    then show ?thesis
    proof (cases rule: authority_approve_cases)
      case (granted p)
      then have "p = ?p" "b = a" using get rem by auto
      with granted ap dl ok show ?thesis by (auto simp: grant_authorize_def)
    qed (use get dl ap in auto)
  qed
  show ?thesis using ok' len dup app by (auto simp: authority_ok_def)
qed simp

theorem approval_request_lifecycle_witness:
  "\<exists>q a'. authority_request 5 (ApprovalId 9) authority_default (TaskId 1) (OperationId 2) ''tool.run'' (from_secs 60)
       = (Inr q, a') \<and> authority_ok a'
     \<and> authority_approve (5 + from_secs 60) a' (ApprovalId 9) = (Inl Expired, a')"
proof -
  obtain q a' where r: "authority_request 5 (ApprovalId 9) authority_default (TaskId 1) (OperationId 2)
      ''tool.run'' (from_secs 60) = (Inr q, a')"
    by (simp add: authority_request_def authority_default_def is_valid_action_def ascii_defs from_secs_def
        from_millis_def DEFAULT_MAX_TTL_def DEFAULT_MAX_PENDING_APPROVALS_def APPROVAL_MAX_ACTION_BYTES_def
        instant_checked_add_def duration_ms_def u64_try_from_def as_millis_def)
  have f: "bt_get (aa_pending authority_default) (ApprovalId 9) = None" by (simp add: authority_default_def)
  show ?thesis
    using approval_request_lifecycle [OF authority_ok_default f r] r by (auto dest: spec [of _ "5 + from_secs 60"])
qed

text \<open>Counting pending requests purges exactly the expired ones. The requests left are
  those whose deadline is after the clock reading, unchanged, and the count is their
  number.\<close>

theorem pending_count_purges:
  assumes "authority_ok a" and "pending_count now a = (n, a')"
  shows "authority_ok a' \<and> n = length (aa_pending a')
     \<and> (\<forall>i. bt_get (aa_pending a') i =
          (case bt_get (aa_pending a) i of None \<Rightarrow> None
           | Some p \<Rightarrow> if now < pa_deadline p then Some p else None))"
proof -
  have a': "a' = purge_expired now a" "n = length (aa_pending a')"
    using assms(2) by (auto simp: pending_count_def Let_def)
  have "bt_get (aa_pending a') i = (case bt_get (aa_pending a) i of None \<Rightarrow> None
           | Some p \<Rightarrow> if now < pa_deadline p then Some p else None)" for i
    using expired_ids_iff [OF assms(1), of i now]
    by (auto simp: a'(1) purge_expired_fold fold_remove_pending split: option.splits)
  with a' show ?thesis by (simp add: purge_expired_fold fold_remove_ok assms(1))
qed

theorem pending_count_purges_witness:
  "\<exists>n a'. pending_count 50 sample_authority = (n, a') \<and> authority_ok a'
     \<and> bt_get (aa_pending a') (ApprovalId 3) = None"
proof -
  obtain n a' where c: "pending_count 50 sample_authority = (n, a')" by fastforce
  from pending_count_purges [OF sample_authority_ok c] c show ?thesis
    by (auto simp: sample_authority_def authority_insert_def sample_pending_def)
qed

end
