(* ===== verification/Recovery.thy ===== *)
theory Recovery
  imports Event_Store
begin

text \<open>
  \<open>recover_snapshot\<close> of \<open>aios-storage-sqlite/src/lib.rs\<close>: the state of a task is
  rebuilt by replaying its audit events. \<open>recover_kind\<close> is the body of the loop for one
  event, \<open>recover_loop\<close> the loop with its sequence check. \<open>replay\<close> is the same fold over
  the event kinds alone; on a well-numbered log the two agree, and \<open>replay\<close> is what the
  supervisor's invariant speaks about.
\<close>

record task_snapshot =
  snap_task_id :: task_id
  snap_state :: task_state

definition recover_kind ::
  "task_state option \<Rightarrow> bool \<Rightarrow> event_kind \<Rightarrow> (task_state option \<times> bool) option" where
  "recover_kind state pending_failure kind =
     (if pending_failure then
        (case kind of
           StateTransitioned from to \<Rightarrow>
             if state = Some from \<and> to = Failed then Some (Some to, False) else None
         | _ \<Rightarrow> None)
      else
        (case kind of
           EvSubmitted \<Rightarrow> if state = None then Some (Some Submitted, False) else None
         | StateTransitioned from to \<Rightarrow>
             if state = Some from \<and> can_transition_to from to then Some (Some to, False) else None
         | ValidationFailed _ \<Rightarrow> if state = Some Validating then Some (state, False) else None
         | TaskFailed _ \<Rightarrow>
             (case state of
                Some current \<Rightarrow> if \<not> is_terminal current then Some (state, True) else None
              | None \<Rightarrow> None)
         | OperationAllowed \<Rightarrow> if state = Some Running then Some (state, False) else None
         | OperationDenied _ \<Rightarrow> if state = Some Running then Some (state, False) else None
         | ApprovalRequested _ _ \<Rightarrow> if state = Some Running then Some (state, False) else None
         | ApprovalGranted _ _ \<Rightarrow> if state = Some WaitingApproval then Some (state, False) else None
         | ApprovalDenied _ _ \<Rightarrow> if state = Some WaitingApproval then Some (state, False) else None
         | ApprovalExpired _ _ \<Rightarrow> if state = Some WaitingApproval then Some (state, False) else None
         | ApprovalRevoked _ _ \<Rightarrow>
             if state = Some Running \<or> state = Some WaitingApproval then Some (state, False) else None
         | ApprovalConsumed _ _ \<Rightarrow> if state = Some Running then Some (state, False) else None))"

fun recover_loop ::
  "task_state option \<Rightarrow> nat \<Rightarrow> bool \<Rightarrow> task_event list
   \<Rightarrow> event_store_error + (task_state option \<times> bool)" where
  "recover_loop state expected pending_failure [] = Inr (state, pending_failure)"
| "recover_loop state expected pending_failure (event # events) =
     (if ev_sequence event \<noteq> expected then Inl Corrupt
      else case checked_add expected 1 of
             None \<Rightarrow> Inl SequenceExhausted
           | Some expected' \<Rightarrow>
               (case recover_kind state pending_failure (ev_kind event) of
                  None \<Rightarrow> Inl Corrupt
                | Some (state', pending') \<Rightarrow> recover_loop state' expected' pending' events))"

definition recover_snapshot :: "task_id \<Rightarrow> task_event list \<Rightarrow> event_store_error + task_snapshot" where
  "recover_snapshot task_id events =
     (case recover_loop None 1 False events of
        Inl e \<Rightarrow> Inl e
      | Inr (state, pending_failure) \<Rightarrow>
          if pending_failure then Inl Corrupt
          else (case state of
                  None \<Rightarrow> Inl Corrupt
                | Some s \<Rightarrow> Inr \<lparr>snap_task_id = task_id, snap_state = s\<rparr>))"

section \<open>Replay of event kinds\<close>

fun replay :: "task_state option \<times> bool \<Rightarrow> event_kind list \<Rightarrow> (task_state option \<times> bool) option" where
  "replay p [] = Some p"
| "replay p (k # ks) =
     (case recover_kind (fst p) (snd p) k of None \<Rightarrow> None | Some q \<Rightarrow> replay q ks)"

lemma replay_append:
  "replay p (xs @ ys) = (case replay p xs of None \<Rightarrow> None | Some q \<Rightarrow> replay q ys)"
  by (induction p xs rule: replay.induct) (auto split: option.splits)

text \<open>A log that replays to the settled state \<open>st\<close>.\<close>

definition replays_to :: "event_kind list \<Rightarrow> task_state \<Rightarrow> bool" where
  "replays_to ks st \<longleftrightarrow> replay (None, False) ks = Some (Some st, False)"

lemma replays_to_append:
  "replays_to ks st \<Longrightarrow> replay (Some st, False) ks' = Some (Some st', False) \<Longrightarrow> replays_to (ks @ ks') st'"
  by (simp add: replays_to_def replay_append)

lemma replays_to_unique: "replays_to ks st \<Longrightarrow> replays_to ks st' \<Longrightarrow> st = st'"
  by (simp add: replays_to_def)

lemma replay_revocations:
  assumes "st \<in> {Running, WaitingApproval}" and "\<forall>k \<in> set ks. \<exists>a p. k = ApprovalRevoked a p"
  shows "replay (Some st, False) (ks @ ks') = replay (Some st, False) ks'"
  using assms(2)
proof (induction ks)
  case (Cons k ks)
  then obtain a p where "k = ApprovalRevoked a p" by auto
  with Cons assms(1) show ?case by (auto simp: recover_kind_def)
qed simp

lemma replay_transition:
  "can_transition_to st st' \<Longrightarrow> replay (Some st, False) [StateTransitioned st st'] = Some (Some st', False)"
  by (simp add: recover_kind_def)

lemma recover_loop_replay:
  assumes "map ev_sequence events = [n..<n + length events]" and "n + length events < 2 ^ 64"
  shows "recover_loop st n pf events =
           (case replay (st, pf) (map ev_kind events) of None \<Rightarrow> Inl Corrupt | Some q \<Rightarrow> Inr q)"
  using assms
proof (induction events arbitrary: st n pf)
  case (Cons e events)
  then have "ev_sequence e = n" "map ev_sequence events = [Suc n..<Suc n + length events]"
    by (auto simp: upt_conv_Cons simp del: upt_Suc)
  with Cons show ?case
    by (auto simp: checked_add_def split: option.splits)
qed simp

lemma recover_snapshot_replay:
  assumes "log_wf t events" and "length events < 2 ^ 64 - 1"
  shows "recover_snapshot t events =
     (case replay (None, False) (map ev_kind events) of
        Some (Some st, False) \<Rightarrow> Inr \<lparr>snap_task_id = t, snap_state = st\<rparr>
      | _ \<Rightarrow> Inl Corrupt)"
proof -
  have "map ev_sequence events = [1..<1 + length events]" using assms by (simp add: log_wf_def)
  from recover_loop_replay [OF this] assms(2) show ?thesis
    by (auto simp: recover_snapshot_def split: option.splits prod.splits bool.splits)
qed

lemma replays_to_recover:
  "log_wf t events \<Longrightarrow> length events < 2 ^ 64 - 1 \<Longrightarrow> replays_to (map ev_kind events) st
   \<Longrightarrow> recover_snapshot t events = Inr \<lparr>snap_task_id = t, snap_state = st\<rparr>"
  by (simp add: recover_snapshot_replay replays_to_def)

lemma recover_loop_InrD:
  "recover_loop s n pf es = Inr q
   \<Longrightarrow> map ev_sequence es = [n..<n + length es] \<and> replay (s, pf) (map ev_kind es) = Some q"
proof (induction s n pf es rule: recover_loop.induct)
  case (2 s n pf e es)
  then show ?case
    by (auto split: if_splits option.splits simp: upt_conv_Cons simp del: upt_Suc)
qed simp

lemma recover_snapshot_InrD:
  assumes "recover_snapshot t events = Inr snapshot"
  shows "map ev_sequence events = [1..<Suc (length events)] \<and> snap_task_id snapshot = t
     \<and> replays_to (map ev_kind events) (snap_state snapshot)"
proof -
  from assms obtain st where l: "recover_loop None 1 False events = Inr (Some st, False)"
    and snap: "snapshot = \<lparr>snap_task_id = t, snap_state = st\<rparr>"
    by (auto simp: recover_snapshot_def split: sum.splits prod.splits if_splits option.splits)
  from recover_loop_InrD [OF l] snap show ?thesis by (simp add: replays_to_def del: upt_Suc)
qed

section \<open>The interface of a recoverable store\<close>

text \<open>\<open>RecoverableEventStore\<close> of \<open>event.rs\<close>: an event store that can also replay every
  task it holds.\<close>

locale recoverable_event_store = event_store append listing log store_ok
  for append :: "('w, 's) append_fn" and listing log store_ok +
  fixes snapshots :: "'s \<Rightarrow> event_store_error + task_snapshot list"
  assumes snapshots_ok: "store_ok s \<Longrightarrow> snapshots s = Inr snaps \<Longrightarrow>
      distinct (map snap_task_id snaps) \<and> snap_task_id ` set snaps = {t. log s t \<noteq> []}
      \<and> (\<forall>snap \<in> set snaps. recover_snapshot (snap_task_id snap) (log s (snap_task_id snap)) = Inr snap)"
begin

lemma snapshots_replay:
  assumes "store_ok s" and "snapshots s = Inr snaps"
  shows "distinct (map snap_task_id snaps)"
    and "t \<notin> snap_task_id ` set snaps \<longleftrightarrow> log s t = []"
    and "snap \<in> set snaps \<Longrightarrow> replays_to (map ev_kind (log s (snap_task_id snap))) (snap_state snap)"
  using snapshots_ok [OF assms] recover_snapshot_InrD by blast+

end

section \<open>Recovery accepts lifecycle histories only\<close>

text \<open>The states a list of kinds moves through, by its \<open>StateTransitioned\<close> entries.\<close>

fun transitions :: "event_kind list \<Rightarrow> (task_state \<times> task_state) list" where
  "transitions [] = []"
| "transitions (StateTransitioned f t # ks) = (f, t) # transitions ks"
| "transitions (_ # ks) = transitions ks"

text \<open>A path in the lifecycle graph, where the failure of a non-terminal state announced
  by \<open>TaskFailed\<close> is the one extra edge.\<close>

fun lifecycle_path :: "task_state \<Rightarrow> (task_state \<times> task_state) list \<Rightarrow> task_state \<Rightarrow> bool" where
  "lifecycle_path s [] t = (s = t)"
| "lifecycle_path s ((f, n) # es) t =
     (f = s \<and> (can_transition_to f n \<or> \<not> is_terminal f \<and> n = Failed) \<and> lifecycle_path n es t)"

lemma recover_kind_steps:
  assumes "recover_kind (Some s) pf k = Some (st, pf')" and "pf \<longrightarrow> \<not> is_terminal s"
  shows "\<exists>s'. st = Some s' \<and> lifecycle_path s (transitions [k]) s' \<and> (pf' \<longrightarrow> \<not> is_terminal s')"
  using assms by (cases k; cases pf) (auto simp: recover_kind_def split: if_splits)

lemma transitions_Cons: "transitions (k # ks) = transitions [k] @ transitions ks"
  by (cases k) auto

lemma lifecycle_path_append:
  "lifecycle_path s (es @ fs) t \<longleftrightarrow> (\<exists>u. lifecycle_path s es u \<and> lifecycle_path u fs t)"
  by (induction s es t rule: lifecycle_path.induct) auto

lemma replay_lifecycle:
  "replay (Some s, pf) ks = Some (st, pf') \<Longrightarrow> pf \<longrightarrow> \<not> is_terminal s
   \<Longrightarrow> \<exists>s'. st = Some s' \<and> lifecycle_path s (transitions ks) s'"
proof (induction ks arbitrary: s pf)
  case (Cons k ks)
  from Cons.prems obtain q where q: "recover_kind (Some s) pf k = Some q" "replay q ks = Some (st, pf')"
    by (auto split: option.splits)
  obtain st1 pf1 where q1: "q = (st1, pf1)" by (cases q)
  with q recover_kind_steps [of s pf k] Cons.prems obtain s1 where
    s1: "st1 = Some s1" "lifecycle_path s (transitions [k]) s1" "pf1 \<longrightarrow> \<not> is_terminal s1"
    by auto
  with Cons.IH [of s1 pf1] q q1 obtain s' where "st = Some s'" "lifecycle_path s1 (transitions ks) s'"
    by auto
  with s1 show ?case
    by (subst transitions_Cons) (auto simp: lifecycle_path_append)
qed simp

text \<open>C23: recovery trusts no impossible history. If \<open>recover_snapshot\<close> accepts an event
  list, the events are numbered 1, 2, 3, ... without a gap, the first one is the
  submission, and their \<open>StateTransitioned\<close> entries form an unbroken path of the task
  lifecycle from \<open>Submitted\<close> to the recovered state, whose only additional edge is the
  announced failure of a non-terminal task.\<close>

theorem recover_snapshot_sound:
  assumes "recover_snapshot t events = Inr snapshot"
  shows "map ev_sequence events = [1..<Suc (length events)] \<and> snap_task_id snapshot = t
     \<and> (\<exists>rest. map ev_kind events = EvSubmitted # rest
          \<and> lifecycle_path Submitted (transitions rest) (snap_state snapshot))"
proof -
  obtain st where st: "snap_state snapshot = st" by blast
  from recover_snapshot_InrD [OF assms] have seq: "map ev_sequence events = [1..<Suc (length events)]"
    and snap: "snap_task_id snapshot = t"
    and r: "replay (None, False) (map ev_kind events) = Some (Some st, False)"
    by (auto simp: replays_to_def st simp del: upt_Suc)
  from r obtain k rest where k: "map ev_kind events = k # rest"
    by (cases "map ev_kind events") auto
  with r have "k = EvSubmitted" and "replay (Some Submitted, False) rest = Some (Some st, False)"
    by (cases k; auto simp: recover_kind_def split: if_splits)+
  with replay_lifecycle [of Submitted False rest] k seq snap st show ?thesis by auto
qed

definition sample_events :: "task_event list" where
  "sample_events = map (\<lambda>(i, k). \<lparr>ev_task_id = TaskId 9, ev_sequence = i, ev_occurred_at_unix_ms = 0, ev_kind = k\<rparr>)
     [(1, EvSubmitted), (2, StateTransitioned Submitted Validating), (3, StateTransitioned Validating Queued),
      (4, TaskFailed RuntimeRestarted), (5, StateTransitioned Queued Failed)]"

theorem recover_snapshot_sound_witness:
  "map ev_sequence sample_events = [1..<Suc (length sample_events)]
     \<and> snap_task_id \<lparr>snap_task_id = TaskId 9, snap_state = Failed\<rparr> = TaskId 9
     \<and> (\<exists>rest. map ev_kind sample_events = EvSubmitted # rest
          \<and> lifecycle_path Submitted (transitions rest) Failed)"
  using recover_snapshot_sound [of "TaskId 9" sample_events "\<lparr>snap_task_id = TaskId 9, snap_state = Failed\<rparr>"]
  by (simp add: sample_events_def recover_snapshot_def recover_kind_def checked_add_def can_transition_targets)

end
