(* ===== verification/Supervisor.thy ===== *)
theory Supervisor
  imports Approval Recovery
begin

text \<open>
  \<open>aios-runtime/src/supervisor.rs\<close>: the task supervisor, every operation of
  \<open>TaskSupervisor\<close>. The state is the record \<open>supervisor\<close>, polymorphic in the state of
  the event store; the store's \<open>append_batch\<close>, \<open>list\<close> and \<open>recover_task_snapshots\<close> are
  arguments, as the \<open>S: EventStore\<close> parameter is in the code. Every operation returns its
  result with the new state, also on an error, since the code keeps what it changed
  before the error. Clock readings (\<open>now\<close>), generated identifiers and the outside input
  of each append (\<open>w\<close>, or \<open>ws i\<close> for the \<open>i\<close>-th append of a loop) are arguments.
  \<open>Panicked\<close> stands for the \<open>expect\<close> on \<open>CapabilityPolicy::from_task\<close>.
\<close>

definition DEFAULT_MAX_TASKS :: nat where "DEFAULT_MAX_TASKS = 10000"

section \<open>Data\<close>

record task_record =
  tr_spec :: task_spec
  tr_state :: task_state
  tr_started_at :: "instant option"

datatype owned_capability_request =
  OwnedFile string file_access
  | OwnedNetwork string network_transport u16
  | OwnedTool string string

definition from_borrowed :: "capability_request \<Rightarrow> owned_capability_request" where
  "from_borrowed request =
     (case request of
        FileRequest path access \<Rightarrow> OwnedFile path access
      | NetworkRequest host transport port \<Rightarrow> OwnedNetwork host transport port
      | ToolRequest tool action \<Rightarrow> OwnedTool tool action)"

definition as_borrowed :: "owned_capability_request \<Rightarrow> capability_request" where
  "as_borrowed owned =
     (case owned of
        OwnedFile path access \<Rightarrow> FileRequest path access
      | OwnedNetwork host transport port \<Rightarrow> NetworkRequest host transport port
      | OwnedTool tool action \<Rightarrow> ToolRequest tool action)"

definition owned_action :: "owned_capability_request \<Rightarrow> string" where
  "owned_action owned =
     (case owned of
        OwnedFile path access \<Rightarrow>
          (case access of Read \<Rightarrow> ''filesystem.read'' | Write \<Rightarrow> ''filesystem.write'')
      | OwnedNetwork host transport port \<Rightarrow> ''network.egress''
      | OwnedTool tool action \<Rightarrow> action)"

record pending_operation =
  po_task_id :: task_id
  po_operation_id :: operation_id
  po_request :: owned_capability_request

record approved_operation =
  ao_task_id :: task_id
  ao_request :: owned_capability_request
  ao_grant :: approval_grant

record task_execution_input =
  tei_goal :: string
  tei_capability_tools :: "string list"
  tei_network_destinations :: "network_destination list"

record task_execution_context =
  tec_task_id :: task_id
  tec_budget :: budget
  tec_filesystem_capabilities :: "file_capability list"
  tec_started_at :: instant

definition remaining_wall_time :: "instant \<Rightarrow> task_execution_context \<Rightarrow> duration" where
  "remaining_wall_time now ctx =
     from_secs (unat (wall_time_seconds (tec_budget ctx))) - elapsed (tec_started_at ctx) now"

datatype submit_result =
  Accepted task_snapshot | Existing task_snapshot | RejectedTask task_snapshot validation_errors

datatype operation_authorization =
  OpAllowed | OpDenied denial_reason | OpApprovalRequired approval_request

datatype supervisor_error =
  TaskNotFound | TaskNotRunning | IdempotencyConflict | CapacityExceeded
  | InvalidStateTransition state_transition_error
  | EventStoreFailed event_store_error | ApprovalFailed approval_error
  | Panicked

record 's supervisor =
  sup_tasks :: "(task_id, task_record) btree"
  sup_recovered :: "(task_id, task_state) btree"
  sup_idempotency_index :: "(string, task_id) btree"
  sup_event_store :: 's
  sup_authority :: approval_authority
  sup_pending :: "(approval_id, pending_operation) btree"
  sup_approved :: "(operation_id, approved_operation) btree"
  sup_max_tasks :: nat

type_synonym ('s, 'a) sup_result = "(supervisor_error + 'a) \<times> 's supervisor"

section \<open>Construction\<close>

definition supervisor_new :: "'s \<Rightarrow> 's supervisor" where
  "supervisor_new store = \<lparr>sup_tasks = [], sup_recovered = [], sup_idempotency_index = [],
     sup_event_store = store, sup_authority = authority_default, sup_pending = [],
     sup_approved = [], sup_max_tasks = DEFAULT_MAX_TASKS\<rparr>"

definition with_max_tasks :: "'s \<Rightarrow> nat \<Rightarrow> supervisor_error + 's supervisor" where
  "with_max_tasks store max_tasks =
     (if max_tasks = 0 then Inl CapacityExceeded
      else Inr \<lparr>sup_tasks = [], sup_recovered = [], sup_idempotency_index = [],
        sup_event_store = store, sup_authority = authority_default, sup_pending = [],
        sup_approved = [], sup_max_tasks = max_tasks\<rparr>)"

definition supervisor_default :: "in_memory_store supervisor" where
  "supervisor_default = supervisor_new in_memory_default"

section \<open>Shared steps\<close>

text \<open>\<open>self.event_store.append_batch(task_id, kinds)?\<close>\<close>

definition store_append ::
  "('w, 's) append_fn \<Rightarrow> 'w \<Rightarrow> 's supervisor \<Rightarrow> task_id \<Rightarrow> event_kind list \<Rightarrow> ('s, unit) sup_result" where
  "store_append append_batch w s task_id kinds =
     (case append_batch w (sup_event_store s) task_id kinds of
        (Inl e, es) \<Rightarrow> (Inl (EventStoreFailed e), s\<lparr>sup_event_store := es\<rparr>)
      | (Inr _, es) \<Rightarrow> (Inr (), s\<lparr>sup_event_store := es\<rparr>))"

text \<open>\<open>self.tasks.get_mut(&task_id).ok_or(TaskNotFound)?.state = state\<close>\<close>

definition set_task_state :: "'s supervisor \<Rightarrow> task_id \<Rightarrow> task_state \<Rightarrow> ('s, unit) sup_result" where
  "set_task_state s task_id state =
     (case bt_get (sup_tasks s) task_id of
        None \<Rightarrow> (Inl TaskNotFound, s)
      | Some record \<Rightarrow>
          (Inr (), s\<lparr>sup_tasks := bt_modify task_id (\<lambda>r. r\<lparr>tr_state := state\<rparr>) (sup_tasks s)\<rparr>))"

definition sup_task_state :: "'s supervisor \<Rightarrow> task_id \<Rightarrow> task_state option" where
  "sup_task_state s task_id =
     (case bt_get (sup_tasks s) task_id of
        Some record \<Rightarrow> Some (tr_state record)
      | None \<Rightarrow> bt_get (sup_recovered s) task_id)"

definition supervisor_get :: "'s supervisor \<Rightarrow> task_id \<Rightarrow> task_snapshot option" where
  "supervisor_get s task_id =
     map_option (\<lambda>state. \<lparr>snap_task_id = task_id, snap_state = state\<rparr>) (sup_task_state s task_id)"

definition recovered_task_ids :: "'s supervisor \<Rightarrow> task_id list" where
  "recovered_task_ids s = bt_keys (sup_recovered s)"

section \<open>Recovery\<close>

text \<open>The loop that inserts the snapshots and refuses a duplicate.\<close>

fun insert_snapshots ::
  "(task_id, task_state) btree \<Rightarrow> task_snapshot list \<Rightarrow> supervisor_error + (task_id, task_state) btree" where
  "insert_snapshots recovered [] = Inr recovered"
| "insert_snapshots recovered (snapshot # snapshots) =
     (if bt_contains recovered (snap_task_id snapshot) then Inl (EventStoreFailed Corrupt)
      else insert_snapshots (bt_insert (snap_task_id snapshot) (snap_state snapshot) recovered) snapshots)"

text \<open>The loop that fails every interrupted task.\<close>

fun fail_interrupted ::
  "('w, 's) append_fn \<Rightarrow> (nat \<Rightarrow> 'w) \<Rightarrow> (task_id \<times> task_state) list \<Rightarrow> 's supervisor
   \<Rightarrow> ('s, unit) sup_result" where
  "fail_interrupted append_batch ws [] s = (Inr (), s)"
| "fail_interrupted append_batch ws ((task_id, state) # interrupted) s =
     (case store_append append_batch (ws 0) s task_id
             [TaskFailed RuntimeRestarted, StateTransitioned state Failed] of
        (Inl e, s) \<Rightarrow> (Inl e, s)
      | (Inr _, s) \<Rightarrow>
          fail_interrupted append_batch (\<lambda>i. ws (Suc i)) interrupted
            (s\<lparr>sup_recovered := bt_insert task_id Failed (sup_recovered s)\<rparr>))"

definition interrupted_tasks :: "(task_id, task_state) btree \<Rightarrow> (task_id \<times> task_state) list" where
  "interrupted_tasks recovered = filter (\<lambda>(task_id, state). \<not> is_terminal state) recovered"

definition supervisor_recover ::
  "('w, 's) append_fn \<Rightarrow> ('s \<Rightarrow> event_store_error + task_snapshot list) \<Rightarrow> (nat \<Rightarrow> 'w) \<Rightarrow> 's \<Rightarrow> nat
   \<Rightarrow> supervisor_error + 's supervisor" where
  "supervisor_recover append_batch recover_task_snapshots ws store max_tasks =
     (if max_tasks = 0 then Inl CapacityExceeded
      else
        (case recover_task_snapshots store of
           Inl e \<Rightarrow> Inl (EventStoreFailed e)
         | Inr snapshots \<Rightarrow>
             if max_tasks < length snapshots then Inl CapacityExceeded
             else
               (case insert_snapshots [] snapshots of
                  Inl e \<Rightarrow> Inl e
                | Inr recovered \<Rightarrow>
                    (case with_max_tasks store max_tasks of
                       Inl e \<Rightarrow> Inl e
                     | Inr s \<Rightarrow>
                         (case fail_interrupted append_batch ws (interrupted_tasks recovered)
                                 (s\<lparr>sup_recovered := recovered\<rparr>) of
                            (Inl e, s) \<Rightarrow> Inl e
                          | (Inr _, s) \<Rightarrow> Inr s)))))"

section \<open>Submission\<close>

definition submit_events :: "validation_errors + unit \<Rightarrow> task_state \<times> event_kind list" where
  "submit_events validation =
     (case validation of
        Inr _ \<Rightarrow> (Queued, [EvSubmitted, StateTransitioned Submitted Validating,
                          StateTransitioned Validating Queued])
      | Inl errors \<Rightarrow> (Rejected, [EvSubmitted, StateTransitioned Submitted Validating,
                          ValidationFailed (length errors), StateTransitioned Validating Rejected]))"

definition submit ::
  "('w, 's) append_fn \<Rightarrow> 'w \<Rightarrow> task_id \<Rightarrow> 's supervisor \<Rightarrow> task_spec \<Rightarrow> ('s, submit_result) sup_result" where
  "submit append_batch w new_id s spec =
     (case bt_get (sup_idempotency_index s) (ts_idempotency_key spec) of
        Some task_id \<Rightarrow>
          (case bt_get (sup_tasks s) task_id of
             None \<Rightarrow> (Inl TaskNotFound, s)
           | Some existing \<Rightarrow>
               if tr_spec existing \<noteq> spec then (Inl IdempotencyConflict, s)
               else (Inr (Existing \<lparr>snap_task_id = task_id, snap_state = tr_state existing\<rparr>), s))
      | None \<Rightarrow>
          if sup_max_tasks s \<le> saturating_add (length (sup_tasks s)) (length (sup_recovered s))
          then (Inl CapacityExceeded, s)
          else
            let validation = validate spec; (state, kinds) = submit_events validation in
            (case store_append append_batch w s new_id kinds of
               (Inl e, s) \<Rightarrow> (Inl e, s)
             | (Inr _, s) \<Rightarrow>
                 let s = s\<lparr>sup_tasks := bt_insert new_id
                            \<lparr>tr_spec = spec, tr_state = state, tr_started_at = None\<rparr> (sup_tasks s),
                          sup_idempotency_index := bt_insert (ts_idempotency_key spec) new_id
                            (sup_idempotency_index s)\<rparr>;
                     task = \<lparr>snap_task_id = new_id, snap_state = state\<rparr> in
                 (case validation of
                    Inr _ \<Rightarrow> (Inr (Accepted task), s)
                  | Inl errors \<Rightarrow> (Inr (RejectedTask task errors), s))))"

section \<open>Transitions\<close>

definition revocation_events :: "'s supervisor \<Rightarrow> task_id \<Rightarrow> event_kind list" where
  "revocation_events s task_id =
     List.map_filter (\<lambda>(approval_id, operation).
        if po_task_id operation = task_id then Some (ApprovalRevoked approval_id (po_operation_id operation))
        else None) (sup_pending s)
     @ List.map_filter (\<lambda>(operation_id, operation).
        if ao_task_id operation = task_id
        then Some (ApprovalRevoked (grant_approval_id (ao_grant operation)) operation_id)
        else None) (sup_approved s)"

definition invalidate_approvals :: "'s supervisor \<Rightarrow> task_id \<Rightarrow> 's supervisor" where
  "invalidate_approvals s task_id =
     (let pending_ids = List.map_filter (\<lambda>(approval_id, operation).
            if po_task_id operation = task_id then Some approval_id else None) (sup_pending s);
          s = fold (\<lambda>approval_id s.
                s\<lparr>sup_authority := snd (authority_revoke (sup_authority s) approval_id),
                  sup_pending := bt_remove approval_id (sup_pending s)\<rparr>) pending_ids s
      in s\<lparr>sup_approved := bt_retain (\<lambda>_ operation. ao_task_id operation \<noteq> task_id) (sup_approved s)\<rparr>)"

definition apply_transition_with_failure ::
  "('w, 's) append_fn \<Rightarrow> 'w \<Rightarrow> 's supervisor \<Rightarrow> task_id \<Rightarrow> task_state \<Rightarrow> task_state \<Rightarrow> error_code option
   \<Rightarrow> ('s, unit) sup_result" where
  "apply_transition_with_failure append_batch w s task_id current next failure =
     (let kinds = (if is_terminal next then revocation_events s task_id else [])
                @ (case failure of None \<Rightarrow> [] | Some code \<Rightarrow> [TaskFailed code])
                @ [StateTransitioned current next] in
      case store_append append_batch w s task_id kinds of
        (Inl e, s) \<Rightarrow> (Inl e, s)
      | (Inr _, s) \<Rightarrow>
          (let s = (if is_terminal next then invalidate_approvals s task_id else s) in
           if bt_contains (sup_tasks s) task_id
           then (Inr (), s\<lparr>sup_tasks := bt_modify task_id (\<lambda>r. r\<lparr>tr_state := next\<rparr>) (sup_tasks s)\<rparr>)
           else if bt_contains (sup_recovered s) task_id
           then (Inr (), s\<lparr>sup_recovered := bt_modify task_id (\<lambda>_. next) (sup_recovered s)\<rparr>)
           else (Inl TaskNotFound, s)))"

definition apply_transition ::
  "('w, 's) append_fn \<Rightarrow> 'w \<Rightarrow> 's supervisor \<Rightarrow> task_id \<Rightarrow> task_state \<Rightarrow> task_state \<Rightarrow> ('s, unit) sup_result" where
  "apply_transition append_batch w s task_id current next =
     apply_transition_with_failure append_batch w s task_id current next None"

definition transition ::
  "('w, 's) append_fn \<Rightarrow> 'w \<Rightarrow> 's supervisor \<Rightarrow> task_id \<Rightarrow> task_state \<Rightarrow> ('s, unit) sup_result" where
  "transition append_batch w s task_id next =
     (case sup_task_state s task_id of
        None \<Rightarrow> (Inl TaskNotFound, s)
      | Some current \<Rightarrow>
          (case fst (transition_to current next) of
             Inl e \<Rightarrow> (Inl (InvalidStateTransition e), s)
           | Inr _ \<Rightarrow> apply_transition append_batch w s task_id current next))"

definition succeed :: "('w, 's) append_fn \<Rightarrow> 'w \<Rightarrow> 's supervisor \<Rightarrow> task_id \<Rightarrow> ('s, unit) sup_result" where
  "succeed append_batch w s task_id = transition append_batch w s task_id Succeeded"

definition fail :: "('w, 's) append_fn \<Rightarrow> 'w \<Rightarrow> 's supervisor \<Rightarrow> task_id \<Rightarrow> ('s, unit) sup_result" where
  "fail append_batch w s task_id = transition append_batch w s task_id Failed"

definition fail_budget_exceeded ::
  "('w, 's) append_fn \<Rightarrow> 'w \<Rightarrow> 's supervisor \<Rightarrow> task_id \<Rightarrow> ('s, unit) sup_result" where
  "fail_budget_exceeded append_batch w s task_id =
     (case sup_task_state s task_id of
        None \<Rightarrow> (Inl TaskNotFound, s)
      | Some current \<Rightarrow>
          (case fst (transition_to current Failed) of
             Inl e \<Rightarrow> (Inl (InvalidStateTransition e), s)
           | Inr _ \<Rightarrow> apply_transition_with_failure append_batch w s task_id current Failed (Some BudgetExceeded)))"

definition cancel :: "('w, 's) append_fn \<Rightarrow> 'w \<Rightarrow> 's supervisor \<Rightarrow> task_id \<Rightarrow> ('s, bool) sup_result" where
  "cancel append_batch w s task_id =
     (case sup_task_state s task_id of
        None \<Rightarrow> (Inl TaskNotFound, s)
      | Some current \<Rightarrow>
          if is_terminal current then (Inr False, s)
          else
            (case apply_transition append_batch w s task_id current Cancelled of
               (Inl e, s) \<Rightarrow> (Inl e, s)
             | (Inr _, s) \<Rightarrow> (Inr True, s)))"

definition supervisor_events ::
  "'s list_fn \<Rightarrow> 's supervisor \<Rightarrow> task_id \<Rightarrow> nat \<Rightarrow> supervisor_error + task_event list" where
  "supervisor_events listing s task_id after_sequence =
     (if sup_task_state s task_id = None then Inl TaskNotFound
      else map_err EventStoreFailed (listing (sup_event_store s) task_id after_sequence))"

section \<open>Execution\<close>

definition start ::
  "('w, 's) append_fn \<Rightarrow> 'w \<Rightarrow> instant \<Rightarrow> 's supervisor \<Rightarrow> task_id \<Rightarrow> ('s, unit) sup_result" where
  "start append_batch w now s task_id =
     (case transition append_batch w s task_id Running of
        (Inl e, s) \<Rightarrow> (Inl e, s)
      | (Inr _, s) \<Rightarrow>
          (case bt_get (sup_tasks s) task_id of
             None \<Rightarrow> (Inl TaskNotFound, s)
           | Some record \<Rightarrow>
               (Inr (), s\<lparr>sup_tasks := bt_modify task_id (\<lambda>r. r\<lparr>tr_started_at := Some now\<rparr>) (sup_tasks s)\<rparr>)))"

definition start_execution ::
  "('w, 's) append_fn \<Rightarrow> 'w \<Rightarrow> instant \<Rightarrow> 's supervisor \<Rightarrow> task_id \<Rightarrow> ('s, task_execution_input) sup_result" where
  "start_execution append_batch w now s task_id =
     (case bt_get (sup_tasks s) task_id of
        None \<Rightarrow> (Inl TaskNotFound, s)
      | Some record \<Rightarrow>
          (let input = \<lparr>tei_goal = ts_goal (tr_spec record),
                 tei_capability_tools = cs_tools (ts_capabilities (tr_spec record)),
                 tei_network_destinations =
                   (case cs_network (ts_capabilities (tr_spec record)) of
                      NetDeny \<Rightarrow> [] | NetAllow destinations \<Rightarrow> destinations)\<rparr> in
           case start append_batch w now s task_id of
             (Inl e, s) \<Rightarrow> (Inl e, s)
           | (Inr _, s) \<Rightarrow> (Inr input, s)))"

definition execution_context :: "'s supervisor \<Rightarrow> task_id \<Rightarrow> supervisor_error + task_execution_context" where
  "execution_context s task_id =
     (case bt_get (sup_tasks s) task_id of
        None \<Rightarrow> Inl TaskNotFound
      | Some record \<Rightarrow>
          if tr_state record \<noteq> Running then Inl TaskNotRunning
          else
            (case tr_started_at record of
               None \<Rightarrow> Inl TaskNotRunning
             | Some started_at \<Rightarrow>
                 Inr \<lparr>tec_task_id = task_id, tec_budget = ts_budget (tr_spec record),
                    tec_filesystem_capabilities = cs_filesystem (ts_capabilities (tr_spec record)),
                    tec_started_at = started_at\<rparr>))"

definition wall_time_exceeded :: "instant \<Rightarrow> 's supervisor \<Rightarrow> task_id \<Rightarrow> supervisor_error + bool" where
  "wall_time_exceeded now s task_id =
     (case bt_get (sup_tasks s) task_id of
        None \<Rightarrow> Inl TaskNotFound
      | Some record \<Rightarrow>
          if \<not> (tr_state record = Running \<or> tr_state record = WaitingApproval) then Inl TaskNotRunning
          else
            (case tr_started_at record of
               None \<Rightarrow> Inl TaskNotRunning
             | Some started_at \<Rightarrow>
                 Inr (from_secs (unat (wall_time_seconds (ts_budget (tr_spec record))))
                        \<le> elapsed started_at now)))"

section \<open>Approvals\<close>

fun expire_loop ::
  "('w, 's) append_fn \<Rightarrow> (nat \<Rightarrow> 'w) \<Rightarrow> approval_id list \<Rightarrow> nat \<Rightarrow> 's supervisor \<Rightarrow> ('s, nat) sup_result" where
  "expire_loop append_batch ws [] expired_count s = (Inr expired_count, s)"
| "expire_loop append_batch ws (approval_id # expired) expired_count s =
     (case bt_get (sup_pending s) approval_id of
        None \<Rightarrow> expire_loop append_batch ws expired expired_count s
      | Some pending \<Rightarrow>
          (case bt_get (sup_tasks s) (po_task_id pending) of
             None \<Rightarrow> (Inl TaskNotFound, s)
           | Some record \<Rightarrow>
               (case fst (transition_to (tr_state record) Failed) of
                  Inl e \<Rightarrow> (Inl (InvalidStateTransition e), s)
                | Inr _ \<Rightarrow>
                    (case store_append append_batch (ws 0) s (po_task_id pending)
                            [ApprovalExpired approval_id (po_operation_id pending),
                             StateTransitioned (tr_state record) Failed] of
                       (Inl e, s) \<Rightarrow> (Inl e, s)
                     | (Inr _, s) \<Rightarrow>
                         (case set_task_state
                                 (s\<lparr>sup_authority := snd (authority_revoke (sup_authority s) approval_id),
                                    sup_pending := bt_remove approval_id (sup_pending s)\<rparr>)
                                 (po_task_id pending) Failed of
                            (Inl e, s) \<Rightarrow> (Inl e, s)
                          | (Inr _, s) \<Rightarrow>
                              expire_loop append_batch (\<lambda>i. ws (Suc i)) expired (expired_count + 1) s)))))"

definition expire_approvals ::
  "('w, 's) append_fn \<Rightarrow> (nat \<Rightarrow> 'w) \<Rightarrow> instant \<Rightarrow> 's supervisor \<Rightarrow> ('s, nat) sup_result" where
  "expire_approvals append_batch ws now s = expire_loop append_batch ws (expired_ids now (sup_authority s)) 0 s"

text \<open>The arm of \<open>request_operation\<close> for \<open>PolicyDecision::ApprovalRequired\<close>.\<close>

definition request_approval ::
  "('w, 's) append_fn \<Rightarrow> 'w \<Rightarrow> instant \<Rightarrow> operation_id \<Rightarrow> approval_id \<Rightarrow> 's supervisor \<Rightarrow> task_id \<Rightarrow> task_state
   \<Rightarrow> owned_capability_request \<Rightarrow> duration \<Rightarrow> ('s, operation_authorization) sup_result" where
  "request_approval append_batch w now operation_id approval_id s task_id current owned_request approval_ttl =
     (if list_ex (\<lambda>pending. po_task_id pending = task_id) (bt_values (sup_pending s))
      then (Inl (ApprovalFailed DuplicateOperation), s)
      else
        (case authority_request now approval_id (sup_authority s) task_id operation_id
                (owned_action owned_request) approval_ttl of
           (Inl e, authority) \<Rightarrow> (Inl (ApprovalFailed e), s\<lparr>sup_authority := authority\<rparr>)
         | (Inr approval, authority) \<Rightarrow>
             (case store_append append_batch w (s\<lparr>sup_authority := authority\<rparr>) task_id
                     [ApprovalRequested (ar_approval_id approval) operation_id,
                      StateTransitioned current WaitingApproval] of
                (Inl e, s) \<Rightarrow>
                  (Inl e, s\<lparr>sup_authority :=
                     snd (authority_revoke (sup_authority s) (ar_approval_id approval))\<rparr>)
              | (Inr _, s) \<Rightarrow>
                  (case set_task_state
                          (s\<lparr>sup_pending := bt_insert (ar_approval_id approval)
                               \<lparr>po_task_id = task_id, po_operation_id = operation_id,
                                po_request = owned_request\<rparr> (sup_pending s)\<rparr>)
                          task_id WaitingApproval of
                     (Inl e, s) \<Rightarrow> (Inl e, s)
                   | (Inr _, s) \<Rightarrow> (Inr (OpApprovalRequired approval), s)))))"

definition request_operation ::
  "('w, 's) append_fn \<Rightarrow> (nat \<Rightarrow> 'w) \<Rightarrow> 'w \<Rightarrow> instant \<Rightarrow> instant \<Rightarrow> operation_id \<Rightarrow> approval_id
   \<Rightarrow> 's supervisor \<Rightarrow> task_id \<Rightarrow> capability_request \<Rightarrow> duration \<Rightarrow> ('s, operation_authorization) sup_result" where
  "request_operation append_batch ws w now1 now2 operation_id approval_id s task_id request approval_ttl =
     (case expire_approvals append_batch ws now1 s of
        (Inl e, s) \<Rightarrow> (Inl e, s)
      | (Inr _, s) \<Rightarrow>
          (case bt_get (sup_tasks s) task_id of
             None \<Rightarrow> (Inl TaskNotFound, s)
           | Some record \<Rightarrow>
               (case fst (transition_to (tr_state record) WaitingApproval) of
                  Inl e \<Rightarrow> (Inl (InvalidStateTransition e), s)
                | Inr _ \<Rightarrow>
                    (let owned_request = from_borrowed request in
                     case from_task (tr_spec record) of
                       Inl _ \<Rightarrow> (Inl Panicked, s)
                     | Inr policy \<Rightarrow>
                         (case evaluate policy (as_borrowed owned_request) of
                            Allow \<Rightarrow>
                              (case store_append append_batch w s task_id [OperationAllowed] of
                                 (Inl e, s) \<Rightarrow> (Inl e, s)
                               | (Inr _, s) \<Rightarrow> (Inr OpAllowed, s))
                          | Deny reason \<Rightarrow>
                              (case store_append append_batch w s task_id [OperationDenied reason] of
                                 (Inl e, s) \<Rightarrow> (Inl e, s)
                               | (Inr _, s) \<Rightarrow> (Inr (OpDenied reason), s))
                          | ApprovalRequired \<Rightarrow>
                              request_approval append_batch w now2 operation_id approval_id s task_id
                                (tr_state record) owned_request approval_ttl)))))"

definition approve_operation ::
  "('w, 's) append_fn \<Rightarrow> (nat \<Rightarrow> 'w) \<Rightarrow> 'w \<Rightarrow> instant \<Rightarrow> instant \<Rightarrow> 's supervisor \<Rightarrow> approval_id
   \<Rightarrow> ('s, task_snapshot) sup_result" where
  "approve_operation append_batch ws w now1 now2 s approval_id =
     (case expire_approvals append_batch ws now1 s of
        (Inl e, s) \<Rightarrow> (Inl e, s)
      | (Inr _, s) \<Rightarrow>
          (case bt_get (sup_pending s) approval_id of
             None \<Rightarrow> (Inl (ApprovalFailed NotFound), s)
           | Some pending \<Rightarrow>
               (let task_id = po_task_id pending; operation_id = po_operation_id pending in
                case bt_get (sup_tasks s) task_id of
                  None \<Rightarrow> (Inl TaskNotFound, s)
                | Some record \<Rightarrow>
                    (case fst (transition_to (tr_state record) Running) of
                       Inl e \<Rightarrow> (Inl (InvalidStateTransition e), s)
                     | Inr _ \<Rightarrow>
                         (case authority_approve now2 (sup_authority s) approval_id of
                            (Inl e, authority) \<Rightarrow> (Inl (ApprovalFailed e), s\<lparr>sup_authority := authority\<rparr>)
                          | (Inr grant, authority) \<Rightarrow>
                              (case store_append append_batch w (s\<lparr>sup_authority := authority\<rparr>) task_id
                                      [ApprovalGranted approval_id operation_id,
                                       StateTransitioned (tr_state record) Running] of
                                 (Inl e, s) \<Rightarrow>
                                   (Inl e, s\<lparr>sup_authority := grant_restore grant (sup_authority s)\<rparr>)
                               | (Inr _, s) \<Rightarrow>
                                   (case bt_get (sup_pending s) approval_id of
                                      None \<Rightarrow> (Inl (ApprovalFailed NotFound), s)
                                    | Some pending \<Rightarrow>
                                        (case set_task_state
                                                (s\<lparr>sup_pending := bt_remove approval_id (sup_pending s),
                                                   sup_approved := bt_insert operation_id
                                                     \<lparr>ao_task_id = task_id, ao_request = po_request pending,
                                                      ao_grant = grant\<rparr> (sup_approved s)\<rparr>)
                                                task_id Running of
                                           (Inl e, s) \<Rightarrow> (Inl e, s)
                                         | (Inr _, s) \<Rightarrow>
                                             (Inr \<lparr>snap_task_id = task_id, snap_state = Running\<rparr>, s)))))))))"

definition deny_operation ::
  "('w, 's) append_fn \<Rightarrow> (nat \<Rightarrow> 'w) \<Rightarrow> 'w \<Rightarrow> instant \<Rightarrow> 's supervisor \<Rightarrow> approval_id
   \<Rightarrow> ('s, task_snapshot) sup_result" where
  "deny_operation append_batch ws w now s approval_id =
     (case expire_approvals append_batch ws now s of
        (Inl e, s) \<Rightarrow> (Inl e, s)
      | (Inr _, s) \<Rightarrow>
          (case bt_get (sup_pending s) approval_id of
             None \<Rightarrow> (Inl (ApprovalFailed NotFound), s)
           | Some pending \<Rightarrow>
               (let task_id = po_task_id pending; operation_id = po_operation_id pending in
                if \<not> authority_contains (sup_authority s) approval_id
                then (Inl (ApprovalFailed NotFound), s)
                else
                  (case bt_get (sup_tasks s) task_id of
                     None \<Rightarrow> (Inl TaskNotFound, s)
                   | Some record \<Rightarrow>
                       (case fst (transition_to (tr_state record) Failed) of
                          Inl e \<Rightarrow> (Inl (InvalidStateTransition e), s)
                        | Inr _ \<Rightarrow>
                            (case store_append append_batch w s task_id
                                    [ApprovalDenied approval_id operation_id,
                                     StateTransitioned (tr_state record) Failed] of
                               (Inl e, s) \<Rightarrow> (Inl e, s)
                             | (Inr _, s) \<Rightarrow>
                                 (case set_task_state
                                         (s\<lparr>sup_authority := snd (authority_revoke (sup_authority s) approval_id),
                                            sup_pending := bt_remove approval_id (sup_pending s)\<rparr>)
                                         task_id Failed of
                                    (Inl e, s) \<Rightarrow> (Inl e, s)
                                  | (Inr _, s) \<Rightarrow>
                                      (Inr \<lparr>snap_task_id = task_id, snap_state = Failed\<rparr>, s))))))))"

definition authorize_operation ::
  "('w, 's) append_fn \<Rightarrow> 'w \<Rightarrow> instant \<Rightarrow> 's supervisor \<Rightarrow> task_id \<Rightarrow> operation_id \<Rightarrow> capability_request
   \<Rightarrow> ('s, approval_receipt) sup_result" where
  "authorize_operation append_batch w now s task_id operation_id request =
     (case bt_get (sup_tasks s) task_id of
        None \<Rightarrow> (Inl TaskNotFound, s)
      | Some record \<Rightarrow>
          if tr_state record \<noteq> Running then (Inl TaskNotRunning, s)
          else
            (let supplied = from_borrowed request in
             case bt_get (sup_approved s) operation_id of
               None \<Rightarrow> (Inl (ApprovalFailed NotFound), s)
             | Some approved \<Rightarrow>
                 (let s = s\<lparr>sup_approved := bt_remove operation_id (sup_approved s)\<rparr> in
                  if ao_task_id approved \<noteq> task_id \<or> ao_request approved \<noteq> supplied
                  then (Inl (ApprovalFailed ScopeMismatch), s)
                  else
                    (case from_task (tr_spec record) of
                       Inl _ \<Rightarrow> (Inl Panicked, s)
                     | Inr policy \<Rightarrow>
                         if evaluate policy (as_borrowed supplied) \<noteq> ApprovalRequired
                         then (Inl (ApprovalFailed ScopeMismatch), s)
                         else
                           (case grant_authorize now (ao_grant approved) task_id operation_id
                                   (owned_action supplied) of
                              Inl e \<Rightarrow> (Inl (ApprovalFailed e), s)
                            | Inr receipt \<Rightarrow>
                                (case store_append append_batch w s task_id
                                        [ApprovalConsumed (grant_approval_id (ao_grant approved)) operation_id] of
                                   (Inl e, s) \<Rightarrow> (Inl e, s)
                                 | (Inr _, s) \<Rightarrow> (Inr receipt, s)))))))"

lemma as_borrowed_from_borrowed [simp]: "as_borrowed (from_borrowed r) = r"
  by (cases r) (simp_all add: as_borrowed_def from_borrowed_def)

lemma owned_action_from_borrowed [simp]: "owned_action (from_borrowed r) = request_action r"
  by (cases r) (auto simp: owned_action_def from_borrowed_def request_action_def file_action_def
      split: file_access.splits)

end
