(* ===== verification/Supervisor_Inv.thy ===== *)
theory Supervisor_Inv
  imports Supervisor
begin

text \<open>
  The invariant of the supervisor. It speaks about the audit log only through \<open>K\<close>, the
  list of event kinds recorded for each task: the log of a known task replays to exactly
  the state the supervisor holds, and an unknown task has no log. The lemmas on
  \<open>sup_inv\<close> treat the few primitive updates all operations are made of; the locale
  \<open>event_store\<close> then lifts them to the operations, for every store that keeps the
  interface's contract.
\<close>

section \<open>Views and invariant\<close>

definition live_state :: "'s supervisor \<Rightarrow> task_id \<Rightarrow> task_state option" where
  "live_state s t = map_option tr_state (bt_get (sup_tasks s) t)"

definition pending_view :: "'s supervisor \<Rightarrow> approval_id \<Rightarrow> (task_id \<times> operation_id \<times> string) option" where
  "pending_view s i =
     map_option (\<lambda>p. (po_task_id p, po_operation_id p, owned_action (po_request p))) (bt_get (sup_pending s) i)"

definition authority_view :: "approval_authority \<Rightarrow> approval_id \<Rightarrow> (task_id \<times> operation_id \<times> string) option" where
  "authority_view a i = map_option (\<lambda>p. (pa_task_id p, pa_operation_id p, pa_action p)) (bt_get (aa_pending a) i)"

definition maps_ok :: "'s supervisor \<Rightarrow> bool" where
  "maps_ok s \<longleftrightarrow> bt_wf (sup_tasks s) \<and> bt_wf (sup_recovered s) \<and> bt_wf (sup_idempotency_index s)
     \<and> bt_wf (sup_pending s) \<and> bt_wf (sup_approved s)
     \<and> length (sup_tasks s) + length (sup_recovered s) \<le> sup_max_tasks s \<and> sup_max_tasks s < 2 ^ 64"

definition logs_ok :: "(task_id \<Rightarrow> event_kind list) \<Rightarrow> 's supervisor \<Rightarrow> bool" where
  "logs_ok K s \<longleftrightarrow>
     (\<forall>t. (sup_task_state s t = None \<longrightarrow> K t = [])
        \<and> (\<forall>st. sup_task_state s t = Some st \<longrightarrow> replays_to (K t) st))"

definition record_ok :: "task_record \<Rightarrow> bool" where
  "record_ok r \<longleftrightarrow> tr_state r \<noteq> Submitted \<and> tr_state r \<noteq> Validating
     \<and> (tr_state r = Rejected \<longleftrightarrow> \<not> task_ok (tr_spec r))
     \<and> (tr_state r \<in> {Running, WaitingApproval} \<longrightarrow> tr_started_at r \<noteq> None)"

definition tasks_ok :: "'s supervisor \<Rightarrow> bool" where
  "tasks_ok s \<longleftrightarrow> (\<forall>t r. bt_get (sup_tasks s) t = Some r \<longrightarrow> record_ok r \<and> bt_get (sup_recovered s) t = None)
     \<and> (\<forall>t st. bt_get (sup_recovered s) t = Some st \<longrightarrow> is_terminal st)"

definition index_ok :: "'s supervisor \<Rightarrow> bool" where
  "index_ok s \<longleftrightarrow> (\<forall>k t. bt_get (sup_idempotency_index s) k = Some t \<longleftrightarrow>
     map_option (\<lambda>r. ts_idempotency_key (tr_spec r)) (bt_get (sup_tasks s) t) = Some k)"

definition pending_ok :: "'s supervisor \<Rightarrow> bool" where
  "pending_ok s \<longleftrightarrow> authority_ok (sup_authority s) \<and> pending_view s = authority_view (sup_authority s)
     \<and> (\<forall>i p. bt_get (sup_pending s) i = Some p \<longrightarrow> live_state s (po_task_id p) = Some WaitingApproval)
     \<and> (\<forall>i j p q. bt_get (sup_pending s) i = Some p \<longrightarrow> bt_get (sup_pending s) j = Some q
          \<longrightarrow> po_task_id p = po_task_id q \<longrightarrow> i = j)"

definition approved_ok :: "'s supervisor \<Rightarrow> bool" where
  "approved_ok s \<longleftrightarrow> (\<forall>o' a. bt_get (sup_approved s) o' = Some a \<longrightarrow>
     (\<exists>st \<in> {Running, WaitingApproval, Failed}. live_state s (ao_task_id a) = Some st)
     \<and> grant_task_id (ao_grant a) = ao_task_id a \<and> grant_operation_id (ao_grant a) = o'
     \<and> grant_action (ao_grant a) = owned_action (ao_request a))"

definition sup_inv :: "(task_id \<Rightarrow> event_kind list) \<Rightarrow> 's supervisor \<Rightarrow> bool" where
  "sup_inv K s \<longleftrightarrow> maps_ok s \<and> logs_ok K s \<and> tasks_ok s \<and> index_ok s \<and> pending_ok s \<and> approved_ok s"

lemmas sup_inv_parts = maps_ok_def tasks_ok_def index_ok_def pending_ok_def approved_ok_def

lemma sup_invD:
  assumes "sup_inv K s"
  shows "maps_ok s" "logs_ok K s" "tasks_ok s" "index_ok s" "pending_ok s" "approved_ok s"
  using assms by (simp_all add: sup_inv_def)

lemma view_simps [simp]:
  "live_state (s\<lparr>sup_event_store := es\<rparr>) = live_state s"
  "live_state (s\<lparr>sup_authority := a\<rparr>) = live_state s"
  "live_state (s\<lparr>sup_pending := p\<rparr>) = live_state s"
  "live_state (s\<lparr>sup_approved := ap\<rparr>) = live_state s"
  "pending_view (s\<lparr>sup_event_store := es\<rparr>) = pending_view s"
  "pending_view (s\<lparr>sup_authority := a\<rparr>) = pending_view s"
  "pending_view (s\<lparr>sup_tasks := ts\<rparr>) = pending_view s"
  "pending_view (s\<lparr>sup_approved := ap\<rparr>) = pending_view s"
  "sup_task_state (s\<lparr>sup_event_store := es\<rparr>) = sup_task_state s"
  "sup_task_state (s\<lparr>sup_authority := a\<rparr>) = sup_task_state s"
  "sup_task_state (s\<lparr>sup_pending := p\<rparr>) = sup_task_state s"
  "sup_task_state (s\<lparr>sup_approved := ap\<rparr>) = sup_task_state s"
  by (auto simp: live_state_def pending_view_def sup_task_state_def fun_eq_iff split: option.splits)

lemma sup_inv_store [simp]: "sup_inv K (s\<lparr>sup_event_store := es\<rparr>) \<longleftrightarrow> sup_inv K s"
  by (simp add: sup_inv_def sup_inv_parts logs_ok_def)

lemma sup_task_state_live:
  "sup_task_state s t = (case live_state s t of Some st \<Rightarrow> Some st | None \<Rightarrow> bt_get (sup_recovered s) t)"
  by (auto simp: sup_task_state_def live_state_def split: option.splits)

lemma live_state_Some: "live_state s t = Some st \<longleftrightarrow> (\<exists>r. bt_get (sup_tasks s) t = Some r \<and> tr_state r = st)"
  by (auto simp: live_state_def)

lemma nonterminal_live:
  "tasks_ok s \<Longrightarrow> sup_task_state s t = Some st \<Longrightarrow> \<not> is_terminal st \<Longrightarrow> live_state s t = Some st"
  by (auto simp: sup_task_state_live tasks_ok_def split: option.splits)

lemma logs_okD: "logs_ok K s \<Longrightarrow> sup_task_state s t = Some st \<Longrightarrow> replays_to (K t) st"
  by (simp add: logs_ok_def)

section \<open>Changing the state of one task\<close>

definition set_state :: "task_id \<Rightarrow> task_state \<Rightarrow> 's supervisor \<Rightarrow> 's supervisor" where
  "set_state t st s = s\<lparr>sup_tasks := bt_modify t (\<lambda>r. r\<lparr>tr_state := st\<rparr>) (sup_tasks s)\<rparr>"

lemma set_task_state_eq:
  "live_state s t \<noteq> None \<Longrightarrow> set_task_state s t st = (Inr (), set_state t st s)"
  by (auto simp: set_task_state_def set_state_def live_state_def split: option.splits)

lemma set_state_sel [simp]:
  "sup_recovered (set_state t st s) = sup_recovered s"
  "sup_idempotency_index (set_state t st s) = sup_idempotency_index s"
  "sup_event_store (set_state t st s) = sup_event_store s"
  "sup_authority (set_state t st s) = sup_authority s"
  "sup_pending (set_state t st s) = sup_pending s"
  "sup_approved (set_state t st s) = sup_approved s"
  "sup_max_tasks (set_state t st s) = sup_max_tasks s"
  "pending_view (set_state t st s) = pending_view s"
  by (simp_all add: set_state_def)

lemma live_state_set [simp]:
  "live_state (set_state t st s) = (live_state s)(t := map_option (\<lambda>_. st) (live_state s t))"
  by (auto simp: live_state_def set_state_def fun_eq_iff option.map_comp comp_def)

lemma task_state_set:
  "live_state s t \<noteq> None \<Longrightarrow> sup_task_state (set_state t st s) = (sup_task_state s)(t \<mapsto> st)"
  by (auto simp: sup_task_state_live fun_eq_iff split: option.splits)

lemma logs_ok_step:
  assumes "logs_ok K s" and "sup_task_state s t = Some st"
    and "replay (Some st, False) ks = Some (Some st', False)"
    and "sup_task_state s' = (sup_task_state s)(t \<mapsto> st')"
  shows "logs_ok (K(t := K t @ ks)) s'"
proof -
  have "(sup_task_state s' u = None \<longrightarrow> (K(t := K t @ ks)) u = [])
     \<and> (\<forall>v. sup_task_state s' u = Some v \<longrightarrow> replays_to ((K(t := K t @ ks)) u) v)" for u
    using assms(1,4) replays_to_append [OF logs_okD [OF assms(1,2)] assms(3)]
    by (cases "u = t") (simp_all add: logs_ok_def)
  then show ?thesis by (simp add: logs_ok_def)
qed

lemma maps_ok_set: "maps_ok s \<Longrightarrow> maps_ok (set_state t st s)"
  by (simp add: maps_ok_def set_state_def)

lemma index_ok_set: "index_ok s \<Longrightarrow> index_ok (set_state t st s)"
  by (auto simp: index_ok_def set_state_def option.map_comp comp_def)

lemma tasks_ok_set:
  assumes "tasks_ok s" and "live_state s t = Some st"
    and "st \<noteq> Rejected" "st' \<notin> {Submitted, Validating, Rejected}"
    and "st' \<in> {Running, WaitingApproval} \<Longrightarrow> st \<in> {Running, WaitingApproval}"
  shows "tasks_ok (set_state t st' s)"
proof -
  have "record_ok (r\<lparr>tr_state := st'\<rparr>)" if "bt_get (sup_tasks s) t = Some r" for r
  proof -
    have "record_ok r" "tr_state r = st" using assms(1,2) that by (auto simp: tasks_ok_def live_state_def)
    with assms(3-5) show ?thesis by (auto simp: record_ok_def)
  qed
  then show ?thesis
    using assms(1,2) by (auto simp: tasks_ok_def set_state_def live_state_def)
qed


lemma approved_ok_set:
  assumes "approved_ok s" and "st' \<in> {Running, WaitingApproval, Failed}"
  shows "approved_ok (set_state t st' s)"
  using assms by (auto simp: approved_ok_def)

section \<open>The primitive updates\<close>

text \<open>Events that do not change the state of a task.\<close>

lemma inv_append_only:
  assumes "sup_inv K s" and "sup_task_state s t = Some st"
    and "replay (Some st, False) ks = Some (Some st, False)"
  shows "sup_inv (K(t := K t @ ks)) s"
proof -
  have "sup_task_state s = (sup_task_state s)(t \<mapsto> st)" using assms(2) by auto
  then have "logs_ok (K(t := K t @ ks)) s"
    by (rule logs_ok_step [OF sup_invD(2) [OF assms(1)] assms(2,3)])
  with assms(1) show ?thesis by (simp add: sup_inv_def)
qed

lemma inv_approved:
  "sup_inv K s \<Longrightarrow> bt_wf ap \<Longrightarrow> approved_ok (s\<lparr>sup_approved := ap\<rparr>) \<Longrightarrow> sup_inv K (s\<lparr>sup_approved := ap\<rparr>)"
  by (simp add: sup_inv_def maps_ok_def logs_ok_def tasks_ok_def index_ok_def pending_ok_def)

lemma inv_drop_approved:
  "sup_inv K s \<Longrightarrow> sup_inv K (s\<lparr>sup_approved := bt_remove o' (sup_approved s)\<rparr>)"
  by (rule inv_approved) (auto simp: sup_inv_def maps_ok_def approved_ok_def)

text \<open>Closing a pending approval by removing it from both maps.\<close>

definition drop_pending :: "approval_id \<Rightarrow> 's supervisor \<Rightarrow> 's supervisor" where
  "drop_pending i s = s\<lparr>sup_authority := snd (authority_revoke (sup_authority s) i),
     sup_pending := bt_remove i (sup_pending s)\<rparr>"

lemma drop_pending_sel [simp]:
  "sup_tasks (drop_pending i s) = sup_tasks s" "sup_recovered (drop_pending i s) = sup_recovered s"
  "sup_idempotency_index (drop_pending i s) = sup_idempotency_index s"
  "sup_event_store (drop_pending i s) = sup_event_store s"
  "sup_approved (drop_pending i s) = sup_approved s" "sup_max_tasks (drop_pending i s) = sup_max_tasks s"
  "sup_pending (drop_pending i s) = bt_remove i (sup_pending s)"
  "live_state (drop_pending i s) = live_state s" "sup_task_state (drop_pending i s) = sup_task_state s"
  by (simp_all add: drop_pending_def)

lemma authority_view_remove:
  "authority_view (snd (authority_remove a i)) = (authority_view a)(i := None)"
  by (cases "authority_remove a i") (auto simp: authority_view_def fun_eq_iff dest!: authority_remove_eq)

lemma drop_pending_views:
  assumes "pending_ok s"
  shows "authority_ok (sup_authority (drop_pending i s))"
    "pending_view (drop_pending i s) = authority_view (sup_authority (drop_pending i s))"
  using assms
  by (auto simp: pending_ok_def drop_pending_def authority_revoke_eq authority_remove_ok
      authority_view_remove pending_view_def fun_eq_iff)

lemma pending_ok_drop: "pending_ok s \<Longrightarrow> pending_ok (drop_pending i s)"
  using drop_pending_views [of s i] by (auto simp: pending_ok_def split: if_splits)

lemma pending_ok_set:
  assumes "pending_ok s" and "\<And>i p. bt_get (sup_pending s) i = Some p \<Longrightarrow> po_task_id p \<noteq> t"
  shows "pending_ok (set_state t st s)"
  using assms by (auto simp: pending_ok_def)

lemma sup_inv_drop: "sup_inv K s \<Longrightarrow> sup_inv K (drop_pending i s)"
  by (auto simp: sup_inv_def maps_ok_def logs_ok_def tasks_ok_def index_ok_def pending_ok_drop
      approved_ok_def bt_wf_remove)

lemma inv_set_state:
  assumes "sup_inv K s" and "live_state s t = Some st"
    and "replay (Some st, False) ks = Some (Some st', False)"
    and "st \<noteq> Rejected" "st' \<notin> {Submitted, Validating, Rejected}"
    and "st' \<in> {Running, WaitingApproval} \<Longrightarrow> st \<in> {Running, WaitingApproval}"
    and "pending_ok (set_state t st' s)" and "approved_ok (set_state t st' s)"
  shows "sup_inv (K(t := K t @ ks)) (set_state t st' s)"
proof -
  have "sup_task_state s t = Some st" using assms(2) by (simp add: sup_task_state_live)
  then have "logs_ok (K(t := K t @ ks)) (set_state t st' s)"
    using assms(2) by (intro logs_ok_step [OF sup_invD(2) [OF assms(1)] _ assms(3)] task_state_set) auto
  moreover have "maps_ok (set_state t st' s)" "index_ok (set_state t st' s)"
    using sup_invD [OF assms(1)] by (simp_all add: maps_ok_set index_ok_set)
  moreover have "tasks_ok (set_state t st' s)"
    by (rule tasks_ok_set [OF sup_invD(3) [OF assms(1)] assms(2,4,5,6)])
  ultimately show ?thesis using assms(7,8) by (simp add: sup_inv_def)
qed

text \<open>Denial and expiry.\<close>

lemma inv_close_pending:
  assumes "sup_inv K s" and "bt_get (sup_pending s) i = Some p"
    and "replay (Some WaitingApproval, False) ks = Some (Some Failed, False)"
  shows "sup_inv (K(po_task_id p := K (po_task_id p) @ ks)) (set_state (po_task_id p) Failed (drop_pending i s))"
proof (rule inv_set_state [OF sup_inv_drop [OF assms(1)] _ assms(3)])
  note inv = sup_invD [OF assms(1)]
  show "live_state (drop_pending i s) (po_task_id p) = Some WaitingApproval"
    using inv(5) assms(2) by (simp add: pending_ok_def)
  show "pending_ok (set_state (po_task_id p) Failed (drop_pending i s))"
  proof (rule pending_ok_set [OF pending_ok_drop [OF inv(5)]])
    fix j q assume "bt_get (sup_pending (drop_pending i s)) j = Some q"
    then have "j \<noteq> i" "bt_get (sup_pending s) j = Some q" by (auto split: if_splits)
    with inv(5) assms(2) show "po_task_id q \<noteq> po_task_id p" unfolding pending_ok_def by blast
  qed
  show "approved_ok (set_state (po_task_id p) Failed (drop_pending i s))"
    using inv(6) by (intro approved_ok_set) (auto simp: approved_ok_def)
qed auto


text \<open>A new approval request.\<close>

lemma authority_view_insert:
  "authority_view (authority_insert i p a) = (authority_view a)(i \<mapsto> (pa_task_id p, pa_operation_id p, pa_action p))"
  by (simp add: authority_view_def authority_insert_def fun_eq_iff)

lemma inv_open_pending:
  fixes s :: "'s supervisor"
  assumes inv: "sup_inv K s" and run: "live_state s t = Some Running"
    and none: "\<And>j q. bt_get (sup_pending s) j = Some q \<Longrightarrow> po_task_id q \<noteq> t"
    and a: "authority_ok a'" "a' = authority_insert i pa (sup_authority s)"
      "pa_task_id pa = t" "pa_operation_id pa = po_operation_id p" "pa_action pa = owned_action (po_request p)"
    and p: "po_task_id p = t"
    and ks: "replay (Some Running, False) ks = Some (Some WaitingApproval, False)"
  shows "sup_inv (K(t := K t @ ks)) (set_state t WaitingApproval
           (s\<lparr>sup_authority := a', sup_pending := bt_insert i p (sup_pending s)\<rparr>))"
proof -
  let ?m = "s\<lparr>sup_authority := a', sup_pending := bt_insert i p (sup_pending s)\<rparr>"
  let ?s = "set_state t WaitingApproval ?m"
  note parts = sup_invD [OF inv]
  have live: "live_state ?s = (live_state s)(t \<mapsto> WaitingApproval)" using run by simp
  have view: "pending_view ?s = authority_view a'"
    using parts(5) a p by (simp add: pending_ok_def authority_view_insert pending_view_def fun_eq_iff)
  have "pending_ok ?s"
    unfolding pending_ok_def
  proof (intro conjI allI impI)
    fix j q assume "bt_get (sup_pending ?s) j = Some q"
    then show "live_state ?s (po_task_id q) = Some WaitingApproval"
      using parts(5) p live by (auto simp: pending_ok_def split: if_splits)
  next
    fix j k q r assume "bt_get (sup_pending ?s) j = Some q" "bt_get (sup_pending ?s) k = Some r"
      and "po_task_id q = po_task_id r"
    then show "j = k"
      using parts(5) p none unfolding pending_ok_def by (auto split: if_splits)
  qed (use a view in simp_all)
  moreover have "approved_ok ?s"
    using parts(6) by (intro approved_ok_set) (simp_all add: approved_ok_def)
  moreover have "logs_ok (K(t := K t @ ks)) ?s"
    using run by (intro logs_ok_step [OF parts(2) _ ks]) (auto simp: task_state_set sup_task_state_live fun_eq_iff)
  moreover have "tasks_ok ?s"
    using parts(3) run by (intro tasks_ok_set [of _ _ Running]) (auto simp: tasks_ok_def)
  moreover have "maps_ok ?m" "index_ok ?m"
    using parts(1,4) by (simp_all add: maps_ok_def index_ok_def)
  then have "maps_ok ?s" "index_ok ?s" by (auto intro: maps_ok_set index_ok_set)
  ultimately show ?thesis by (simp add: sup_inv_def)
qed

text \<open>A granted approval.\<close>

lemma inv_grant:
  assumes inv: "sup_inv K s" and p: "bt_get (sup_pending s) i = Some p"
    and a: "ao_task_id a = po_task_id p" "grant_task_id (ao_grant a) = po_task_id p"
      "grant_operation_id (ao_grant a) = po_operation_id p"
      "grant_action (ao_grant a) = owned_action (ao_request a)"
    and ks: "replay (Some WaitingApproval, False) ks = Some (Some Running, False)"
  shows "sup_inv (K(po_task_id p := K (po_task_id p) @ ks)) (set_state (po_task_id p) Running
           ((drop_pending i s)\<lparr>sup_approved := bt_insert (po_operation_id p) a (sup_approved s)\<rparr>))"
proof -
  let ?t = "po_task_id p"
  let ?m = "(drop_pending i s)\<lparr>sup_approved := bt_insert (po_operation_id p) a (sup_approved s)\<rparr>"
  note parts = sup_invD [OF inv]
  have wait: "live_state s ?t = Some WaitingApproval" using parts(5) p by (simp add: pending_ok_def)
  have appr: "approved_ok ?m"
    using parts(6) a wait by (auto simp: approved_ok_def)
  have m: "sup_inv K ?m"
    using parts(1) by (intro inv_approved sup_inv_drop inv appr) (simp add: maps_ok_def)
  show ?thesis
  proof (rule inv_set_state [OF m _ ks])
    show "pending_ok (set_state ?t Running ?m)"
    proof (rule pending_ok_set)
      show "pending_ok ?m" by (rule sup_invD(5) [OF m])
      fix j q assume "bt_get (sup_pending ?m) j = Some q"
      then have "j \<noteq> i" "bt_get (sup_pending s) j = Some q" by (auto split: if_splits)
      with parts(5) p show "po_task_id q \<noteq> ?t" unfolding pending_ok_def by blast
    qed
    show "approved_ok (set_state ?t Running ?m)" by (rule approved_ok_set [OF appr]) simp
  qed (use wait in auto)
qed

text \<open>Invalidating every approval of a task.\<close>

lemma fold_drop_sel [simp]:
  "sup_tasks (fold drop_pending is s) = sup_tasks s" "sup_recovered (fold drop_pending is s) = sup_recovered s"
  "sup_event_store (fold drop_pending is s) = sup_event_store s"
  "sup_approved (fold drop_pending is s) = sup_approved s"
  "live_state (fold drop_pending is s) = live_state s"
  "sup_task_state (fold drop_pending is s) = sup_task_state s"
  by (induction "is" arbitrary: s) simp_all

lemma fold_drop_pending:
  "bt_get (sup_pending (fold drop_pending is s)) j = (if j \<in> set is then None else bt_get (sup_pending s) j)"
  by (induction "is" arbitrary: s) auto

lemma fold_drop_inv: "sup_inv K s \<Longrightarrow> sup_inv K (fold drop_pending is s)"
  by (induction "is" arbitrary: s) (simp_all add: sup_inv_drop)

definition task_approvals :: "'s supervisor \<Rightarrow> task_id \<Rightarrow> approval_id list" where
  "task_approvals s t = List.map_filter (\<lambda>(i, p). if po_task_id p = t then Some i else None) (sup_pending s)"

lemma task_approvals_iff:
  "maps_ok s \<Longrightarrow> i \<in> set (task_approvals s t) \<longleftrightarrow> (\<exists>p. bt_get (sup_pending s) i = Some p \<and> po_task_id p = t)"
  by (auto simp: task_approvals_def maps_ok_def List.map_filter_def bt_mem_get image_iff
      split: if_splits prod.splits)

lemma invalidate_approvals_eq:
  fixes s :: "'s supervisor"
  shows "invalidate_approvals s t = (fold drop_pending (task_approvals s t) s)
     \<lparr>sup_approved := bt_retain (\<lambda>_ a. ao_task_id a \<noteq> t) (sup_approved s)\<rparr>"
proof -
  have "(\<lambda>i s. s\<lparr>sup_authority := snd (authority_revoke (sup_authority s) i),
          sup_pending := bt_remove i (sup_pending s)\<rparr>) = (drop_pending :: _ \<Rightarrow> 's supervisor \<Rightarrow> _)"
    by (simp add: drop_pending_def fun_eq_iff)
  then show ?thesis by (simp add: invalidate_approvals_def task_approvals_def Let_def)
qed

lemma invalidate_inv:
  assumes inv: "sup_inv K s"
  shows "sup_inv K (invalidate_approvals s t)"
    and "bt_get (sup_pending (invalidate_approvals s t)) i = Some p \<Longrightarrow> po_task_id p \<noteq> t"
    and "bt_get (sup_approved (invalidate_approvals s t)) o' = Some a \<Longrightarrow> ao_task_id a \<noteq> t"
proof -
  let ?f = "fold drop_pending (task_approvals s t) s"
  have wf: "bt_wf (sup_approved s)" and m: "maps_ok s"
    using sup_invD(1) [OF inv] by (simp_all add: maps_ok_def)
  show "bt_get (sup_approved (invalidate_approvals s t)) o' = Some a \<Longrightarrow> ao_task_id a \<noteq> t"
    by (auto simp: invalidate_approvals_eq bt_get_retain [OF wf] split: option.splits if_splits)
  show "bt_get (sup_pending (invalidate_approvals s t)) i = Some p \<Longrightarrow> po_task_id p \<noteq> t"
    by (auto simp: invalidate_approvals_eq fold_drop_pending task_approvals_iff [OF m] split: if_splits)
  have "approved_ok (invalidate_approvals s t)"
    using sup_invD(6) [OF inv]
    by (auto simp: approved_ok_def invalidate_approvals_eq bt_get_retain [OF wf] split: option.splits if_splits)
  then show "sup_inv K (invalidate_approvals s t)"
    unfolding invalidate_approvals_eq using wf by (intro inv_approved fold_drop_inv inv) auto
qed

lemma inv_terminal:
  assumes inv: "sup_inv K s" and live: "live_state s t = Some st" and st: "st \<noteq> Rejected"
    and fin: "is_terminal st'" "st' \<noteq> Rejected"
    and ks: "replay (Some st, False) ks = Some (Some st', False)"
  shows "sup_inv (K(t := K t @ ks)) (set_state t st' (invalidate_approvals s t))"
proof (rule inv_set_state [OF invalidate_inv(1) [OF inv] _ ks])
  note i = invalidate_inv [OF inv, of t]
  show "live_state (invalidate_approvals s t) t = Some st"
    using live by (simp add: invalidate_approvals_eq)
  show "pending_ok (set_state t st' (invalidate_approvals s t))"
    by (rule pending_ok_set [OF sup_invD(5) [OF i(1)]]) (rule i(2))
  show "approved_ok (set_state t st' (invalidate_approvals s t))"
    using sup_invD(6) [OF i(1)] i(3) by (auto simp: approved_ok_def)
qed (use st fin in \<open>auto simp: is_terminal_iff\<close>)


text \<open>Starting a queued task records the clock.\<close>

definition mark_started :: "task_id \<Rightarrow> instant \<Rightarrow> 's supervisor \<Rightarrow> 's supervisor" where
  "mark_started t now s = s\<lparr>sup_tasks := bt_modify t (\<lambda>r. r\<lparr>tr_started_at := Some now\<rparr>) (sup_tasks s)\<rparr>"

lemma mark_started_sel [simp]:
  "sup_recovered (mark_started t now s) = sup_recovered s"
  "sup_idempotency_index (mark_started t now s) = sup_idempotency_index s"
  "sup_event_store (mark_started t now s) = sup_event_store s"
  "sup_authority (mark_started t now s) = sup_authority s"
  "sup_pending (mark_started t now s) = sup_pending s"
  "sup_approved (mark_started t now s) = sup_approved s"
  "sup_max_tasks (mark_started t now s) = sup_max_tasks s"
  "pending_view (mark_started t now s) = pending_view s"
  "live_state (mark_started t now s) = live_state s"
  by (auto simp: mark_started_def live_state_def fun_eq_iff option.map_comp comp_def)

lemma sup_task_state_mark [simp]: "sup_task_state (mark_started t now s) = sup_task_state s"
  by (simp add: sup_task_state_live fun_eq_iff split: option.splits)

lemma inv_start:
  assumes inv: "sup_inv K s" and q: "live_state s t = Some Queued"
    and ks: "replay (Some Queued, False) ks = Some (Some Running, False)"
  shows "sup_inv (K(t := K t @ ks)) (mark_started t now (set_state t Running s))"
proof -
  let ?m = "set_state t Running s" and ?s = "mark_started t now (set_state t Running s)"
  note parts = sup_invD [OF inv]
  obtain r where r: "bt_get (sup_tasks s) t = Some r" "tr_state r = Queued"
    using q by (auto simp: live_state_Some)
  have no_pending: "po_task_id p \<noteq> t" if "bt_get (sup_pending s) i = Some p" for i p
    using parts(5) that q by (auto simp: pending_ok_def)
  have no_approved: "ao_task_id a \<noteq> t" if "bt_get (sup_approved s) o' = Some a" for o' a
    using parts(6) that q by (fastforce simp: approved_ok_def)
  have "pending_ok ?m" by (rule pending_ok_set [OF parts(5)]) (rule no_pending)
  then have "pending_ok ?s" by (simp add: pending_ok_def)
  moreover have "approved_ok ?s"
    using parts(6) no_approved by (auto simp: approved_ok_def)
  moreover have "maps_ok ?s" "index_ok ?s"
    using maps_ok_set [OF parts(1), of t Running] index_ok_set [OF parts(4), of t Running]
    by (simp_all add: maps_ok_def index_ok_def) (auto simp: mark_started_def option.map_comp comp_def)
  moreover have "record_ok r" using parts(3) r by (simp add: tasks_ok_def)
  then have "record_ok (r\<lparr>tr_state := Running, tr_started_at := Some now\<rparr>)"
    using r by (simp add: record_ok_def)
  then have "tasks_ok ?s"
    using parts(3) r by (simp add: tasks_ok_def mark_started_def set_state_def)
  moreover have "logs_ok (K(t := K t @ ks)) ?s"
    using q by (intro logs_ok_step [OF parts(2) _ ks]) (auto simp: task_state_set sup_task_state_live fun_eq_iff)
  ultimately show ?thesis by (simp add: sup_inv_def)
qed

text \<open>A new task.\<close>

definition add_task :: "task_id \<Rightarrow> task_record \<Rightarrow> 's supervisor \<Rightarrow> 's supervisor" where
  "add_task t r s = s\<lparr>sup_tasks := bt_insert t r (sup_tasks s),
     sup_idempotency_index := bt_insert (ts_idempotency_key (tr_spec r)) t (sup_idempotency_index s)\<rparr>"

lemma add_task_sel [simp]:
  "sup_recovered (add_task t r s) = sup_recovered s" "sup_event_store (add_task t r s) = sup_event_store s"
  "sup_authority (add_task t r s) = sup_authority s" "sup_pending (add_task t r s) = sup_pending s"
  "sup_approved (add_task t r s) = sup_approved s" "sup_max_tasks (add_task t r s) = sup_max_tasks s"
  "pending_view (add_task t r s) = pending_view s"
  "live_state (add_task t r s) = (live_state s)(t \<mapsto> tr_state r)"
  by (auto simp: add_task_def live_state_def pending_view_def fun_eq_iff)

lemma inv_submit:
  assumes inv: "sup_inv K s" and new: "sup_task_state s t = None"
    and key: "bt_get (sup_idempotency_index s) (ts_idempotency_key (tr_spec r)) = None"
    and room: "length (sup_tasks s) + length (sup_recovered s) < sup_max_tasks s"
    and r: "record_ok r" and ks: "replays_to ks (tr_state r)"
  shows "sup_inv (K(t := K t @ ks)) (add_task t r s)"
proof -
  note parts = sup_invD [OF inv]
  have live: "live_state s t = None" "bt_get (sup_tasks s) t = None" "bt_get (sup_recovered s) t = None"
    using new by (auto simp: sup_task_state_live live_state_def split: option.splits)
  have ts: "sup_task_state (add_task t r s) = (sup_task_state s)(t \<mapsto> tr_state r)"
    by (auto simp: sup_task_state_live fun_eq_iff split: option.splits)
  have "K t = []" using parts(2) new by (simp add: logs_ok_def)
  then have "logs_ok (K(t := K t @ ks)) (add_task t r s)"
    using parts(2) ks by (auto simp: logs_ok_def ts)
  moreover have "maps_ok (add_task t r s)"
    using parts(1) room live by (simp add: maps_ok_def add_task_def bt_length_insert)
  moreover have "tasks_ok (add_task t r s)"
    using parts(3) r live by (auto simp: tasks_ok_def add_task_def)
  moreover have "index_ok (add_task t r s)"
    using parts(4) key live unfolding index_ok_def add_task_def
    by (auto split: if_splits) (metis option.distinct(1))
  moreover have "pending_ok (add_task t r s)"
    using parts(5) live by (auto simp: pending_ok_def)
  moreover have "approved_ok (add_task t r s)"
    using parts(6) live by (fastforce simp: approved_ok_def)
  ultimately show ?thesis by (simp add: sup_inv_def)
qed

end
