(* ===== verification/Supervisor_Ops.thy ===== *)
theory Supervisor_Ops
  imports Supervisor_Inv
begin

text \<open>
  Every operation of the supervisor keeps the invariant, on success and on error, for
  every event store that meets the interface \<open>event_store\<close>. \<open>sup_good\<close> is the invariant
  with the log read from the store.
\<close>

definition log_kinds :: "('s \<Rightarrow> task_id \<Rightarrow> task_event list) \<Rightarrow> 's \<Rightarrow> task_id \<Rightarrow> event_kind list" where
  "log_kinds lg es t = map ev_kind (lg es t)"

definition sup_good ::
  "('s \<Rightarrow> task_id \<Rightarrow> task_event list) \<Rightarrow> ('s \<Rightarrow> bool) \<Rightarrow> 's supervisor \<Rightarrow> bool" where
  "sup_good lg ok s \<longleftrightarrow> ok (sup_event_store s) \<and> sup_inv (log_kinds lg (sup_event_store s)) s"

lemma revocation_kinds: "\<forall>k \<in> set (revocation_events s t). \<exists>a p. k = ApprovalRevoked a p"
  by (auto simp: revocation_events_def List.map_filter_def split: if_splits)

lemma revocation_queued:
  assumes "sup_inv K s" and "live_state s t = Some Queued"
  shows "revocation_events s t = []"
proof -
  note parts = sup_invD [OF assms(1)]
  have "po_task_id p \<noteq> t" if "(i, p) \<in> set (sup_pending s)" for i p
    using that parts(1,5) assms(2) by (auto simp: maps_ok_def bt_mem_get pending_ok_def)
  moreover have "ao_task_id a \<noteq> t" if "(o', a) \<in> set (sup_approved s)" for o' a
  proof -
    have "bt_get (sup_approved s) o' = Some a" using that parts(1) by (simp add: maps_ok_def bt_mem_get)
    with parts(6) assms(2) show ?thesis by (fastforce simp: approved_ok_def)
  qed
  ultimately show ?thesis
    by (auto simp: revocation_events_def List.map_filter_def filter_empty_conv split: prod.splits)
qed

lemma replay_terminal:
  assumes inv: "sup_inv K s" and live: "live_state s t = Some current"
    and can: "can_transition_to current nxt"
    and f: "failure = None \<or> nxt = Failed"
  shows "replay (Some current, False)
      (revocation_events s t @ (case failure of None \<Rightarrow> [] | Some code \<Rightarrow> [TaskFailed code])
        @ [StateTransitioned current nxt]) = Some (Some nxt, False)"
proof -
  have last: "replay (Some current, False) ((case failure of None \<Rightarrow> [] | Some code \<Rightarrow> [TaskFailed code])
        @ [StateTransitioned current nxt]) = Some (Some nxt, False)"
    using can f can_transition_not_terminal [OF can]
    by (auto simp: recover_kind_def split: option.splits)
  obtain r where r: "bt_get (sup_tasks s) t = Some r" "tr_state r = current"
    using live by (auto simp: live_state_Some)
  then have "current \<notin> {Submitted, Validating}"
    using sup_invD(3) [OF inv] by (auto simp: tasks_ok_def record_ok_def)
  with can_transition_not_terminal [OF can] consider "current = Queued" | "current \<in> {Running, WaitingApproval}"
    by (cases current) auto
  then show ?thesis
  proof cases
    case 1
    then show ?thesis using revocation_queued [OF inv] live last by simp
  next
    case 2
    show ?thesis by (subst replay_revocations [OF 2 revocation_kinds]) (rule last)
  qed
qed

context event_store
begin

abbreviation good where "good \<equiv> sup_good log store_ok"
abbreviation kinds_of where "kinds_of s \<equiv> log_kinds log (sup_event_store s)"

lemma goodD: "good s \<Longrightarrow> store_ok (sup_event_store s)" "good s \<Longrightarrow> sup_inv (kinds_of s) s"
  by (simp_all add: sup_good_def)

lemma good_frame:
  "good s \<Longrightarrow> sup_inv (kinds_of s) s' \<Longrightarrow> sup_event_store s' = sup_event_store s \<Longrightarrow> good s'"
  by (simp add: sup_good_def)

lemma store_append_cases:
  assumes "store_ok (sup_event_store s)" and "store_append append w s t ks = (r, s')"
  obtains (err) e es where "r = Inl (EventStoreFailed e)" "s' = s\<lparr>sup_event_store := es\<rparr>"
      "store_ok es" "log es = log (sup_event_store s)"
  | (ok) es where "r = Inr ()" "s' = s\<lparr>sup_event_store := es\<rparr>" "store_ok es"
      "log_kinds log es = (kinds_of s)(t := kinds_of s t @ ks)"
proof -
  obtain r0 es where a: "append w (sup_event_store s) t ks = (r0, es)" by fastforce
  show ?thesis
  proof (cases r0)
    case (Inl e)
    then show ?thesis using append_err [OF assms(1)] a assms(2) err by (auto simp: store_append_def)
  next
    case (Inr events)
    then have "store_ok es" "log_kinds log es = (kinds_of s)(t := kinds_of s t @ ks)"
      using append_ok [OF assms(1)] a by (auto simp: log_kinds_def fun_eq_iff)
    then show ?thesis using a Inr assms(2) ok by (auto simp: store_append_def)
  qed
qed

lemma good_err:
  "good s \<Longrightarrow> store_ok es \<Longrightarrow> log es = log (sup_event_store s) \<Longrightarrow> good (s\<lparr>sup_event_store := es\<rparr>)"
  by (simp add: sup_good_def log_kinds_def [abs_def])

lemma good_ok:
  assumes "store_ok es" and "log_kinds log es = K" and "sup_inv K s'" and "sup_event_store s' = es"
  shows "good s'"
  using assms by (simp add: sup_good_def)

text \<open>An append that keeps the state of the task.\<close>

lemma good_append_only:
  assumes "good s" and "sup_task_state s t = Some st" and "replay (Some st, False) ks = Some (Some st, False)"
    and "store_append append w s t ks = (r, s')"
  shows "good s'"
proof -
  note inv = goodD [OF assms(1)]
  show ?thesis
    using inv(1) assms(4)
  proof (cases rule: store_append_cases)
    case (err e es)
    then show ?thesis using good_err [OF assms(1)] by simp
  next
    case (ok es)
    show ?thesis
      using inv_append_only [OF inv(2) assms(2,3)] ok by (intro good_ok [OF ok(3,4)]) auto
  qed
qed

text \<open>Closing a pending approval: the common part of denial and expiry.\<close>

lemma good_close:
  assumes "good s" and "bt_get (sup_pending s) i = Some p"
    and "replay (Some WaitingApproval, False) ks = Some (Some Failed, False)"
    and "store_append append w s (po_task_id p) ks = (Inr (), s')"
  shows "good (set_state (po_task_id p) Failed (drop_pending i s'))"
  using goodD(1) [OF assms(1)] assms(4)
proof (cases rule: store_append_cases)
  case (ok es)
  have "sup_inv (kinds_of s) s'" "bt_get (sup_pending s') i = Some p"
    using goodD(2) [OF assms(1)] assms(2) ok(2) by simp_all
  from inv_close_pending [OF this assms(3)] show ?thesis
    using ok(2) by (intro good_ok [OF ok(3,4)]) simp_all
qed simp

lemma good_store_err:
  assumes "good s" and "store_append append w s t ks = (Inl e, s')"
  shows "good s'"
  using goodD(1) [OF assms(1)] assms(2)
  by (cases rule: store_append_cases) (auto intro: good_err [OF assms(1)])

end

text \<open>What expiry may change: waiting tasks fail, their approvals go; everything else
  stays.\<close>

definition expires_to :: "'s supervisor \<Rightarrow> 's supervisor \<Rightarrow> bool" where
  "expires_to s s' \<longleftrightarrow>
     (\<forall>t. live_state s' t = live_state s t
        \<or> (live_state s t = Some WaitingApproval \<and> live_state s' t = Some Failed
           \<and> (\<exists>i p. bt_get (sup_pending s) i = Some p \<and> po_task_id p = t)))
     \<and> (\<forall>t. map_option tr_spec (bt_get (sup_tasks s') t) = map_option tr_spec (bt_get (sup_tasks s) t))
     \<and> (\<forall>i p. bt_get (sup_pending s') i = Some p \<longrightarrow> bt_get (sup_pending s) i = Some p)
     \<and> (\<forall>i p. bt_get (sup_pending s) i = Some p \<longrightarrow>
          bt_get (sup_pending s') i = Some p \<or> live_state s' (po_task_id p) = Some Failed)
     \<and> (\<forall>i. bt_get (aa_pending (sup_authority s')) i = None
           \<or> bt_get (aa_pending (sup_authority s')) i = bt_get (aa_pending (sup_authority s)) i)
     \<and> sup_approved s' = sup_approved s \<and> sup_recovered s' = sup_recovered s
     \<and> sup_idempotency_index s' = sup_idempotency_index s \<and> sup_max_tasks s' = sup_max_tasks s"

lemma expires_to_refl: "expires_to s s"
  by (simp add: expires_to_def)

lemma expires_to_store [simp]: "expires_to s (s'\<lparr>sup_event_store := es\<rparr>) \<longleftrightarrow> expires_to s s'"
  by (simp add: expires_to_def)

lemma expires_to_store' [simp]: "expires_to (s\<lparr>sup_event_store := es\<rparr>) s' \<longleftrightarrow> expires_to s s'"
  by (simp add: expires_to_def)

lemma expires_to_None:
  "expires_to s s' \<Longrightarrow> bt_get (sup_pending s) i = None \<Longrightarrow> bt_get (sup_pending s') i = None"
  by (cases "bt_get (sup_pending s') i") (auto simp: expires_to_def)

lemma expires_to_trans:
  assumes "expires_to a b" and "expires_to b c" shows "expires_to a c"
proof -
  have "live_state c t = live_state a t
        \<or> (live_state a t = Some WaitingApproval \<and> live_state c t = Some Failed
           \<and> (\<exists>i p. bt_get (sup_pending a) i = Some p \<and> po_task_id p = t))" for t
    using assms unfolding expires_to_def by metis
  moreover have "bt_get (aa_pending (sup_authority c)) i = None
           \<or> bt_get (aa_pending (sup_authority c)) i = bt_get (aa_pending (sup_authority a)) i" for i
    using assms unfolding expires_to_def by metis
  moreover have "bt_get (sup_pending c) i = Some p \<or> live_state c (po_task_id p) = Some Failed"
    if p: "bt_get (sup_pending a) i = Some p" for i p
  proof (cases "bt_get (sup_pending b) i = Some p")
    case True
    then show ?thesis using assms(2) unfolding expires_to_def by blast
  next
    case False
    then have "live_state b (po_task_id p) = Some Failed" using assms(1) p unfolding expires_to_def by blast
    moreover have "live_state c (po_task_id p) = live_state b (po_task_id p)
        \<or> live_state b (po_task_id p) = Some WaitingApproval"
      using assms(2) unfolding expires_to_def by blast
    ultimately show ?thesis by auto
  qed
  ultimately show ?thesis using assms unfolding expires_to_def by simp
qed

lemma expires_to_close:
  assumes "pending_ok s" and "bt_get (sup_pending s) i = Some p"
  shows "expires_to s (set_state (po_task_id p) Failed (drop_pending i s))"
proof -
  have w: "live_state s (po_task_id p) = Some WaitingApproval"
    using assms by (simp add: pending_ok_def)
  have a: "aa_pending (sup_authority (drop_pending i s)) = bt_remove i (aa_pending (sup_authority s))"
    by (cases "authority_remove (sup_authority s) i")
      (auto simp: drop_pending_def authority_revoke_eq dest: authority_remove_eq)
  have spec: "map_option tr_spec (bt_get (sup_tasks (set_state t st s)) u) = map_option tr_spec (bt_get (sup_tasks s) u)"
    for t st u and s :: "'a supervisor"
    by (simp add: set_state_def option.map_comp comp_def)
  have "live_state (set_state (po_task_id p) Failed (drop_pending i s)) t = live_state s t
        \<or> (live_state s t = Some WaitingApproval
           \<and> live_state (set_state (po_task_id p) Failed (drop_pending i s)) t = Some Failed
           \<and> (\<exists>i p. bt_get (sup_pending s) i = Some p \<and> po_task_id p = t))" for t
    using assms(2) w by (cases "t = po_task_id p") auto
  moreover have "bt_get (sup_pending (set_state (po_task_id p) Failed (drop_pending i s))) j = Some q
      \<or> live_state (set_state (po_task_id p) Failed (drop_pending i s)) (po_task_id q) = Some Failed"
    if "bt_get (sup_pending s) j = Some q" for j q
    using that assms(2) w by (cases "j = i") auto
  ultimately show ?thesis by (simp add: expires_to_def a spec)
qed

context event_store
begin

lemma expire_loop_good:
  assumes "good s" and "expire_loop append ws ids n s = (r, s')"
  shows "good s' \<and> expires_to s s'
     \<and> (\<forall>e. r = Inl e \<longrightarrow> (\<exists>x. e = EventStoreFailed x))
     \<and> (\<forall>m. r = Inr m \<longrightarrow> (\<forall>i \<in> set ids. bt_get (sup_pending s') i = None))"
  using assms
proof (induction ids arbitrary: ws n s)
  case (Cons i ids)
  note inv = goodD(2) [OF Cons.prems(1)]
  show ?case
  proof (cases "bt_get (sup_pending s) i")
    case None
    then have l: "expire_loop append ws ids n s = (r, s')" using Cons.prems(2) by simp
    from Cons.IH [OF Cons.prems(1) l] None expires_to_None [of s s' i] show ?thesis by simp
  next
    case (Some p)
    have w: "live_state s (po_task_id p) = Some WaitingApproval"
      using sup_invD(5) [OF inv] Some by (simp add: pending_ok_def)
    then obtain rec where rec: "bt_get (sup_tasks s) (po_task_id p) = Some rec" "tr_state rec = WaitingApproval"
      by (auto simp: live_state_Some)
    obtain r1 s1 where a: "store_append append (ws 0) s (po_task_id p)
        [ApprovalExpired i (po_operation_id p), StateTransitioned WaitingApproval Failed] = (r1, s1)"
      by fastforce
    have step: "expire_loop append ws (i # ids) n s = (case r1 of Inl e \<Rightarrow> (Inl e, s1)
        | Inr _ \<Rightarrow> expire_loop append (\<lambda>i. ws (Suc i)) ids (n + 1)
                    (set_state (po_task_id p) Failed (drop_pending i s1)))" if "live_state s1 = live_state s"
      using Some rec a that w set_task_state_eq [of "drop_pending i s1" "po_task_id p" Failed]
      by (simp add: transition_to_def can_transition_targets drop_pending_def split: sum.splits)
    show ?thesis
      using goodD(1) [OF Cons.prems(1)] a
    proof (cases rule: store_append_cases)
      case (err e es)
      then have "r = Inl (EventStoreFailed e)" "s' = s1" using step Cons.prems(2) by auto
      then show ?thesis
        using err good_store_err [OF Cons.prems(1)] a by (simp add: expires_to_refl)
    next
      case (ok es)
      let ?s2 = "set_state (po_task_id p) Failed (drop_pending i s1)"
      have l: "expire_loop append (\<lambda>i. ws (Suc i)) ids (n + 1) ?s2 = (r, s')"
        using step ok Cons.prems(2) by simp
      have g: "good ?s2"
        using a ok(1) by (intro good_close [OF Cons.prems(1) Some]) (auto simp: recover_kind_def can_transition_targets)
      have "expires_to s1 ?s2"
        using expires_to_close [of s1 i p] sup_invD(5) [OF inv] Some ok(2)
        by (simp add: pending_ok_def)
      then have e: "expires_to s ?s2" using ok(2) by simp
      note ih = Cons.IH [OF g l]
      have "bt_get (sup_pending ?s2) i = None" by simp
      then have "bt_get (sup_pending s') i = None" using ih expires_to_None by blast
      then show ?thesis using ih expires_to_trans [OF e] by auto
    qed
  qed
qed (auto simp: expires_to_refl)

lemma expire_approvals_good:
  assumes "good s" and "expire_approvals append ws now s = (r, s')"
  shows "good s'" "expires_to s s'" "r = Inl e \<Longrightarrow> \<exists>x. e = EventStoreFailed x"
    and "r = Inr m \<Longrightarrow> bt_get (aa_pending (sup_authority s')) i = Some p \<Longrightarrow> now < pa_deadline p"
proof -
  note l = expire_loop_good [OF assms(1), of ws "expired_ids now (sup_authority s)" 0 r s']
  have l': "good s' \<and> expires_to s s' \<and> (\<forall>e. r = Inl e \<longrightarrow> (\<exists>x. e = EventStoreFailed x))
     \<and> (\<forall>m. r = Inr m \<longrightarrow> (\<forall>i \<in> set (expired_ids now (sup_authority s)). bt_get (sup_pending s') i = None))"
    using l assms(2) by (simp add: expire_approvals_def)
  then show g: "good s'" and e: "expires_to s s'" and "r = Inl e \<Longrightarrow> \<exists>x. e = EventStoreFailed x" by auto
  assume r: "r = Inr m" and p: "bt_get (aa_pending (sup_authority s')) i = Some p"
  have "pending_view s' i = authority_view (sup_authority s') i"
    using sup_invD(5) [OF goodD(2) [OF g]] by (simp add: pending_ok_def)
  then have "bt_get (sup_pending s') i \<noteq> None"
    using p by (auto simp: pending_view_def authority_view_def)
  with l' r have "i \<notin> set (expired_ids now (sup_authority s))" by auto
  moreover have "bt_get (aa_pending (sup_authority s)) i = Some p"
    using e p unfolding expires_to_def by (metis option.distinct(1))
  moreover have "authority_ok (sup_authority s)"
    using sup_invD(5) [OF goodD(2) [OF assms(1)]] by (simp add: pending_ok_def)
  ultimately show "now < pa_deadline p" by (auto simp: expired_ids_iff)
qed

end

section \<open>Transitions, start and submission\<close>

lemma replay_submit:
  assumes "submit_events v = (st, ks)"
  shows "replays_to ks st" "st = (if v = Inr () then Queued else Rejected)"
  using assms by (auto simp: submit_events_def replays_to_def recover_kind_def can_transition_targets
      split: sum.splits)

context event_store
begin

lemma apply_terminal_cases:
  assumes g: "good s" and live: "live_state s t = Some cur" and can: "can_transition_to cur nxt"
    and nxt: "nxt \<in> {Succeeded, Failed, Cancelled}" and f: "failure = None \<or> nxt = Failed"
    and eq: "apply_transition_with_failure append w s t cur nxt failure = (r, s')"
  obtains (err) e es where "r = Inl (EventStoreFailed e)" "s' = s\<lparr>sup_event_store := es\<rparr>"
      "log es = log (sup_event_store s)" "good s'"
  | (ok) es where "r = Inr ()" "s' = set_state t nxt (invalidate_approvals (s\<lparr>sup_event_store := es\<rparr>) t)"
      "good s'" "live_state s' = (live_state s)(t \<mapsto> nxt)"
proof -
  let ?ks = "revocation_events s t @ (case failure of None \<Rightarrow> [] | Some code \<Rightarrow> [TaskFailed code])
        @ [StateTransitioned cur nxt]"
  obtain r1 s1 where a: "store_append append w s t ?ks = (r1, s1)" by fastforce
  have fin: "is_terminal nxt" "nxt \<noteq> Rejected" using nxt by auto
  have cur: "cur \<noteq> Rejected" using can_transition_not_terminal [OF can] by auto
  show ?thesis
    using goodD(1) [OF g] a
  proof (cases rule: store_append_cases)
    case (err e es)
    with eq a fin have "r = Inl (EventStoreFailed e)" "s' = s1"
      by (simp_all add: apply_transition_with_failure_def)
    with err that(1) good_store_err [OF g] a show ?thesis by metis
  next
    case (ok es)
    let ?s2 = "set_state t nxt (invalidate_approvals s1 t)"
    have "bt_contains (sup_tasks (invalidate_approvals s1 t)) t"
      using live ok(2) by (auto simp: live_state_def invalidate_approvals_eq)
    then have res: "r = Inr ()" "s' = ?s2"
      using eq a ok fin by (simp_all add: apply_transition_with_failure_def set_state_def Let_def)
    have inv: "sup_inv (kinds_of s) s1" "live_state s1 t = Some cur"
      using goodD(2) [OF g] live ok(2) by simp_all
    have "good ?s2"
      using inv_terminal [OF inv cur fin replay_terminal [OF goodD(2) [OF g] live can f]] ok
      by (intro good_ok [OF ok(3,4)]) (simp_all add: invalidate_approvals_eq)
    moreover have "live_state ?s2 = (live_state s)(t \<mapsto> nxt)"
      using ok(2) live by (simp add: invalidate_approvals_eq)
    ultimately show ?thesis using that(2) res ok(2) by metis
  qed
qed

lemma terminal_good:
  assumes g: "good s" and "sup_task_state s t = Some cur" and can: "can_transition_to cur nxt"
    and nxt: "nxt \<in> {Succeeded, Failed, Cancelled}" and f: "failure = None \<or> nxt = Failed"
    and eq: "apply_transition_with_failure append w s t cur nxt failure = (r, s')"
  shows "good s'" and "r = Inr () \<Longrightarrow> sup_task_state s' t = Some nxt"
    and "r = Inl e \<Longrightarrow> sup_task_state s' = sup_task_state s"
proof -
  have "live_state s t = Some cur"
    using nonterminal_live [OF sup_invD(3) [OF goodD(2) [OF g]] assms(2)] can_transition_not_terminal [OF can] .
  from g this can nxt f eq have "good s' \<and> (r = Inr () \<longrightarrow> sup_task_state s' t = Some nxt)
     \<and> (\<forall>e. r = Inl e \<longrightarrow> sup_task_state s' = sup_task_state s)"
    by (cases rule: apply_terminal_cases) (auto simp: sup_task_state_live [of "set_state t nxt u" for u] simp del: live_state_set)
  then show "good s'" and "r = Inr () \<Longrightarrow> sup_task_state s' t = Some nxt"
    and "r = Inl e \<Longrightarrow> sup_task_state s' = sup_task_state s" by auto
qed

lemma transition_good:
  assumes "good s" and "transition append w s t nxt = (r, s')" and "nxt \<in> {Succeeded, Failed}"
  shows "good s'" and "r = Inr () \<Longrightarrow> sup_task_state s' t = Some nxt"
    and "r = Inl e \<Longrightarrow> sup_task_state s' = sup_task_state s"
proof -
  have "good s' \<and> (r = Inr () \<longrightarrow> sup_task_state s' t = Some nxt)
      \<and> (\<forall>e. r = Inl e \<longrightarrow> sup_task_state s' = sup_task_state s)"
  proof (cases "\<exists>cur. sup_task_state s t = Some cur \<and> can_transition_to cur nxt")
    case True
    then obtain cur where c: "sup_task_state s t = Some cur" "can_transition_to cur nxt" by blast
    then have "apply_transition_with_failure append w s t cur nxt None = (r, s')"
      using assms(2) by (simp add: transition_def transition_to_def apply_transition_def)
    from terminal_good [OF assms(1) c _ _ this] assms(3) show ?thesis by auto
  next
    case False
    then show ?thesis
      using assms(1,2) by (auto simp: transition_def transition_to_def split: option.splits)
  qed
  then show "good s'" and "r = Inr () \<Longrightarrow> sup_task_state s' t = Some nxt"
    and "r = Inl e \<Longrightarrow> sup_task_state s' = sup_task_state s" by auto
qed

lemma fail_budget_good:
  assumes "good s" and "fail_budget_exceeded append w s t = (r, s')"
  shows "good s'"
proof (cases "\<exists>cur. sup_task_state s t = Some cur \<and> can_transition_to cur Failed")
  case True
  then obtain cur where c: "sup_task_state s t = Some cur" "can_transition_to cur Failed" by blast
  then have "apply_transition_with_failure append w s t cur Failed (Some BudgetExceeded) = (r, s')"
    using assms(2) by (simp add: fail_budget_exceeded_def transition_to_def)
  from terminal_good(1) [OF assms(1) c _ _ this] show ?thesis by simp
next
  case False
  then show ?thesis
    using assms by (auto simp: fail_budget_exceeded_def transition_to_def split: option.splits)
qed

lemma cancel_good:
  assumes "good s" and "cancel append w s t = (r, s')"
  shows "good s'" and "r = Inr True \<Longrightarrow> sup_task_state s' t = Some Cancelled"
    and "r = Inr False \<Longrightarrow> s' = s \<and> (\<exists>st. sup_task_state s t = Some st \<and> is_terminal st)"
    and "r = Inl e \<Longrightarrow> sup_task_state s' = sup_task_state s"
proof -
  have "good s' \<and> (r = Inr True \<longrightarrow> sup_task_state s' t = Some Cancelled)
     \<and> (r = Inr False \<longrightarrow> s' = s \<and> (\<exists>st. sup_task_state s t = Some st \<and> is_terminal st))
     \<and> (\<forall>e. r = Inl e \<longrightarrow> sup_task_state s' = sup_task_state s)"
  proof (cases "\<exists>cur. sup_task_state s t = Some cur \<and> \<not> is_terminal cur")
    case True
    then obtain cur where c: "sup_task_state s t = Some cur" "\<not> is_terminal cur" by blast
    obtain r1 where a: "apply_transition_with_failure append w s t cur Cancelled None = (r1, s')"
      and r: "r = (case r1 of Inl e \<Rightarrow> Inl e | Inr _ \<Rightarrow> Inr True)"
      using assms(2) c by (auto simp: cancel_def apply_transition_def split: prod.splits sum.splits)
    have can: "can_transition_to cur Cancelled" using c(2) by (simp add: can_transition_targets)
    from terminal_good [OF assms(1) c(1) can _ _ a] r show ?thesis
      by (cases r1) auto
  next
    case False
    then show ?thesis
      using assms by (auto simp: cancel_def split: option.splits)
  qed
  then show "good s'" and "r = Inr True \<Longrightarrow> sup_task_state s' t = Some Cancelled"
    and "r = Inr False \<Longrightarrow> s' = s \<and> (\<exists>st. sup_task_state s t = Some st \<and> is_terminal st)"
    and "r = Inl e \<Longrightarrow> sup_task_state s' = sup_task_state s" by auto
qed

end

context event_store
begin

lemma start_cases:
  assumes g: "good s" and nw: "sup_task_state s t \<noteq> Some WaitingApproval"
    and eq: "start append w now s t = (r, s')"
  obtains (err) e es where "r = Inl e" "good s'" "s' = s\<lparr>sup_event_store := es\<rparr>" "e \<noteq> Panicked"
  | (ok) es where "r = Inr ()" "live_state s t = Some Queued" "good s'"
      "s' = mark_started t now (set_state t Running (s\<lparr>sup_event_store := es\<rparr>))"
proof (cases "sup_task_state s t = Some Queued")
  case True
  have live: "live_state s t = Some Queued"
    using nonterminal_live [OF sup_invD(3) [OF goodD(2) [OF g]] True] by simp
  obtain r1 s1 where a: "store_append append w s t [StateTransitioned Queued Running] = (r1, s1)" by fastforce
  have contains: "bt_contains (sup_tasks s) t" using live by (auto simp: live_state_def)
  show ?thesis
    using goodD(1) [OF g] a
  proof (cases rule: store_append_cases)
    case (err e es)
    with eq a True have "r = Inl (EventStoreFailed e)" "s' = s1"
      by (simp_all add: start_def transition_def transition_to_def can_transition_targets apply_transition_def
          apply_transition_with_failure_def)
    with err good_store_err [OF g, of w t] a show ?thesis
      by (intro that(1) [of "EventStoreFailed e" es]) auto
  next
    case (ok es)
    then have res: "r = Inr ()" "s' = mark_started t now (set_state t Running s1)"
      using eq a True contains
      by (auto simp: start_def transition_def transition_to_def can_transition_targets apply_transition_def
          apply_transition_with_failure_def mark_started_def set_state_def Let_def split: option.splits)
    have inv: "sup_inv (kinds_of s) s1" "live_state s1 t = Some Queued"
      using goodD(2) [OF g] live ok(2) by simp_all
    have "good s'"
      using inv_start [OF inv replay_transition] ok res by (intro good_ok [OF ok(3,4)]) (simp_all add: can_transition_targets)
    with res ok(2) live that(2) show ?thesis by blast
  qed
next
  case False
  with eq nw have "(\<exists>e. r = Inl e \<and> e \<noteq> Panicked) \<and> s' = s"
    by (auto simp: start_def transition_def transition_to_def can_transition_targets split: option.splits)
  then obtain e where "r = Inl e" "e \<noteq> Panicked" "s' = s\<lparr>sup_event_store := sup_event_store s\<rparr>" by auto
  with g show ?thesis by (intro that(1) [of e "sup_event_store s"]) simp_all
qed

lemma start_execution_cases:
  assumes g: "good s" and nw: "sup_task_state s t \<noteq> Some WaitingApproval"
    and eq: "start_execution append w now s t = (r, s')"
  obtains (err) e es where "r = Inl e" "good s'" "s' = s\<lparr>sup_event_store := es\<rparr>" "e \<noteq> Panicked"
  | (ok) rec es where "bt_get (sup_tasks s) t = Some rec" "tr_state rec = Queued" "good s'"
      "s' = mark_started t now (set_state t Running (s\<lparr>sup_event_store := es\<rparr>))"
      "r = Inr \<lparr>tei_goal = ts_goal (tr_spec rec), tei_capability_tools = cs_tools (ts_capabilities (tr_spec rec)),
         tei_network_destinations = (case cs_network (ts_capabilities (tr_spec rec)) of
            NetDeny \<Rightarrow> [] | NetAllow destinations \<Rightarrow> destinations)\<rparr>"
proof (cases "bt_get (sup_tasks s) t")
  case None
  with eq have "r = Inl TaskNotFound" "s' = s\<lparr>sup_event_store := sup_event_store s\<rparr>"
    by (simp_all add: start_execution_def)
  with g show ?thesis by (intro that(1) [of TaskNotFound "sup_event_store s"]) simp_all
next
  case (Some rec)
  obtain r1 where st: "start append w now s t = (r1, s')"
    using eq Some by (auto simp: start_execution_def Let_def split: prod.splits sum.splits)
  from g nw st show ?thesis
  proof (cases rule: start_cases)
    case (err e es)
    with eq Some st have "r = Inl e" by (simp add: start_execution_def Let_def)
    with err that(1) show ?thesis by blast
  next
    case (ok es)
    then have "tr_state rec = Queued" using Some by (simp add: live_state_def)
    with ok eq Some st that(2) show ?thesis by (auto simp: start_execution_def Let_def)
  qed
qed

lemma submit_cases:
  assumes g: "good s" and new: "sup_task_state s t = None" and eq: "submit append w t s spec = (r, s')"
  obtains (err) e es where "r = Inl e" "good s'" "s' = s\<lparr>sup_event_store := es\<rparr>"
      "e \<noteq> Panicked" "e \<noteq> TaskNotFound"
  | (existing) u rec where "bt_get (sup_tasks s) u = Some rec" "tr_spec rec = spec" "s' = s"
      "r = Inr (Existing \<lparr>snap_task_id = u, snap_state = tr_state rec\<rparr>)"
  | (added) st es where "good s'" "st = (if task_ok spec then Queued else Rejected)"
      "s' = add_task t \<lparr>tr_spec = spec, tr_state = st, tr_started_at = None\<rparr> (s\<lparr>sup_event_store := es\<rparr>)"
      "bt_get (sup_idempotency_index s) (ts_idempotency_key spec) = None"
      "r = Inr (case validate spec of Inr _ \<Rightarrow> Accepted \<lparr>snap_task_id = t, snap_state = st\<rparr>
                | Inl errors \<Rightarrow> RejectedTask \<lparr>snap_task_id = t, snap_state = st\<rparr> errors)"
proof (cases "bt_get (sup_idempotency_index s) (ts_idempotency_key spec)")
  case (Some u)
  then obtain rec where rec: "bt_get (sup_tasks s) u = Some rec" 
    using sup_invD(4) [OF goodD(2) [OF g]] unfolding index_ok_def by auto
  show ?thesis
  proof (cases "tr_spec rec = spec")
    case True
    with eq Some rec have "r = Inr (Existing \<lparr>snap_task_id = u, snap_state = tr_state rec\<rparr>)" "s' = s"
      by (simp_all add: submit_def)
    with True rec that(2) show ?thesis by blast
  next
    case False
    with eq Some rec have "r = Inl IdempotencyConflict" "s' = s\<lparr>sup_event_store := sup_event_store s\<rparr>"
      by (simp_all add: submit_def)
    with g show ?thesis by (intro that(1) [of IdempotencyConflict "sup_event_store s"]) simp_all
  qed
next
  case None
  note parts = sup_invD [OF goodD(2) [OF g]]
  have sat: "saturating_add (length (sup_tasks s)) (length (sup_recovered s))
      = length (sup_tasks s) + length (sup_recovered s)"
    using parts(1) by (simp add: maps_ok_def saturating_add_def)
  obtain st ks where ev: "submit_events (validate spec) = (st, ks)" by fastforce
  note ks = replay_submit [OF ev]
  have st: "st = (if task_ok spec then Queued else Rejected)" using ks(2) by (simp add: validate_Ok_iff)
  obtain r1 s1 where a: "store_append append w s t ks = (r1, s1)" by fastforce
  show ?thesis
  proof (cases "sup_max_tasks s \<le> length (sup_tasks s) + length (sup_recovered s)")
    case True
    with None eq sat have "r = Inl CapacityExceeded" "s' = s\<lparr>sup_event_store := sup_event_store s\<rparr>"
      by (simp_all add: submit_def)
    with g show ?thesis by (intro that(1) [of CapacityExceeded "sup_event_store s"]) simp_all
  next
    case False
    show ?thesis
      using goodD(1) [OF g] a
    proof (cases rule: store_append_cases)
      case (err e es)
      with eq None False sat ev a have "r = Inl (EventStoreFailed e)" "s' = s1"
        by (simp_all add: submit_def)
      with err good_store_err [OF g, of w t] a show ?thesis
      by (intro that(1) [of "EventStoreFailed e" es]) auto
    next
      case (ok es)
      let ?rec = "\<lparr>tr_spec = spec, tr_state = st, tr_started_at = None\<rparr>"
      have res: "s' = add_task t ?rec s1"
          "r = Inr (case validate spec of Inr _ \<Rightarrow> Accepted \<lparr>snap_task_id = t, snap_state = st\<rparr>
                | Inl errors \<Rightarrow> RejectedTask \<lparr>snap_task_id = t, snap_state = st\<rparr> errors)"
        using eq None False sat ev a ok(1)
        by (cases "validate spec"; simp add: submit_def add_task_def Let_def)+
      have "record_ok ?rec" by (simp add: record_ok_def st)
      then have "sup_inv ((kinds_of s)(t := kinds_of s t @ ks)) (add_task t ?rec s1)"
        using goodD(2) [OF g] new None False ks(1) ok(2) by (intro inv_submit) simp_all
      then have "good s'" using ok res by (intro good_ok [OF ok(3,4)]) simp_all
      with that(3) st res ok(2) None show ?thesis by blast
    qed
  qed
qed

end

end
