(* ===== verification/Supervisor_Approvals.thy ===== *)
theory Supervisor_Approvals
  imports Supervisor_Ops
begin

text \<open>
  The approval protocol of the supervisor: what \<open>request_operation\<close>,
  \<open>approve_operation\<close>, \<open>deny_operation\<close> and \<open>authorize_operation\<close> return and change,
  case by case, from a state that satisfies the invariant.
\<close>

lemma live_policy:
  assumes "sup_inv K s" and "bt_get (sup_tasks s) t = Some rec" and "tr_state rec \<noteq> Rejected"
  shows "from_task (tr_spec rec) = Inr \<lparr>cp_task = tr_spec rec\<rparr>"
  using sup_invD(3) [OF assms(1)] assms(2,3) by (simp add: tasks_ok_def record_ok_def)

lemma expires_to_authority_None:
  "expires_to s s' \<Longrightarrow> bt_get (aa_pending (sup_authority s)) i = None
   \<Longrightarrow> bt_get (aa_pending (sup_authority s')) i = None"
  by (auto simp: expires_to_def)

lemma expires_to_live:
  "expires_to s s' \<Longrightarrow> live_state s' t = live_state s t \<or> live_state s t = Some WaitingApproval \<and> live_state s' t = Some Failed"
  unfolding expires_to_def by blast

lemma expires_to_Running: "expires_to s s' \<Longrightarrow> live_state s' t = Some Running \<Longrightarrow> live_state s t = Some Running"
  using expires_to_live [of s s' t] by auto

lemma expires_to_authority [simp]:
  "aa_pending a = aa_pending (sup_authority s') \<Longrightarrow> expires_to s (s'\<lparr>sup_authority := a\<rparr>) \<longleftrightarrow> expires_to s s'"
  by (simp add: expires_to_def)

context event_store
begin

lemma request_approval_cases:
  assumes g: "good s" and run: "live_state s t = Some Running"
    and fresh: "bt_get (aa_pending (sup_authority s)) ai = None"
    and eq: "request_approval append w now oi ai s t Running req ttl = (r, s')"
  obtains (err) e es where "r = Inl e" "e \<noteq> Panicked" "good s'" "s' = s\<lparr>sup_event_store := es\<rparr>"
  | (opened) q es a where "r = Inr (OpApprovalRequired q)" "good s'" "ar_approval_id q = ai"
      "ar_task_id q = t" "ar_operation_id q = oi" "ar_action q = owned_action req"
      "s' = set_state t WaitingApproval (s\<lparr>sup_authority := a, sup_event_store := es,
         sup_pending := bt_insert ai \<lparr>po_task_id = t, po_operation_id = oi, po_request = req\<rparr> (sup_pending s)\<rparr>)"
      "kinds_of s' t = kinds_of s t @ [ApprovalRequested ai oi, StateTransitioned Running WaitingApproval]"
proof (cases "list_ex (\<lambda>p. po_task_id p = t) (bt_values (sup_pending s))")
  case True
  with eq have "r = Inl (ApprovalFailed DuplicateOperation)" "s' = s\<lparr>sup_event_store := sup_event_store s\<rparr>"
    by (simp_all add: request_approval_def)
  with g show ?thesis by (intro that(1) [of "ApprovalFailed DuplicateOperation" "sup_event_store s"]) simp_all
next
  case False
  note parts = sup_invD [OF goodD(2) [OF g]]
  have aok: "authority_ok (sup_authority s)" using parts(5) by (simp add: pending_ok_def)
  have none: "po_task_id q \<noteq> t" if "bt_get (sup_pending s) j = Some q" for j q
    using False that map_of_SomeD [OF that] by (auto simp: list_ex_iff)
  obtain r1 a1 where ar: "authority_request now ai (sup_authority s) t oi (owned_action req) ttl = (r1, a1)"
    by fastforce
  note a1ok = authority_request_ok [OF aok fresh ar]
  from aok ar show ?thesis
  proof (cases rule: authority_request_cases)
    case (err e)
    with eq False ar have "r = Inl (ApprovalFailed e)" "s' = s\<lparr>sup_event_store := sup_event_store s\<rparr>"
      by (simp_all add: request_approval_def)
    with g show ?thesis by (intro that(1) [of "ApprovalFailed e" "sup_event_store s"]) simp_all
  next
    case (ok deadline)
    let ?pa = "\<lparr>pa_task_id = t, pa_operation_id = oi, pa_action = owned_action req, pa_deadline = deadline\<rparr>"
    let ?po = "\<lparr>po_task_id = t, po_operation_id = oi, po_request = req\<rparr>"
    let ?ks = "[ApprovalRequested ai oi, StateTransitioned Running WaitingApproval]"
    let ?sa = "s\<lparr>sup_authority := a1\<rparr>"
    obtain r2 s2 where st: "store_append append w ?sa t ?ks = (r2, s2)" by fastforce
    have sok: "store_ok (sup_event_store ?sa)" using goodD(1) [OF g] by simp
    from sok st show ?thesis
    proof (cases rule: store_append_cases)
      case (err e es)
      have "snd (authority_revoke a1 ai) = sup_authority s"
        using remove_after_insert [OF aok fresh, of ?pa] ok by (simp add: authority_revoke_eq)
      with eq False ar ok st err have "r = Inl (EventStoreFailed e)" "s' = s\<lparr>sup_event_store := es\<rparr>"
        by (simp_all add: request_approval_def)
      with err that(1) good_err [OF g] show ?thesis by simp
    next
      case (ok es)
      note ok2 = ok
      let ?s3 = "s2\<lparr>sup_pending := bt_insert ai ?po (sup_pending s2)\<rparr>"
      have s3: "?s3 = (s\<lparr>sup_event_store := es\<rparr>)\<lparr>sup_authority := a1,
          sup_pending := bt_insert ai ?po (sup_pending (s\<lparr>sup_event_store := es\<rparr>))\<rparr>"
        using ok2(2) by simp
      have "live_state ?s3 t \<noteq> None" using run ok2(2) by simp
      note set = set_task_state_eq [OF this, of WaitingApproval]
      have res: "r = Inr (OpApprovalRequired \<lparr>ar_approval_id = ai, ar_task_id = t, ar_operation_id = oi,
            ar_action = owned_action req, ar_expires_after_ms = as_millis ttl\<rparr>)"
          "s' = set_state t WaitingApproval ?s3"
        using eq False ar \<open>r1 = _\<close> st ok2(1) set by (simp_all add: request_approval_def)
      have "sup_inv ((kinds_of s)(t := kinds_of s t @ ?ks)) s'"
        unfolding res(2) s3
        by (rule inv_open_pending [where pa = ?pa])
          (use goodD(2) [OF g] run none a1ok \<open>a1 = _\<close> in \<open>simp_all add: recover_kind_def can_transition_targets\<close>)
      then have "good s'" using ok2 res by (intro good_ok [OF ok2(3)]) simp_all
      moreover have "kinds_of s' t = kinds_of s t @ ?ks" using ok2(2,4) res(2) by simp
      moreover have "s' = set_state t WaitingApproval (s\<lparr>sup_authority := a1, sup_event_store := es,
          sup_pending := bt_insert ai ?po (sup_pending s)\<rparr>)"
        using res(2) ok2(2) by simp
      ultimately show ?thesis by (intro that(2) [OF res(1)]) simp_all
    qed
  qed
qed

end

context event_store
begin

lemma append_only_cases:
  assumes g: "good s" and ts: "sup_task_state s t = Some st"
    and k: "replay (Some st, False) ks = Some (Some st, False)"
    and eq: "(case store_append append w s t ks of (Inl e, s) \<Rightarrow> (Inl e, s) | (Inr _, s) \<Rightarrow> (Inr out, s)) = (r, s')"
  obtains (err) e es where "r = Inl (EventStoreFailed e)" "s' = s\<lparr>sup_event_store := es\<rparr>" "good s'"
  | (ok) es where "r = Inr out" "s' = s\<lparr>sup_event_store := es\<rparr>" "good s'" "kinds_of s' t = kinds_of s t @ ks"
proof -
  obtain r2 s2 where st: "store_append append w s t ks = (r2, s2)" by fastforce
  note g2 = good_append_only [OF g ts k st]
  from goodD(1) [OF g] st show ?thesis
  proof (cases rule: store_append_cases)
    case (err e es)
    then have "r = Inl (EventStoreFailed e)" "s' = s2" using st eq by simp_all
    with err g2 that(1) show ?thesis by simp
  next
    case (ok es)
    then have "r = Inr out" "s' = s2" using st eq by simp_all
    with ok g2 that(2) show ?thesis by simp
  qed
qed

text \<open>The common start of the approval operations: expiry, then the rest on the state it
  leaves.\<close>

lemma request_operation_cases:
  assumes g: "good s" and fresh: "bt_get (aa_pending (sup_authority s)) ai = None"
    and eq: "request_operation append ws w now1 now2 oi ai s t req ttl = (r, s')"
  obtains (err) e where "r = Inl e" "e \<noteq> Panicked" "good s'" "expires_to s s'"
  | (allowed) s1 rec where "r = Inr OpAllowed" "good s'" "expires_to s s1" "expires_to s s'"
      "bt_get (sup_tasks s1) t = Some rec" "tr_state rec = Running"
      "evaluate \<lparr>cp_task = tr_spec rec\<rparr> req = Allow" "kinds_of s' t = kinds_of s1 t @ [OperationAllowed]"
  | (denied) s1 rec reason where "r = Inr (OpDenied reason)" "good s'" "expires_to s s1" "expires_to s s'"
      "bt_get (sup_tasks s1) t = Some rec" "tr_state rec = Running"
      "evaluate \<lparr>cp_task = tr_spec rec\<rparr> req = Deny reason"
      "kinds_of s' t = kinds_of s1 t @ [OperationDenied reason]"
  | (pending) s1 rec q es a where "r = Inr (OpApprovalRequired q)" "good s'" "expires_to s s1"
      "bt_get (sup_tasks s1) t = Some rec" "tr_state rec = Running"
      "evaluate \<lparr>cp_task = tr_spec rec\<rparr> req = ApprovalRequired"
      "ar_approval_id q = ai" "ar_operation_id q = oi" "ar_task_id q = t" "ar_action q = request_action req"
      "s' = set_state t WaitingApproval (s1\<lparr>sup_authority := a, sup_event_store := es,
         sup_pending := bt_insert ai \<lparr>po_task_id = t, po_operation_id = oi, po_request = from_borrowed req\<rparr>
           (sup_pending s1)\<rparr>)"
      "kinds_of s' t = kinds_of s1 t @ [ApprovalRequested ai oi, StateTransitioned Running WaitingApproval]"
proof -
  obtain r1 s1 where ex: "expire_approvals append ws now1 s = (r1, s1)" by fastforce
  note e1 = expire_approvals_good [OF g ex]
  show ?thesis
  proof (cases r1)
    case (Inl e)
    with eq ex have "r = Inl e" "s' = s1" by (simp_all add: request_operation_def)
    with Inl e1(1,2) e1(3) [of e] that(1) show ?thesis by auto
  next
    case (Inr n)
    note eq' = eq [unfolded request_operation_def ex Inr, simplified]
    show ?thesis
    proof (cases "live_state s1 t = Some Running")
      case False
      with eq' have "(\<exists>e. r = Inl e \<and> e \<noteq> Panicked) \<and> s' = s1"
        by (auto simp: live_state_def transition_to_def can_transition_targets split: option.splits if_splits)
      with e1(1,2) that(1) show ?thesis by auto
    next
      case True
      then obtain rec where rec: "bt_get (sup_tasks s1) t = Some rec" "tr_state rec = Running"
        by (auto simp: live_state_Some)
      have pol: "from_task (tr_spec rec) = Inr \<lparr>cp_task = tr_spec rec\<rparr>"
        using live_policy [OF goodD(2) [OF e1(1)] rec(1)] rec(2) by simp
      have ts: "sup_task_state s1 t = Some Running" using rec by (simp add: sup_task_state_def)
      show ?thesis
      proof (cases "evaluate \<lparr>cp_task = tr_spec rec\<rparr> req")
        case Allow
        have k: "replay (Some Running, False) [OperationAllowed] = Some (Some Running, False)"
          by (simp add: recover_kind_def)
        have "(case store_append append w s1 t [OperationAllowed] of (Inl e, s) \<Rightarrow> (Inl e, s)
            | (Inr _, s) \<Rightarrow> (Inr OpAllowed, s)) = (r, s')"
          using eq' rec pol Allow by (simp add: transition_to_def can_transition_targets)
        from e1(1) ts k this show ?thesis
        proof (cases rule: append_only_cases)
          case (ok es)
          with e1(2) rec Allow that(2) show ?thesis by simp
        qed (use e1(2) that(1) in auto)
      next
        case (Deny reason)
        have k: "replay (Some Running, False) [OperationDenied reason] = Some (Some Running, False)"
          by (simp add: recover_kind_def)
        have "(case store_append append w s1 t [OperationDenied reason] of (Inl e, s) \<Rightarrow> (Inl e, s)
            | (Inr _, s) \<Rightarrow> (Inr (OpDenied reason), s)) = (r, s')"
          using eq' rec pol Deny by (simp add: transition_to_def can_transition_targets)
        from e1(1) ts k this show ?thesis
        proof (cases rule: append_only_cases)
          case (ok es)
          with e1(2) rec Deny that(3) show ?thesis by simp
        qed (use e1(2) that(1) in auto)
      next
        case ApprovalRequired
        have "request_approval append w now2 oi ai s1 t Running (from_borrowed req) ttl = (r, s')"
          using eq' rec pol ApprovalRequired by (simp add: transition_to_def can_transition_targets)
        from e1(1) True expires_to_authority_None [OF e1(2) fresh] this show ?thesis
        proof (cases rule: request_approval_cases)
          case (err e es)
          with e1(2) that(1) show ?thesis by simp
        next
          case (opened q es a)
          with e1(2) rec ApprovalRequired show ?thesis by (intro that(4) [OF opened(1)]) simp_all
        qed
      qed
    qed
  qed
qed

end

lemma pending_authority:
  assumes "pending_ok s" and "bt_get (sup_pending s) i = Some p"
  obtains pa where "bt_get (aa_pending (sup_authority s)) i = Some pa" "pa_task_id pa = po_task_id p"
    "pa_operation_id pa = po_operation_id p" "pa_action pa = owned_action (po_request p)"
proof -
  have "authority_view (sup_authority s) i = pending_view s i" using assms(1) by (simp add: pending_ok_def)
  then show ?thesis using that assms(2) by (auto simp: authority_view_def pending_view_def)
qed

context event_store
begin

lemma approve_operation_cases:
  assumes g: "good s" and eq: "approve_operation append ws w now1 now2 s ai = (r, s')"
  obtains (err) e where "r = Inl e" "e \<noteq> Panicked" "good s'" "expires_to s s'"
  | (granted) s1 p a where "r = Inr \<lparr>snap_task_id = po_task_id p, snap_state = Running\<rparr>" "good s'"
      "expires_to s s1" "bt_get (sup_pending s1) ai = Some p"
      "bt_get (sup_pending s') = (bt_get (sup_pending s1))(ai := None)"
      "bt_get (sup_approved s') = (bt_get (sup_approved s1))(po_operation_id p \<mapsto> a)"
      "ao_task_id a = po_task_id p" "ao_request a = po_request p" "grant_approval_id (ao_grant a) = ai"
      "now2 < grant_deadline (ao_grant a)"
      "live_state s1 (po_task_id p) = Some WaitingApproval"
      "live_state s' = (live_state s1)(po_task_id p \<mapsto> Running)" "sup_recovered s' = sup_recovered s1"
      "kinds_of s' (po_task_id p) = kinds_of s1 (po_task_id p) @
         [ApprovalGranted ai (po_operation_id p), StateTransitioned WaitingApproval Running]"
proof -
  obtain r1 s1 where ex: "expire_approvals append ws now1 s = (r1, s1)" by fastforce
  note e1 = expire_approvals_good [OF g ex]
  show ?thesis
  proof (cases r1)
    case (Inl e)
    with eq ex have "r = Inl e" "s' = s1" by (simp_all add: approve_operation_def)
    with Inl e1(1,2) e1(3) [of e] that(1) show ?thesis by auto
  next
    case (Inr n)
    note eq' = eq [unfolded approve_operation_def ex Inr, simplified]
    note parts = sup_invD [OF goodD(2) [OF e1(1)]]
    have aok: "authority_ok (sup_authority s1)" using parts(5) by (simp add: pending_ok_def)
    show ?thesis
    proof (cases "bt_get (sup_pending s1) ai")
      case None
      with eq' have "r = Inl (ApprovalFailed NotFound)" "s' = s1" by simp_all
      with e1(1,2) that(1) show ?thesis by simp
    next
      case (Some p)
      let ?t = "po_task_id p" and ?o = "po_operation_id p"
      have wait: "live_state s1 ?t = Some WaitingApproval" using parts(5) Some by (simp add: pending_ok_def)
      then obtain rec where rec: "bt_get (sup_tasks s1) ?t = Some rec" "tr_state rec = WaitingApproval"
        by (auto simp: live_state_Some)
      obtain pa where pa: "bt_get (aa_pending (sup_authority s1)) ai = Some pa" "pa_task_id pa = ?t"
          "pa_operation_id pa = ?o" "pa_action pa = owned_action (po_request p)"
        using pending_authority [OF parts(5) Some] by blast
      obtain r2 a2 where ap: "authority_approve now2 (sup_authority s1) ai = (r2, a2)" by fastforce
      from ap show ?thesis
      proof (cases rule: authority_approve_cases)
        case missing
        with pa show ?thesis by simp
      next
        case (late q)
        with eq' Some rec ap have "r = Inl (ApprovalFailed Expired)" "s' = s1"
          by (simp_all add: transition_to_def can_transition_targets)
        with e1(1,2) that(1) show ?thesis by simp
      next
        case (granted q)
        then have q: "q = pa" using pa by simp
        let ?g = "\<lparr>grant_approval_id = ai, grant_task_id = ?t, grant_operation_id = ?o,
            grant_action = owned_action (po_request p), grant_deadline = pa_deadline pa\<rparr>"
        let ?ks = "[ApprovalGranted ai ?o, StateTransitioned WaitingApproval Running]"
        have r2: "r2 = Inr ?g" using granted q pa by simp
        obtain r3 s3 where st: "store_append append w (s1\<lparr>sup_authority := a2\<rparr>) ?t ?ks = (r3, s3)" by fastforce
        have sok: "store_ok (sup_event_store (s1\<lparr>sup_authority := a2\<rparr>))" using goodD(1) [OF e1(1)] by simp
        from sok st show ?thesis
        proof (cases rule: store_append_cases)
          case (err e es)
          have "grant_restore ?g a2 = sup_authority s1"
            using restore_after_remove [OF aok pa(1)] granted(4) pa(2-4)
            by (simp add: grant_restore_insert flip: pa(2-4))
          with eq' Some rec ap r2 st err have "r = Inl (EventStoreFailed e)" "s' = s1\<lparr>sup_event_store := es\<rparr>"
            by (simp_all add: transition_to_def can_transition_targets)
          with err good_err [OF e1(1)] e1(2) that(1) show ?thesis by simp
        next
          case (ok es)
          let ?a = "\<lparr>ao_task_id = ?t, ao_request = po_request p, ao_grant = ?g\<rparr>"
          let ?s4 = "(drop_pending ai (s1\<lparr>sup_event_store := es\<rparr>))\<lparr>sup_approved := bt_insert ?o ?a (sup_approved s1)\<rparr>"
          have s4: "s3\<lparr>sup_pending := bt_remove ai (sup_pending s3), sup_approved := bt_insert ?o ?a (sup_approved s3)\<rparr> = ?s4"
            using ok(2) granted(4) by (simp add: drop_pending_def authority_revoke_eq)
          have "live_state ?s4 ?t \<noteq> None" using wait by simp
          note set = set_task_state_eq [OF this, of Running]
          have pend: "bt_get (sup_pending s3) ai = Some p" using Some ok(2) by simp
          have res: "r = Inr \<lparr>snap_task_id = ?t, snap_state = Running\<rparr>" "s' = set_state ?t Running ?s4"
            using eq' Some rec ap r2 st ok(1) pend s4 set
            by (simp_all add: transition_to_def can_transition_targets Let_def)
          have "sup_inv ((kinds_of s1)(?t := kinds_of s1 ?t @ ?ks)) (set_state ?t Running
              ((drop_pending ai (s1\<lparr>sup_event_store := es\<rparr>))
                 \<lparr>sup_approved := bt_insert ?o ?a (sup_approved (s1\<lparr>sup_event_store := es\<rparr>))\<rparr>))"
            by (rule inv_grant) (use goodD(2) [OF e1(1)] Some in \<open>simp_all add: recover_kind_def can_transition_targets\<close>)
          then have "sup_inv ((kinds_of s1)(?t := kinds_of s1 ?t @ ?ks)) s'" using res(2) by simp
          then have g': "good s'" using ok res(2) by (intro good_ok [OF ok(3)]) simp_all
          show ?thesis
            by (rule that(2) [OF res(1) g' e1(2) Some, of ?a])
              (use res(2) ok granted q wait in simp_all)
        qed
      qed
    qed
  qed
qed

end

context event_store
begin

lemma deny_operation_cases:
  assumes g: "good s" and eq: "deny_operation append ws w now s ai = (r, s')"
  obtains (err) e where "r = Inl e" "e \<noteq> Panicked" "good s'" "expires_to s s'"
  | (denied) s1 p where "r = Inr \<lparr>snap_task_id = po_task_id p, snap_state = Failed\<rparr>" "good s'"
      "expires_to s s1" "bt_get (sup_pending s1) ai = Some p"
      "bt_get (sup_pending s') = (bt_get (sup_pending s1))(ai := None)" "sup_approved s' = sup_approved s1"
      "live_state s1 (po_task_id p) = Some WaitingApproval"
      "live_state s' = (live_state s1)(po_task_id p \<mapsto> Failed)" "sup_recovered s' = sup_recovered s1"
proof -
  obtain r1 s1 where ex: "expire_approvals append ws now s = (r1, s1)" by fastforce
  note e1 = expire_approvals_good [OF g ex]
  show ?thesis
  proof (cases r1)
    case (Inl e)
    with eq ex have "r = Inl e" "s' = s1" by (simp_all add: deny_operation_def)
    with Inl e1(1,2) e1(3) [of e] that(1) show ?thesis by auto
  next
    case (Inr n)
    note eq' = eq [unfolded deny_operation_def ex Inr, simplified]
    note parts = sup_invD [OF goodD(2) [OF e1(1)]]
    show ?thesis
    proof (cases "bt_get (sup_pending s1) ai")
      case None
      with eq' have "r = Inl (ApprovalFailed NotFound)" "s' = s1" by simp_all
      with e1(1,2) that(1) show ?thesis by simp
    next
      case (Some p)
      let ?t = "po_task_id p" and ?ks = "[ApprovalDenied ai (po_operation_id p), StateTransitioned WaitingApproval Failed]"
      have wait: "live_state s1 ?t = Some WaitingApproval" using parts(5) Some by (simp add: pending_ok_def)
      then obtain rec where rec: "bt_get (sup_tasks s1) ?t = Some rec" "tr_state rec = WaitingApproval"
        by (auto simp: live_state_Some)
      have cont: "authority_contains (sup_authority s1) ai"
        using pending_authority [OF parts(5) Some] by (auto simp: authority_contains_def)
      obtain r2 s2 where st: "store_append append w s1 ?t ?ks = (r2, s2)" by fastforce
      from goodD(1) [OF e1(1)] st show ?thesis
      proof (cases rule: store_append_cases)
        case (err e es)
        with eq' Some rec cont st have "r = Inl (EventStoreFailed e)" "s' = s2"
          by (simp_all add: transition_to_def can_transition_targets Let_def)
        with err good_err [OF e1(1)] e1(2) that(1) show ?thesis by simp
      next
        case (ok es)
        have "live_state (drop_pending ai s2) ?t \<noteq> None" using wait ok(2) by simp
        note set = set_task_state_eq [OF this, of Failed]
        have res: "r = Inr \<lparr>snap_task_id = ?t, snap_state = Failed\<rparr>" "s' = set_state ?t Failed (drop_pending ai s2)"
          using eq' Some rec cont st ok(1) set
          by (simp_all add: transition_to_def can_transition_targets Let_def drop_pending_def)
        have "good s'"
          unfolding res(2) using st ok(1)
          by (intro good_close [OF e1(1) Some]) (simp_all add: recover_kind_def can_transition_targets)
        from that(2) [OF res(1) this e1(2) Some] show ?thesis using res(2) ok(2) wait by simp
      qed
    qed
  qed
qed

lemma authorize_operation_cases:
  assumes g: "good s" and eq: "authorize_operation append w now s t oi req = (r, s')"
  obtains (err) e where "r = Inl e" "e \<noteq> Panicked" "good s'" "live_state s' = live_state s"
      "sup_pending s' = sup_pending s" "sup_recovered s' = sup_recovered s"
      "bt_get (sup_approved s') oi = None \<or> sup_approved s' = sup_approved s \<and> live_state s t \<noteq> Some Running"
  | (consumed) rec a where "r = Inr \<lparr>receipt_approval_id = grant_approval_id (ao_grant a)\<rparr>" "good s'"
      "bt_get (sup_tasks s) t = Some rec" "tr_state rec = Running"
      "bt_get (sup_approved s) oi = Some a" "ao_task_id a = t" "ao_request a = from_borrowed req"
      "evaluate \<lparr>cp_task = tr_spec rec\<rparr> req = ApprovalRequired" "now < grant_deadline (ao_grant a)"
      "bt_get (sup_approved s') = (bt_get (sup_approved s))(oi := None)" "live_state s' = live_state s"
      "sup_pending s' = sup_pending s" "sup_recovered s' = sup_recovered s" "sup_tasks s' = sup_tasks s"
      "kinds_of s' t = kinds_of s t @ [ApprovalConsumed (grant_approval_id (ao_grant a)) oi]"
proof (cases "live_state s t = Some Running")
  case False
  with eq have "(r = Inl TaskNotFound \<or> r = Inl TaskNotRunning) \<and> s' = s"
    by (auto simp: authorize_operation_def live_state_def split: option.splits if_splits)
  with g that(1) False show ?thesis by auto
next
  case True
  then obtain rec where rec: "bt_get (sup_tasks s) t = Some rec" "tr_state rec = Running"
    by (auto simp: live_state_Some)
  have pol: "from_task (tr_spec rec) = Inr \<lparr>cp_task = tr_spec rec\<rparr>"
    using live_policy [OF goodD(2) [OF g] rec(1)] rec(2) by simp
  show ?thesis
  proof (cases "bt_get (sup_approved s) oi")
    case None
    with eq rec have "r = Inl (ApprovalFailed NotFound)" "s' = s" by (simp_all add: authorize_operation_def)
    with g that(1) None show ?thesis by auto
  next
    case (Some a)
    let ?s1 = "s\<lparr>sup_approved := bt_remove oi (sup_approved s)\<rparr>"
    have g1: "good ?s1" using good_frame [OF g inv_drop_approved [OF goodD(2) [OF g]]] by simp
    have gone: "bt_get (sup_approved ?s1) oi = None" by simp
    note escape = that(1)
    have err1: ?thesis if "r = Inl (ApprovalFailed e)" "s' = ?s1" for e
      using that g1 by (intro escape [of "ApprovalFailed e"]) simp_all
    show ?thesis
    proof (cases "ao_task_id a = t \<and> ao_request a = from_borrowed req
        \<and> evaluate \<lparr>cp_task = tr_spec rec\<rparr> req = ApprovalRequired")
      case False
      with eq rec Some have "r = Inl (ApprovalFailed ScopeMismatch)" "s' = ?s1"
        by (auto simp: authorize_operation_def pol Let_def split: if_splits)
      then show ?thesis by (rule err1)
    next
      case match: True
      have grant: "grant_task_id (ao_grant a) = t" "grant_operation_id (ao_grant a) = oi"
          "grant_action (ao_grant a) = request_action req"
        using sup_invD(6) [OF goodD(2) [OF g]] Some match by (auto simp: approved_ok_def)
      show ?thesis
      proof (cases "now < grant_deadline (ao_grant a)")
        case False
        with eq rec Some match have "r = Inl (ApprovalFailed Expired)" "s' = ?s1"
          by (auto simp: authorize_operation_def pol grant_authorize_def Let_def)
        then show ?thesis by (rule err1)
      next
        case live: True
        have ts: "sup_task_state ?s1 t = Some Running" using rec by (simp add: sup_task_state_def)
        have k: "replay (Some Running, False) [ApprovalConsumed (grant_approval_id (ao_grant a)) oi] = Some (Some Running, False)"
          by (simp add: recover_kind_def)
        have "(case store_append append w ?s1 t [ApprovalConsumed (grant_approval_id (ao_grant a)) oi] of
            (Inl e, s) \<Rightarrow> (Inl e, s)
          | (Inr _, s) \<Rightarrow> (Inr \<lparr>receipt_approval_id = grant_approval_id (ao_grant a)\<rparr>, s)) = (r, s')"
          using eq rec Some match live grant by (simp add: authorize_operation_def pol grant_authorize_def Let_def)
        from g1 ts k this show ?thesis
        proof (cases rule: append_only_cases)
          case (err e es)
          then show ?thesis by (intro that(1) [of "EventStoreFailed e"]) simp_all
        next
          case (ok es)
          show ?thesis
            by (rule that(2) [OF ok(1,3) rec Some]) (use ok(2,4) match live in simp_all)
        qed
      qed
    qed
  qed
qed

end

end
