(* ===== verification/Supervisor_Safety.thy ===== *)
theory Supervisor_Safety
  imports Supervisor_Approvals
begin

text \<open>
  The supervisor as a state machine: \<open>sup_step\<close> has one rule per public operation,
  whatever it returns, and \<open>sup_reachable\<close> is its closure. Two rules carry a condition.
  \<open>submit\<close> and \<open>request_operation\<close> get fresh identifiers (UUIDs, so not used before).
  \<open>start\<close> and \<open>start_execution\<close> are called as their documentation says, for a task that
  is not already waiting for an approval; without that condition the invariant fails
  (theorem \<open>start_while_waiting_corrupts_log\<close>).
\<close>

section \<open>The state machine\<close>

inductive sup_step :: "('w, 's) append_fn \<Rightarrow> 's supervisor \<Rightarrow> 's supervisor \<Rightarrow> bool" for ab where
  submit: "sup_task_state s t = None \<Longrightarrow> submit ab w t s spec = (r, s') \<Longrightarrow> sup_step ab s s'"
| start: "sup_task_state s t \<noteq> Some WaitingApproval \<Longrightarrow> start ab w now s t = (r, s') \<Longrightarrow> sup_step ab s s'"
| start_execution: "sup_task_state s t \<noteq> Some WaitingApproval \<Longrightarrow> start_execution ab w now s t = (r, s')
    \<Longrightarrow> sup_step ab s s'"
| request: "bt_get (aa_pending (sup_authority s)) ai = None
    \<Longrightarrow> request_operation ab ws w now1 now2 oi ai s t req ttl = (r, s') \<Longrightarrow> sup_step ab s s'"
| approve: "approve_operation ab ws w now1 now2 s ai = (r, s') \<Longrightarrow> sup_step ab s s'"
| deny: "deny_operation ab ws w now s ai = (r, s') \<Longrightarrow> sup_step ab s s'"
| authorize: "authorize_operation ab w now s t oi req = (r, s') \<Longrightarrow> sup_step ab s s'"
| expire: "expire_approvals ab ws now s = (r, s') \<Longrightarrow> sup_step ab s s'"
| succeed: "succeed ab w s t = (r, s') \<Longrightarrow> sup_step ab s s'"
| fail: "fail ab w s t = (r, s') \<Longrightarrow> sup_step ab s s'"
| fail_budget: "fail_budget_exceeded ab w s t = (r, s') \<Longrightarrow> sup_step ab s s'"
| cancel: "cancel ab w s t = (r, s') \<Longrightarrow> sup_step ab s s'"

inductive sup_reachable :: "('w, 's) append_fn \<Rightarrow> 's supervisor \<Rightarrow> 's supervisor \<Rightarrow> bool" for ab s0 where
  init: "sup_reachable ab s0 s0"
| step: "sup_reachable ab s0 s \<Longrightarrow> sup_step ab s s' \<Longrightarrow> sup_reachable ab s0 s'"

section \<open>Effects of a step\<close>

text \<open>Every waiting task has a pending approval.\<close>

definition covered :: "'s supervisor \<Rightarrow> bool" where
  "covered s \<longleftrightarrow> (\<forall>t. live_state s t = Some WaitingApproval \<longrightarrow>
     (\<exists>i p. bt_get (sup_pending s) i = Some p \<and> po_task_id p = t))"

text \<open>A terminal task keeps its state.\<close>

definition keeps_terminal :: "'s supervisor \<Rightarrow> 's supervisor \<Rightarrow> bool" where
  "keeps_terminal s s' \<longleftrightarrow>
     (\<forall>t st. sup_task_state s t = Some st \<longrightarrow> is_terminal st \<longrightarrow> sup_task_state s' t = Some st)"

definition finishes :: "task_id \<Rightarrow> 's supervisor \<Rightarrow> 's supervisor \<Rightarrow> bool" where
  "finishes t s s' \<longleftrightarrow> (\<exists>es nxt cur. s' = set_state t nxt (invalidate_approvals (s\<lparr>sup_event_store := es\<rparr>) t)
     \<and> is_terminal nxt \<and> live_state s t = Some cur \<and> \<not> is_terminal cur)"

lemma covered_store [simp]: "covered (s\<lparr>sup_event_store := es\<rparr>) \<longleftrightarrow> covered s"
  by (simp add: covered_def)

lemma keeps_terminal_store: "keeps_terminal s (s\<lparr>sup_event_store := es\<rparr>)"
  by (simp add: keeps_terminal_def)

lemma covered_expires: assumes "covered s" and "expires_to s s'" shows "covered s'"
  unfolding covered_def
proof (intro allI impI)
  fix t assume w: "live_state s' t = Some WaitingApproval"
  then have "live_state s t = Some WaitingApproval" using expires_to_live [OF assms(2), of t] by auto
  then obtain i p where p: "bt_get (sup_pending s) i = Some p" "po_task_id p = t"
    using assms(1) by (auto simp: covered_def)
  then have "bt_get (sup_pending s') i = Some p \<or> live_state s' t = Some Failed"
    using assms(2) unfolding expires_to_def by blast
  with w p show "\<exists>i p. bt_get (sup_pending s') i = Some p \<and> po_task_id p = t" by auto
qed

lemma expires_to_state:
  assumes "expires_to s s'"
  shows "sup_task_state s' t = sup_task_state s t
     \<or> sup_task_state s t = Some WaitingApproval \<and> sup_task_state s' t = Some Failed"
proof -
  have "sup_recovered s' = sup_recovered s" using assms by (simp add: expires_to_def)
  then show ?thesis using expires_to_live [OF assms, of t]
    by (auto simp: sup_task_state_live split: option.splits)
qed

lemma keeps_terminal_expires: assumes "expires_to s s'" shows "keeps_terminal s s'"
  unfolding keeps_terminal_def
proof (intro allI impI)
  fix t st assume "sup_task_state s t = Some st" "is_terminal st"
  with expires_to_state [OF assms, of t] show "sup_task_state s' t = Some st" by auto
qed

lemma covered_finishes: assumes "maps_ok s" "covered s" and "finishes t s s'" shows "covered s'"
  unfolding covered_def
proof (intro allI impI)
  fix u assume w: "live_state s' u = Some WaitingApproval"
  from assms(3) obtain es nxt cur where s': "s' = set_state t nxt (invalidate_approvals (s\<lparr>sup_event_store := es\<rparr>) t)"
    and n: "is_terminal nxt" "live_state s t = Some cur" by (auto simp: finishes_def)
  have u: "u \<noteq> t" "live_state s u = Some WaitingApproval"
    using w n by (auto simp: s' invalidate_approvals_eq split: if_splits)
  then obtain i p where p: "bt_get (sup_pending s) i = Some p" "po_task_id p = u"
    using assms(2) by (auto simp: covered_def)
  have "i \<notin> set (task_approvals (s\<lparr>sup_event_store := es\<rparr>) t)"
    using p u(1) task_approvals_iff [of "s\<lparr>sup_event_store := es\<rparr>" i t] assms(1) by (simp add: maps_ok_def)
  then have "bt_get (sup_pending s') i = Some p"
    using p by (simp add: s' invalidate_approvals_eq fold_drop_pending)
  with p show "\<exists>i p. bt_get (sup_pending s') i = Some p \<and> po_task_id p = u" by blast
qed

lemma keeps_terminal_finishes: assumes "finishes t s s'" shows "keeps_terminal s s'"
  unfolding keeps_terminal_def
proof (intro allI impI)
  fix u st assume "sup_task_state s u = Some st" "is_terminal st"
  moreover from assms obtain es nxt cur where
    "s' = set_state t nxt (invalidate_approvals (s\<lparr>sup_event_store := es\<rparr>) t)"
    "live_state s t = Some cur" "\<not> is_terminal cur" by (auto simp: finishes_def)
  ultimately show "sup_task_state s' u = Some st"
    by (cases "u = t") (auto simp: sup_task_state_live invalidate_approvals_eq split: option.splits)
qed

lemma keeps_terminal_live:
  assumes "live_state s' = (live_state s)(t \<mapsto> nxt)" and "live_state s t = Some cur" "\<not> is_terminal cur"
    and "sup_recovered s' = sup_recovered s"
  shows "keeps_terminal s s'"
  using assms by (auto simp: keeps_terminal_def sup_task_state_live split: option.splits)

context event_store
begin

lemma finish_shape:
  assumes g: "good s" and cur: "sup_task_state s t = Some cur" and can: "can_transition_to cur nxt"
    and nxt: "nxt \<in> {Succeeded, Failed, Cancelled}" and f: "failure = None \<or> nxt = Failed"
    and eq: "apply_transition_with_failure append w s t cur nxt failure = (r, s')"
  shows "(\<exists>es. s' = s\<lparr>sup_event_store := es\<rparr>) \<or> finishes t s s'"
proof -
  have nt: "\<not> is_terminal cur" by (rule can_transition_not_terminal [OF can])
  have "live_state s t = Some cur"
    using nonterminal_live [OF sup_invD(3) [OF goodD(2) [OF g]] cur nt] .
  from g this can nxt f eq show ?thesis
  proof (cases rule: apply_terminal_cases)
    case (ok es)
    have "is_terminal nxt" using nxt by auto
    with ok nt \<open>live_state s t = Some cur\<close> show ?thesis unfolding finishes_def by blast
  qed blast
qed

lemma store_id: "\<exists>es. s = s\<lparr>sup_event_store := es\<rparr>"
  by (rule exI [of _ "sup_event_store s"]) simp

lemma transition_shape:
  assumes "good s" and "transition append w s t nxt = (r, s')" and "nxt \<in> {Succeeded, Failed}"
  shows "(\<exists>es. s' = s\<lparr>sup_event_store := es\<rparr>) \<or> finishes t s s'"
proof (cases "\<exists>cur. sup_task_state s t = Some cur \<and> can_transition_to cur nxt")
  case True
  then obtain cur where c: "sup_task_state s t = Some cur" "can_transition_to cur nxt" by blast
  then have "apply_transition_with_failure append w s t cur nxt None = (r, s')"
    using assms(2) by (simp add: transition_def transition_to_def apply_transition_def)
  from finish_shape [OF assms(1) c _ _ this] assms(3) show ?thesis by auto
next
  case False
  then have "s' = s" using assms(2) by (auto simp: transition_def transition_to_def split: option.splits)
  then show ?thesis using store_id by blast
qed

lemma fail_budget_shape:
  assumes "good s" and "fail_budget_exceeded append w s t = (r, s')"
  shows "(\<exists>es. s' = s\<lparr>sup_event_store := es\<rparr>) \<or> finishes t s s'"
proof (cases "\<exists>cur. sup_task_state s t = Some cur \<and> can_transition_to cur Failed")
  case True
  then obtain cur where c: "sup_task_state s t = Some cur" "can_transition_to cur Failed" by blast
  then have "apply_transition_with_failure append w s t cur Failed (Some BudgetExceeded) = (r, s')"
    using assms(2) by (simp add: fail_budget_exceeded_def transition_to_def)
  from finish_shape [OF assms(1) c _ _ this] show ?thesis by auto
next
  case False
  then have "s' = s" using assms(2) by (auto simp: fail_budget_exceeded_def transition_to_def split: option.splits)
  then show ?thesis using store_id by blast
qed

lemma cancel_shape:
  assumes "good s" and "cancel append w s t = (r, s')"
  shows "(\<exists>es. s' = s\<lparr>sup_event_store := es\<rparr>) \<or> finishes t s s'"
proof (cases "\<exists>cur. sup_task_state s t = Some cur \<and> \<not> is_terminal cur")
  case True
  then obtain cur where c: "sup_task_state s t = Some cur" "\<not> is_terminal cur" by blast
  obtain r1 where a: "apply_transition_with_failure append w s t cur Cancelled None = (r1, s')"
    using assms(2) c by (auto simp: cancel_def apply_transition_def split: prod.splits sum.splits)
  have "can_transition_to cur Cancelled" using c(2) by (simp add: can_transition_targets)
  from finish_shape [OF assms(1) c(1) this _ _ a] show ?thesis by auto
next
  case False
  then have "s' = s" using assms(2) by (auto simp: cancel_def split: option.splits)
  then show ?thesis using store_id by blast
qed

text \<open>The invariant of reachable states, and finality of terminal tasks, for one step.\<close>

definition step_ok :: "'s supervisor \<Rightarrow> 's supervisor \<Rightarrow> bool" where
  "step_ok s s' \<longleftrightarrow> good s' \<and> covered s' \<and> keeps_terminal s s'"

lemma step_ok_store: "good (s\<lparr>sup_event_store := es\<rparr>) \<Longrightarrow> covered s \<Longrightarrow> step_ok s (s\<lparr>sup_event_store := es\<rparr>)"
  by (simp add: step_ok_def keeps_terminal_store)

lemma step_ok_expires: "good s' \<Longrightarrow> covered s \<Longrightarrow> expires_to s s' \<Longrightarrow> step_ok s s'"
  by (simp add: step_ok_def keeps_terminal_expires covered_expires)

lemma step_ok_shape:
  assumes "good s" "covered s" "good s'" "(\<exists>es. s' = s\<lparr>sup_event_store := es\<rparr>) \<or> finishes t s s'"
  shows "step_ok s s'"
  using assms(4)
proof
  assume "\<exists>es. s' = s\<lparr>sup_event_store := es\<rparr>"
  then show ?thesis using assms step_ok_store by blast
next
  assume f: "finishes t s s'"
  show ?thesis
    using assms(2,3) covered_finishes [OF sup_invD(1) [OF goodD(2) [OF assms(1)]] assms(2) f]
      keeps_terminal_finishes [OF f] by (simp add: step_ok_def)
qed

lemma keeps_terminal_trans: "keeps_terminal a b \<Longrightarrow> keeps_terminal b c \<Longrightarrow> keeps_terminal a c"
  by (simp add: keeps_terminal_def)

lemma step_ok_start:
  assumes "good s" "covered s" "live_state s t = Some Queued" "good s'"
    "s' = mark_started t now (set_state t Running (s\<lparr>sup_event_store := es\<rparr>))"
  shows "step_ok s s'"
proof -
  have l: "live_state s' = (live_state s)(t \<mapsto> Running)" using assms(3,5) by simp
  have "covered s'" using assms(2) l assms(5) by (auto simp: covered_def)
  moreover have "keeps_terminal s s'"
    by (rule keeps_terminal_live [OF l assms(3)]) (simp_all add: assms(5))
  ultimately show ?thesis using assms(4) by (simp add: step_ok_def)
qed

text \<open>The steps that close a pending approval.\<close>

lemma step_ok_close:
  assumes "good s'" "covered s" and e: "expires_to s s1" and g1: "bt_get (sup_pending s1) i = Some p"
    and pend: "bt_get (sup_pending s') = (bt_get (sup_pending s1))(i := None)"
    and w: "live_state s1 (po_task_id p) = Some WaitingApproval"
    and l: "live_state s' = (live_state s1)(po_task_id p \<mapsto> nxt)" and n: "nxt \<noteq> WaitingApproval"
    and rcv: "sup_recovered s' = sup_recovered s1"
  shows "step_ok s s'"
proof -
  have c1: "covered s1" by (rule covered_expires [OF assms(2) e])
  have "\<exists>j q. bt_get (sup_pending s') j = Some q \<and> po_task_id q = u"
    if "live_state s' u = Some WaitingApproval" for u
  proof -
    have u: "u \<noteq> po_task_id p" "live_state s1 u = Some WaitingApproval"
      using that l n by (auto split: if_splits)
    then obtain j q where q: "bt_get (sup_pending s1) j = Some q" "po_task_id q = u"
      using c1 by (auto simp: covered_def)
    then have "j \<noteq> i" using u g1 by auto
    with q pend show ?thesis by auto
  qed
  then have "covered s'" by (simp add: covered_def)
  moreover have "keeps_terminal s1 s'" by (rule keeps_terminal_live [OF l w _ rcv]) simp
  then have "keeps_terminal s s'" by (rule keeps_terminal_trans [OF keeps_terminal_expires [OF e]])
  ultimately show ?thesis using assms(1) by (simp add: step_ok_def)
qed

end

context event_store
begin

lemma step_ok_request:
  assumes g: "good s" and c: "covered s" and fresh: "bt_get (aa_pending (sup_authority s)) ai = None"
    and eq: "request_operation append ws w now1 now2 oi ai s t req ttl = (r, s')"
  shows "step_ok s s'"
  using g fresh eq
proof (cases rule: request_operation_cases)
  case (pending s1 rec q es a)
  have run: "live_state s1 t = Some Running" using pending by (simp add: live_state_def)
  have l: "live_state s' = (live_state s1)(t \<mapsto> WaitingApproval)"
    using run pending(11) by simp
  have c1: "covered s1" by (rule covered_expires [OF c pending(3)])
  have fresh1: "bt_get (sup_pending s1) ai = None"
  proof -
    have "pending_view s ai = authority_view (sup_authority s) ai"
      using sup_invD(5) [OF goodD(2) [OF g]] by (simp add: pending_ok_def)
    then have "bt_get (sup_pending s) ai = None" using fresh by (simp add: pending_view_def authority_view_def)
    then show ?thesis by (rule expires_to_None [OF pending(3)])
  qed
  have "\<exists>j q. bt_get (sup_pending s') j = Some q \<and> po_task_id q = u"
    if "live_state s' u = Some WaitingApproval" for u
  proof (cases "u = t")
    case True
    then have "bt_get (sup_pending s') ai = Some \<lparr>po_task_id = u, po_operation_id = oi, po_request = from_borrowed req\<rparr>"
      using pending(11) by simp
    then show ?thesis by (metis pending_operation.select_convs(1))
  next
    case False
    then have "live_state s1 u = Some WaitingApproval" using that l by simp
    then obtain j q where q: "bt_get (sup_pending s1) j = Some q" "po_task_id q = u"
      using c1 by (auto simp: covered_def)
    with fresh1 have "j \<noteq> ai" by auto
    with q pending(11) have "bt_get (sup_pending s') j = Some q" by simp
    with q show ?thesis by blast
  qed
  then have "covered s'" by (simp add: covered_def)
  moreover have "keeps_terminal s1 s'" by (rule keeps_terminal_live [OF l run]) (simp_all add: pending(11))
  then have "keeps_terminal s s'" by (rule keeps_terminal_trans [OF keeps_terminal_expires [OF pending(3)]])
  ultimately show ?thesis using pending(2) by (simp add: step_ok_def)
qed (auto intro: step_ok_expires c)

lemma step_ok_submit:
  assumes g: "good s" and c: "covered s" and new: "sup_task_state s t = None"
    and eq: "submit append w t s spec = (r, s')"
  shows "step_ok s s'"
  using g new eq
proof (cases rule: submit_cases)
  case (err e es)
  then show ?thesis using c step_ok_store by blast
next
  case (existing u rec)
  then show ?thesis using g c by (simp add: step_ok_def keeps_terminal_def)
next
  case (added st es)
  have l: "live_state s' = (live_state s)(t \<mapsto> st)" using added(3) by simp
  have "covered s'" using c l added(2,3) by (auto simp: covered_def split: if_splits)
  moreover have "keeps_terminal s s'"
    using new l added(3) by (auto simp: keeps_terminal_def sup_task_state_live split: option.splits)
  ultimately show ?thesis using added(1) by (simp add: step_ok_def)
qed

lemma step_ok_same:
  assumes "good s'" "covered s" "live_state s' = live_state s" "sup_pending s' = sup_pending s"
    "sup_recovered s' = sup_recovered s"
  shows "step_ok s s'"
proof -
  have "sup_task_state s' = sup_task_state s" using assms by (simp add: sup_task_state_live fun_eq_iff split: option.splits)
  with assms show ?thesis by (simp add: step_ok_def covered_def keeps_terminal_def)
qed

lemma step_ok_authorize:
  assumes g: "good s" and c: "covered s" and eq: "authorize_operation append w now s t oi req = (r, s')"
  shows "step_ok s s'"
  using g eq
  by (cases rule: authorize_operation_cases)
    (rule step_ok_same [OF _ c]; assumption)+

lemma sup_step_ok:
  assumes "sup_step append s s'" and g: "good s" and c: "covered s"
  shows "step_ok s s'"
  using assms(1)
proof cases
  case (submit t w spec r)
  then show ?thesis using step_ok_submit [OF g c] by blast
next
  case (start t w now r)
  from g start show ?thesis
    by (cases rule: start_cases) (use c step_ok_store step_ok_start [OF g c] in blast)+
next
  case (start_execution t w now r)
  from g start_execution show ?thesis
  proof (cases rule: start_execution_cases)
    case (ok rec es)
    then show ?thesis by (intro step_ok_start [OF g c]) (auto simp: live_state_def)
  qed (use c step_ok_store in blast)
next
  case (request ai ws w now1 now2 oi t req ttl r)
  then show ?thesis using step_ok_request [OF g c] by blast
next
  case (approve ws w now1 now2 ai r)
  from g approve show ?thesis
  proof (cases rule: approve_operation_cases)
    case (granted s1 p a)
    show ?thesis by (rule step_ok_close [OF granted(2) c granted(3-5,11,12) _ granted(13)]) simp
  qed (use c step_ok_expires in blast)
next
  case (deny ws w now ai r)
  from g deny show ?thesis
  proof (cases rule: deny_operation_cases)
    case (denied s1 p)
    show ?thesis by (rule step_ok_close [OF denied(2) c denied(3-5,7,8) _ denied(9)]) simp
  qed (use c step_ok_expires in blast)
next
  case (authorize w now t oi req r)
  then show ?thesis using step_ok_authorize [OF g c] by blast
next
  case (expire ws now r)
  note e = expire_approvals_good [OF g expire]
  show ?thesis by (rule step_ok_expires [OF e(1) c e(2)])
next
  case (succeed w t r)
  note eq = succeed [unfolded succeed_def]
  show ?thesis
    by (rule step_ok_shape [OF g c transition_good(1) [OF g eq] transition_shape [OF g eq]]) simp_all
next
  case (fail w t r)
  note eq = fail [unfolded fail_def]
  show ?thesis
    by (rule step_ok_shape [OF g c transition_good(1) [OF g eq] transition_shape [OF g eq]]) simp_all
next
  case (fail_budget w t r)
  show ?thesis
    by (rule step_ok_shape [OF g c fail_budget_good [OF g fail_budget] fail_budget_shape [OF g fail_budget]])
next
  case (cancel w t r)
  show ?thesis by (rule step_ok_shape [OF g c cancel_good(1) [OF g cancel] cancel_shape [OF g cancel]])
qed

lemma reachable_ok:
  assumes "sup_reachable append s0 s" and "good s0" and "covered s0"
  shows "good s \<and> covered s \<and> keeps_terminal s0 s"
  using assms
proof induction
  case init
  then show ?case by (simp add: keeps_terminal_def)
next
  case (step s s')
  then have "step_ok s s'" using sup_step_ok by blast
  with step show ?case using keeps_terminal_trans by (auto simp: step_ok_def)
qed

lemma empty_good:
  assumes "store_ok es" and "\<forall>t. log es t = []" and "n < 2 ^ 64"
    and "s = \<lparr>sup_tasks = [], sup_recovered = [], sup_idempotency_index = [], sup_event_store = es,
       sup_authority = authority_default, sup_pending = [], sup_approved = [], sup_max_tasks = n\<rparr>"
  shows "good s" "covered s"
proof -
  have "sup_task_state s t = None" "live_state s t = None" "pending_view s t' = None"
    "authority_view authority_default t' = None" for t t'
    by (simp_all add: assms(4) sup_task_state_def live_state_def pending_view_def authority_view_def authority_default_def)
  then show "good s" "covered s"
    using assms authority_ok_default
    by (simp_all add: sup_good_def sup_inv_def sup_inv_parts logs_ok_def log_kinds_def covered_def fun_eq_iff)
qed

end

end
