(* ===== verification/Supervisor_Props.thy ===== *)
theory Supervisor_Props
  imports Supervisor_Safety
begin

text \<open>
  The supervisor's properties. They hold for every event store that meets the interface
  (\<open>event_store ab listing lg ok\<close>: \<open>ab\<close> appends, \<open>lg\<close> is the log, \<open>ok\<close> the store's own
  invariant) and are instantiated at the in-memory store in the witnesses.
\<close>

section \<open>The audit log only grows\<close>

definition store_call :: "('w, 's) append_fn \<Rightarrow> 's \<Rightarrow> 's \<Rightarrow> bool" where
  "store_call ab es es' \<longleftrightarrow> (\<exists>w t ks r. ab w es t ks = (r, es'))"

definition store_calls :: "('w, 's) append_fn \<Rightarrow> 's supervisor \<Rightarrow> 's supervisor \<Rightarrow> bool" where
  "store_calls ab s s' \<longleftrightarrow> (store_call ab)\<^sup>*\<^sup>* (sup_event_store s) (sup_event_store s')"

lemma store_calls_refl: "sup_event_store s' = sup_event_store s \<Longrightarrow> store_calls ab s s'"
  by (simp add: store_calls_def)

lemma store_calls_trans: "store_calls ab a b \<Longrightarrow> store_calls ab b c \<Longrightarrow> store_calls ab a c"
  unfolding store_calls_def by (rule rtranclp_trans)

lemma store_calls_eq:
  "store_calls ab a b \<Longrightarrow> sup_event_store c = sup_event_store b \<Longrightarrow> store_calls ab a c"
  by (simp add: store_calls_def)

lemma store_append_calls: "store_append ab w s t ks = (r, s') \<Longrightarrow> store_calls ab s s'"
  by (auto simp: store_append_def store_calls_def split: prod.splits sum.splits
      intro!: r_into_rtranclp) (auto simp: store_call_def)

lemma store_append_calls':
  "store_append ab w s t ks = (r, s') \<Longrightarrow> sup_event_store a = sup_event_store s
   \<Longrightarrow> sup_event_store c = sup_event_store s' \<Longrightarrow> store_calls ab a c"
  using store_append_calls [of ab w s t ks r s'] by (simp add: store_calls_def)

lemma set_task_state_store [simp]: "sup_event_store (snd (set_task_state s t st)) = sup_event_store s"
  by (simp add: set_task_state_def split: option.splits)

lemma set_task_state_storeD: "set_task_state s t st = (r, s') \<Longrightarrow> sup_event_store s' = sup_event_store s"
  by (metis set_task_state_store snd_conv)

lemma invalidate_store [simp]: "sup_event_store (invalidate_approvals s t) = sup_event_store s"
  by (simp add: invalidate_approvals_eq)

lemmas calls_splits = prod.splits sum.splits option.splits if_splits

lemma apply_transition_calls:
  "apply_transition_with_failure ab w s t cur nxt f = (r, s') \<Longrightarrow> store_calls ab s s'"
  by (auto simp: apply_transition_with_failure_def Let_def simp del: bt_contains_iff split: calls_splits
      elim!: store_append_calls')

lemma transition_calls: "transition ab w s t nxt = (r, s') \<Longrightarrow> store_calls ab s s'"
  by (auto simp: transition_def apply_transition_def store_calls_refl split: calls_splits
      dest: apply_transition_calls)

lemma start_calls: "start ab w now s t = (r, s') \<Longrightarrow> store_calls ab s s'"
  by (auto simp: start_def split: calls_splits dest!: transition_calls elim: store_calls_eq)

lemma submit_calls: "submit ab w t s spec = (r, s') \<Longrightarrow> store_calls ab s s'"
  by (auto simp: submit_def Let_def store_calls_refl split: calls_splits elim!: store_append_calls')

lemma expire_loop_calls: "expire_loop ab ws ids n s = (r, s') \<Longrightarrow> store_calls ab s s'"
proof (induction ids arbitrary: ws n s)
  case (Cons i ids)
  show ?case
  proof (cases "bt_get (sup_pending s) i")
    case None
    then show ?thesis using Cons by simp
  next
    case (Some p)
    note eq = Cons.prems [simplified Some expire_loop.simps option.case]
    show ?thesis
      using eq
      by (auto simp: store_calls_refl store_calls_def split: calls_splits
          dest!: set_task_state_storeD Cons.IH store_append_calls intro: rtranclp_trans)
  qed
qed (simp add: store_calls_refl)


lemma expire_calls: "expire_approvals ab ws now s = (r, s') \<Longrightarrow> store_calls ab s s'"
  by (simp add: expire_approvals_def expire_loop_calls)

lemma request_approval_calls:
  "request_approval ab w now oi ai s t cur req ttl = (r, s') \<Longrightarrow> store_calls ab s s'"
  by (auto simp: request_approval_def store_calls_def split: calls_splits
      dest!: set_task_state_storeD store_append_calls)

lemma request_operation_calls:
  "request_operation ab ws w now1 now2 oi ai s t req ttl = (r, s') \<Longrightarrow> store_calls ab s s'"
  by (auto simp: request_operation_def Let_def split: calls_splits policy_decision.splits
      dest: expire_calls request_approval_calls store_append_calls intro: store_calls_trans)

lemma approve_operation_calls:
  "approve_operation ab ws w now1 now2 s ai = (r, s') \<Longrightarrow> store_calls ab s s'"
  by (auto simp: approve_operation_def store_calls_def Let_def split: calls_splits
      dest!: set_task_state_storeD store_append_calls expire_calls intro: rtranclp_trans)

lemma deny_operation_calls:
  "deny_operation ab ws w now s ai = (r, s') \<Longrightarrow> store_calls ab s s'"
  by (auto simp: deny_operation_def store_calls_def Let_def split: calls_splits
      dest!: set_task_state_storeD store_append_calls expire_calls intro: rtranclp_trans)

lemma authorize_operation_calls:
  "authorize_operation ab w now s t oi req = (r, s') \<Longrightarrow> store_calls ab s s'"
  by (auto simp: authorize_operation_def store_calls_def Let_def split: calls_splits
      dest!: store_append_calls)

lemma start_execution_calls: "start_execution ab w now s t = (r, s') \<Longrightarrow> store_calls ab s s'"
  by (auto simp: start_execution_def Let_def store_calls_refl split: calls_splits dest!: start_calls)

lemma fail_budget_calls: "fail_budget_exceeded ab w s t = (r, s') \<Longrightarrow> store_calls ab s s'"
  by (auto simp: fail_budget_exceeded_def store_calls_refl split: calls_splits dest: apply_transition_calls)

lemma cancel_calls: "cancel ab w s t = (r, s') \<Longrightarrow> store_calls ab s s'"
  by (auto simp: cancel_def apply_transition_def store_calls_refl split: calls_splits dest: apply_transition_calls)

lemma sup_step_calls: "sup_step ab s s' \<Longrightarrow> store_calls ab s s'"
  by (induction rule: sup_step.induct)
    (auto simp: succeed_def fail_def dest: submit_calls start_calls start_execution_calls
      request_operation_calls approve_operation_calls deny_operation_calls authorize_operation_calls
      expire_calls transition_calls fail_budget_calls cancel_calls)

lemma reachable_calls: "sup_reachable ab s s' \<Longrightarrow> store_calls ab s s'"
  by (induction rule: sup_reachable.induct) (auto intro: store_calls_refl store_calls_trans sup_step_calls)

context event_store
begin

lemma calls_prefix:
  assumes "(store_call append)\<^sup>*\<^sup>* es es'" and "store_ok es"
  shows "store_ok es' \<and> prefix (log es t) (log es' t)"
  using assms
proof induction
  case (step u v)
  then obtain w t' ks r where "append w u t' ks = (r, v)" by (auto simp: store_call_def)
  with step show ?case
    using append_keeps_ok append_log_prefix [of u w t' ks r v t] by (blast intro: prefix_order.trans)
qed simp

lemma reachable_prefix:
  "sup_reachable append s s' \<Longrightarrow> store_ok (sup_event_store s)
   \<Longrightarrow> prefix (log (sup_event_store s) t) (log (sup_event_store s') t)"
  using reachable_calls [of append s s'] calls_prefix by (auto simp: store_calls_def)

lemma good_recovers:
  assumes g: "good s" and len: "length (log (sup_event_store s) t) < 2 ^ 64 - 1"
  shows "case supervisor_get s t of
           None \<Rightarrow> log (sup_event_store s) t = []
         | Some snapshot \<Rightarrow> recover_snapshot t (log (sup_event_store s) t) = Inr snapshot"
proof -
  have wf: "log_wf t (log (sup_event_store s) t)" using log_wf g by (auto simp: sup_good_def)
  have logs: "logs_ok (log_kinds log (sup_event_store s)) s" using g by (simp add: sup_good_def sup_inv_def)
  show ?thesis
  proof (cases "sup_task_state s t")
    case None
    with logs show ?thesis by (simp add: supervisor_get_def logs_ok_def log_kinds_def)
  next
    case (Some st)
    with logs have "replays_to (map ev_kind (log (sup_event_store s) t)) st"
      by (simp add: logs_ok_def log_kinds_def)
    with Some replays_to_recover [OF wf len] show ?thesis by (simp add: supervisor_get_def)
  qed
qed

end

section \<open>A concrete run\<close>

definition demo_clock :: "nat \<Rightarrow> nat" where "demo_clock i = 0"

definition demo_request :: capability_request where
  "demo_request = FileRequest ''/workspace/out.txt'' Write"

definition demo_submitted :: "(in_memory_store, submit_result) sup_result" where
  "demo_submitted = submit in_memory_append demo_clock (TaskId 1) supervisor_default sample_task"

definition demo_started :: "(in_memory_store, unit) sup_result" where
  "demo_started = start in_memory_append demo_clock 5 (snd demo_submitted) (TaskId 1)"

definition demo_waiting :: "(in_memory_store, operation_authorization) sup_result" where
  "demo_waiting = request_operation in_memory_append (\<lambda>_. demo_clock) demo_clock 6 6 (OperationId 2) (ApprovalId 3)
     (snd demo_started) (TaskId 1) demo_request (from_secs 60)"

definition demo_approved :: "(in_memory_store, task_snapshot) sup_result" where
  "demo_approved = approve_operation in_memory_append (\<lambda>_. demo_clock) demo_clock 7 7 (snd demo_waiting) (ApprovalId 3)"

lemma demo_init:
  "with_max_tasks in_memory_default DEFAULT_MAX_TASKS = Inr supervisor_default"
  "in_memory_ok in_memory_default" "\<forall>t. in_memory_log in_memory_default t = []" "DEFAULT_MAX_TASKS < 2 ^ 64"
  by (simp_all add: with_max_tasks_def supervisor_default_def supervisor_new_def in_memory_default_ok DEFAULT_MAX_TASKS_def)
    (simp add: in_memory_log_def in_memory_default_def)

lemma demo_submitted_reachable: "sup_reachable in_memory_append supervisor_default (snd demo_submitted)"
proof -
  have "sup_task_state supervisor_default (TaskId 1) = None" by code_simp
  then have "sup_step in_memory_append supervisor_default (snd demo_submitted)"
    by (rule sup_step.submit [where r = "fst demo_submitted"]) (simp add: demo_submitted_def)
  then show ?thesis by (rule sup_reachable.step [OF sup_reachable.init])
qed

lemma demo_started_reachable: "sup_reachable in_memory_append supervisor_default (snd demo_started)"
proof -
  have "sup_task_state (snd demo_submitted) (TaskId 1) \<noteq> Some WaitingApproval" by code_simp
  then have "sup_step in_memory_append (snd demo_submitted) (snd demo_started)"
    by (rule sup_step.start [where r = "fst demo_started"]) (simp add: demo_started_def)
  then show ?thesis by (rule sup_reachable.step [OF demo_submitted_reachable])
qed

lemma demo_waiting_reachable: "sup_reachable in_memory_append supervisor_default (snd demo_waiting)"
proof -
  have "bt_get (aa_pending (sup_authority (snd demo_started))) (ApprovalId 3) = None" by code_simp
  then have "sup_step in_memory_append (snd demo_started) (snd demo_waiting)"
    by (rule sup_step.request [where r = "fst demo_waiting"]) (simp add: demo_waiting_def)
  then show ?thesis by (rule sup_reachable.step [OF demo_started_reachable])
qed

lemma demo_approved_reachable: "sup_reachable in_memory_append supervisor_default (snd demo_approved)"
proof -
  have "sup_step in_memory_append (snd demo_waiting) (snd demo_approved)"
    by (rule sup_step.approve [where r = "fst demo_approved"]) (simp add: demo_approved_def)
  then show ?thesis by (rule sup_reachable.step [OF demo_waiting_reachable])
qed

section \<open>Properties\<close>

lemma reachable_good:
  assumes "event_store ab listing lg ok" and "ok es" "\<forall>t. lg es t = []"
    and "with_max_tasks es n = Inr s0" "n < 2 ^ 64" and "sup_reachable ab s0 s"
  shows "sup_good lg ok s" "covered s" "keeps_terminal s0 s"
proof -
  have "s0 = \<lparr>sup_tasks = [], sup_recovered = [], sup_idempotency_index = [], sup_event_store = es,
       sup_authority = authority_default, sup_pending = [], sup_approved = [], sup_max_tasks = n\<rparr>"
    using assms(4) by (simp add: with_max_tasks_def split: if_splits)
  note init = event_store.empty_good [OF assms(1-3,5) this]
  show "sup_good lg ok s" "covered s" "keeps_terminal s0 s"
    using event_store.reachable_ok [OF assms(1,6) init] by auto
qed



text \<open>C19: terminal tasks are final and the audit trail is append-only. Between any two
  states of a run, a task that was rejected, succeeded, failed or cancelled keeps that
  state, and the earlier log of every task is a prefix of the later one.\<close>

theorem history_is_final:
  assumes "event_store ab listing lg ok" and "ok es" "\<forall>t. lg es t = []"
    and "with_max_tasks es n = Inr s0" "n < 2 ^ 64" and "sup_reachable ab s0 s" "sup_reachable ab s s'"
  shows "prefix (lg (sup_event_store s) t) (lg (sup_event_store s') t)
     \<and> (\<forall>st. sup_task_state s t = Some st \<longrightarrow> is_terminal st \<longrightarrow> sup_task_state s' t = Some st)"
proof -
  note g = reachable_good(1,2) [OF assms(1-6)]
  have "prefix (lg (sup_event_store s) t) (lg (sup_event_store s') t)"
    using event_store.reachable_prefix [OF assms(1,7)] g(1) by (simp add: sup_good_def)
  moreover have "keeps_terminal s s'" using event_store.reachable_ok [OF assms(1,7) g] by simp
  ultimately show ?thesis by (simp add: keeps_terminal_def)
qed

theorem history_is_final_witness:
  "prefix (in_memory_log (sup_event_store (snd demo_submitted)) (TaskId 1))
     (in_memory_log (sup_event_store (snd (start in_memory_append demo_clock 5 (snd demo_submitted) (TaskId 1)))) (TaskId 1))"
proof -
  have "sup_task_state (snd demo_submitted) (TaskId 1) \<noteq> Some WaitingApproval" by code_simp
  then have "sup_step in_memory_append (snd demo_submitted) (snd demo_started)"
    by (rule sup_step.start [where r = "fst demo_started"]) (simp add: demo_started_def)
  then have "sup_reachable in_memory_append (snd demo_submitted) (snd demo_started)"
    by (rule sup_reachable.step [OF sup_reachable.init])
  from history_is_final [OF im.event_store_axioms demo_init(2,3,1,4) demo_submitted_reachable this, of "TaskId 1"]
  show ?thesis by (simp add: demo_started_def)
qed

text \<open>The \<open>expect\<close> on stored specifications never fires. In a reachable state neither
  \<open>request_operation\<close> (with a fresh approval identifier) nor \<open>authorize_operation\<close>
  panics, whatever they are asked.\<close>

theorem reachable_never_panics:
  assumes "event_store ab listing lg ok" and "ok es" "\<forall>t. lg es t = []"
    and "with_max_tasks es n = Inr s0" "n < 2 ^ 64" and "sup_reachable ab s0 s"
    and "bt_get (aa_pending (sup_authority s)) ai = None"
  shows "fst (request_operation ab ws w now1 now2 oi ai s t req ttl) \<noteq> Inl Panicked
     \<and> fst (authorize_operation ab w now1 s t oi req) \<noteq> Inl Panicked"
proof -
  note g = reachable_good(1) [OF assms(1-6)]
  obtain r s' where q: "request_operation ab ws w now1 now2 oi ai s t req ttl = (r, s')" by fastforce
  obtain r2 s2 where a: "authorize_operation ab w now1 s t oi req = (r2, s2)" by fastforce
  have "r \<noteq> Inl Panicked"
    by (rule event_store.request_operation_cases [OF assms(1) g assms(7) q]) auto
  moreover have "r2 \<noteq> Inl Panicked"
    by (rule event_store.authorize_operation_cases [OF assms(1) g a]) auto
  ultimately show ?thesis using q a by simp
qed

theorem reachable_never_panics_witness:
  "fst (request_operation in_memory_append (\<lambda>_. demo_clock) demo_clock 6 6 (OperationId 2) (ApprovalId 3)
       (snd demo_started) (TaskId 1) demo_request (from_secs 60)) \<noteq> Inl Panicked"
proof -
  have "bt_get (aa_pending (sup_authority (snd demo_started))) (ApprovalId 3) = None" by code_simp
  from reachable_never_panics [OF im.event_store_axioms demo_init(2,3,1,4) demo_started_reachable this]
  show ?thesis by blast
qed



text \<open>C26: only validated tasks get past submission, within the configured capacity. In a
  reachable state a stored task is \<open>Rejected\<close> exactly when its specification does not
  validate, a running or waiting one has a recorded start time, and the number of known
  tasks is within the limit.\<close>

theorem only_validated_tasks_run:
  assumes "event_store ab listing lg ok" and "ok es" "\<forall>t. lg es t = []"
    and "with_max_tasks es n = Inr s0" "n < 2 ^ 64" and "sup_reachable ab s0 s"
    and "bt_get (sup_tasks s) t = Some rec"
  shows "(tr_state rec = Rejected \<longleftrightarrow> (\<exists>errors. validate (tr_spec rec) = Inl errors))
     \<and> (tr_state rec \<in> {Running, WaitingApproval} \<longrightarrow> tr_started_at rec \<noteq> None)
     \<and> length (sup_tasks s) + length (sup_recovered s) \<le> sup_max_tasks s"
proof -
  have "sup_inv (log_kinds lg (sup_event_store s)) s" using reachable_good(1) [OF assms(1-6)] by (simp add: sup_good_def)
  note parts = sup_invD [OF this]
  have "record_ok rec" using parts(3) assms(7) by (simp add: tasks_ok_def)
  moreover have "task_ok (tr_spec rec) \<longleftrightarrow> (\<nexists>errors. validate (tr_spec rec) = Inl errors)"
    using validate_Ok_iff [of "tr_spec rec"] by (cases "validate (tr_spec rec)") auto
  ultimately show ?thesis using parts(1) by (auto simp: record_ok_def maps_ok_def)
qed

theorem only_validated_tasks_run_witness:
  "tr_state (the (bt_get (sup_tasks (snd demo_started)) (TaskId 1))) = Running
   \<and> \<not> (\<exists>errors. validate (tr_spec (the (bt_get (sup_tasks (snd demo_started)) (TaskId 1)))) = Inl errors)"
proof -
  have r: "tr_state (the (bt_get (sup_tasks (snd demo_started)) (TaskId 1))) = Running"
    and "bt_get (sup_tasks (snd demo_started)) (TaskId 1) \<noteq> None" by code_simp+
  then obtain rec where rec: "bt_get (sup_tasks (snd demo_started)) (TaskId 1) = Some rec" by auto
  from only_validated_tasks_run [OF im.event_store_axioms demo_init(2,3,1,4) demo_started_reachable rec] r rec
  show ?thesis by simp
qed

text \<open>C24: submission is idempotent. In a reachable state a successful \<open>submit\<close> stores the
  task \<open>Queued\<close> when it validates and \<open>Rejected\<close> otherwise; submitting the same
  specification again, any later identifier and clock notwithstanding, returns
  \<open>Existing\<close> with the same task and changes nothing, and a different specification under
  the same key is an \<open>IdempotencyConflict\<close> that changes nothing.\<close>

theorem submit_idempotent:
  assumes "event_store ab listing lg ok" and "ok es" "\<forall>t. lg es t = []"
    and "with_max_tasks es n = Inr s0" "n < 2 ^ 64" and "sup_reachable ab s0 s"
    and "sup_task_state s t = None" and "submit ab w t s spec = (Inr res, s')"
  shows "\<exists>u st. sup_task_state s' u = Some st
     \<and> (res = Existing \<lparr>snap_task_id = u, snap_state = st\<rparr> \<and> s' = s
        \<or> u = t \<and> st = (if task_ok spec then Queued else Rejected)
          \<and> res = (case validate spec of Inr _ \<Rightarrow> Accepted \<lparr>snap_task_id = t, snap_state = st\<rparr>
                   | Inl errors \<Rightarrow> RejectedTask \<lparr>snap_task_id = t, snap_state = st\<rparr> errors))
     \<and> (\<forall>w' t'. submit ab w' t' s' spec = (Inr (Existing \<lparr>snap_task_id = u, snap_state = st\<rparr>), s'))
     \<and> (\<forall>w' t' spec'. ts_idempotency_key spec' = ts_idempotency_key spec \<longrightarrow> spec' \<noteq> spec \<longrightarrow>
          submit ab w' t' s' spec' = (Inl IdempotencyConflict, s'))"
proof -
  note g = reachable_good(1) [OF assms(1-6)]
  have repeat: "submit ab w' t' s' spec = (Inr (Existing \<lparr>snap_task_id = u, snap_state = tr_state rec\<rparr>), s')"
    "\<lbrakk>ts_idempotency_key spec' = ts_idempotency_key spec; spec' \<noteq> spec\<rbrakk>
       \<Longrightarrow> submit ab w' t' s' spec' = (Inl IdempotencyConflict, s')"
    if "bt_get (sup_idempotency_index s') (ts_idempotency_key spec) = Some u"
      "bt_get (sup_tasks s') u = Some rec" "tr_spec rec = spec" for u rec w' t' spec'
    using that by (auto simp: submit_def)
  show ?thesis
  proof (rule event_store.submit_cases [OF assms(1) g assms(7,8)])
    fix u rec assume a: "bt_get (sup_tasks s) u = Some rec" "tr_spec rec = spec" "s' = s"
      "Inr res = Inr (Existing \<lparr>snap_task_id = u, snap_state = tr_state rec\<rparr>)"
    have "index_ok s" using g by (simp add: sup_good_def sup_inv_def)
    then have "bt_get (sup_idempotency_index s') (ts_idempotency_key spec) = Some u"
      using a by (simp add: index_ok_def)
    with a repeat show ?thesis
      by (intro exI [of _ u] exI [of _ "tr_state rec"]) (auto simp: sup_task_state_def)
  next
    fix st es' assume a: "st = (if task_ok spec then Queued else Rejected)"
      "s' = add_task t \<lparr>tr_spec = spec, tr_state = st, tr_started_at = None\<rparr> (s\<lparr>sup_event_store := es'\<rparr>)"
      "Inr res = Inr (case validate spec of Inr _ \<Rightarrow> Accepted \<lparr>snap_task_id = t, snap_state = st\<rparr>
                | Inl errors \<Rightarrow> RejectedTask \<lparr>snap_task_id = t, snap_state = st\<rparr> errors)"
    let ?rec = "\<lparr>tr_spec = spec, tr_state = st, tr_started_at = None\<rparr>"
    have b: "bt_get (sup_idempotency_index s') (ts_idempotency_key spec) = Some t"
        "bt_get (sup_tasks s') t = Some ?rec" by (simp_all add: a(2) add_task_def)
    then have "sup_task_state s' t = Some st" by (simp add: sup_task_state_def)
    moreover have "res = (case validate spec of Inr _ \<Rightarrow> Accepted \<lparr>snap_task_id = t, snap_state = st\<rparr>
                   | Inl errors \<Rightarrow> RejectedTask \<lparr>snap_task_id = t, snap_state = st\<rparr> errors)" using a(3) by simp
    ultimately show ?thesis
      using a(1) repeat [OF b] by (intro exI [of _ t] exI [of _ st]) simp
  qed auto
qed

theorem submit_idempotent_witness:
  "submit in_memory_append demo_clock (TaskId 9) (snd demo_submitted) sample_task
     = (Inr (Existing \<lparr>snap_task_id = TaskId 1, snap_state = Queued\<rparr>), snd demo_submitted)"
proof -
  have none: "sup_task_state supervisor_default (TaskId 1) = None" by code_simp
  have f: "fst demo_submitted = Inr (Accepted \<lparr>snap_task_id = TaskId 1, snap_state = Queued\<rparr>)" by code_simp
  then have "submit in_memory_append demo_clock (TaskId 1) supervisor_default sample_task
      = (Inr (Accepted \<lparr>snap_task_id = TaskId 1, snap_state = Queued\<rparr>), snd demo_submitted)"
    by (metis demo_submitted_def prod.collapse)
  from submit_idempotent [OF im.event_store_axioms demo_init(2,3,1,4) sup_reachable.init none this]
  show ?thesis by (auto split: sum.splits if_splits)
qed

text \<open>C20: an operation decision follows the policy and is recorded before it is returned.
  From a reachable state, when \<open>request_operation\<close> answers, the task was running, the
  answer is the policy's decision for the task's specification, and the last audit
  events of the task are that decision; when approval is required the task is left
  waiting with the request pending under the returned identifiers.\<close>

theorem operation_decision_recorded:
  assumes "event_store ab listing lg ok" and "ok es" "\<forall>t. lg es t = []"
    and "with_max_tasks es n = Inr s0" "n < 2 ^ 64" and "sup_reachable ab s0 s"
    and "bt_get (aa_pending (sup_authority s)) ai = None"
    and "request_operation ab ws w now1 now2 oi ai s t req ttl = (Inr answer, s')"
  shows "\<exists>rec earlier. bt_get (sup_tasks s) t = Some rec \<and> tr_state rec = Running
     \<and> (case answer of
          OpAllowed \<Rightarrow> evaluate \<lparr>cp_task = tr_spec rec\<rparr> req = Allow
            \<and> map ev_kind (lg (sup_event_store s') t) = earlier @ [OperationAllowed]
            \<and> sup_task_state s' t = Some Running
        | OpDenied reason \<Rightarrow> evaluate \<lparr>cp_task = tr_spec rec\<rparr> req = Deny reason
            \<and> map ev_kind (lg (sup_event_store s') t) = earlier @ [OperationDenied reason]
            \<and> sup_task_state s' t = Some Running
        | OpApprovalRequired q \<Rightarrow> evaluate \<lparr>cp_task = tr_spec rec\<rparr> req = ApprovalRequired
            \<and> map ev_kind (lg (sup_event_store s') t)
                = earlier @ [ApprovalRequested ai oi, StateTransitioned Running WaitingApproval]
            \<and> sup_task_state s' t = Some WaitingApproval
            \<and> ar_approval_id q = ai \<and> ar_operation_id q = oi \<and> ar_task_id q = t \<and> ar_action q = request_action req
            \<and> bt_get (sup_pending s') ai
                = Some \<lparr>po_task_id = t, po_operation_id = oi, po_request = from_borrowed req\<rparr>)"
proof -
  note g = reachable_good(1) [OF assms(1-6)]
  have same: "\<exists>r. bt_get (sup_tasks s) t = Some r \<and> tr_state r = Running \<and> tr_spec r = tr_spec rec"
    if "expires_to s s1" "bt_get (sup_tasks s1) t = Some rec" "tr_state rec = Running" for s1 rec
  proof -
    have "live_state s t = Some Running"
      using expires_to_Running [OF that(1), of t] that by (simp add: live_state_def)
    moreover have "map_option tr_spec (bt_get (sup_tasks s1) t) = map_option tr_spec (bt_get (sup_tasks s) t)"
      using that(1) by (simp add: expires_to_def)
    ultimately show ?thesis using that(2) by (auto simp: live_state_def)
  qed
  have keep: "sup_task_state s' t = Some Running" if "expires_to s s1" "expires_to s s'"
      "bt_get (sup_tasks s1) t = Some rec" "tr_state rec = Running" for s1 rec
  proof -
    have "live_state s t = Some Running"
      using expires_to_Running [OF that(1), of t] that by (simp add: live_state_def)
    then have "live_state s' t = Some Running" using expires_to_live [OF that(2), of t] by auto
    then show ?thesis by (simp add: sup_task_state_live)
  qed
  show ?thesis
  proof (rule event_store.request_operation_cases [OF assms(1) g assms(7,8)], goal_cases)
    case (2 s1 rec)
    with same [of s1 rec] keep [of s1 rec] show ?case by (auto simp: log_kinds_def)
  next
    case (3 s1 rec reason)
    with same [of s1 rec] keep [of s1 rec] show ?case by (auto simp: log_kinds_def)
  next
    case (4 s1 rec q es' a)
    then have "sup_task_state s' t = Some WaitingApproval"
      by (simp add: task_state_set live_state_def)
    moreover have "bt_get (sup_pending s') ai = Some \<lparr>po_task_id = t, po_operation_id = oi, po_request = from_borrowed req\<rparr>"
      using 4 by simp
    moreover have "map ev_kind (lg (sup_event_store s') t) = log_kinds lg (sup_event_store s1) t
        @ [ApprovalRequested ai oi, StateTransitioned Running WaitingApproval]"
      using 4(12) by (simp add: log_kinds_def)
    ultimately show ?case using same [of s1 rec] 4(1-10) by (auto simp del: map_append)
  qed auto
qed

theorem operation_decision_recorded_witness:
  "\<exists>earlier. map ev_kind (in_memory_log (sup_event_store (snd demo_waiting)) (TaskId 1))
     = earlier @ [ApprovalRequested (ApprovalId 3) (OperationId 2), StateTransitioned Running WaitingApproval]"
proof -
  have f: "bt_get (aa_pending (sup_authority (snd demo_started))) (ApprovalId 3) = None" by code_simp
  have q: "fst demo_waiting = Inr (OpApprovalRequired \<lparr>ar_approval_id = ApprovalId 3, ar_task_id = TaskId 1,
      ar_operation_id = OperationId 2, ar_action = ''filesystem.write'', ar_expires_after_ms = 60000\<rparr>)"
    by code_simp
  then have "request_operation in_memory_append (\<lambda>_. demo_clock) demo_clock 6 6 (OperationId 2) (ApprovalId 3)
      (snd demo_started) (TaskId 1) demo_request (from_secs 60)
    = (Inr (OpApprovalRequired \<lparr>ar_approval_id = ApprovalId 3, ar_task_id = TaskId 1,
      ar_operation_id = OperationId 2, ar_action = ''filesystem.write'', ar_expires_after_ms = 60000\<rparr>), snd demo_waiting)"
    by (metis demo_waiting_def prod.collapse)
  from operation_decision_recorded [OF im.event_store_axioms demo_init(2,3,1,4) demo_started_reachable f this]
  show ?thesis by (simp del: map_append) blast
qed

text \<open>C8: an approval authorizes one exact operation, once, in time. From a reachable state,
  \<open>authorize_operation\<close> succeeds only for a running task, an operation approved for that
  task with exactly the supplied request, an action its policy still gates, and before
  the deadline; the consumption is the last audit event. Whatever an attempt on a running
  task returns, the approval is gone afterwards: the next attempt is \<open>NotFound\<close>.\<close>

theorem approval_consumed_once:
  assumes "event_store ab listing lg ok" and "ok es" "\<forall>t. lg es t = []"
    and "with_max_tasks es n = Inr s0" "n < 2 ^ 64" and "sup_reachable ab s0 s"
    and "authorize_operation ab w now s t oi req = (r, s')" and "sup_task_state s t = Some Running"
  shows "(\<forall>receipt. r = Inr receipt \<longrightarrow>
       (\<exists>rec a earlier. bt_get (sup_tasks s) t = Some rec \<and> bt_get (sup_approved s) oi = Some a
          \<and> ao_task_id a = t \<and> ao_request a = from_borrowed req
          \<and> evaluate \<lparr>cp_task = tr_spec rec\<rparr> req = ApprovalRequired
          \<and> now < grant_deadline (ao_grant a) \<and> receipt = \<lparr>receipt_approval_id = grant_approval_id (ao_grant a)\<rparr>
          \<and> map ev_kind (lg (sup_event_store s') t) = earlier @ [ApprovalConsumed (receipt_approval_id receipt) oi]))
     \<and> (\<forall>w' later req'. fst (authorize_operation ab w' later s' t oi req') = Inl (ApprovalFailed NotFound))"
proof -
  note g = reachable_good(1) [OF assms(1-6)]
  have run: "live_state s t = Some Running"
    using nonterminal_live [of s t Running] g assms(8) by (simp add: sup_good_def sup_inv_def)
  have again: "fst (authorize_operation ab w' later s' t oi req') = Inl (ApprovalFailed NotFound)"
    if same: "live_state s' = live_state s" and gone: "bt_get (sup_approved s') oi = None" for w' later req'
  proof -
    obtain rec where "bt_get (sup_tasks s') t = Some rec" "tr_state rec = Running"
      using same run live_state_Some [of s' t Running] by auto
    with gone show ?thesis by (simp add: authorize_operation_def)
  qed
  show ?thesis
  proof (rule event_store.authorize_operation_cases [OF assms(1) g assms(7)], goal_cases)
    case (1 e)
    with run again show ?case by auto
  next
    case (2 rec a)
    then have "map ev_kind (lg (sup_event_store s') t) = log_kinds lg (sup_event_store s) t
        @ [ApprovalConsumed (grant_approval_id (ao_grant a)) oi]" by (simp add: log_kinds_def)
    with 2 again show ?case by (auto simp del: map_append)
  qed
qed

theorem approval_consumed_once_witness:
  "sup_task_state (snd demo_approved) (TaskId 1) = Some Running
   \<and> fst (authorize_operation in_memory_append demo_clock 8
        (snd (authorize_operation in_memory_append demo_clock 8 (snd demo_approved) (TaskId 1) (OperationId 2) demo_request))
        (TaskId 1) (OperationId 2) demo_request) = Inl (ApprovalFailed NotFound)"
proof -
  have run: "sup_task_state (snd demo_approved) (TaskId 1) = Some Running" by code_simp
  obtain r s' where a: "authorize_operation in_memory_append demo_clock 8 (snd demo_approved) (TaskId 1) (OperationId 2) demo_request
      = (r, s')" by fastforce
  from approval_consumed_once [OF im.event_store_axioms demo_init(2,3,1,4) demo_approved_reachable a run] run a
  show ?thesis by simp
qed

text \<open>C25: ending a task revokes its authority. From a reachable state, when \<open>cancel\<close>
  reports a change, the task is \<open>Cancelled\<close>, no pending and no approved operation of it
  is left, and the audit log received one revocation for each of them before the
  transition; cancelling again reports no change and leaves everything as it is.\<close>

theorem cancel_revokes_authority:
  assumes "event_store ab listing lg ok" and "ok es" "\<forall>t. lg es t = []"
    and "with_max_tasks es n = Inr s0" "n < 2 ^ 64" and "sup_reachable ab s0 s"
    and "cancel ab w s t = (Inr True, s')"
  shows "sup_task_state s' t = Some Cancelled
     \<and> (\<forall>i p. bt_get (sup_pending s') i = Some p \<longrightarrow> po_task_id p \<noteq> t)
     \<and> (\<forall>i pa. bt_get (aa_pending (sup_authority s')) i = Some pa \<longrightarrow> pa_task_id pa \<noteq> t)
     \<and> (\<forall>o' a. bt_get (sup_approved s') o' = Some a \<longrightarrow> ao_task_id a \<noteq> t)
     \<and> (\<exists>cur. sup_task_state s t = Some cur \<and> map ev_kind (lg (sup_event_store s') t)
          = map ev_kind (lg (sup_event_store s) t) @ revocation_events s t @ [StateTransitioned cur Cancelled])
     \<and> (\<forall>w'. cancel ab w' s' t = (Inr False, s'))"
proof -
  note g = reachable_good(1) [OF assms(1-6)]
  note c = event_store.cancel_good [OF assms(1) g assms(7)]
  have inv: "sup_inv (log_kinds lg (sup_event_store s)) s" and inv': "sup_inv (log_kinds lg (sup_event_store s')) s'"
    using g c(1) by (simp_all add: sup_good_def)
  from c(2) have st: "sup_task_state s' t = Some Cancelled" by simp
  then have live: "live_state s' t \<noteq> Some WaitingApproval" by (auto simp: sup_task_state_live)
  have pend: "po_task_id p \<noteq> t" if "bt_get (sup_pending s') i = Some p" for i p
    using sup_invD(5) [OF inv'] that live by (auto simp: pending_ok_def)
  have auth: "pa_task_id pa \<noteq> t" if pa: "bt_get (aa_pending (sup_authority s')) i = Some pa" for i pa
  proof -
    have "pending_view s' i = authority_view (sup_authority s') i"
      using sup_invD(5) [OF inv'] by (simp add: pending_ok_def)
    then show ?thesis using pa pend [of i] by (auto simp: pending_view_def authority_view_def)
  qed
  from assms(7) obtain cur where cur: "sup_task_state s t = Some cur" "\<not> is_terminal cur"
    and ap: "apply_transition_with_failure ab w s t cur Cancelled None = (Inr (), s')"
    by (auto simp: cancel_def apply_transition_def split: option.splits if_splits prod.splits sum.splits)
  have lv: "live_state s t = Some cur" using nonterminal_live [OF sup_invD(3) [OF inv] cur] .
  have appr: "ao_task_id a \<noteq> t" if a: "bt_get (sup_approved s') o' = Some a" for o' a
  proof -
    have "\<exists>st' \<in> {Running, WaitingApproval, Failed}. live_state s' (ao_task_id a) = Some st'"
      using sup_invD(6) [OF inv'] a by (auto simp: approved_ok_def)
    then show ?thesis using st by (auto simp: sup_task_state_live)
  qed
  have log: "map ev_kind (lg (sup_event_store s') t)
      = map ev_kind (lg (sup_event_store s) t) @ revocation_events s t @ [StateTransitioned cur Cancelled]"
  proof -
    obtain r1 s1 where sa: "store_append ab w s t (revocation_events s t @ [StateTransitioned cur Cancelled]) = (r1, s1)"
      by fastforce
    have ok: "ok (sup_event_store s)" using g by (simp add: sup_good_def)
    show ?thesis
      by (rule event_store.store_append_cases [OF assms(1) ok sa])
        (use ap sa in \<open>auto simp: apply_transition_with_failure_def Let_def log_kinds_def fun_eq_iff
           simp del: bt_contains_iff split: if_splits\<close>)
  qed
  have "cancel ab w' s' t = (Inr False, s')" for w' using st by (simp add: cancel_def)
  with st pend auth appr log cur show ?thesis by blast
qed

theorem cancel_revokes_authority_witness:
  "\<exists>s'. cancel in_memory_append demo_clock (snd demo_approved) (TaskId 1) = (Inr True, s')
     \<and> sup_task_state s' (TaskId 1) = Some Cancelled
     \<and> (\<forall>o' a. bt_get (sup_approved s') o' = Some a \<longrightarrow> ao_task_id a \<noteq> TaskId 1)"
proof -
  have "fst (cancel in_memory_append demo_clock (snd demo_approved) (TaskId 1)) = Inr True" by code_simp
  then obtain s' where c: "cancel in_memory_append demo_clock (snd demo_approved) (TaskId 1) = (Inr True, s')"
    by (metis prod.collapse)
  from cancel_revokes_authority [OF im.event_store_axioms demo_init(2,3,1,4) demo_approved_reachable c] c
  show ?thesis by blast
qed


end
