(* ===== verification/Execution_Gate.thy ===== *)
theory Execution_Gate
  imports Supervisor_Props
begin

text \<open>
  \<open>aios-runtime/src/execution.rs\<close>: the gate that keeps complete operations and invokes an
  adapter only after the supervisor authorized them. The traits are arguments:
  \<open>capreq\<close> is \<open>GuardedOperation::capability_request\<close>, \<open>execute x\<close> is
  \<open>ExecutionAdapter::execute\<close>, which threads the adapter's state and sees the outside
  world as \<open>x\<close>. Every operation returns the gate and the supervisor with its result.
\<close>

record 'o pending_execution =
  pe_task_id :: task_id
  pe_approval_id :: approval_id
  pe_operation :: 'o

record ('a, 'o) execution_gate =
  gate_adapter :: 'a
  gate_pending :: "(operation_id, 'o pending_execution) btree"
  gate_approval_index :: "(approval_id, operation_id) btree"

record 'out executed =
  ex_output :: 'out
  ex_approval :: "approval_receipt option"

datatype 'out execution_outcome =
  Executed "'out executed" | ExecDenied denial_reason | ExecApprovalRequired approval_request

datatype 'e execution_error =
  ExecSupervisor supervisor_error | ExecAdapter 'e | OperationNotFound

type_synonym ('x, 'a, 'o, 'e, 'out) execute_fn = "'x \<Rightarrow> 'a \<Rightarrow> 'o \<Rightarrow> ('e + 'out) \<times> 'a"

type_synonym ('a, 'o, 's, 'e, 'r) gate_result =
  "('e execution_error + 'r) \<times> ('a, 'o) execution_gate \<times> 's supervisor"

definition gate_new :: "'a \<Rightarrow> ('a, 'o) execution_gate" where
  "gate_new adapter = \<lparr>gate_adapter = adapter, gate_pending = [], gate_approval_index = []\<rparr>"

definition remove_pending ::
  "('a, 'o) execution_gate \<Rightarrow> approval_id \<Rightarrow> operation_id
   \<Rightarrow> 'o pending_execution option \<times> ('a, 'o) execution_gate" where
  "remove_pending g approval_id operation_id =
     (bt_get (gate_pending g) operation_id,
      g\<lparr>gate_approval_index := bt_remove approval_id (gate_approval_index g),
        gate_pending := bt_remove operation_id (gate_pending g)\<rparr>)"

definition remove_task :: "('a, 'o) execution_gate \<Rightarrow> task_id \<Rightarrow> ('a, 'o) execution_gate" where
  "remove_task g task_id =
     (let operation_ids = List.map_filter (\<lambda>(operation_id, pending).
            if pe_task_id pending = task_id then Some operation_id else None) (gate_pending g)
      in fold (\<lambda>operation_id g.
           case bt_get (gate_pending g) operation_id of
             None \<Rightarrow> g
           | Some pending \<Rightarrow>
               g\<lparr>gate_pending := bt_remove operation_id (gate_pending g),
                 gate_approval_index := bt_remove (pe_approval_id pending) (gate_approval_index g)\<rparr>)
         operation_ids g)"

definition purge_terminal :: "('a, 'o) execution_gate \<Rightarrow> 's supervisor \<Rightarrow> ('a, 'o) execution_gate" where
  "purge_terminal g s =
     (let task_ids = List.map_filter (\<lambda>pending.
            case supervisor_get s (pe_task_id pending) of
              None \<Rightarrow> None
            | Some task \<Rightarrow> if is_terminal (snap_state task) then Some (pe_task_id pending) else None)
          (bt_values (gate_pending g))
      in fold (\<lambda>task_id g. remove_task g task_id) task_ids g)"

definition gate_pending_count :: "('a, 'o) execution_gate \<Rightarrow> nat" where
  "gate_pending_count g = length (gate_pending g)"

definition gate_request ::
  "('w, 's) append_fn \<Rightarrow> ('o \<Rightarrow> capability_request) \<Rightarrow> ('x, 'a, 'o, 'e, 'out) execute_fn
   \<Rightarrow> (nat \<Rightarrow> 'w) \<Rightarrow> 'w \<Rightarrow> 'x \<Rightarrow> instant \<Rightarrow> instant \<Rightarrow> operation_id \<Rightarrow> approval_id
   \<Rightarrow> ('a, 'o) execution_gate \<Rightarrow> 's supervisor \<Rightarrow> task_id \<Rightarrow> 'o \<Rightarrow> duration
   \<Rightarrow> ('a, 'o, 's, 'e, 'out execution_outcome) gate_result" where
  "gate_request ab capreq execute ws w x now1 now2 new_op new_approval g s task_id operation approval_ttl =
     (case request_operation ab ws w now1 now2 new_op new_approval s task_id (capreq operation) approval_ttl of
        (Inl e, s) \<Rightarrow> (Inl (ExecSupervisor e), g, s)
      | (Inr OpAllowed, s) \<Rightarrow>
          (case execute x (gate_adapter g) operation of
             (Inl e, adapter) \<Rightarrow> (Inl (ExecAdapter e), g\<lparr>gate_adapter := adapter\<rparr>, s)
           | (Inr output, adapter) \<Rightarrow>
               (Inr (Executed \<lparr>ex_output = output, ex_approval = None\<rparr>), g\<lparr>gate_adapter := adapter\<rparr>, s))
      | (Inr (OpDenied reason), s) \<Rightarrow> (Inr (ExecDenied reason), g, s)
      | (Inr (OpApprovalRequired approval), s) \<Rightarrow>
          (Inr (ExecApprovalRequired approval),
           g\<lparr>gate_pending := bt_insert (ar_operation_id approval)
               \<lparr>pe_task_id = task_id, pe_approval_id = ar_approval_id approval, pe_operation = operation\<rparr>
               (gate_pending g),
             gate_approval_index := bt_insert (ar_approval_id approval) (ar_operation_id approval)
               (gate_approval_index g)\<rparr>, s))"

definition approve_and_execute ::
  "('w, 's) append_fn \<Rightarrow> ('o \<Rightarrow> capability_request) \<Rightarrow> ('x, 'a, 'o, 'e, 'out) execute_fn
   \<Rightarrow> (nat \<Rightarrow> 'w) \<Rightarrow> 'w \<Rightarrow> 'w \<Rightarrow> 'x \<Rightarrow> instant \<Rightarrow> instant \<Rightarrow> instant
   \<Rightarrow> ('a, 'o) execution_gate \<Rightarrow> 's supervisor \<Rightarrow> approval_id
   \<Rightarrow> ('a, 'o, 's, 'e, 'out executed) gate_result" where
  "approve_and_execute ab capreq execute ws w1 w2 x now1 now2 now3 g s approval_id =
     (case bt_get (gate_approval_index g) approval_id of
        None \<Rightarrow> (Inl OperationNotFound, g, s)
      | Some operation_id \<Rightarrow>
          if \<not> bt_contains (gate_pending g) operation_id then (Inl OperationNotFound, g, s)
          else
            (case approve_operation ab ws w1 now1 now2 s approval_id of
               (Inl e, s) \<Rightarrow> (Inl (ExecSupervisor e), g, s)
             | (Inr _, s) \<Rightarrow>
                 (case remove_pending g approval_id operation_id of
                    (None, g) \<Rightarrow> (Inl OperationNotFound, g, s)
                  | (Some pending, g) \<Rightarrow>
                      (case authorize_operation ab w2 now3 s (pe_task_id pending) operation_id
                              (capreq (pe_operation pending)) of
                         (Inl e, s) \<Rightarrow> (Inl (ExecSupervisor e), g, s)
                       | (Inr approval, s) \<Rightarrow>
                           (case execute x (gate_adapter g) (pe_operation pending) of
                              (Inl e, adapter) \<Rightarrow> (Inl (ExecAdapter e), g\<lparr>gate_adapter := adapter\<rparr>, s)
                            | (Inr output, adapter) \<Rightarrow>
                                (Inr \<lparr>ex_output = output, ex_approval = Some approval\<rparr>,
                                 g\<lparr>gate_adapter := adapter\<rparr>, s))))))"

definition gate_deny ::
  "('w, 's) append_fn \<Rightarrow> (nat \<Rightarrow> 'w) \<Rightarrow> 'w \<Rightarrow> instant \<Rightarrow> ('a, 'o) execution_gate \<Rightarrow> 's supervisor \<Rightarrow> approval_id
   \<Rightarrow> ('a, 'o, 's, 'e, task_snapshot) gate_result" where
  "gate_deny ab ws w now g s approval_id =
     (case bt_get (gate_approval_index g) approval_id of
        None \<Rightarrow> (Inl OperationNotFound, g, s)
      | Some operation_id \<Rightarrow>
          (case deny_operation ab ws w now s approval_id of
             (Inl e, s) \<Rightarrow> (Inl (ExecSupervisor e), g, s)
           | (Inr task, s) \<Rightarrow> (Inr task, snd (remove_pending g approval_id operation_id), s)))"

definition gate_expire ::
  "('w, 's) append_fn \<Rightarrow> (nat \<Rightarrow> 'w) \<Rightarrow> instant \<Rightarrow> ('a, 'o) execution_gate \<Rightarrow> 's supervisor
   \<Rightarrow> ('a, 'o, 's, 'e, nat) gate_result" where
  "gate_expire ab ws now g s =
     (case expire_approvals ab ws now s of
        (Inl e, s) \<Rightarrow> (Inl (ExecSupervisor e), g, s)
      | (Inr expired, s) \<Rightarrow> (Inr expired, purge_terminal g s, s))"

definition gate_cancel ::
  "('w, 's) append_fn \<Rightarrow> 'w \<Rightarrow> ('a, 'o) execution_gate \<Rightarrow> 's supervisor \<Rightarrow> task_id
   \<Rightarrow> ('a, 'o, 's, 'e, bool) gate_result" where
  "gate_cancel ab w g s task_id =
     (case cancel ab w s task_id of
        (Inl e, s) \<Rightarrow> (Inl (ExecSupervisor e), g, s)
      | (Inr changed, s) \<Rightarrow> (Inr changed, remove_task g task_id, s))"

section \<open>The gate's invariant\<close>

text \<open>The approval index and the pending operations are inverse to each other.\<close>

definition gate_ok :: "('a, 'o) execution_gate \<Rightarrow> bool" where
  "gate_ok g \<longleftrightarrow> bt_wf (gate_pending g) \<and> bt_wf (gate_approval_index g)
     \<and> (\<forall>i o'. bt_get (gate_approval_index g) i = Some o' \<longleftrightarrow>
          map_option pe_approval_id (bt_get (gate_pending g) o') = Some i)"

lemma gate_new_ok: "gate_ok (gate_new a)"
  by (simp add: gate_ok_def gate_new_def)

lemma gate_ok_adapter [simp]: "gate_ok (g\<lparr>gate_adapter := a\<rparr>) \<longleftrightarrow> gate_ok g"
  by (simp add: gate_ok_def)

lemma gate_ok_insert:
  assumes "gate_ok g" and "bt_get (gate_pending g) o' = None" and "bt_get (gate_approval_index g) (pe_approval_id e) = None"
  shows "gate_ok (g\<lparr>gate_pending := bt_insert o' e (gate_pending g),
     gate_approval_index := bt_insert (pe_approval_id e) o' (gate_approval_index g)\<rparr>)"
  using assms unfolding gate_ok_def by (auto split: if_splits) (metis option.distinct(1) option.simps(9))+

lemma gate_ok_remove:
  assumes "gate_ok g" and "bt_get (gate_approval_index g) i = Some o'"
  shows "gate_ok (g\<lparr>gate_approval_index := bt_remove i (gate_approval_index g),
     gate_pending := bt_remove o' (gate_pending g)\<rparr>)"
  using assms unfolding gate_ok_def by (auto split: if_splits) (metis option.inject option.simps(9))+

definition gate_drop :: "operation_id \<Rightarrow> ('a, 'o) execution_gate \<Rightarrow> ('a, 'o) execution_gate" where
  "gate_drop o' g = (case bt_get (gate_pending g) o' of None \<Rightarrow> g
     | Some e \<Rightarrow> g\<lparr>gate_pending := bt_remove o' (gate_pending g),
                   gate_approval_index := bt_remove (pe_approval_id e) (gate_approval_index g)\<rparr>)"

lemma gate_drop_ok: assumes "gate_ok g" shows "gate_ok (gate_drop o' g)"
proof (cases "bt_get (gate_pending g) o'")
  case (Some e)
  then have "bt_get (gate_approval_index g) (pe_approval_id e) = Some o'"
    using assms by (simp add: gate_ok_def)
  from gate_ok_remove [OF assms this] Some show ?thesis by (simp add: gate_drop_def gate_ok_def)
qed (use assms in \<open>simp add: gate_drop_def\<close>)

lemma gate_drop_sel [simp]:
  "gate_adapter (gate_drop o' g) = gate_adapter g"
  "bt_get (gate_pending (gate_drop o' g)) = (bt_get (gate_pending g))(o' := None)"
  by (auto simp: gate_drop_def split: option.splits)

lemma fold_drop:
  "gate_ok g \<Longrightarrow> gate_ok (fold gate_drop os g)"
  "gate_adapter (fold gate_drop os g) = gate_adapter g"
  "bt_get (gate_pending (fold gate_drop os g)) u = (if u \<in> set os then None else bt_get (gate_pending g) u)"
  by (induction os arbitrary: g) (auto simp: gate_drop_ok)

lemma remove_task_fold:
  "remove_task g t = fold gate_drop (List.map_filter (\<lambda>(o', e). if pe_task_id e = t then Some o' else None) (gate_pending g)) g"
  unfolding remove_task_def Let_def gate_drop_def [abs_def] by (rule refl)

lemma remove_task_facts:
  assumes "gate_ok g"
  shows "gate_ok (remove_task g t)" "gate_adapter (remove_task g t) = gate_adapter g"
    "bt_get (gate_pending (remove_task g t)) u =
       (case bt_get (gate_pending g) u of None \<Rightarrow> None | Some e \<Rightarrow> if pe_task_id e = t then None else Some e)"
proof -
  have "u \<in> set (List.map_filter (\<lambda>(o', e). if pe_task_id e = t then Some o' else None) (gate_pending g))
      \<longleftrightarrow> (\<exists>e. bt_get (gate_pending g) u = Some e \<and> pe_task_id e = t)"
    using assms by (auto simp: gate_ok_def List.map_filter_def bt_mem_get image_iff split: if_splits prod.splits)
  then show "bt_get (gate_pending (remove_task g t)) u =
       (case bt_get (gate_pending g) u of None \<Rightarrow> None | Some e \<Rightarrow> if pe_task_id e = t then None else Some e)"
    by (auto simp: remove_task_fold fold_drop(3) split: option.splits)
qed (simp_all add: remove_task_fold fold_drop assms)

lemma fold_remove_task:
  "gate_ok g \<Longrightarrow> gate_ok (fold (\<lambda>t g. remove_task g t) ts g)
     \<and> gate_adapter (fold (\<lambda>t g. remove_task g t) ts g) = gate_adapter g
     \<and> bt_get (gate_pending (fold (\<lambda>t g. remove_task g t) ts g)) u =
       (case bt_get (gate_pending g) u of None \<Rightarrow> None | Some e \<Rightarrow> if pe_task_id e \<in> set ts then None else Some e)"
proof (induction ts arbitrary: g)
  case Nil
  then show ?case by (simp split: option.splits)
next
  case (Cons t ts)
  note r = remove_task_facts [OF Cons.prems, of t]
  from Cons.IH [OF r(1)] r(2,3) show ?case by (auto split: option.splits)
qed

lemma purge_terminal_facts:
  assumes "gate_ok g"
  shows "gate_ok (purge_terminal g s)" "gate_adapter (purge_terminal g s) = gate_adapter g"
    "bt_get (gate_pending (purge_terminal g s)) u =
       (case bt_get (gate_pending g) u of None \<Rightarrow> None
        | Some e \<Rightarrow> (case sup_task_state s (pe_task_id e) of
                      Some st \<Rightarrow> if is_terminal st then None else Some e | None \<Rightarrow> Some e))"
proof -
  let ?ts = "List.map_filter (\<lambda>pending. case supervisor_get s (pe_task_id pending) of None \<Rightarrow> None
      | Some task \<Rightarrow> if is_terminal (snap_state task) then Some (pe_task_id pending) else None) (bt_values (gate_pending g))"
  have p: "purge_terminal g s = fold (\<lambda>t g. remove_task g t) ?ts g" by (simp add: purge_terminal_def)
  note f = fold_remove_task [OF assms, of ?ts]
  show "gate_ok (purge_terminal g s)" "gate_adapter (purge_terminal g s) = gate_adapter g"
    using f by (simp_all add: p)
  have "pe_task_id e \<in> set ?ts \<longleftrightarrow> (\<exists>st. sup_task_state s (pe_task_id e) = Some st \<and> is_terminal st)"
    if "bt_get (gate_pending g) u = Some e" for e
    using map_of_SomeD [OF that]
    by (auto simp: List.map_filter_def supervisor_get_def image_iff split: option.splits if_splits) force+
  then show "bt_get (gate_pending (purge_terminal g s)) u =
       (case bt_get (gate_pending g) u of None \<Rightarrow> None
        | Some e \<Rightarrow> (case sup_task_state s (pe_task_id e) of
                      Some st \<Rightarrow> if is_terminal st then None else Some e | None \<Rightarrow> Some e))"
    using f by (auto simp: p split: option.splits)
qed

lemma request_allowed:
  assumes "event_store ab listing lg ok" and "ok es" "\<forall>t. lg es t = []"
    and "with_max_tasks es n = Inr s0" "n < 2 ^ 64" and "sup_reachable ab s0 s"
    and "bt_get (aa_pending (sup_authority s)) ai = None"
    and q: "request_operation ab ws w now1 now2 oi ai s t capability ttl = (Inr OpAllowed, s')"
  shows "\<exists>rec earlier. bt_get (sup_tasks s) t = Some rec \<and> tr_state rec = Running
          \<and> evaluate \<lparr>cp_task = tr_spec rec\<rparr> capability = Allow
          \<and> map ev_kind (lg (sup_event_store s') t) = earlier @ [OperationAllowed]"
proof (rule event_store.request_operation_cases [OF assms(1) reachable_good(1) [OF assms(1-6)] assms(7) q], goal_cases)
  case (2 s2 rec)
  have "live_state s t = Some Running"
    using expires_to_Running [OF 2(3), of t] 2(5,6) by (simp add: live_state_def)
  moreover have "map_option tr_spec (bt_get (sup_tasks s2) t) = map_option tr_spec (bt_get (sup_tasks s) t)"
    using 2(3) by (simp add: expires_to_def)
  ultimately obtain rec0 where "bt_get (sup_tasks s) t = Some rec0" "tr_state rec0 = Running" "tr_spec rec0 = tr_spec rec"
    using 2(5) by (auto simp: live_state_def)
  with 2 show ?case by (auto simp: log_kinds_def)
qed auto

lemma gate_request_effect:
  assumes "event_store ab listing lg ok" and "ok es" "\<forall>t. lg es t = []"
    and "with_max_tasks es n = Inr s0" "n < 2 ^ 64" and "sup_reachable ab s0 s"
    and "bt_get (aa_pending (sup_authority s)) ai = None"
    and "gate_request ab capreq execute ws w x now1 now2 oi ai g s t op ttl = (r, g', s')"
  shows "gate_adapter g' = gate_adapter g \<and> (\<forall>out. r \<noteq> Inr (Executed out))
     \<or> (\<exists>rec res earlier. bt_get (sup_tasks s) t = Some rec \<and> tr_state rec = Running
          \<and> evaluate \<lparr>cp_task = tr_spec rec\<rparr> (capreq op) = Allow
          \<and> map ev_kind (lg (sup_event_store s') t) = earlier @ [OperationAllowed]
          \<and> execute x (gate_adapter g) op = (res, gate_adapter g'))"
proof -
  obtain q s1 where q: "request_operation ab ws w now1 now2 oi ai s t (capreq op) ttl = (q, s1)" by fastforce
  show ?thesis
  proof (cases "q = Inr OpAllowed")
    case False
    with assms(8) q have "gate_adapter g' = gate_adapter g \<and> (\<forall>out. r \<noteq> Inr (Executed out))"
      by (auto simp: gate_request_def split: sum.splits operation_authorization.splits)
    then show ?thesis by blast
  next
    case True
    obtain res a' where ex: "execute x (gate_adapter g) op = (res, a')" by fastforce
    with assms(8) q True have "gate_adapter g' = a'" "s' = s1"
      by (auto simp: gate_request_def split: sum.splits)
    with request_allowed [OF assms(1-7) q [unfolded True]] ex show ?thesis by blast
  qed
qed

section \<open>Properties\<close>

text \<open>C3: \<open>request\<close> executes nothing that the policy does not allow outright. From a reachable
  supervisor state, either the adapter is left as it was and nothing is reported as
  executed, or the task was running, its policy allows the operation without approval,
  the audit log ends with \<open>OperationAllowed\<close>, and the adapter ran exactly this operation.\<close>

theorem gate_executes_only_allowed:
  assumes "event_store ab listing lg ok" and "ok es" "\<forall>t. lg es t = []"
    and "with_max_tasks es n = Inr s0" "n < 2 ^ 64" and "sup_reachable ab s0 s"
    and "bt_get (aa_pending (sup_authority s)) ai = None"
    and "gate_request ab capreq execute ws w x now1 now2 oi ai g s t op ttl = (r, g', s')"
  shows "gate_adapter g' = gate_adapter g \<and> (\<forall>out. r \<noteq> Inr (Executed out))
     \<or> (\<exists>rec res earlier. bt_get (sup_tasks s) t = Some rec \<and> tr_state rec = Running
          \<and> evaluate \<lparr>cp_task = tr_spec rec\<rparr> (capreq op) = Allow
          \<and> map ev_kind (lg (sup_event_store s') t) = earlier @ [OperationAllowed]
          \<and> execute x (gate_adapter g) op = (res, gate_adapter g'))"
  using assms by (rule gate_request_effect)

definition demo_execute :: "(unit, capability_request list, capability_request, unit, nat) execute_fn" where
  "demo_execute x trace op = (Inr (length trace), trace @ [op])"

theorem gate_executes_only_allowed_witness:
  "\<exists>r g' s'. gate_request in_memory_append id demo_execute (\<lambda>_. demo_clock) demo_clock () 6 6 (OperationId 2) (ApprovalId 3)
       (gate_new []) (snd demo_started) (TaskId 1) (NetworkRequest ''127.0.0.1'' Tcp 8080) (from_secs 60) = (r, g', s')
     \<and> r = Inr (Executed \<lparr>ex_output = 0, ex_approval = None\<rparr>)
     \<and> (\<exists>earlier. map ev_kind (in_memory_log (sup_event_store s') (TaskId 1)) = earlier @ [OperationAllowed])"
proof -
  let ?run = "gate_request in_memory_append id demo_execute (\<lambda>_. demo_clock) demo_clock () 6 6 (OperationId 2) (ApprovalId 3)
       (gate_new []) (snd demo_started) (TaskId 1) (NetworkRequest ''127.0.0.1'' Tcp 8080) (from_secs 60)"
  obtain r g' s' where run: "?run = (r, g', s')" by (cases ?run)
  have f: "bt_get (aa_pending (sup_authority (snd demo_started))) (ApprovalId 3) = None" by code_simp
  have "fst ?run = Inr (Executed \<lparr>ex_output = 0, ex_approval = None\<rparr>)" by code_simp
  then have r: "r = Inr (Executed \<lparr>ex_output = 0, ex_approval = None\<rparr>)" using run by simp
  from gate_executes_only_allowed [OF im.event_store_axioms demo_init(2,3,1,4) demo_started_reachable f run] r run
  show ?thesis by (auto simp del: map_append)
qed


definition demo_gate_waiting ::
  "(capability_request list, capability_request, in_memory_store, unit, nat execution_outcome) gate_result" where
  "demo_gate_waiting = gate_request in_memory_append id demo_execute (\<lambda>_. demo_clock) demo_clock () 6 6
     (OperationId 2) (ApprovalId 3) (gate_new []) (snd demo_started) (TaskId 1) demo_request (from_secs 60)"


text \<open>C27: discarding never executes. From a well-formed gate, \<open>deny\<close>, \<open>expire\<close> and \<open>cancel\<close>
  leave the adapter as it was and the gate well formed; after a successful \<open>cancel\<close> the
  gate retains no operation of the task, after a successful \<open>expire\<close> none of a task in a
  terminal state.\<close>

theorem gate_discards_without_executing:
  fixes g :: "('a, 'o) execution_gate"
  assumes "gate_ok g"
  shows "(case (gate_cancel ab w g s t :: ('a, 'o, 's, 'e, bool) gate_result) of (r, g', s') \<Rightarrow>
       gate_ok g' \<and> gate_adapter g' = gate_adapter g
       \<and> (is_ok r \<longrightarrow> (\<forall>u e. bt_get (gate_pending g') u = Some e \<longrightarrow> pe_task_id e \<noteq> t)))
     \<and> (case (gate_expire ab ws now g s :: ('a, 'o, 's, 'e, nat) gate_result) of (r, g', s') \<Rightarrow>
       gate_ok g' \<and> gate_adapter g' = gate_adapter g
       \<and> (is_ok r \<longrightarrow> (\<forall>u e st. bt_get (gate_pending g') u = Some e
            \<longrightarrow> sup_task_state s' (pe_task_id e) = Some st \<longrightarrow> \<not> is_terminal st)))
     \<and> (case (gate_deny ab ws w now g s ai :: ('a, 'o, 's, 'e, task_snapshot) gate_result) of (r, g', s') \<Rightarrow>
       gate_ok g' \<and> gate_adapter g' = gate_adapter g
       \<and> (is_ok r \<longrightarrow> bt_get (gate_approval_index g') ai = None))"
proof -
  have 1: "case (gate_cancel ab w g s t :: ('a, 'o, 's, 'e, bool) gate_result) of (r, g', s') \<Rightarrow>
       gate_ok g' \<and> gate_adapter g' = gate_adapter g
       \<and> (is_ok r \<longrightarrow> (\<forall>u e. bt_get (gate_pending g') u = Some e \<longrightarrow> pe_task_id e \<noteq> t))"
    using remove_task_facts [OF assms, of t] assms
    by (auto simp: gate_cancel_def split: prod.splits sum.splits option.splits if_splits)
  have 2: "case (gate_expire ab ws now g s :: ('a, 'o, 's, 'e, nat) gate_result) of (r, g', s') \<Rightarrow>
       gate_ok g' \<and> gate_adapter g' = gate_adapter g
       \<and> (is_ok r \<longrightarrow> (\<forall>u e st. bt_get (gate_pending g') u = Some e
            \<longrightarrow> sup_task_state s' (pe_task_id e) = Some st \<longrightarrow> \<not> is_terminal st))"
    using assms
    by (auto simp: gate_expire_def purge_terminal_facts [OF assms] split: prod.splits sum.splits option.splits if_splits)
  have 3: "case (gate_deny ab ws w now g s ai :: ('a, 'o, 's, 'e, task_snapshot) gate_result) of (r, g', s') \<Rightarrow>
       gate_ok g' \<and> gate_adapter g' = gate_adapter g
       \<and> (is_ok r \<longrightarrow> bt_get (gate_approval_index g') ai = None)"
    using gate_ok_remove [OF assms, of ai] assms
    by (auto simp: gate_deny_def remove_pending_def split: prod.splits sum.splits option.splits)
  show ?thesis using 1 2 3 by blast
qed

theorem gate_discards_without_executing_witness:
  "gate_ok (fst (snd (gate_cancel in_memory_append demo_clock
      (gate_new [] :: (capability_request list, capability_request) execution_gate) (snd demo_started) (TaskId 1)
      :: (capability_request list, capability_request, in_memory_store, unit, bool) gate_result)))"
  using gate_discards_without_executing [OF gate_new_ok [of "[] :: capability_request list"],
      where ?ab = in_memory_append and ?w = demo_clock and ?s = "snd demo_started" and ?t = "TaskId 1"
        and ?ws = "\<lambda>_. demo_clock" and ?now = 0 and ?ai = "ApprovalId 0", where ?'o = capability_request and ?'e = unit]
  by (auto split: prod.splits)

end
