(* ===== verification/Tool_Adapter.thy ===== *)
theory Tool_Adapter
  imports Execution_Gate
begin

text \<open>
  \<open>aios-adapter-tool/src/lib.rs\<close>: the tool adapter. Trusted startup code registers routes
  with a \<open>ToolAdapterBuilder\<close>; \<open>ToolCatalog::prepare\<close> makes operations whose capability was
  fixed at registration, and \<open>ToolExecutionGate\<close> runs them behind the execution gate. A
  \<open>dyn ToolHandler\<close> is a value \<open>h\<close> of any type with the argument
  \<open>handle y h context arguments\<close> for \<open>ToolHandler::execute_for_task\<close>; \<open>y\<close> is what the handler
  sees of the outside world, and the clock reading of the wall-time check comes with it.
\<close>

section \<open>Data\<close>

definition DEFAULT_MAX_ROUTES :: nat where "DEFAULT_MAX_ROUTES = 256"
definition MAX_MAX_ROUTES :: nat where "MAX_MAX_ROUTES = 4096"
definition TOOL_MAX_IDENTIFIER_BYTES :: nat where "TOOL_MAX_IDENTIFIER_BYTES = 64"
definition MAX_ARGUMENTS :: nat where "MAX_ARGUMENTS = 64"
definition MAX_ARGUMENT_BYTES :: nat where "MAX_ARGUMENT_BYTES = 4096"
definition MAX_TOTAL_ARGUMENT_BYTES :: nat where "MAX_TOTAL_ARGUMENT_BYTES = 64 * 1024"
definition MAX_OUTPUT_BYTES :: nat where "MAX_OUTPUT_BYTES = 1024 * 1024"

lemmas tool_limits = MAX_MAX_ROUTES_def MAX_ARGUMENTS_def MAX_ARGUMENT_BYTES_def
  MAX_TOTAL_ARGUMENT_BYTES_def MAX_OUTPUT_BYTES_def

record route_definition =
  rd_capability_tool :: string
  rd_action :: string

record tool_operation =
  to_route :: string
  to_capability_tool :: string
  to_action :: string
  to_arguments :: "string list"
  to_execution_context :: "task_execution_context option"

definition tool_capability_request :: "tool_operation \<Rightarrow> capability_request" where
  "tool_capability_request operation = ToolRequest (to_capability_tool operation) (to_action operation)"

datatype tool_output = ToolOutput "u8 list"

datatype tool_failure_kind = FailureFailed | FailureBudgetExceeded

record tool_failure =
  tf_kind :: tool_failure_kind

datatype tool_adapter_error =
  ToolInvalidConfig | InvalidRegistration | ToolCapacityExceeded | DuplicateRoute | RouteNotFound
  | InvalidArguments | ToolScopeMismatch | HandlerFailed | ToolBudgetExceeded | OutputTooLarge

definition tool_error_message :: "tool_adapter_error \<Rightarrow> string" where
  "tool_error_message e = (case e of
      ToolInvalidConfig \<Rightarrow> ''invalid Tool Adapter configuration''
    | InvalidRegistration \<Rightarrow> ''invalid Tool registration''
    | ToolCapacityExceeded \<Rightarrow> ''Tool route capacity exceeded''
    | DuplicateRoute \<Rightarrow> ''Tool route already registered''
    | RouteNotFound \<Rightarrow> ''Tool route not found''
    | InvalidArguments \<Rightarrow> ''Tool arguments are invalid''
    | ToolScopeMismatch \<Rightarrow> ''Tool operation does not match the registered scope''
    | HandlerFailed \<Rightarrow> ''Tool handler failed''
    | ToolBudgetExceeded \<Rightarrow> ''Tool execution budget exceeded''
    | OutputTooLarge \<Rightarrow> ''Tool output exceeds the configured limit'')"

definition output_from_bytes :: "u8 list \<Rightarrow> tool_adapter_error + tool_output" where
  "output_from_bytes bytes =
     (if MAX_OUTPUT_BYTES < length bytes then Inl OutputTooLarge else Inr (ToolOutput bytes))"

definition output_from_text :: "string \<Rightarrow> tool_adapter_error + tool_output" where
  "output_from_text txt = output_from_bytes (map of_char txt)"

definition output_bytes :: "tool_output \<Rightarrow> u8 list" where
  "output_bytes output = (case output of ToolOutput bytes \<Rightarrow> bytes)"

definition failure_new :: tool_failure where "failure_new = \<lparr>tf_kind = FailureFailed\<rparr>"

definition failure_budget_exceeded :: tool_failure where
  "failure_budget_exceeded = \<lparr>tf_kind = FailureBudgetExceeded\<rparr>"

type_synonym ('y, 'h) tool_handler =
  "'y \<Rightarrow> 'h \<Rightarrow> task_execution_context \<Rightarrow> string list \<Rightarrow> (tool_failure + tool_output) \<times> 'h"

text \<open>The default \<open>execute_for_task\<close> of a handler that only has \<open>execute\<close>.\<close>

definition execute_for_task_default ::
  "('y \<Rightarrow> 'h \<Rightarrow> string list \<Rightarrow> (tool_failure + tool_output) \<times> 'h) \<Rightarrow> ('y, 'h) tool_handler" where
  "execute_for_task_default execute y handler ctx arguments = execute y handler arguments"

section \<open>Validation\<close>

definition tool_identifier_ok :: "string \<Rightarrow> bool" where
  "tool_identifier_ok value \<longleftrightarrow>
     value \<noteq> [] \<and> length value \<le> TOOL_MAX_IDENTIFIER_BYTES \<and> list_all is_identifier_char value"

text \<open>The loop of \<open>validate_arguments\<close>.\<close>

fun validate_arguments_loop :: "nat \<Rightarrow> string list \<Rightarrow> tool_adapter_error + unit" where
  "validate_arguments_loop total_bytes [] = Inr ()"
| "validate_arguments_loop total_bytes (argument # arguments) =
     (if MAX_ARGUMENT_BYTES < length argument \<or> CHR 0x00 \<in> set argument then Inl InvalidArguments
      else
        (case checked_add total_bytes (length argument) of
           None \<Rightarrow> Inl InvalidArguments
         | Some total_bytes \<Rightarrow>
             if MAX_TOTAL_ARGUMENT_BYTES < total_bytes then Inl InvalidArguments
             else validate_arguments_loop total_bytes arguments))"

definition validate_arguments :: "string list \<Rightarrow> tool_adapter_error + unit" where
  "validate_arguments arguments =
     (if MAX_ARGUMENTS < length arguments then Inl InvalidArguments
      else validate_arguments_loop 0 arguments)"

section \<open>Builder and catalog\<close>

record 'h tool_adapter_builder =
  tb_definitions :: "(string, route_definition) btree"
  tb_handlers :: "(string, 'h) btree"
  tb_max_routes :: nat

record tool_catalog =
  tc_definitions :: "(string, route_definition) btree"

record 'h tool_adapter =
  ta_definitions :: "(string, route_definition) btree"
  ta_handlers :: "(string, 'h) btree"

type_synonym 'h tool_gate = "('h tool_adapter, tool_operation) execution_gate"

definition builder_new :: "nat \<Rightarrow> tool_adapter_error + 'h tool_adapter_builder" where
  "builder_new max_routes =
     (if max_routes = 0 \<or> MAX_MAX_ROUTES < max_routes then Inl ToolInvalidConfig
      else Inr \<lparr>tb_definitions = [], tb_handlers = [], tb_max_routes = max_routes\<rparr>)"

definition builder_register ::
  "'h tool_adapter_builder \<Rightarrow> string \<Rightarrow> string \<Rightarrow> string \<Rightarrow> 'h
   \<Rightarrow> (tool_adapter_error + unit) \<times> 'h tool_adapter_builder" where
  "builder_register b route capability_tool action handler =
     (if \<not> tool_identifier_ok route \<or> \<not> tool_identifier_ok capability_tool \<or> \<not> tool_identifier_ok action
      then (Inl InvalidRegistration, b)
      else if bt_contains (tb_definitions b) route then (Inl DuplicateRoute, b)
      else if tb_max_routes b \<le> length (tb_definitions b) then (Inl ToolCapacityExceeded, b)
      else (Inr (),
            b\<lparr>tb_definitions := bt_insert route \<lparr>rd_capability_tool = capability_tool, rd_action = action\<rparr>
                (tb_definitions b),
              tb_handlers := bt_insert route handler (tb_handlers b)\<rparr>))"

definition builder_build :: "'h tool_adapter_builder \<Rightarrow> tool_catalog \<times> 'h tool_gate" where
  "builder_build b =
     (\<lparr>tc_definitions = tb_definitions b\<rparr>,
      gate_new \<lparr>ta_definitions = tb_definitions b, ta_handlers = tb_handlers b\<rparr>)"

definition prepare :: "tool_catalog \<Rightarrow> string \<Rightarrow> string list \<Rightarrow> tool_adapter_error + tool_operation" where
  "prepare catalog route arguments =
     (case bt_get (tc_definitions catalog) route of
        None \<Rightarrow> Inl RouteNotFound
      | Some def \<Rightarrow>
          (case validate_arguments arguments of
             Inl e \<Rightarrow> Inl e
           | Inr _ \<Rightarrow>
               Inr \<lparr>to_route = route, to_capability_tool = rd_capability_tool def, to_action = rd_action def,
                    to_arguments = arguments, to_execution_context = None\<rparr>))"

definition route_count :: "tool_catalog \<Rightarrow> nat" where
  "route_count catalog = length (tc_definitions catalog)"

definition route_names_for_tools :: "tool_catalog \<Rightarrow> string list \<Rightarrow> string list" where
  "route_names_for_tools catalog capability_tools =
     map fst (filter (\<lambda>(route, def). rd_capability_tool def \<in> set capability_tools) (tc_definitions catalog))"

section \<open>Execution\<close>

definition tool_execute ::
  "('y, 'h) tool_handler \<Rightarrow> (instant \<times> 'y, 'h tool_adapter, tool_operation, tool_adapter_error, tool_output) execute_fn" where
  "tool_execute handle x adapter operation =
     (case x of (now, y) \<Rightarrow>
      case validate_arguments (to_arguments operation) of
        Inl e \<Rightarrow> (Inl e, adapter)
      | Inr _ \<Rightarrow>
      case to_execution_context operation of
        None \<Rightarrow> (Inl ToolScopeMismatch, adapter)
      | Some ctx \<Rightarrow>
      if remaining_wall_time now ctx = 0 then (Inl ToolBudgetExceeded, adapter)
      else
        (case bt_get (ta_definitions adapter) (to_route operation) of
           None \<Rightarrow> (Inl RouteNotFound, adapter)
         | Some def \<Rightarrow>
             if rd_capability_tool def \<noteq> to_capability_tool operation \<or> rd_action def \<noteq> to_action operation
             then (Inl ToolScopeMismatch, adapter)
             else
               (case bt_get (ta_handlers adapter) (to_route operation) of
                  None \<Rightarrow> (Inl RouteNotFound, adapter)
                | Some handler \<Rightarrow>
                    (case handle y handler ctx (to_arguments operation) of (result, handler) \<Rightarrow>
                       (map_err (\<lambda>failure. case tf_kind failure of
                             FailureFailed \<Rightarrow> HandlerFailed | FailureBudgetExceeded \<Rightarrow> ToolBudgetExceeded) result,
                        adapter\<lparr>ta_handlers := bt_insert (to_route operation) handler (ta_handlers adapter)\<rparr>)))))"

definition tool_gate_request ::
  "('w, 's) append_fn \<Rightarrow> ('y, 'h) tool_handler \<Rightarrow> (nat \<Rightarrow> 'w) \<Rightarrow> 'w \<Rightarrow> instant \<times> 'y \<Rightarrow> instant \<Rightarrow> instant
   \<Rightarrow> operation_id \<Rightarrow> approval_id \<Rightarrow> 'h tool_gate \<Rightarrow> 's supervisor \<Rightarrow> task_id \<Rightarrow> tool_operation \<Rightarrow> duration
   \<Rightarrow> ('h tool_adapter, tool_operation, 's, tool_adapter_error, tool_output execution_outcome) gate_result" where
  "tool_gate_request ab handle ws w x now1 now2 new_op new_approval g s task_id operation approval_ttl =
     (case execution_context s task_id of
        Inl e \<Rightarrow> (Inl (ExecSupervisor e), g, s)
      | Inr ctx \<Rightarrow>
          gate_request ab tool_capability_request (tool_execute handle) ws w x now1 now2 new_op new_approval g s
            task_id (operation\<lparr>to_execution_context := Some ctx\<rparr>) approval_ttl)"

definition tool_gate_approve_and_execute ::
  "('w, 's) append_fn \<Rightarrow> ('y, 'h) tool_handler \<Rightarrow> (nat \<Rightarrow> 'w) \<Rightarrow> 'w \<Rightarrow> 'w \<Rightarrow> instant \<times> 'y \<Rightarrow> instant \<Rightarrow> instant \<Rightarrow> instant
   \<Rightarrow> 'h tool_gate \<Rightarrow> 's supervisor \<Rightarrow> approval_id
   \<Rightarrow> ('h tool_adapter, tool_operation, 's, tool_adapter_error, tool_output executed) gate_result" where
  "tool_gate_approve_and_execute ab handle =
     approve_and_execute ab tool_capability_request (tool_execute handle)"

definition tool_gate_deny ::
  "('w, 's) append_fn \<Rightarrow> (nat \<Rightarrow> 'w) \<Rightarrow> 'w \<Rightarrow> instant \<Rightarrow> 'h tool_gate \<Rightarrow> 's supervisor \<Rightarrow> approval_id
   \<Rightarrow> ('h tool_adapter, tool_operation, 's, tool_adapter_error, task_snapshot) gate_result" where
  "tool_gate_deny = gate_deny"

definition tool_gate_expire ::
  "('w, 's) append_fn \<Rightarrow> (nat \<Rightarrow> 'w) \<Rightarrow> instant \<Rightarrow> 'h tool_gate \<Rightarrow> 's supervisor
   \<Rightarrow> ('h tool_adapter, tool_operation, 's, tool_adapter_error, nat) gate_result" where
  "tool_gate_expire = gate_expire"

definition tool_gate_cancel ::
  "('w, 's) append_fn \<Rightarrow> 'w \<Rightarrow> 'h tool_gate \<Rightarrow> 's supervisor \<Rightarrow> task_id
   \<Rightarrow> ('h tool_adapter, tool_operation, 's, tool_adapter_error, bool) gate_result" where
  "tool_gate_cancel = gate_cancel"

definition tool_gate_pending_count :: "'h tool_gate \<Rightarrow> nat" where
  "tool_gate_pending_count = gate_pending_count"

section \<open>Invariant of the registrations\<close>

definition routes_ok :: "nat \<Rightarrow> (string, route_definition) btree \<Rightarrow> (string, 'h) btree \<Rightarrow> bool" where
  "routes_ok limit defs handlers \<longleftrightarrow> bt_wf defs \<and> bt_wf handlers
     \<and> dom (bt_get handlers) = dom (bt_get defs) \<and> length defs \<le> limit
     \<and> (\<forall>route d. bt_get defs route = Some d \<longrightarrow> tool_identifier_ok route
          \<and> tool_identifier_ok (rd_capability_tool d) \<and> tool_identifier_ok (rd_action d))"

definition builder_ok :: "'h tool_adapter_builder \<Rightarrow> bool" where
  "builder_ok b \<longleftrightarrow> tb_max_routes b \<le> MAX_MAX_ROUTES \<and> routes_ok (tb_max_routes b) (tb_definitions b) (tb_handlers b)"

definition adapter_ok :: "'h tool_adapter \<Rightarrow> bool" where
  "adapter_ok a \<longleftrightarrow> routes_ok MAX_MAX_ROUTES (ta_definitions a) (ta_handlers a)"

lemma builder_new_ok: "builder_new n = Inr b \<Longrightarrow> builder_ok b"
  by (auto simp: builder_new_def builder_ok_def routes_ok_def split: if_splits)

lemma builder_register_ok:
  "builder_ok b \<Longrightarrow> builder_ok (snd (builder_register b route tool action h))"
  by (auto simp: builder_register_def builder_ok_def routes_ok_def bt_length_insert dom_def)

lemma tool_execute_ok: "adapter_ok a \<Longrightarrow> adapter_ok (snd (tool_execute handle x a op))"
  by (auto simp: tool_execute_def adapter_ok_def routes_ok_def dom_def
      split: prod.splits sum.splits option.splits)

lemma validate_arguments_loop_iff:
  "n \<le> MAX_TOTAL_ARGUMENT_BYTES \<Longrightarrow> validate_arguments_loop n args =
     (if (\<forall>a \<in> set args. length a \<le> MAX_ARGUMENT_BYTES \<and> CHR 0x00 \<notin> set a)
         \<and> n + sum_list (map length args) \<le> MAX_TOTAL_ARGUMENT_BYTES
      then Inr () else Inl InvalidArguments)"
proof (induction n args rule: validate_arguments_loop.induct)
  case (2 n a args)
  show ?case
  proof (cases "length a \<le> MAX_ARGUMENT_BYTES \<and> CHR 0x00 \<notin> set a \<and> n + length a \<le> MAX_TOTAL_ARGUMENT_BYTES")
    case True
    then have "n + length a < 2 ^ 64" by (simp add: tool_limits)
    with True 2 show ?thesis by (simp add: add.assoc checked_add_def)
  next
    case False
    with 2(2) show ?thesis by (auto simp: checked_add_def)
  qed
qed simp

lemma validate_arguments_iff:
  "validate_arguments args =
     (if length args \<le> MAX_ARGUMENTS \<and> (\<forall>a \<in> set args. length a \<le> MAX_ARGUMENT_BYTES \<and> CHR 0x00 \<notin> set a)
         \<and> sum_list (map length args) \<le> MAX_TOTAL_ARGUMENT_BYTES
      then Inr () else Inl InvalidArguments)"
  by (simp add: validate_arguments_def validate_arguments_loop_iff)

text \<open>What must hold when a handler runs.\<close>

lemma tool_execute_runs:
  assumes "tool_execute handle (now, y) a op = (r, a')" and "a' \<noteq> a \<or> (\<exists>out. r = Inr out)"
  obtains ctx d h where "to_execution_context op = Some ctx" "0 < remaining_wall_time now ctx"
    "bt_get (ta_definitions a) (to_route op) = Some d"
    "rd_capability_tool d = to_capability_tool op" "rd_action d = to_action op"
    "bt_get (ta_handlers a) (to_route op) = Some h"
    "validate_arguments (to_arguments op) = Inr ()"
  using assms
  by (auto simp: tool_execute_def split: sum.splits option.splits if_splits prod.splits)

section \<open>Properties\<close>

text \<open>A prepared tool call can only reach the handler and the capability its route was
  registered with. For the catalog and the gate built from one builder, \<open>prepare\<close> succeeds
  exactly for a registered route and arguments within the limits (64 arguments, 4 KiB
  each, 64 KiB together, no NUL); the operation then asks for the tool and action fixed
  at registration, whatever the caller passed, and, executed within its wall-time budget,
  it runs that route's handler on these arguments and returns its result with the failure
  detail reduced to its category.\<close>

theorem tool_route_fixed:
  assumes "builder_ok b" and "builder_build b = (catalog, gate)"
  shows "(is_ok (prepare catalog route args) \<longleftrightarrow> route \<in> dom (bt_get (tb_definitions b))
            \<and> length args \<le> 64 \<and> (\<forall>a \<in> set args. length a \<le> 4096 \<and> CHR 0x00 \<notin> set a)
            \<and> sum_list (map length args) \<le> 65536)
     \<and> (\<forall>op. prepare catalog route args = Inr op \<longrightarrow>
          (\<exists>d h. bt_get (tb_definitions b) route = Some d \<and> bt_get (tb_handlers b) route = Some h
             \<and> tool_capability_request op = ToolRequest (rd_capability_tool d) (rd_action d)
             \<and> (\<forall>ctx now y. 0 < remaining_wall_time now ctx \<longrightarrow>
                  fst (tool_execute handle (now, y) (gate_adapter gate) (op\<lparr>to_execution_context := Some ctx\<rparr>))
                    = (case fst (handle y h ctx args) of
                         Inl failure \<Rightarrow> Inl (if tf_kind failure = FailureFailed then HandlerFailed else ToolBudgetExceeded)
                       | Inr out \<Rightarrow> Inr out))))"
proof (intro conjI allI impI)
  have b: "catalog = \<lparr>tc_definitions = tb_definitions b\<rparr>"
    "gate = gate_new \<lparr>ta_definitions = tb_definitions b, ta_handlers = tb_handlers b\<rparr>"
    using assms(2) by (auto simp: builder_build_def)
  show "is_ok (prepare catalog route args) \<longleftrightarrow> route \<in> dom (bt_get (tb_definitions b))
            \<and> length args \<le> 64 \<and> (\<forall>a \<in> set args. length a \<le> 4096 \<and> CHR 0x00 \<notin> set a)
            \<and> sum_list (map length args) \<le> 65536"
    unfolding b prepare_def validate_arguments_iff by (auto simp: tool_limits split: option.splits)
  fix op assume op: "prepare catalog route args = Inr op"
  then obtain d where d: "bt_get (tb_definitions b) route = Some d" and va: "validate_arguments args = Inr ()"
    and op': "op = \<lparr>to_route = route, to_capability_tool = rd_capability_tool d, to_action = rd_action d,
                    to_arguments = args, to_execution_context = None\<rparr>"
    unfolding b by (auto simp: prepare_def split: option.splits sum.splits)
  obtain h where h: "bt_get (tb_handlers b) route = Some h"
    using assms(1) d unfolding builder_ok_def routes_ok_def by (metis domD domI)
  have run: "fst (tool_execute handle (now, y) (gate_adapter gate) (op\<lparr>to_execution_context := Some ctx\<rparr>))
      = (case fst (handle y h ctx args) of
           Inl failure \<Rightarrow> Inl (if tf_kind failure = FailureFailed then HandlerFailed else ToolBudgetExceeded)
         | Inr out \<Rightarrow> Inr out)" if "0 < remaining_wall_time now ctx" for ctx now y
    using that d h va unfolding op' b
    by (auto simp: tool_execute_def gate_new_def split: prod.splits sum.splits tool_failure_kind.splits)
  show "\<exists>d h. bt_get (tb_definitions b) route = Some d \<and> bt_get (tb_handlers b) route = Some h
             \<and> tool_capability_request op = ToolRequest (rd_capability_tool d) (rd_action d)
             \<and> (\<forall>ctx now y. 0 < remaining_wall_time now ctx \<longrightarrow>
                  fst (tool_execute handle (now, y) (gate_adapter gate) (op\<lparr>to_execution_context := Some ctx\<rparr>))
                    = (case fst (handle y h ctx args) of
                         Inl failure \<Rightarrow> Inl (if tf_kind failure = FailureFailed then HandlerFailed else ToolBudgetExceeded)
                       | Inr out \<Rightarrow> Inr out))"
    using d h run op' by (auto simp: tool_capability_request_def)
qed

definition demo_handle :: "(unit, nat) tool_handler" where
  "demo_handle y h ctx args = (if args = [] then Inl failure_new
     else (case output_from_text (concat args) of Inl _ \<Rightarrow> Inl failure_new | Inr out \<Rightarrow> Inr out), Suc h)"

definition demo_builder :: "nat tool_adapter_builder" where
  "demo_builder = snd (builder_register (projr (builder_new 4)) ''git-status'' ''git'' ''status'' 0)"

lemma demo_builder_ok: "builder_ok demo_builder"
  unfolding demo_builder_def by (rule builder_register_ok, rule builder_new_ok [of 4]) (simp add: builder_new_def tool_limits)

theorem tool_route_fixed_witness:
  "is_ok (prepare (fst (builder_build demo_builder)) ''git-status'' [''hi''])
   \<and> \<not> is_ok (prepare (fst (builder_build demo_builder)) ''git-push'' [''hi''])"
proof -
  have b: "builder_build demo_builder = (fst (builder_build demo_builder), snd (builder_build demo_builder))" by simp
  have d: "''git-status'' \<in> dom (bt_get (tb_definitions demo_builder))"
    "''git-push'' \<notin> dom (bt_get (tb_definitions demo_builder))"
    unfolding domIff by code_simp+
  show ?thesis
    using tool_route_fixed [OF demo_builder_ok b, of "''git-status''" "[''hi'']" demo_handle]
      tool_route_fixed [OF demo_builder_ok b, of "''git-push''" "[''hi'']" demo_handle] d
    by simp
qed

text \<open>C33: a tool handler runs only with the task's authority, from end to end. From a reachable
  supervisor state, \<open>ToolExecutionGate::request\<close> either leaves every handler as it was and
  reports no output, or the task is running, its policy allows the tool and action
  registered for the operation's route outright, the decision is the last event of its
  audit log, the arguments are within the limits, and the wall-time budget counted from
  the task's own start is not used up.\<close>

theorem tool_gate_confined:
  assumes "event_store ab listing lg ok" and "ok es" "\<forall>t. lg es t = []"
    and "with_max_tasks es n = Inr s0" "n < 2 ^ 64" and "sup_reachable ab s0 s"
    and "bt_get (aa_pending (sup_authority s)) ai = None"
    and "tool_gate_request ab handle ws w (now, y) now1 now2 oi ai g s t op ttl = (r, g', s')"
  shows "gate_adapter g' = gate_adapter g \<and> (\<forall>out. r \<noteq> Inr (Executed out))
     \<or> (\<exists>rec started d earlier. bt_get (sup_tasks s) t = Some rec \<and> tr_state rec = Running
          \<and> tr_started_at rec = Some started \<and> elapsed started now < from_secs (unat (wall_time_seconds (ts_budget (tr_spec rec))))
          \<and> bt_get (ta_definitions (gate_adapter g)) (to_route op) = Some d
          \<and> evaluate \<lparr>cp_task = tr_spec rec\<rparr> (ToolRequest (rd_capability_tool d) (rd_action d)) = Allow
          \<and> is_ok (validate_arguments (to_arguments op))
          \<and> map ev_kind (lg (sup_event_store s') t) = earlier @ [OperationAllowed])"
proof (cases "execution_context s t")
  case (Inl e)
  with assms(8) show ?thesis by (auto simp: tool_gate_request_def)
next
  case (Inr ctx)
  let ?op = "op\<lparr>to_execution_context := Some ctx\<rparr>"
  from Inr obtain rec started where rec: "bt_get (sup_tasks s) t = Some rec" "tr_state rec = Running"
      "tr_started_at rec = Some started" "tec_budget ctx = ts_budget (tr_spec rec)" "tec_started_at ctx = started"
    by (auto simp: execution_context_def split: option.splits if_splits)
  have run: "gate_request ab tool_capability_request (tool_execute handle) ws w (now, y) now1 now2 oi ai g s t ?op ttl = (r, g', s')"
    using assms(8) Inr by (simp add: tool_gate_request_def)
  show ?thesis
  proof (cases "gate_adapter g' = gate_adapter g \<and> (\<forall>out. r \<noteq> Inr (Executed out))")
    case False
    with gate_request_effect [OF assms(1-7) run] rec obtain res earlier where
      al: "evaluate \<lparr>cp_task = tr_spec rec\<rparr> (tool_capability_request ?op) = Allow"
      and lg: "map ev_kind (lg (sup_event_store s') t) = earlier @ [OperationAllowed]"
      and ex: "tool_execute handle (now, y) (gate_adapter g) ?op = (res, gate_adapter g')" by auto
    have "gate_adapter g' \<noteq> gate_adapter g \<or> (\<exists>out. res = Inr out)"
      using False run ex by (auto simp: gate_request_def split: sum.splits prod.splits operation_authorization.splits)
    from tool_execute_runs [OF ex this] obtain d where
      d: "0 < remaining_wall_time now ctx" "bt_get (ta_definitions (gate_adapter g)) (to_route op) = Some d"
        "rd_capability_tool d = to_capability_tool op" "rd_action d = to_action op"
        "validate_arguments (to_arguments op) = Inr ()" by auto
    have "elapsed started now < from_secs (unat (wall_time_seconds (ts_budget (tr_spec rec))))"
      using d(1) rec(4,5) by (simp add: remaining_wall_time_def)
    with rec d al lg show ?thesis by (auto simp: tool_capability_request_def)
  qed simp
qed

theorem tool_gate_confined_witness:
  "\<exists>r g' s'. tool_gate_request in_memory_append demo_handle (\<lambda>_. demo_clock) demo_clock (6, ()) 6 6 (OperationId 2)
       (ApprovalId 3) (snd (builder_build demo_builder)) (snd demo_started) (TaskId 1)
       (projr (prepare (fst (builder_build demo_builder)) ''git-status'' [''hi''])) (from_secs 60) = (r, g', s')
     \<and> r = Inr (Executed \<lparr>ex_output = ToolOutput [0x68, 0x69], ex_approval = None\<rparr>)
     \<and> (\<exists>d. bt_get (ta_definitions (gate_adapter (snd (builder_build demo_builder)))) ''git-status'' = Some d
          \<and> evaluate \<lparr>cp_task = sample_task\<rparr> (ToolRequest (rd_capability_tool d) (rd_action d)) = Allow)"
proof -
  let ?run = "tool_gate_request in_memory_append demo_handle (\<lambda>_. demo_clock) demo_clock (6, ()) 6 6 (OperationId 2)
       (ApprovalId 3) (snd (builder_build demo_builder)) (snd demo_started) (TaskId 1)
       (projr (prepare (fst (builder_build demo_builder)) ''git-status'' [''hi''])) (from_secs 60)"
  obtain r g' s' where run: "?run = (r, g', s')" by (cases ?run)
  have f: "bt_get (aa_pending (sup_authority (snd demo_started))) (ApprovalId 3) = None"
    and t: "map_option tr_spec (bt_get (sup_tasks (snd demo_started)) (TaskId 1)) = Some sample_task"
    and o: "to_route (projr (prepare (fst (builder_build demo_builder)) ''git-status'' [''hi''])) = ''git-status''"
    and "fst ?run = Inr (Executed \<lparr>ex_output = ToolOutput [0x68, 0x69], ex_approval = None\<rparr>)" by code_simp+
  then have r: "r = Inr (Executed \<lparr>ex_output = ToolOutput [0x68, 0x69], ex_approval = None\<rparr>)" using run by simp
  from tool_gate_confined [OF im.event_store_axioms demo_init(2,3,1,4) demo_started_reachable f run] t r run
  show ?thesis unfolding o by (auto simp del: map_append)
qed

end
