(* ===== verification/Network_Adapter.thy ===== *)
theory Network_Adapter
  imports Execution_Gate Net_Addr
begin

text \<open>
  \<open>aios-adapter-network/src/lib.rs\<close>: one bounded TCP exchange with one explicit IP address. The
  socket calls of the standard library and the clock are the record \<open>tcp_api\<close> over a state
  \<open>k\<close> of the operating system; the locale \<open>tcp_net\<close> says what is documented of them: a write
  reports how many bytes of the buffer it took and an error means none, a read returns at
  most the buffer's size. The two loops of the exchange are functions with a termination
  proof: they end for every behaviour of the socket.
\<close>

section \<open>Sockets\<close>

type_synonym socket_addr = "ip_addr \<times> u16"

record 'k tcp_api =
  tcp_now :: "'k \<Rightarrow> instant \<times> 'k"
  tcp_connect :: "socket_addr \<Rightarrow> duration \<Rightarrow> 'k \<Rightarrow> (unit + unit) \<times> 'k"
  tcp_peer_addr :: "'k \<Rightarrow> (unit + socket_addr) \<times> 'k"
  tcp_set_write_timeout :: "duration \<Rightarrow> 'k \<Rightarrow> (unit + unit) \<times> 'k"
  tcp_write :: "u8 list \<Rightarrow> 'k \<Rightarrow> (unit + nat) \<times> 'k"
  tcp_shutdown_write :: "'k \<Rightarrow> (unit + unit) \<times> 'k"
  tcp_set_read_timeout :: "duration \<Rightarrow> 'k \<Rightarrow> (unit + unit) \<times> 'k"
  tcp_read :: "nat \<Rightarrow> 'k \<Rightarrow> (unit + u8 list) \<times> 'k"

section \<open>Data\<close>

definition NET_MAX_HOST_BYTES :: nat where "NET_MAX_HOST_BYTES = 253"
definition MAX_TCP_REQUEST_BYTES :: nat where "MAX_TCP_REQUEST_BYTES = 64 * 1024"
definition MAX_TCP_RESPONSE_BYTES :: nat where "MAX_TCP_RESPONSE_BYTES = 1024 * 1024"
definition MAX_NETWORK_TIMEOUT :: duration where "MAX_NETWORK_TIMEOUT = from_secs 30"
definition READ_BUFFER_BYTES :: nat where "READ_BUFFER_BYTES = 8 * 1024"

datatype network_adapter_error =
  NetInvalidConfig | InvalidOperation | UnsupportedDestination | NetScopeMismatch | NetBudgetExceeded
  | ConnectFailed | SocketConfigurationFailed | PeerMismatch | WriteFailed | ReadFailed | ResponseTooLarge

definition network_error_message :: "network_adapter_error \<Rightarrow> string" where
  "network_error_message e = (case e of
      NetInvalidConfig \<Rightarrow> ''invalid Network Adapter configuration''
    | InvalidOperation \<Rightarrow> ''invalid network operation''
    | UnsupportedDestination \<Rightarrow> ''network destination is unsupported''
    | NetScopeMismatch \<Rightarrow> ''network operation scope does not match the Task''
    | NetBudgetExceeded \<Rightarrow> ''network operation exceeded the Task Budget''
    | ConnectFailed \<Rightarrow> ''network connection failed''
    | SocketConfigurationFailed \<Rightarrow> ''network socket configuration failed''
    | PeerMismatch \<Rightarrow> ''network peer verification failed''
    | WriteFailed \<Rightarrow> ''network write failed''
    | ReadFailed \<Rightarrow> ''network read failed''
    | ResponseTooLarge \<Rightarrow> ''network response exceeded its limit'')"

record tcp_exchange_operation =
  tx_host :: string
  tx_port :: u16
  tx_request :: "u8 list"
  tx_execution_context :: "task_execution_context option"

definition tcp_capability_request :: "tcp_exchange_operation \<Rightarrow> capability_request" where
  "tcp_capability_request operation = NetworkRequest (tx_host operation) Tcp (tx_port operation)"

record tcp_exchange_response =
  tr_bytes :: "u8 list"

record 'k network_adapter =
  na_timeout :: duration
  na_net :: 'k

section \<open>Validation and budget\<close>

definition validate_operation :: "string \<Rightarrow> u16 \<Rightarrow> u8 list \<Rightarrow> network_adapter_error + ip_addr" where
  "validate_operation host port request =
     (if host = [] \<or> NET_MAX_HOST_BYTES < length host \<or> port = 0 \<or> MAX_TCP_REQUEST_BYTES < length request
      then Inl InvalidOperation
      else
        (case parse_ip host of
           None \<Rightarrow> Inl UnsupportedDestination
         | Some ip \<Rightarrow>
             if is_unspecified ip \<or> is_multicast ip \<or> ip = V4 255 255 255 255
             then Inl UnsupportedDestination
             else Inr ip))"

definition prepare_tcp_exchange ::
  "string \<Rightarrow> u16 \<Rightarrow> u8 list \<Rightarrow> network_adapter_error + tcp_exchange_operation" where
  "prepare_tcp_exchange host port request =
     (case validate_operation host port request of
        Inl e \<Rightarrow> Inl e
      | Inr _ \<Rightarrow> Inr \<lparr>tx_host = host, tx_port = port, tx_request = request, tx_execution_context = None\<rparr>)"

definition network_adapter_new :: "'k \<Rightarrow> duration \<Rightarrow> network_adapter_error + 'k network_adapter" where
  "network_adapter_new k timeout =
     (if timeout = 0 \<or> MAX_NETWORK_TIMEOUT < timeout then Inl NetInvalidConfig
      else Inr \<lparr>na_timeout = timeout, na_net = k\<rparr>)"

definition effective_timeout ::
  "'k tcp_api \<Rightarrow> task_execution_context \<Rightarrow> duration \<Rightarrow> 'k \<Rightarrow> (network_adapter_error + duration) \<times> 'k" where
  "effective_timeout net ctx configured_timeout k =
     (case tcp_now net k of (now, k) \<Rightarrow>
        let remaining = remaining_wall_time now ctx in
        if remaining = 0 then (Inl NetBudgetExceeded, k) else (Inr (min remaining configured_timeout), k))"

definition require_remaining_budget ::
  "'k tcp_api \<Rightarrow> task_execution_context \<Rightarrow> 'k \<Rightarrow> (network_adapter_error + unit) \<times> 'k" where
  "require_remaining_budget net ctx k =
     (case effective_timeout net ctx MAX_NETWORK_TIMEOUT k of (r, k) \<Rightarrow> (map_result (\<lambda>_. ()) r, k))"

definition io_failure ::
  "'k tcp_api \<Rightarrow> task_execution_context \<Rightarrow> network_adapter_error \<Rightarrow> 'k \<Rightarrow> network_adapter_error \<times> 'k" where
  "io_failure net ctx fallback k =
     (case tcp_now net k of (now, k) \<Rightarrow>
        (if remaining_wall_time now ctx = 0 then NetBudgetExceeded else fallback, k))"

text \<open>A socket call whose error goes through \<open>io_failure\<close>.\<close>

definition or_io_failure ::
  "'k tcp_api \<Rightarrow> task_execution_context \<Rightarrow> network_adapter_error \<Rightarrow> (unit + 'a) \<times> 'k
   \<Rightarrow> (network_adapter_error + 'a) \<times> 'k" where
  "or_io_failure net ctx fallback rk =
     (case rk of
        (Inr x, k) \<Rightarrow> (Inr x, k)
      | (Inl _, k) \<Rightarrow> (case io_failure net ctx fallback k of (e, k) \<Rightarrow> (Inl e, k)))"

text \<open>The head of both loops: the timeout for the next call, installed when it changed.\<close>

definition install_timeout ::
  "'k tcp_api \<Rightarrow> (duration \<Rightarrow> 'k \<Rightarrow> (unit + unit) \<times> 'k) \<Rightarrow> task_execution_context \<Rightarrow> duration
   \<Rightarrow> duration option \<Rightarrow> 'k \<Rightarrow> (network_adapter_error + duration) \<times> 'k" where
  "install_timeout net set_timeout ctx configured_timeout installed k =
     (case effective_timeout net ctx configured_timeout k of
        (Inl e, k) \<Rightarrow> (Inl e, k)
      | (Inr timeout, k) \<Rightarrow>
          if installed \<noteq> Some timeout then
            (case or_io_failure net ctx SocketConfigurationFailed (set_timeout timeout k) of
               (Inl e, k) \<Rightarrow> (Inl e, k)
             | (Inr _, k) \<Rightarrow> (Inr timeout, k))
          else (Inr timeout, k))"

section \<open>The exchange\<close>

function write_request ::
  "'k tcp_api \<Rightarrow> task_execution_context \<Rightarrow> duration \<Rightarrow> u8 list \<Rightarrow> nat \<Rightarrow> duration option \<Rightarrow> 'k
   \<Rightarrow> (network_adapter_error + unit) \<times> 'k" where
  "write_request net ctx configured_timeout request offset installed k =
     (if offset < length request then
        (case install_timeout net (tcp_set_write_timeout net) ctx configured_timeout installed k of
           (Inl e, k) \<Rightarrow> (Inl e, k)
         | (Inr timeout, k) \<Rightarrow>
             (case or_io_failure net ctx WriteFailed (tcp_write net (drop offset request) k) of
                (Inl e, k) \<Rightarrow> (Inl e, k)
              | (Inr written, k) \<Rightarrow>
                  if written = 0 then (Inl WriteFailed, k)
                  else write_request net ctx configured_timeout request (offset + written) (Some timeout) k))
      else (Inr (), k))"
  by pat_completeness auto

termination
  by (relation "measure (\<lambda>(net, ctx, c, request, offset, i, k). length request - offset)") auto

function read_response ::
  "'k tcp_api \<Rightarrow> task_execution_context \<Rightarrow> duration \<Rightarrow> u8 list \<Rightarrow> duration option \<Rightarrow> 'k
   \<Rightarrow> (network_adapter_error + u8 list) \<times> 'k" where
  "read_response net ctx configured_timeout bytes installed k =
     (case install_timeout net (tcp_set_read_timeout net) ctx configured_timeout installed k of
        (Inl e, k) \<Rightarrow> (Inl e, k)
      | (Inr timeout, k) \<Rightarrow>
          (let remaining_capacity = MAX_TCP_RESPONSE_BYTES + 1 - length bytes;
               read_limit = min remaining_capacity READ_BUFFER_BYTES in
           case or_io_failure net ctx ReadFailed (tcp_read net read_limit k) of
             (Inl e, k) \<Rightarrow> (Inl e, k)
           | (Inr read, k) \<Rightarrow>
               if read = [] then
                 (case require_remaining_budget net ctx k of
                    (Inl e, k) \<Rightarrow> (Inl e, k)
                  | (Inr _, k) \<Rightarrow> (Inr bytes, k))
               else if MAX_TCP_RESPONSE_BYTES < length (bytes @ read) then (Inl ResponseTooLarge, k)
               else read_response net ctx configured_timeout (bytes @ read) (Some timeout) k))"
  by pat_completeness auto

termination
  by (relation "measure (\<lambda>(net, ctx, c, bytes, i, k). MAX_TCP_RESPONSE_BYTES + 1 - length bytes)")
    (auto simp: neq_Nil_conv)

declare write_request.simps [simp del] read_response.simps [simp del]

definition network_exchange ::
  "'k tcp_api \<Rightarrow> duration \<Rightarrow> tcp_exchange_operation \<Rightarrow> 'k \<Rightarrow> (network_adapter_error + tcp_exchange_response) \<times> 'k" where
  "network_exchange net timeout operation k =
     (case validate_operation (tx_host operation) (tx_port operation) (tx_request operation) of
        Inl e \<Rightarrow> (Inl e, k)
      | Inr ip \<Rightarrow>
      case tx_execution_context operation of
        None \<Rightarrow> (Inl NetScopeMismatch, k)
      | Some ctx \<Rightarrow>
      let destination = (ip, tx_port operation) in
      case effective_timeout net ctx timeout k of
        (Inl e, k) \<Rightarrow> (Inl e, k)
      | (Inr connect_timeout, k) \<Rightarrow>
      case or_io_failure net ctx ConnectFailed (tcp_connect net destination connect_timeout k) of
        (Inl e, k) \<Rightarrow> (Inl e, k)
      | (Inr _, k) \<Rightarrow>
      case require_remaining_budget net ctx k of
        (Inl e, k) \<Rightarrow> (Inl e, k)
      | (Inr _, k) \<Rightarrow>
      case tcp_peer_addr net k of
        (Inl _, k) \<Rightarrow> (Inl PeerMismatch, k)
      | (Inr peer, k) \<Rightarrow>
      if peer \<noteq> destination then (Inl PeerMismatch, k)
      else
        (case write_request net ctx timeout (tx_request operation) 0 None k of
           (Inl e, k) \<Rightarrow> (Inl e, k)
         | (Inr _, k) \<Rightarrow>
         case require_remaining_budget net ctx k of
           (Inl e, k) \<Rightarrow> (Inl e, k)
         | (Inr _, k) \<Rightarrow>
         case or_io_failure net ctx WriteFailed (tcp_shutdown_write net k) of
           (Inl e, k) \<Rightarrow> (Inl e, k)
         | (Inr _, k) \<Rightarrow>
         case read_response net ctx timeout [] None k of
           (Inl e, k) \<Rightarrow> (Inl e, k)
         | (Inr bytes, k) \<Rightarrow> (Inr \<lparr>tr_bytes = bytes\<rparr>, k)))"

definition network_execute ::
  "'k tcp_api \<Rightarrow> (unit, 'k network_adapter, tcp_exchange_operation, network_adapter_error, tcp_exchange_response) execute_fn" where
  "network_execute net x adapter operation =
     (case network_exchange net (na_timeout adapter) operation (na_net adapter) of
        (r, k) \<Rightarrow> (r, adapter\<lparr>na_net := k\<rparr>))"

section \<open>The gate\<close>

type_synonym 'k network_gate = "('k network_adapter, tcp_exchange_operation) execution_gate"

definition network_gate_new :: "'k \<Rightarrow> duration \<Rightarrow> network_adapter_error + 'k network_gate" where
  "network_gate_new k timeout = map_result gate_new (network_adapter_new k timeout)"

definition network_gate_request ::
  "('w, 's) append_fn \<Rightarrow> 'k tcp_api \<Rightarrow> (nat \<Rightarrow> 'w) \<Rightarrow> 'w \<Rightarrow> instant \<Rightarrow> instant
   \<Rightarrow> operation_id \<Rightarrow> approval_id \<Rightarrow> 'k network_gate \<Rightarrow> 's supervisor \<Rightarrow> task_id \<Rightarrow> tcp_exchange_operation \<Rightarrow> duration
   \<Rightarrow> ('k network_adapter, tcp_exchange_operation, 's, network_adapter_error, tcp_exchange_response execution_outcome) gate_result" where
  "network_gate_request ab net ws w now1 now2 new_op new_approval g s task_id operation approval_ttl =
     (case execution_context s task_id of
        Inl e \<Rightarrow> (Inl (ExecSupervisor e), g, s)
      | Inr ctx \<Rightarrow>
          gate_request ab tcp_capability_request (network_execute net) ws w () now1 now2 new_op new_approval g s
            task_id (operation\<lparr>tx_execution_context := Some ctx\<rparr>) approval_ttl)"

definition network_gate_approve_and_execute ::
  "('w, 's) append_fn \<Rightarrow> 'k tcp_api \<Rightarrow> (nat \<Rightarrow> 'w) \<Rightarrow> 'w \<Rightarrow> 'w \<Rightarrow> instant \<Rightarrow> instant \<Rightarrow> instant
   \<Rightarrow> 'k network_gate \<Rightarrow> 's supervisor \<Rightarrow> approval_id
   \<Rightarrow> ('k network_adapter, tcp_exchange_operation, 's, network_adapter_error, tcp_exchange_response executed) gate_result" where
  "network_gate_approve_and_execute ab net ws w1 w2 =
     approve_and_execute ab tcp_capability_request (network_execute net) ws w1 w2 ()"

definition network_gate_deny ::
  "('w, 's) append_fn \<Rightarrow> (nat \<Rightarrow> 'w) \<Rightarrow> 'w \<Rightarrow> instant \<Rightarrow> 'k network_gate \<Rightarrow> 's supervisor \<Rightarrow> approval_id
   \<Rightarrow> ('k network_adapter, tcp_exchange_operation, 's, network_adapter_error, task_snapshot) gate_result" where
  "network_gate_deny = gate_deny"

definition network_gate_expire ::
  "('w, 's) append_fn \<Rightarrow> (nat \<Rightarrow> 'w) \<Rightarrow> instant \<Rightarrow> 'k network_gate \<Rightarrow> 's supervisor
   \<Rightarrow> ('k network_adapter, tcp_exchange_operation, 's, network_adapter_error, nat) gate_result" where
  "network_gate_expire = gate_expire"

definition network_gate_cancel ::
  "('w, 's) append_fn \<Rightarrow> 'w \<Rightarrow> 'k network_gate \<Rightarrow> 's supervisor \<Rightarrow> task_id
   \<Rightarrow> ('k network_adapter, tcp_exchange_operation, 's, network_adapter_error, bool) gate_result" where
  "network_gate_cancel = gate_cancel"

definition network_gate_pending_count :: "'k network_gate \<Rightarrow> nat" where
  "network_gate_pending_count = gate_pending_count"

section \<open>The documented behaviour of sockets\<close>

text \<open>\<open>view k\<close> is what left and entered the machine: the addresses connected to, the bytes
  sent and the bytes received.\<close>

type_synonym net_view = "socket_addr list \<times> u8 list \<times> u8 list"

locale tcp_net =
  fixes net :: "'k tcp_api" and view :: "'k \<Rightarrow> net_view"
  assumes now_ok: "tcp_now net k = (n, k') \<Longrightarrow> view k' = view k"
    and connect_ok: "tcp_connect net d timeout k = (r, k') \<Longrightarrow> view k = (ds, out, inp) \<Longrightarrow> view k' = (ds @ [d], out, inp)"
    and peer_ok: "tcp_peer_addr net k = (pr, k') \<Longrightarrow> view k' = view k"
    and set_write_ok: "tcp_set_write_timeout net timeout k = (u, k') \<Longrightarrow> view k' = view k"
    and set_read_ok: "tcp_set_read_timeout net timeout k = (u, k') \<Longrightarrow> view k' = view k"
    and shutdown_ok: "tcp_shutdown_write net k = (u, k') \<Longrightarrow> view k' = view k"
    and write_ok: "tcp_write net buf k = (Inr written, k') \<Longrightarrow> view k = (ds, out, inp)
      \<Longrightarrow> written \<le> length buf \<and> view k' = (ds, out @ take written buf, inp)"
    and write_err: "tcp_write net buf k = (Inl e, k') \<Longrightarrow> view k' = view k"
    and read_ok: "tcp_read net limit k = (Inr data, k') \<Longrightarrow> view k = (ds, out, inp)
      \<Longrightarrow> length data \<le> limit \<and> view k' = (ds, out, inp @ data)"
    and read_err: "tcp_read net limit k = (Inl e, k') \<Longrightarrow> view k' = view k"
begin

lemma effective_timeout_view: "effective_timeout net ctx c k = (tr, k') \<Longrightarrow> view k' = view k"
  by (auto simp: effective_timeout_def Let_def split: prod.splits if_splits dest: now_ok)

lemma require_view: "require_remaining_budget net ctx k = (tr, k') \<Longrightarrow> view k' = view k"
  by (auto simp: require_remaining_budget_def split: prod.splits dest: effective_timeout_view)

lemma or_io_failure_Inr: "or_io_failure net ctx e rk = (Inr x, k') \<longleftrightarrow> rk = (Inr x, k')"
  by (auto simp: or_io_failure_def io_failure_def split: prod.splits sum.splits)

lemma or_io_failure_Inl:
  assumes "or_io_failure net ctx e rk = (Inl e', k')"
  obtains u k where "rk = (Inl u, k)" "view k' = view k"
  using assms by (auto simp: or_io_failure_def io_failure_def split: prod.splits sum.splits if_splits dest: now_ok)

lemma or_io_failure_view: "or_io_failure net ctx e rk = (r, k') \<Longrightarrow> view k' = view (snd rk)"
  by (cases r) (auto simp: or_io_failure_Inr elim!: or_io_failure_Inl)

lemma install_timeout_view:
  assumes "install_timeout net set_timeout ctx c i k = (r, k')"
    and "\<And>timeout k u k'. set_timeout timeout k = (u, k') \<Longrightarrow> view k' = view k"
  shows "view k' = view k"
proof -
  have "view (snd (set_timeout timeout k)) = view k" for timeout k
    by (cases "set_timeout timeout k") (auto dest: assms(2))
  then show ?thesis
    using assms(1)
    by (auto simp: install_timeout_def split: prod.splits sum.splits if_splits
        dest!: effective_timeout_view or_io_failure_view)
qed

text \<open>The write loop sends a prefix of the rest of the request, all of it on success.\<close>

lemma write_request_view:
  assumes "write_request net ctx c request offset i k = (r, k')" and "view k = (ds, out, inp)"
    and "offset \<le> length request"
  shows "\<exists>m. view k' = (ds, out @ take m (drop offset request), inp)
     \<and> (is_ok r \<longrightarrow> view k' = (ds, out @ drop offset request, inp))"
  using assms
proof (induction "length request - offset" arbitrary: offset i k out rule: less_induct)
  case less
  show ?case
  proof (cases "offset < length request")
    case False
    with less.prems show ?thesis by (auto simp: write_request.simps)
  next
    case True
    obtain tr k1 where it: "install_timeout net (tcp_set_write_timeout net) ctx c i k = (tr, k1)" by fastforce
    have v1: "view k1 = (ds, out, inp)" using install_timeout_view [OF it set_write_ok] less.prems(2) by simp
    show ?thesis
    proof (cases tr)
      case (Inl e)
      with True less.prems(1) it v1 show ?thesis
        by (auto simp: write_request.simps [of _ _ _ _ offset] intro: exI [of _ 0])
    next
      case (Inr timeout)
      obtain wr k2 where w: "or_io_failure net ctx WriteFailed (tcp_write net (drop offset request) k1) = (wr, k2)"
        by fastforce
      show ?thesis
      proof (cases wr)
        case Inl2: (Inl e)
        with w obtain u k3 where "tcp_write net (drop offset request) k1 = (Inl u, k3)" "view k2 = view k3"
          using or_io_failure_Inl by blast
        then have "view k2 = (ds, out, inp)" using write_err v1 by simp
        moreover have "r = Inl e" "k' = k2"
          using less.prems(1) True it Inr w Inl2 by (auto simp: write_request.simps [of _ _ _ _ offset])
        ultimately show ?thesis by (auto intro: exI [of _ 0])
      next
        case Inr2: (Inr written)
        with w have "tcp_write net (drop offset request) k1 = (Inr written, k2)" by (simp add: or_io_failure_Inr)
        note v2 = write_ok [OF this v1]
        show ?thesis
        proof (cases "written = 0")
          case True2: True
          then have "is_ok r \<longrightarrow> False" "k' = k2"
            using less.prems(1) True it Inr w Inr2 by (auto simp: write_request.simps [of _ _ _ _ offset])
          with v2 show ?thesis by blast
        next
          case more: False
          have rest: "write_request net ctx c request (offset + written) (Some timeout) k2 = (r, k')"
            using less.prems(1) True it Inr w Inr2 more by (simp add: write_request.simps [of _ _ _ _ offset])
          have "\<exists>m. view k' = (ds, (out @ take written (drop offset request)) @ take m (drop (offset + written) request), inp)
              \<and> (is_ok r \<longrightarrow> view k' = (ds, (out @ take written (drop offset request)) @ drop (offset + written) request, inp))"
            by (rule less.hyps [OF _ rest]) (use v2 True more in auto)
          moreover have "take written (drop offset request) @ take m (drop (offset + written) request)
              = take (written + m) (drop offset request)" for m
            by (simp only: take_add drop_drop add.commute [of written offset])
          moreover have "take written (drop offset request) @ drop (offset + written) request = drop offset request"
            by (metis add.commute append_take_drop_id drop_drop)
          ultimately show ?thesis by (metis append.assoc)
        qed
      qed
    qed
  qed
qed

text \<open>The read loop never holds more than the limit, and returns all that was received.\<close>

lemma read_response_view:
  assumes "read_response net ctx c bytes i k = (r, k')" and "view k = (ds, out, inp @ bytes)"
    and "length bytes \<le> MAX_TCP_RESPONSE_BYTES"
  shows "\<exists>got. view k' = (ds, out, inp @ bytes @ got) \<and> length (bytes @ got) \<le> Suc MAX_TCP_RESPONSE_BYTES
     \<and> (\<forall>b. r = Inr b \<longrightarrow> b = bytes @ got \<and> length b \<le> MAX_TCP_RESPONSE_BYTES)"
  using assms
proof (induction "MAX_TCP_RESPONSE_BYTES + 1 - length bytes" arbitrary: bytes i k rule: less_induct)
  case less
  let ?lim = "min (MAX_TCP_RESPONSE_BYTES + 1 - length bytes) READ_BUFFER_BYTES"
  obtain tr k1 where it: "install_timeout net (tcp_set_read_timeout net) ctx c i k = (tr, k1)" by fastforce
  have v1: "view k1 = (ds, out, inp @ bytes)" using install_timeout_view [OF it set_read_ok] less.prems(2) by simp
  obtain rr k2 where rd: "or_io_failure net ctx ReadFailed (tcp_read net ?lim k1) = (rr, k2)" by fastforce
  consider (stop) e where "tr = Inl e" | (err) timeout e where "tr = Inr timeout" "rr = Inl e"
    | (eof) timeout where "tr = Inr timeout" "rr = Inr []"
    | (data) timeout d ds where "tr = Inr timeout" "rr = Inr (d # ds)"
    by (cases tr; cases rr) (auto simp: neq_Nil_conv intro: list.exhaust)
  then show ?case
  proof cases
    case stop
    with less.prems it v1 show ?thesis
      by (auto simp: read_response.simps [of _ _ _ bytes] intro!: exI [of _ "[]"])
  next
    case err
    with rd obtain u k3 where "tcp_read net ?lim k1 = (Inl u, k3)" "view k2 = view k3"
      using or_io_failure_Inl by blast
    then have "view k2 = (ds, out, inp @ bytes)" using read_err v1 by simp
    with err less.prems it rd show ?thesis
      by (auto simp: read_response.simps [of _ _ _ bytes] Let_def intro!: exI [of _ "[]"])
  next
    case eof
    with rd have "tcp_read net ?lim k1 = (Inr [], k2)" by (simp add: or_io_failure_Inr)
    from read_ok [OF this v1] have v2: "view k2 = (ds, out, inp @ bytes)" by simp
    obtain br k3 where b: "require_remaining_budget net ctx k2 = (br, k3)" by fastforce
    have "k' = k3 \<and> (\<forall>b. r = Inr b \<longrightarrow> b = bytes)"
      using less.prems(1) it rd eof b by (cases br) (auto simp: read_response.simps [of _ _ _ bytes] Let_def)
    then show ?thesis using v2 require_view [OF b] less.prems(3) by (auto intro!: exI [of _ "[]"])
  next
    case (data timeout d data)
    with rd have rd': "tcp_read net ?lim k1 = (Inr (d # data), k2)" by (simp add: or_io_failure_Inr)
    have v2: "length (d # data) \<le> ?lim" "view k2 = (ds, out, inp @ (bytes @ d # data))"
      using read_ok [OF rd' v1] by simp_all
    show ?thesis
    proof (cases "MAX_TCP_RESPONSE_BYTES < length (bytes @ d # data)")
      case True
      then have "k' = k2 \<and> (\<forall>b. r \<noteq> Inr b)"
        using less.prems(1) it rd data by (auto simp: read_response.simps [of _ _ _ bytes] Let_def)
      then show ?thesis using v2 less.prems(3) by (auto intro!: exI [of _ "d # data"])
    next
      case False
      then have "read_response net ctx c (bytes @ d # data) (Some timeout) k2 = (r, k')"
        using less.prems(1) it rd data by (simp add: read_response.simps [of _ _ _ bytes] Let_def)
      moreover have "MAX_TCP_RESPONSE_BYTES + 1 - length (bytes @ d # data) < MAX_TCP_RESPONSE_BYTES + 1 - length bytes"
        using less.prems(3) by simp
      ultimately have "\<exists>got. view k' = (ds, out, inp @ (bytes @ d # data) @ got)
          \<and> length ((bytes @ d # data) @ got) \<le> Suc MAX_TCP_RESPONSE_BYTES
          \<and> (\<forall>b. r = Inr b \<longrightarrow> b = (bytes @ d # data) @ got \<and> length b \<le> MAX_TCP_RESPONSE_BYTES)"
        using less.hyps [of "bytes @ d # data" "Some timeout" k2] v2(2) False by (simp only: not_less)
      then obtain got where
        "view k' = (ds, out, inp @ (bytes @ d # data) @ got)" "length ((bytes @ d # data) @ got) \<le> Suc MAX_TCP_RESPONSE_BYTES"
        "\<forall>b. r = Inr b \<longrightarrow> b = (bytes @ d # data) @ got \<and> length b \<le> MAX_TCP_RESPONSE_BYTES" by blast
      then show ?thesis by (intro exI [of _ "(d # data) @ got"]) simp
    qed
  qed
qed

lemma network_exchange_view:
  assumes run: "network_exchange net timeout op k = (r, k')" and v: "view k = (ds, out, inp)"
  shows "view k' = (ds, out, inp) \<and> (\<exists>e. r = Inl e)
     \<or> (\<exists>ip m got. validate_operation (tx_host op) (tx_port op) (tx_request op) = Inr ip
          \<and> view k' = (ds @ [(ip, tx_port op)], out @ take m (tx_request op), inp @ got)
          \<and> length got \<le> Suc MAX_TCP_RESPONSE_BYTES
          \<and> (\<forall>resp. r = Inr resp \<longrightarrow> take m (tx_request op) = tx_request op \<and> got = tr_bytes resp
               \<and> length got \<le> MAX_TCP_RESPONSE_BYTES))" (is "_ \<or> (\<exists>ip m got. ?Q ip m got)")
proof (cases "\<exists>ip ctx. validate_operation (tx_host op) (tx_port op) (tx_request op) = Inr ip \<and> tx_execution_context op = Some ctx")
  case False
  with run v show ?thesis
    by (auto simp: network_exchange_def split: sum.splits option.splits)
next
  case True
  then obtain ip ctx where ip: "validate_operation (tx_host op) (tx_port op) (tx_request op) = Inr ip"
    and ctx: "tx_execution_context op = Some ctx" by blast
  let ?dest = "(ip, tx_port op)"
  obtain r1 k1 where s1: "effective_timeout net ctx timeout k = (r1, k1)" by fastforce
  have v1: "view k1 = (ds, out, inp)" using effective_timeout_view [OF s1] v by simp
  show ?thesis
  proof (cases r1)
    case (Inl e)
    with run ip ctx s1 v1 show ?thesis by (auto simp: network_exchange_def)
  next
    case ok1: (Inr tmo)
    obtain r2 k2 where s2: "or_io_failure net ctx ConnectFailed (tcp_connect net ?dest tmo k1) = (r2, k2)" by fastforce
    obtain c2 k2' where c2: "tcp_connect net ?dest tmo k1 = (c2, k2')" by fastforce
    have v2: "view k2 = (ds @ [?dest], out, inp)"
      using or_io_failure_view [OF s2] connect_ok [OF c2 v1] c2 by simp
    obtain r3 k3 where s3: "require_remaining_budget net ctx k2 = (r3, k3)" by fastforce
    obtain r4 k4 where s4: "tcp_peer_addr net k3 = (r4, k4)" by fastforce
    have v4: "view k3 = view k2" "view k4 = view k2" using require_view [OF s3] peer_ok [OF s4] by simp_all
    show ?thesis
    proof (cases "is_ok r2 \<and> is_ok r3 \<and> r4 = Inr ?dest")
      case False
      then have "(\<exists>e. r = Inl e) \<and> view k' = view k2"
        using run ip ctx s1 ok1 s2 s3 s4 v4
        by (cases r2; cases r3; cases r4) (auto simp: network_exchange_def Let_def split: if_splits)
      with v2 have "?Q ip 0 []" using ip by auto
      then show ?thesis by blast
    next
      case True
      obtain r5 k5 where s5: "write_request net ctx timeout (tx_request op) 0 None k4 = (r5, k5)" by fastforce
      have "view k4 = (ds @ [?dest], out, inp)" using v2 v4 by simp
      from write_request_view [OF s5 this] obtain m where
        v5: "view k5 = (ds @ [?dest], out @ take m (tx_request op), inp)"
        and full: "is_ok r5 \<longrightarrow> take m (tx_request op) = tx_request op" by fastforce
      obtain r6 k6 where s6: "require_remaining_budget net ctx k5 = (r6, k6)" by fastforce
      obtain r7 k7 where s7: "or_io_failure net ctx WriteFailed (tcp_shutdown_write net k6) = (r7, k7)" by fastforce
      obtain c7 k7' where c7: "tcp_shutdown_write net k6 = (c7, k7')" by fastforce
      have v7: "view k6 = view k5" "view k7 = view k5"
        using require_view [OF s6] or_io_failure_view [OF s7] shutdown_ok [OF c7] c7 by simp_all
      show ?thesis
      proof (cases "is_ok r5 \<and> is_ok r6 \<and> is_ok r7")
        case False
        then have "(\<exists>e. r = Inl e) \<and> view k' = view k5"
          using run ip ctx s1 ok1 s2 s3 s4 v4 True s5 s6 s7 v7
          by (cases r2; cases r3; cases r5; cases r6; cases r7) (auto simp: network_exchange_def Let_def split: if_splits)
        with v5 have "?Q ip m []" using ip by auto
        then show ?thesis by blast
      next
        case all: True
        obtain r8 k8 where s8: "read_response net ctx timeout [] None k7 = (r8, k8)" by fastforce
        have "view k7 = (ds @ [?dest], out @ take m (tx_request op), inp @ [])" using v5 v7 by simp
        from read_response_view [OF s8 this] obtain got where
          v8: "view k8 = (ds @ [?dest], out @ take m (tx_request op), inp @ got)"
            "length got \<le> Suc MAX_TCP_RESPONSE_BYTES" "\<forall>b. r8 = Inr b \<longrightarrow> b = got \<and> length b \<le> MAX_TCP_RESPONSE_BYTES"
          by auto
        have "k' = k8 \<and> r = map_result (\<lambda>b. \<lparr>tr_bytes = b\<rparr>) r8"
          using run ip ctx s1 ok1 s2 s3 s4 True s5 s6 s7 s8 all
          by (cases r2; cases r3; cases r5; cases r6; cases r7; cases r8) (auto simp: network_exchange_def Let_def)
        with v8 full all have "?Q ip m got" using ip by (cases r8) auto
        then show ?thesis by blast
      qed
    qed
  qed
qed

end

section \<open>A simulated socket\<close>

text \<open>The hypotheses on sockets can hold: a peer that echoes a fixed answer, in pieces, with a
  clock that advances at every reading.\<close>

record sim =
  sim_clock :: instant
  sim_view :: net_view
  sim_answer :: "u8 list"

definition sim_net :: "sim tcp_api" where
  "sim_net = \<lparr>tcp_now = (\<lambda>k. (sim_clock k, k\<lparr>sim_clock := Suc (sim_clock k)\<rparr>)),
     tcp_connect = (\<lambda>d tmo k. (Inr (), k\<lparr>sim_view := (fst (sim_view k) @ [d], snd (sim_view k))\<rparr>)),
     tcp_peer_addr = (\<lambda>k. (if fst (sim_view k) = [] then Inl () else Inr (last (fst (sim_view k))), k)),
     tcp_set_write_timeout = (\<lambda>tmo k. (Inr (), k)),
     tcp_write = (\<lambda>buf k. (Inr (min 2 (length buf)), k\<lparr>sim_view := (fst (sim_view k),
        fst (snd (sim_view k)) @ take (min 2 (length buf)) buf, snd (snd (sim_view k)))\<rparr>)),
     tcp_shutdown_write = (\<lambda>k. (Inr (), k)),
     tcp_set_read_timeout = (\<lambda>tmo k. (Inr (), k)),
     tcp_read = (\<lambda>limit k. (Inr (take (min 2 limit) (sim_answer k)), k\<lparr>sim_view := (fst (sim_view k),
        fst (snd (sim_view k)), snd (snd (sim_view k)) @ take (min 2 limit) (sim_answer k)),
        sim_answer := drop (min 2 limit) (sim_answer k)\<rparr>))\<rparr>"

interpretation sim: tcp_net sim_net sim_view
  by unfold_locales (auto simp: sim_net_def)

definition demo_net :: sim where
  "demo_net = \<lparr>sim_clock = 6, sim_view = ([], [], []), sim_answer = [79, 75, 33]\<rparr>"

definition demo_tcp_op :: tcp_exchange_operation where
  "demo_tcp_op = \<lparr>tx_host = ''127.0.0.1'', tx_port = 8080, tx_request = [71, 69, 84], tx_execution_context = None\<rparr>"

section \<open>Properties\<close>

text \<open>C34: one exchange is exactly what was asked for, within its bounds, whatever the peer
  does. On sockets that behave as documented, the adapter connects at most once, and only
  to the operation's own address: an IP literal that is neither unspecified nor multicast
  nor broadcast, and a port that is not 0. What it sends is a prefix of the request (at
  most 64 KiB), what it takes in is at most one byte over 1 MiB. If it reports success,
  exactly the request was sent and the response is exactly what was received, at most
  1 MiB. A refused operation touches no socket.\<close>

theorem network_exchange_exact:
  assumes "tcp_net net view" and "network_exchange net timeout op k = (r, k')" and "view k = (ds, sent, received)"
  shows "view k' = view k \<and> (\<exists>e. r = Inl e)
     \<or> (\<exists>ip m got. parse_ip (tx_host op) = Some ip \<and> \<not> is_unspecified ip \<and> \<not> is_multicast ip
          \<and> ip \<noteq> V4 255 255 255 255 \<and> tx_port op \<noteq> 0 \<and> length (tx_request op) \<le> 65536
          \<and> view k' = (ds @ [(ip, tx_port op)], sent @ take m (tx_request op), received @ got)
          \<and> length got \<le> 1048577
          \<and> (\<forall>resp. r = Inr resp \<longrightarrow> view k' = (ds @ [(ip, tx_port op)], sent @ tx_request op, received @ tr_bytes resp)
               \<and> length (tr_bytes resp) \<le> 1048576))"
proof -
  have val: "parse_ip (tx_host op) = Some ip \<and> \<not> is_unspecified ip \<and> \<not> is_multicast ip
      \<and> ip \<noteq> V4 255 255 255 255 \<and> tx_port op \<noteq> 0 \<and> length (tx_request op) \<le> 65536"
    if "validate_operation (tx_host op) (tx_port op) (tx_request op) = Inr ip" for ip
    using that by (auto simp: validate_operation_def MAX_TCP_REQUEST_BYTES_def split: if_splits option.splits)
  have max: "MAX_TCP_RESPONSE_BYTES = 1048576" by (simp add: MAX_TCP_RESPONSE_BYTES_def)
  from tcp_net.network_exchange_view [OF assms] show ?thesis
    unfolding max assms(3) by (elim disjE exE conjE) (use val in fastforce)+
qed

definition demo_tcp_ctx :: task_execution_context where
  "demo_tcp_ctx = \<lparr>tec_task_id = TaskId 1, tec_budget = \<lparr>wall_time_seconds = 60, memory_bytes = 1048576, max_parallel_agents = 1\<rparr>,
     tec_filesystem_capabilities = [], tec_started_at = 5\<rparr>"

definition demo_exchange :: "(network_adapter_error + tcp_exchange_response) \<times> sim" where
  "demo_exchange = network_exchange sim_net (from_secs 10) (demo_tcp_op\<lparr>tx_execution_context := Some demo_tcp_ctx\<rparr>) demo_net"

theorem network_exchange_exact_witness:
  "sim_view (snd demo_exchange) = ([(V4 127 0 0 1, 8080)], [71, 69, 84], [79, 75, 33])"
proof -
  have r: "fst demo_exchange = Inr \<lparr>tr_bytes = [79, 75, 33]\<rparr>" by code_simp
  have ip: "parse_ip ''127.0.0.1'' = Some (V4 127 0 0 1)" by code_simp
  have run: "network_exchange sim_net (from_secs 10) (demo_tcp_op\<lparr>tx_execution_context := Some demo_tcp_ctx\<rparr>) demo_net
      = (fst demo_exchange, snd demo_exchange)" by (simp add: demo_exchange_def)
  have v: "sim_view demo_net = ([], [], [])" by (simp add: demo_net_def)
  from network_exchange_exact [OF sim.tcp_net_axioms run v] r ip show ?thesis
    by (auto simp: demo_tcp_op_def)
qed

text \<open>C35: no byte leaves the machine without the task's authority. From a reachable supervisor
  state, \<open>NetworkExecutionGate::request\<close> either leaves the adapter and the network as they
  were and reports no response, or the task is running, its policy allows this host,
  transport and port outright, and the decision is the last event of the task's audit
  log.\<close>

theorem network_gate_confined:
  assumes "event_store ab listing lg ok" and "ok es" "\<forall>t. lg es t = []"
    and "with_max_tasks es n = Inr s0" "n < 2 ^ 64" and "sup_reachable ab s0 s"
    and "bt_get (aa_pending (sup_authority s)) ai = None"
    and "network_gate_request ab net ws w now1 now2 oi ai g s t op ttl = (r, g', s')"
  shows "gate_adapter g' = gate_adapter g \<and> (\<forall>out. r \<noteq> Inr (Executed out))
     \<or> (\<exists>rec earlier. bt_get (sup_tasks s) t = Some rec \<and> tr_state rec = Running
          \<and> evaluate \<lparr>cp_task = tr_spec rec\<rparr> (NetworkRequest (tx_host op) Tcp (tx_port op)) = Allow
          \<and> map ev_kind (lg (sup_event_store s') t) = earlier @ [OperationAllowed])"
proof (cases "execution_context s t")
  case (Inl e)
  with assms(8) show ?thesis by (auto simp: network_gate_request_def)
next
  case (Inr ctx)
  have run: "gate_request ab tcp_capability_request (network_execute net) ws w () now1 now2 oi ai g s t
      (op\<lparr>tx_execution_context := Some ctx\<rparr>) ttl = (r, g', s')"
    using assms(8) Inr by (simp add: network_gate_request_def)
  have "tcp_capability_request (op\<lparr>tx_execution_context := Some ctx\<rparr>) = NetworkRequest (tx_host op) Tcp (tx_port op)"
    by (simp add: tcp_capability_request_def)
  with gate_request_effect [OF assms(1-7) run] show ?thesis by auto
qed

theorem network_gate_confined_witness:
  "\<exists>r g' s'. network_gate_request in_memory_append sim_net (\<lambda>_. demo_clock) demo_clock 6 6 (OperationId 2) (ApprovalId 3)
       (projr (network_gate_new demo_net (from_secs 10))) (snd demo_started) (TaskId 1) demo_tcp_op (from_secs 60) = (r, g', s')
     \<and> r = Inr (Executed \<lparr>ex_output = \<lparr>tr_bytes = [79, 75, 33]\<rparr>, ex_approval = None\<rparr>)
     \<and> (\<exists>earlier. map ev_kind (in_memory_log (sup_event_store s') (TaskId 1)) = earlier @ [OperationAllowed])"
proof -
  let ?run = "network_gate_request in_memory_append sim_net (\<lambda>_. demo_clock) demo_clock 6 6 (OperationId 2) (ApprovalId 3)
       (projr (network_gate_new demo_net (from_secs 10))) (snd demo_started) (TaskId 1) demo_tcp_op (from_secs 60)"
  obtain r g' s' where run: "?run = (r, g', s')" by (cases ?run)
  have f: "bt_get (aa_pending (sup_authority (snd demo_started))) (ApprovalId 3) = None"
    and "fst ?run = Inr (Executed \<lparr>ex_output = \<lparr>tr_bytes = [79, 75, 33]\<rparr>, ex_approval = None\<rparr>)" by code_simp+
  then have r: "r = Inr (Executed \<lparr>ex_output = \<lparr>tr_bytes = [79, 75, 33]\<rparr>, ex_approval = None\<rparr>)" using run by simp
  from network_gate_confined [OF im.event_store_axioms demo_init(2,3,1,4) demo_started_reachable f run] r run
  show ?thesis by (auto simp del: map_append)
qed

end
