(* ===== verification/Agent.thy ===== *)
theory Agent
  imports Tool_Adapter Network_Adapter
begin

text \<open>
  \<open>aios-agent/src/lib.rs\<close>: the agent runtime that drives one task with an untrusted model. The
  traits \<open>ModelAdapter\<close> and \<open>ModelSession\<close>, the tool handlers, the sockets and the event store
  are the fields of \<open>agent_env\<close>; \<open>agent_turn\<close> holds what one round of the loop reads from
  outside (clocks, fresh identifiers, store calls). The body of the loop in \<open>drive\<close> is
  \<open>drive_turn\<close>, which either continues or returns; \<open>drive\<close> repeats it with fuel, and the
  fuel is shown to suffice.
\<close>

section \<open>Configuration and model requests\<close>

definition DEFAULT_MAX_MODEL_STEPS :: u16 where "DEFAULT_MAX_MODEL_STEPS = 16"
definition MAX_MODEL_STEPS :: u16 where "MAX_MODEL_STEPS = 64"
definition MAX_FINAL_OUTPUT_BYTES :: nat where "MAX_FINAL_OUTPUT_BYTES = 1024 * 1024"
definition DEFAULT_APPROVAL_TTL :: duration where "DEFAULT_APPROVAL_TTL = from_secs (5 * 60)"
definition AGENT_MAX_APPROVAL_TTL :: duration where "AGENT_MAX_APPROVAL_TTL = from_secs (15 * 60)"

datatype agent_error =
  AgentInvalidConfig | AgentCapacityExceeded | InvalidState | InvalidDecision | StepLimitExceeded
  | ModelFailed | ToolFailed | NetworkFailed | AgentBudgetExceeded | AgentSupervisor supervisor_error

definition agent_error_code :: "agent_error \<Rightarrow> error_code option" where
  "agent_error_code e = (case e of AgentBudgetExceeded \<Rightarrow> Some BudgetExceeded | _ \<Rightarrow> None)"

definition agent_error_message :: "agent_error \<Rightarrow> string" where
  "agent_error_message e = (case e of
      AgentInvalidConfig \<Rightarrow> ''invalid Agent runtime configuration''
    | AgentCapacityExceeded \<Rightarrow> ''Agent runtime capacity exceeded''
    | InvalidState \<Rightarrow> ''Agent runtime state is invalid''
    | InvalidDecision \<Rightarrow> ''model decision is invalid''
    | StepLimitExceeded \<Rightarrow> ''Agent step limit exceeded''
    | ModelFailed \<Rightarrow> ''model adapter failed''
    | ToolFailed \<Rightarrow> ''Tool execution failed''
    | NetworkFailed \<Rightarrow> ''Network execution failed''
    | AgentBudgetExceeded \<Rightarrow> ''Task Budget exceeded''
    | AgentSupervisor _ \<Rightarrow> ''Task supervision failed'')"

record agent_config =
  ac_max_steps :: u16
  ac_approval_ttl :: duration

definition agent_config_new :: "u16 \<Rightarrow> duration \<Rightarrow> agent_error + agent_config" where
  "agent_config_new max_steps approval_ttl =
     (if max_steps = 0 \<or> MAX_MODEL_STEPS < max_steps \<or> approval_ttl < from_millis 1
         \<or> AGENT_MAX_APPROVAL_TTL < approval_ttl
      then Inl AgentInvalidConfig
      else Inr \<lparr>ac_max_steps = max_steps, ac_approval_ttl = approval_ttl\<rparr>)"

definition agent_config_default :: agent_config where
  "agent_config_default = \<lparr>ac_max_steps = DEFAULT_MAX_MODEL_STEPS, ac_approval_ttl = DEFAULT_APPROVAL_TTL\<rparr>"

record model_start_request =
  msr_goal :: string
  msr_tool_routes :: "string list"
  msr_network_destinations :: "network_destination list"

record model_turn_request =
  mtr_step :: u16
  mtr_previous_operation_output :: "u8 list option"

datatype agent_output = AgentOutput string

datatype model_decision =
  Finish agent_output | CallTool string "string list" | TcpExchange string u16 "u8 list"

datatype model_decision_error = InvalidFinalOutput | InvalidToolRequest | InvalidNetworkRequest

definition model_decision_error_message :: "model_decision_error \<Rightarrow> string" where
  "model_decision_error_message e = (case e of
      InvalidFinalOutput \<Rightarrow> ''invalid final model output''
    | InvalidToolRequest \<Rightarrow> ''invalid model Tool request''
    | InvalidNetworkRequest \<Rightarrow> ''invalid model Network request'')"

definition agent_output_from_text :: "string \<Rightarrow> model_decision_error + agent_output" where
  "agent_output_from_text txt =
     (if txt = [] \<or> MAX_FINAL_OUTPUT_BYTES < length txt \<or> CHR 0x00 \<in> set txt then Inl InvalidFinalOutput
      else Inr (AgentOutput txt))"

fun are_valid_arguments_loop :: "nat \<Rightarrow> string list \<Rightarrow> bool" where
  "are_valid_arguments_loop total_bytes [] = True"
| "are_valid_arguments_loop total_bytes (argument # arguments) =
     (if MAX_ARGUMENT_BYTES < length argument \<or> CHR 0x00 \<in> set argument then False
      else (case checked_add total_bytes (length argument) of
              None \<Rightarrow> False
            | Some total_bytes \<Rightarrow>
                if MAX_TOTAL_ARGUMENT_BYTES < total_bytes then False
                else are_valid_arguments_loop total_bytes arguments))"

definition are_valid_arguments :: "string list \<Rightarrow> bool" where
  "are_valid_arguments arguments =
     (if MAX_ARGUMENTS < length arguments then False else are_valid_arguments_loop 0 arguments)"

definition decision_finish :: "string \<Rightarrow> model_decision_error + model_decision" where
  "decision_finish txt = map_result Finish (agent_output_from_text txt)"

definition decision_call_tool :: "string \<Rightarrow> string list \<Rightarrow> model_decision_error + model_decision" where
  "decision_call_tool route arguments =
     (if \<not> tool_identifier_ok route \<or> \<not> are_valid_arguments arguments then Inl InvalidToolRequest
      else Inr (CallTool route arguments))"

definition decision_tcp_exchange :: "string \<Rightarrow> u16 \<Rightarrow> u8 list \<Rightarrow> model_decision_error + model_decision" where
  "decision_tcp_exchange host port request =
     (if host = [] \<or> NET_MAX_HOST_BYTES < length host \<or> port = 0 \<or> MAX_TCP_REQUEST_BYTES < length request
      then Inl InvalidNetworkRequest
      else Inr (TcpExchange host port request))"

section \<open>The scripted model\<close>

datatype scripted_model_error = InvalidScript | ScriptUnavailable | ScriptExhausted

record scripted_model_adapter =
  sma_script :: "model_decision list option"

record scripted_model_session =
  sms_decisions :: "model_decision list"

definition scripted_new :: "model_decision list \<Rightarrow> scripted_model_error + scripted_model_adapter" where
  "scripted_new decisions =
     (if decisions = [] \<or> unat MAX_MODEL_STEPS < length decisions then Inl InvalidScript
      else Inr \<lparr>sma_script = Some decisions\<rparr>)"

definition scripted_start_session ::
  "scripted_model_adapter \<Rightarrow> model_start_request
   \<Rightarrow> (scripted_model_error + scripted_model_session) \<times> scripted_model_adapter" where
  "scripted_start_session adapter request =
     (ok_or ScriptUnavailable (map_option (\<lambda>decisions. \<lparr>sms_decisions = decisions\<rparr>) (sma_script adapter)),
      adapter\<lparr>sma_script := None\<rparr>)"

definition scripted_decide ::
  "scripted_model_session \<Rightarrow> model_turn_request
   \<Rightarrow> (scripted_model_error + model_decision) \<times> scripted_model_session" where
  "scripted_decide session request =
     (case sms_decisions session of
        [] \<Rightarrow> (Inl ScriptExhausted, session)
      | decision # decisions \<Rightarrow> (Inr decision, session\<lparr>sms_decisions := decisions\<rparr>))"

section \<open>Runtime state\<close>

datatype pending_adapter = PendingTool | PendingNetwork

record agent_pending_approval =
  pa_id :: approval_id
  pa_adapter :: pending_adapter

record 'd active_session =
  as_task_id :: task_id
  as_model :: 'd
  as_next_step :: u16
  as_previous_operation_output :: "u8 list option"
  as_pending_approval :: "agent_pending_approval option"

record ('m, 'd, 'h, 'k) agent_runtime =
  ag_model_adapter :: 'm
  ag_tool_catalog :: tool_catalog
  ag_tool_gate :: "'h tool_gate"
  ag_network :: "'k network_gate option"
  ag_config :: agent_config
  ag_active :: "'d active_session option"

datatype agent_run_outcome =
  Completed agent_output | AgentWaitingApproval approval_request | AgentDenied denial_reason

record ('w, 's, 'y, 'h, 'k, 'm, 'd, 'e) agent_env =
  ae_append :: "('w, 's) append_fn"
  ae_handle :: "('y, 'h) tool_handler"
  ae_net :: "'k tcp_api"
  ae_start_session :: "'m \<Rightarrow> model_start_request \<Rightarrow> ('e + 'd) \<times> 'm"
  ae_decide :: "'d \<Rightarrow> model_turn_request \<Rightarrow> ('e + model_decision) \<times> 'd"

record ('w, 'y) agent_turn =
  at_before :: instant
  at_after :: instant
  at_now1 :: instant
  at_now2 :: instant
  at_world :: 'w
  at_worlds :: "nat \<Rightarrow> 'w"
  at_handler :: "instant \<times> 'y"
  at_operation_id :: operation_id
  at_approval_id :: approval_id

type_synonym ('m, 'd, 'h, 'k, 's, 'r) agent_result =
  "(agent_error + 'r) \<times> ('m, 'd, 'h, 'k) agent_runtime \<times> 's supervisor"

definition agent_new :: "'m \<Rightarrow> tool_catalog \<Rightarrow> 'h tool_gate \<Rightarrow> agent_config \<Rightarrow> ('m, 'd, 'h, 'k) agent_runtime" where
  "agent_new model_adapter catalog gate config =
     \<lparr>ag_model_adapter = model_adapter, ag_tool_catalog = catalog, ag_tool_gate = gate, ag_network = None,
      ag_config = config, ag_active = None\<rparr>"

definition with_network_gate :: "('m, 'd, 'h, 'k) agent_runtime \<Rightarrow> 'k network_gate \<Rightarrow> ('m, 'd, 'h, 'k) agent_runtime" where
  "with_network_gate a gate = a\<lparr>ag_network := Some gate\<rparr>"

definition active_task :: "('m, 'd, 'h, 'k) agent_runtime \<Rightarrow> task_id option" where
  "active_task a = map_option as_task_id (ag_active a)"

definition require_pending :: "('m, 'd, 'h, 'k) agent_runtime \<Rightarrow> approval_id \<Rightarrow> agent_error + task_id \<times> pending_adapter" where
  "require_pending a approval_id =
     (case ag_active a of
        None \<Rightarrow> Inl InvalidState
      | Some active \<Rightarrow>
          (case as_pending_approval active of
             None \<Rightarrow> Inl InvalidState
           | Some pending \<Rightarrow>
               if pa_id pending \<noteq> approval_id then Inl InvalidState
               else Inr (as_task_id active, pa_adapter pending)))"

definition agent_pending_adapter :: "('m, 'd, 'h, 'k) agent_runtime \<Rightarrow> pending_adapter option" where
  "agent_pending_adapter a =
     Option.bind (ag_active a) (\<lambda>active. map_option pa_adapter (as_pending_approval active))"

section \<open>Failing the active task\<close>

definition fail_active ::
  "('w, 's) append_fn \<Rightarrow> 'w \<Rightarrow> ('m, 'd, 'h, 'k) agent_runtime \<Rightarrow> 's supervisor \<Rightarrow> task_id
   \<Rightarrow> ('m, 'd, 'h, 'k, 's, unit) agent_result" where
  "fail_active ab w a s task_id =
     (case fail ab w s task_id of (r, s) \<Rightarrow> (map_err AgentSupervisor r, a\<lparr>ag_active := None\<rparr>, s))"

definition fail_budget_active ::
  "('w, 's) append_fn \<Rightarrow> 'w \<Rightarrow> ('m, 'd, 'h, 'k) agent_runtime \<Rightarrow> 's supervisor \<Rightarrow> task_id
   \<Rightarrow> ('m, 'd, 'h, 'k, 's, unit) agent_result" where
  "fail_budget_active ab w a s task_id =
     (case fail_budget_exceeded ab w s task_id of (r, s) \<Rightarrow> (map_err AgentSupervisor r, a\<lparr>ag_active := None\<rparr>, s))"

text \<open>\<open>self.fail_active(supervisor, task_id)?; return value;\<close>\<close>

definition fail_then ::
  "('m, 'd, 'h, 'k, 's, unit) agent_result \<Rightarrow> agent_error + 'r \<Rightarrow> ('m, 'd, 'h, 'k, 's, 'r) agent_result" where
  "fail_then failed value =
     (case failed of (Inl e, a, s) \<Rightarrow> (Inl e, a, s) | (Inr _, a, s) \<Rightarrow> (value, a, s))"

definition map_tool_error :: "tool_adapter_error execution_error \<Rightarrow> agent_error" where
  "map_tool_error e = (case e of
      ExecSupervisor e \<Rightarrow> AgentSupervisor e
    | ExecAdapter e \<Rightarrow> if e = ToolBudgetExceeded then AgentBudgetExceeded else ToolFailed
    | OperationNotFound \<Rightarrow> ToolFailed)"

definition map_network_error :: "network_adapter_error execution_error \<Rightarrow> agent_error" where
  "map_network_error e = (case e of
      ExecSupervisor e \<Rightarrow> AgentSupervisor e
    | ExecAdapter e \<Rightarrow> if e = NetBudgetExceeded then AgentBudgetExceeded else NetworkFailed
    | OperationNotFound \<Rightarrow> NetworkFailed)"

section \<open>The loop\<close>

text \<open>One round continues with the runtime and the supervisor (\<open>Inl\<close>) or returns (\<open>Inr\<close>).\<close>

type_synonym ('m, 'd, 'h, 'k, 's) round =
  "('m, 'd, 'h, 'k) agent_runtime \<times> 's supervisor + ('m, 'd, 'h, 'k, 's, agent_run_outcome) agent_result"

text \<open>\<open>self.active.as_mut().ok_or(InvalidState)?\<close>\<close>

definition with_active ::
  "('m, 'd, 'h, 'k) agent_runtime \<Rightarrow> 's supervisor \<Rightarrow> ('d active_session \<Rightarrow> ('m, 'd, 'h, 'k, 's) round)
   \<Rightarrow> ('m, 'd, 'h, 'k, 's) round" where
  "with_active a s f = (case ag_active a of None \<Rightarrow> Inr (Inl InvalidState, a, s) | Some active \<Rightarrow> f active)"

text \<open>The \<open>match outcome\<close> of an operation, the same for both adapters.\<close>

definition drive_outcome ::
  "('w, 's) append_fn \<Rightarrow> 'w \<Rightarrow> pending_adapter \<Rightarrow> 'x \<Rightarrow> agent_error \<Rightarrow> ('out \<Rightarrow> u8 list)
   \<Rightarrow> 'x execution_error + 'out execution_outcome \<Rightarrow> ('m, 'd, 'h, 'k) agent_runtime \<Rightarrow> 's supervisor \<Rightarrow> task_id
   \<Rightarrow> ('m, 'd, 'h, 'k, 's) round" where
  "drive_outcome ab w adapter budget_exceeded failed into_bytes outcome a s task_id =
     (case outcome of
        Inr (Executed done) \<Rightarrow>
          with_active a s (\<lambda>active. Inl (a\<lparr>ag_active :=
            Some (active\<lparr>as_previous_operation_output := Some (into_bytes (ex_output done))\<rparr>)\<rparr>, s))
      | Inr (ExecDenied reason) \<Rightarrow> Inr (fail_then (fail_active ab w a s task_id) (Inr (AgentDenied reason)))
      | Inr (ExecApprovalRequired request) \<Rightarrow>
          with_active a s (\<lambda>active. Inr (Inr (AgentWaitingApproval request),
            a\<lparr>ag_active := Some (active\<lparr>as_pending_approval :=
              Some \<lparr>pa_id = ar_approval_id request, pa_adapter = adapter\<rparr>\<rparr>)\<rparr>, s))
      | Inl (ExecSupervisor e) \<Rightarrow> Inr (Inl (AgentSupervisor e), a\<lparr>ag_active := None\<rparr>, s)
      | Inl (ExecAdapter e) \<Rightarrow>
          if e = budget_exceeded
          then Inr (fail_then (fail_budget_active ab w a s task_id) (Inl AgentBudgetExceeded))
          else Inr (fail_then (fail_active ab w a s task_id) (Inl failed))
      | Inl OperationNotFound \<Rightarrow> Inr (fail_then (fail_active ab w a s task_id) (Inl failed)))"

definition drive_decision ::
  "('w, 's, 'y, 'h, 'k, 'm, 'd, 'e) agent_env \<Rightarrow> ('w, 'y) agent_turn \<Rightarrow> ('m, 'd, 'h, 'k) agent_runtime \<Rightarrow> 's supervisor
   \<Rightarrow> task_id \<Rightarrow> model_decision \<Rightarrow> ('m, 'd, 'h, 'k, 's) round" where
  "drive_decision env turn a s task_id decision =
     (let ab = ae_append env; w = at_world turn in
      case decision of
        Finish output \<Rightarrow>
          (case succeed ab w s task_id of
             (Inl e, s) \<Rightarrow> Inr (Inl (AgentSupervisor e), a\<lparr>ag_active := None\<rparr>, s)
           | (Inr _, s) \<Rightarrow> Inr (Inr (Completed output), a\<lparr>ag_active := None\<rparr>, s))
      | CallTool route arguments \<Rightarrow>
          (case prepare (ag_tool_catalog a) route arguments of
             Inl _ \<Rightarrow> Inr (fail_then (fail_active ab w a s task_id) (Inl InvalidDecision))
           | Inr operation \<Rightarrow>
               (case tool_gate_request ab (ae_handle env) (at_worlds turn) w (at_handler turn) (at_now1 turn) (at_now2 turn)
                       (at_operation_id turn) (at_approval_id turn) (ag_tool_gate a) s task_id operation
                       (ac_approval_ttl (ag_config a)) of
                  (outcome, gate, s) \<Rightarrow>
                    drive_outcome ab w PendingTool ToolBudgetExceeded ToolFailed output_bytes outcome
                      (a\<lparr>ag_tool_gate := gate\<rparr>) s task_id))
      | TcpExchange host port request \<Rightarrow>
          (case ag_network a of
             None \<Rightarrow> Inr (fail_then (fail_active ab w a s task_id) (Inl InvalidDecision))
           | Some network \<Rightarrow>
               (case prepare_tcp_exchange host port request of
                  Inl _ \<Rightarrow> Inr (fail_then (fail_active ab w a s task_id) (Inl InvalidDecision))
                | Inr operation \<Rightarrow>
                    (case network_gate_request ab (ae_net env) (at_worlds turn) w (at_now1 turn) (at_now2 turn)
                            (at_operation_id turn) (at_approval_id turn) network s task_id operation
                            (ac_approval_ttl (ag_config a)) of
                       (outcome, gate, s) \<Rightarrow>
                         drive_outcome ab w PendingNetwork NetBudgetExceeded NetworkFailed tr_bytes outcome
                           (a\<lparr>ag_network := Some gate\<rparr>) s task_id))))"

definition drive_turn ::
  "('w, 's, 'y, 'h, 'k, 'm, 'd, 'e) agent_env \<Rightarrow> ('w, 'y) agent_turn \<Rightarrow> ('m, 'd, 'h, 'k) agent_runtime \<Rightarrow> 's supervisor
   \<Rightarrow> ('m, 'd, 'h, 'k, 's) round" where
  "drive_turn env turn a s =
     with_active a s (\<lambda>active.
       let task_id = as_task_id active; ab = ae_append env; w = at_world turn in
       case execution_context s task_id of
         Inl e \<Rightarrow> Inr (Inl (AgentSupervisor e), a, s)
       | Inr ctx \<Rightarrow>
       if remaining_wall_time (at_before turn) ctx = 0
       then Inr (fail_then (fail_budget_active ab w a s task_id) (Inl AgentBudgetExceeded))
       else if ac_max_steps (ag_config a) < as_next_step active
       then Inr (fail_then (fail_active ab w a s task_id) (Inl StepLimitExceeded))
       else
         (case ae_decide env (as_model active)
                 \<lparr>mtr_step = as_next_step active,
                  mtr_previous_operation_output = as_previous_operation_output active\<rparr> of
            (Inl _, model) \<Rightarrow> Inr (fail_then (fail_active ab w a s task_id) (Inl ModelFailed))
          | (Inr decision, model) \<Rightarrow>
              (case execution_context s task_id of
                 Inl e \<Rightarrow> Inr (Inl (AgentSupervisor e), a\<lparr>ag_active := Some (active\<lparr>as_model := model\<rparr>)\<rparr>, s)
               | Inr ctx \<Rightarrow>
                   if remaining_wall_time (at_after turn) ctx = 0
                   then Inr (fail_then (fail_budget_active ab w a s task_id) (Inl AgentBudgetExceeded))
                   else drive_decision env turn
                          (a\<lparr>ag_active := Some (active\<lparr>as_model := model, as_next_step := as_next_step active + 1\<rparr>)\<rparr>)
                          s task_id decision)))"

text \<open>\<open>None\<close> is running out of fuel.\<close>

fun drive ::
  "('w, 's, 'y, 'h, 'k, 'm, 'd, 'e) agent_env \<Rightarrow> nat \<Rightarrow> (nat \<Rightarrow> ('w, 'y) agent_turn) \<Rightarrow> ('m, 'd, 'h, 'k) agent_runtime
   \<Rightarrow> 's supervisor \<Rightarrow> ('m, 'd, 'h, 'k, 's, agent_run_outcome) agent_result option" where
  "drive env 0 turns a s = None"
| "drive env (Suc fuel) turns a s =
     (case drive_turn env (turns 0) a s of
        Inr result \<Rightarrow> Some result
      | Inl (a, s) \<Rightarrow> drive env fuel (\<lambda>i. turns (Suc i)) a s)"

section \<open>Operations\<close>

definition DRIVE_FUEL :: nat where "DRIVE_FUEL = 65"

definition agent_start ::
  "('w, 's, 'y, 'h, 'k, 'm, 'd, 'e) agent_env \<Rightarrow> 'w \<Rightarrow> 'w \<Rightarrow> instant \<Rightarrow> (nat \<Rightarrow> ('w, 'y) agent_turn)
   \<Rightarrow> ('m, 'd, 'h, 'k) agent_runtime \<Rightarrow> 's supervisor \<Rightarrow> task_id
   \<Rightarrow> ('m, 'd, 'h, 'k, 's, agent_run_outcome) agent_result option" where
  "agent_start env w1 w2 now turns a s task_id =
     (if ag_active a \<noteq> None then Some (Inl AgentCapacityExceeded, a, s)
      else
        (case start_execution (ae_append env) w1 now s task_id of
           (Inl e, s) \<Rightarrow> Some (Inl (AgentSupervisor e), a, s)
         | (Inr input, s) \<Rightarrow>
             (let routes = route_names_for_tools (ag_tool_catalog a) (tei_capability_tools input);
                  destinations = (case ag_network a of None \<Rightarrow> []
                    | Some _ \<Rightarrow> filter (\<lambda>destination.
                        is_ok (prepare_tcp_exchange (nd_host destination) (nd_port destination) []))
                        (tei_network_destinations input)) in
              case ae_start_session env (ag_model_adapter a) \<lparr>msr_goal = tei_goal input,
                     msr_tool_routes = routes, msr_network_destinations = destinations\<rparr> of
                (Inl _, adapter) \<Rightarrow>
                  (case fail (ae_append env) w2 s task_id of
                     (Inl e, s) \<Rightarrow> Some (Inl (AgentSupervisor e), a\<lparr>ag_model_adapter := adapter\<rparr>, s)
                   | (Inr _, s) \<Rightarrow> Some (Inl ModelFailed, a\<lparr>ag_model_adapter := adapter\<rparr>, s))
              | (Inr model, adapter) \<Rightarrow>
                  drive env DRIVE_FUEL turns
                    (a\<lparr>ag_model_adapter := adapter,
                      ag_active := Some \<lparr>as_task_id = task_id, as_model = model, as_next_step = 1,
                        as_previous_operation_output = None, as_pending_approval = None\<rparr>\<rparr>) s)))"

definition resume_with_output ::
  "('w, 's, 'y, 'h, 'k, 'm, 'd, 'e) agent_env \<Rightarrow> (nat \<Rightarrow> ('w, 'y) agent_turn)
   \<Rightarrow> ('m, 'd, 'h, 'k) agent_runtime \<Rightarrow> 's supervisor \<Rightarrow> u8 list
   \<Rightarrow> ('m, 'd, 'h, 'k, 's, agent_run_outcome) agent_result option" where
  "resume_with_output env turns a s output =
     (case ag_active a of
        None \<Rightarrow> Some (Inl InvalidState, a, s)
      | Some active \<Rightarrow>
          drive env DRIVE_FUEL turns
            (a\<lparr>ag_active := Some (active\<lparr>as_pending_approval := None, as_previous_operation_output := Some output\<rparr>)\<rparr>) s)"

text \<open>The \<open>match\<close> on the result of \<open>approve_and_execute\<close>, the same for both adapters.\<close>

definition resume_result ::
  "('w, 's, 'y, 'h, 'k, 'm, 'd, 'e) agent_env \<Rightarrow> 'w \<Rightarrow> (nat \<Rightarrow> ('w, 'y) agent_turn) \<Rightarrow> 'x \<Rightarrow> agent_error
   \<Rightarrow> ('out \<Rightarrow> u8 list) \<Rightarrow> 'x execution_error + 'out executed
   \<Rightarrow> ('m, 'd, 'h, 'k) agent_runtime \<Rightarrow> 's supervisor \<Rightarrow> task_id
   \<Rightarrow> ('m, 'd, 'h, 'k, 's, agent_run_outcome) agent_result option" where
  "resume_result env w turns budget_exceeded failed into_bytes result a s task_id =
     (case result of
        Inr done \<Rightarrow> resume_with_output env turns a s (into_bytes (ex_output done))
      | Inl (ExecSupervisor e) \<Rightarrow> Some (Inl (AgentSupervisor e), a, s)
      | Inl (ExecAdapter e) \<Rightarrow>
          if e = budget_exceeded
          then Some (fail_then (fail_budget_active (ae_append env) w a s task_id) (Inl AgentBudgetExceeded))
          else Some (fail_then (fail_active (ae_append env) w a s task_id) (Inl failed))
      | Inl OperationNotFound \<Rightarrow> Some (fail_then (fail_active (ae_append env) w a s task_id) (Inl failed)))"

definition approve_and_resume ::
  "('w, 's, 'y, 'h, 'k, 'm, 'd, 'e) agent_env \<Rightarrow> (nat \<Rightarrow> 'w) \<Rightarrow> 'w \<Rightarrow> 'w \<Rightarrow> 'w \<Rightarrow> instant \<times> 'y
   \<Rightarrow> instant \<Rightarrow> instant \<Rightarrow> instant \<Rightarrow> (nat \<Rightarrow> ('w, 'y) agent_turn)
   \<Rightarrow> ('m, 'd, 'h, 'k) agent_runtime \<Rightarrow> 's supervisor \<Rightarrow> approval_id
   \<Rightarrow> ('m, 'd, 'h, 'k, 's, agent_run_outcome) agent_result option" where
  "approve_and_resume env ws w1 w2 w3 x now1 now2 now3 turns a s approval_id =
     (case require_pending a approval_id of
        Inl e \<Rightarrow> Some (Inl e, a, s)
      | Inr (task_id, PendingTool) \<Rightarrow>
          (case tool_gate_approve_and_execute (ae_append env) (ae_handle env) ws w1 w2 x now1 now2 now3
                  (ag_tool_gate a) s approval_id of
             (result, gate, s) \<Rightarrow>
               resume_result env w3 turns ToolBudgetExceeded ToolFailed output_bytes result
                 (a\<lparr>ag_tool_gate := gate\<rparr>) s task_id)
      | Inr (task_id, PendingNetwork) \<Rightarrow>
          (case ag_network a of
             None \<Rightarrow> Some (Inl InvalidState, a, s)
           | Some network \<Rightarrow>
               (case network_gate_approve_and_execute (ae_append env) (ae_net env) ws w1 w2 now1 now2 now3
                       network s approval_id of
                  (result, gate, s) \<Rightarrow>
                    resume_result env w3 turns NetBudgetExceeded NetworkFailed tr_bytes result
                      (a\<lparr>ag_network := Some gate\<rparr>) s task_id)))"

definition agent_deny ::
  "('w, 's) append_fn \<Rightarrow> (nat \<Rightarrow> 'w) \<Rightarrow> 'w \<Rightarrow> instant \<Rightarrow> ('m, 'd, 'h, 'k) agent_runtime \<Rightarrow> 's supervisor
   \<Rightarrow> approval_id \<Rightarrow> ('m, 'd, 'h, 'k, 's, unit) agent_result" where
  "agent_deny ab ws w now a s approval_id =
     (case require_pending a approval_id of
        Inl e \<Rightarrow> (Inl e, a, s)
      | Inr (task_id, PendingTool) \<Rightarrow>
          (case tool_gate_deny ab ws w now (ag_tool_gate a) s approval_id of
             (Inl e, gate, s) \<Rightarrow> (Inl (map_tool_error e), a\<lparr>ag_tool_gate := gate\<rparr>, s)
           | (Inr _, gate, s) \<Rightarrow> (Inr (), a\<lparr>ag_tool_gate := gate, ag_active := None\<rparr>, s))
      | Inr (task_id, PendingNetwork) \<Rightarrow>
          (case ag_network a of
             None \<Rightarrow> (Inl InvalidState, a, s)
           | Some network \<Rightarrow>
               (case network_gate_deny ab ws w now network s approval_id of
                  (Inl e, gate, s) \<Rightarrow> (Inl (map_network_error e), a\<lparr>ag_network := Some gate\<rparr>, s)
                | (Inr _, gate, s) \<Rightarrow> (Inr (), a\<lparr>ag_network := Some gate, ag_active := None\<rparr>, s))))"

definition expire_adapter ::
  "('w, 's) append_fn \<Rightarrow> (nat \<Rightarrow> 'w) \<Rightarrow> instant \<Rightarrow> ('m, 'd, 'h, 'k) agent_runtime \<Rightarrow> 's supervisor
   \<Rightarrow> pending_adapter \<Rightarrow> ('m, 'd, 'h, 'k, 's, nat) agent_result" where
  "expire_adapter ab ws now a s adapter =
     (case adapter of
        PendingTool \<Rightarrow>
          (case tool_gate_expire ab ws now (ag_tool_gate a) s of
             (r, gate, s) \<Rightarrow> (map_err map_tool_error r, a\<lparr>ag_tool_gate := gate\<rparr>, s))
      | PendingNetwork \<Rightarrow>
          (case ag_network a of
             None \<Rightarrow> (Inl InvalidState, a, s)
           | Some network \<Rightarrow>
               (case network_gate_expire ab ws now network s of
                  (r, gate, s) \<Rightarrow> (map_err map_network_error r, a\<lparr>ag_network := Some gate\<rparr>, s))))"

definition agent_expire ::
  "('w, 's) append_fn \<Rightarrow> (nat \<Rightarrow> 'w) \<Rightarrow> 'w \<Rightarrow> instant \<Rightarrow> instant \<Rightarrow> ('m, 'd, 'h, 'k) agent_runtime \<Rightarrow> 's supervisor
   \<Rightarrow> ('m, 'd, 'h, 'k, 's, nat) agent_result" where
  "agent_expire ab ws w now1 now2 a s =
     (let adapter = (case agent_pending_adapter a of None \<Rightarrow> PendingTool | Some adapter \<Rightarrow> adapter);
          expire_all = (case expire_adapter ab ws now2 a s adapter of
             (Inl e, a, s) \<Rightarrow> (Inl e, a, s)
           | (Inr expired, a, s) \<Rightarrow>
               if (case ag_active a of None \<Rightarrow> False | Some active \<Rightarrow>
                     (case supervisor_get s (as_task_id active) of None \<Rightarrow> False
                      | Some task \<Rightarrow> is_terminal (snap_state task)))
               then (Inr expired, a\<lparr>ag_active := None\<rparr>, s) else (Inr expired, a, s)) in
      case ag_active a of
        None \<Rightarrow> expire_all
      | Some active \<Rightarrow>
          (case wall_time_exceeded now1 s (as_task_id active) of
             Inl e \<Rightarrow> (Inl (AgentSupervisor e), a, s)
           | Inr False \<Rightarrow> expire_all
           | Inr True \<Rightarrow>
               (case fail_budget_active ab w a s (as_task_id active) of
                  (Inl e, a, s) \<Rightarrow> (Inl e, a, s)
                | (Inr _, a, s) \<Rightarrow>
                    (case expire_adapter ab ws now2 a s adapter of
                       (Inl e, a, s) \<Rightarrow> (Inl e, a, s)
                     | (Inr _, a, s) \<Rightarrow> (Inl AgentBudgetExceeded, a, s)))))"

definition agent_cancel ::
  "('w, 's) append_fn \<Rightarrow> 'w \<Rightarrow> ('m, 'd, 'h, 'k) agent_runtime \<Rightarrow> 's supervisor \<Rightarrow> task_id
   \<Rightarrow> ('m, 'd, 'h, 'k, 's, bool) agent_result" where
  "agent_cancel ab w a s task_id =
     (if (case ag_active a of None \<Rightarrow> False | Some active \<Rightarrow> as_task_id active \<noteq> task_id)
      then (Inl InvalidState, a, s)
      else
        (case (case agent_pending_adapter a of None \<Rightarrow> PendingTool | Some adapter \<Rightarrow> adapter) of
           PendingTool \<Rightarrow>
             (case tool_gate_cancel ab w (ag_tool_gate a) s task_id of
                (Inl e, gate, s) \<Rightarrow> (Inl (map_tool_error e), a\<lparr>ag_tool_gate := gate\<rparr>, s)
              | (Inr changed, gate, s) \<Rightarrow> (Inr changed, a\<lparr>ag_tool_gate := gate, ag_active := None\<rparr>, s))
         | PendingNetwork \<Rightarrow>
             (case ag_network a of
                None \<Rightarrow> (Inl InvalidState, a, s)
              | Some network \<Rightarrow>
                  (case network_gate_cancel ab w network s task_id of
                     (Inl e, gate, s) \<Rightarrow> (Inl (map_network_error e), a\<lparr>ag_network := Some gate\<rparr>, s)
                   | (Inr changed, gate, s) \<Rightarrow> (Inr changed, a\<lparr>ag_network := Some gate, ag_active := None\<rparr>, s)))))"

end
