(* ===== verification/Agent_Props.thy ===== *)
theory Agent_Props
  imports Agent
begin

text \<open>
  Properties of the agent runtime: the loop ends within its fuel and asks the model at most
  \<open>max_steps\<close> times, the outcome it reports is the state the task is in, and a session whose
  task ended elsewhere is not dropped by \<open>expire\<close>.
\<close>

section \<open>States after supervisor calls\<close>

lemma apply_transition_state:
  "apply_transition_with_failure ab w s t cur nxt failure = (Inr u, s') \<Longrightarrow> sup_task_state s' t = Some nxt"
  by (auto simp: apply_transition_with_failure_def sup_task_state_def Let_def
      split: prod.splits sum.splits if_splits option.splits)

lemma transition_state: "transition ab w s t nxt = (Inr u, s') \<Longrightarrow> sup_task_state s' t = Some nxt"
  by (auto simp: transition_def apply_transition_def split: option.splits sum.splits dest: apply_transition_state)

lemma fail_state: "fail ab w s t = (Inr u, s') \<Longrightarrow> sup_task_state s' t = Some Failed"
  by (auto simp: fail_def dest: transition_state)

lemma succeed_state: "succeed ab w s t = (Inr u, s') \<Longrightarrow> sup_task_state s' t = Some Succeeded"
  by (auto simp: succeed_def dest: transition_state)

lemma fail_budget_state: "fail_budget_exceeded ab w s t = (Inr u, s') \<Longrightarrow> sup_task_state s' t = Some Failed"
  by (auto simp: fail_budget_exceeded_def split: option.splits sum.splits dest: apply_transition_state)

lemma request_approval_state:
  "request_approval ab w now oi ai s t cur req ttl = (Inr auth, s')
   \<Longrightarrow> \<exists>request. auth = OpApprovalRequired request \<and> sup_task_state s' t = Some WaitingApproval"
  by (auto simp: request_approval_def set_task_state_def sup_task_state_def
      split: if_splits sum.splits prod.splits option.splits)

lemma request_operation_state:
  assumes "request_operation ab ws w now1 now2 oi ai s t req ttl = (Inr (OpApprovalRequired request), s')"
  shows "sup_task_state s' t = Some WaitingApproval"
  using assms
  by (auto simp: request_operation_def Let_def split: prod.splits sum.splits option.splits policy_decision.splits
      dest!: request_approval_state)

lemma gate_request_state:
  "gate_request ab capreq execute ws w x now1 now2 oi ai g s t op ttl = (Inr (ExecApprovalRequired request), g', s')
   \<Longrightarrow> sup_task_state s' t = Some WaitingApproval"
  by (auto simp: gate_request_def split: prod.splits sum.splits operation_authorization.splits
      dest!: request_operation_state)

lemma tool_gate_request_state:
  "tool_gate_request ab handle ws w x now1 now2 oi ai g s t op ttl = (Inr (ExecApprovalRequired request), g', s')
   \<Longrightarrow> sup_task_state s' t = Some WaitingApproval"
  by (auto simp: tool_gate_request_def split: sum.splits dest: gate_request_state)

lemma network_gate_request_state:
  "network_gate_request ab net ws w now1 now2 oi ai g s t op ttl = (Inr (ExecApprovalRequired request), g', s')
   \<Longrightarrow> sup_task_state s' t = Some WaitingApproval"
  by (auto simp: network_gate_request_def split: sum.splits dest: gate_request_state)

section \<open>One round\<close>

text \<open>The task is where the reported result says it is.\<close>

definition outcome_matches ::
  "task_id \<Rightarrow> ('m, 'd, 'h, 'k, 's, agent_run_outcome) agent_result \<Rightarrow> bool" where
  "outcome_matches t result =
     (case result of (r, a, s) \<Rightarrow>
       (case r of
          Inr (Completed out) \<Rightarrow> ag_active a = None \<and> sup_task_state s t = Some Succeeded
        | Inr (AgentDenied reason) \<Rightarrow> ag_active a = None \<and> sup_task_state s t = Some Failed
        | Inr (AgentWaitingApproval request) \<Rightarrow> active_task a = Some t \<and> sup_task_state s t = Some WaitingApproval
            \<and> (\<exists>adapter. require_pending a (ar_approval_id request) = Inr (t, adapter))
        | Inl (AgentSupervisor e) \<Rightarrow> True
        | Inl e \<Rightarrow> e \<noteq> InvalidState \<and> ag_active a = None \<and> sup_task_state s t = Some Failed))"

lemma fail_active_denied:
  "outcome_matches t (fail_then (fail_active ab w a s t) (Inr (AgentDenied reason)))"
  by (auto simp: outcome_matches_def fail_then_def fail_active_def
      split: prod.splits sum.splits agent_error.splits dest!: fail_state)

lemma fail_active_err:
  "e \<noteq> InvalidState \<Longrightarrow> outcome_matches t (fail_then (fail_active ab w a s t) (Inl e))"
  by (auto simp: outcome_matches_def fail_then_def fail_active_def
      split: prod.splits sum.splits agent_error.splits dest!: fail_state)

lemma fail_budget_active_then:
  "outcome_matches t (fail_then (fail_budget_active ab w a s t) (Inl AgentBudgetExceeded))"
  by (auto simp: outcome_matches_def fail_then_def fail_budget_active_def
      split: prod.splits sum.splits agent_error.splits dest!: fail_budget_state)

lemma outcome_matches_supervisor: "outcome_matches t (Inl (AgentSupervisor e), a, s)"
  by (simp add: outcome_matches_def)

lemmas matches_intros = fail_active_denied fail_active_err fail_budget_active_then outcome_matches_supervisor

text \<open>A round that continues keeps the session, one that returns matches.\<close>

definition round_ok ::
  "task_id \<Rightarrow> u16 \<Rightarrow> agent_config \<Rightarrow> ('m, 'd, 'h, 'k, 's) round \<Rightarrow> bool" where
  "round_ok t step config result =
     (case result of
        Inl (a, s) \<Rightarrow> (\<exists>active. ag_active a = Some active \<and> as_task_id active = t
          \<and> as_next_step active = step \<and> ag_config a = config)
      | Inr result \<Rightarrow> outcome_matches t result
          \<and> (\<forall>active. ag_active (fst (snd result)) = Some active \<longrightarrow> as_next_step active = step)
          \<and> ag_config (fst (snd result)) = config)"

lemma round_ok_fail [simp]:
  "ag_config (fst (snd (fail_then (fail_active ab w a s t) v))) = ag_config a"
  "ag_config (fst (snd (fail_then (fail_budget_active ab w a s t) v))) = ag_config a"
  "ag_active (fst (snd (fail_then (fail_active ab w a s t) v))) = None"
  "ag_active (fst (snd (fail_then (fail_budget_active ab w a s t) v))) = None"
  by (auto simp: fail_then_def fail_active_def fail_budget_active_def split: prod.splits sum.splits)

lemma drive_outcome_round:
  assumes "ag_active a = Some active" and "as_task_id active = t" and "failed \<noteq> InvalidState"
    and "\<And>request. outcome = Inr (ExecApprovalRequired request) \<Longrightarrow> sup_task_state s t = Some WaitingApproval"
  shows "round_ok t (as_next_step active) (ag_config a)
     (drive_outcome ab w adapter budget failed into_bytes outcome a s t)"
proof (cases outcome)
  case (Inl e)
  with assms(3) show ?thesis
    by (cases e) (auto simp: drive_outcome_def round_ok_def intro!: matches_intros)
next
  case (Inr out)
  with assms show ?thesis
    by (cases out) (auto simp: drive_outcome_def round_ok_def with_active_def active_task_def require_pending_def
        outcome_matches_def [of t "(Inr (AgentWaitingApproval _), _)"] intro!: matches_intros)
qed

lemma drive_decision_round:
  assumes "ag_active a = Some active" and "as_task_id active = t"
  shows "round_ok t (as_next_step active) (ag_config a) (drive_decision env turn a s t decision)"
proof (cases decision)
  case (Finish out)
  obtain r s' where "succeed (ae_append env) (at_world turn) s t = (r, s')" by fastforce
  with Finish show ?thesis
    by (cases r) (auto simp: drive_decision_def Let_def round_ok_def outcome_matches_def dest: succeed_state)
next
  case (CallTool route args)
  show ?thesis
  proof (cases "prepare (ag_tool_catalog a) route args")
    case (Inl e)
    with CallTool show ?thesis by (auto simp: drive_decision_def Let_def round_ok_def intro!: matches_intros)
  next
    case (Inr op)
    obtain outcome g s' where run: "tool_gate_request (ae_append env) (ae_handle env) (at_worlds turn) (at_world turn)
        (at_handler turn) (at_now1 turn) (at_now2 turn) (at_operation_id turn) (at_approval_id turn)
        (ag_tool_gate a) s t op (ac_approval_ttl (ag_config a)) = (outcome, g, s')"
      using prod_cases3 by blast
    have "round_ok t (as_next_step active) (ag_config (a\<lparr>ag_tool_gate := g\<rparr>))
        (drive_outcome (ae_append env) (at_world turn) PendingTool ToolBudgetExceeded ToolFailed output_bytes outcome
          (a\<lparr>ag_tool_gate := g\<rparr>) s' t)"
      by (rule drive_outcome_round) (use assms run in \<open>auto dest: tool_gate_request_state\<close>)
    with CallTool Inr run show ?thesis by (simp add: drive_decision_def Let_def)
  qed
next
  case (TcpExchange host port req)
  show ?thesis
  proof (cases "ag_network a = None \<or> \<not> is_ok (prepare_tcp_exchange host port req)")
    case True
    then have "drive_decision env turn a s t decision
        = Inr (fail_then (fail_active (ae_append env) (at_world turn) a s t) (Inl InvalidDecision))"
      using TcpExchange by (auto simp: drive_decision_def Let_def split: option.splits sum.splits)
    then show ?thesis by (auto simp: round_ok_def intro!: matches_intros)
  next
    case False
    then obtain g op where g: "ag_network a = Some g" "prepare_tcp_exchange host port req = Inr op"
      by (cases "prepare_tcp_exchange host port req") auto
    obtain outcome g' s' where run: "network_gate_request (ae_append env) (ae_net env) (at_worlds turn) (at_world turn)
        (at_now1 turn) (at_now2 turn) (at_operation_id turn) (at_approval_id turn)
        g s t op (ac_approval_ttl (ag_config a)) = (outcome, g', s')"
      using prod_cases3 by blast
    have "round_ok t (as_next_step active) (ag_config (a\<lparr>ag_network := Some g'\<rparr>))
        (drive_outcome (ae_append env) (at_world turn) PendingNetwork NetBudgetExceeded NetworkFailed tr_bytes outcome
          (a\<lparr>ag_network := Some g'\<rparr>) s' t)"
      by (rule drive_outcome_round) (use assms run in \<open>auto dest: network_gate_request_state\<close>)
    with TcpExchange g run show ?thesis by (simp add: drive_decision_def Let_def)
  qed
qed

text \<open>A round keeps the session's step count, or advances it by one if the limit allowed it.\<close>

lemma drive_turn_round:
  assumes "ag_active a = Some active" and "as_task_id active = t"
  shows "(\<exists>result. drive_turn env turn a s = Inr result \<and> round_ok t (as_next_step active) (ag_config a) (drive_turn env turn a s))
     \<or> as_next_step active \<le> ac_max_steps (ag_config a)
        \<and> round_ok t (as_next_step active + 1) (ag_config a) (drive_turn env turn a s)"
proof -
  let ?req = "\<lparr>mtr_step = as_next_step active, mtr_previous_operation_output = as_previous_operation_output active\<rparr>"
  obtain r d where dec: "ae_decide env (as_model active) ?req = (r, d)" by fastforce
  let ?a = "a\<lparr>ag_active := Some (active\<lparr>as_model := d, as_next_step := as_next_step active + 1\<rparr>)\<rparr>"
  show ?thesis
  proof (cases "\<exists>ctx x. execution_context s t = Inr ctx \<and> r = Inr x \<and> remaining_wall_time (at_before turn) ctx \<noteq> 0
      \<and> remaining_wall_time (at_after turn) ctx \<noteq> 0 \<and> \<not> ac_max_steps (ag_config a) < as_next_step active")
    case True
    then obtain ctx x where c: "execution_context s t = Inr ctx" "r = Inr x" "remaining_wall_time (at_before turn) ctx \<noteq> 0"
      "remaining_wall_time (at_after turn) ctx \<noteq> 0" "\<not> ac_max_steps (ag_config a) < as_next_step active"
      by blast
    then have "drive_turn env turn a s = drive_decision env turn ?a s t x"
      using assms dec by (simp add: drive_turn_def with_active_def)
    moreover have "round_ok t (as_next_step active + 1) (ag_config ?a) (drive_decision env turn ?a s t x)"
      using drive_decision_round [of ?a "active\<lparr>as_model := d, as_next_step := as_next_step active + 1\<rparr>" t env turn s x]
        assms by simp
    ultimately show ?thesis using c(5) by (simp add: not_less)
  next
    case False
    then consider e where "execution_context s t = Inl e"
      | ctx where "execution_context s t = Inr ctx" "remaining_wall_time (at_before turn) ctx = 0"
      | ctx where "execution_context s t = Inr ctx" "remaining_wall_time (at_before turn) ctx \<noteq> 0"
          "ac_max_steps (ag_config a) < as_next_step active"
      | ctx e where "execution_context s t = Inr ctx" "remaining_wall_time (at_before turn) ctx \<noteq> 0"
          "\<not> ac_max_steps (ag_config a) < as_next_step active" "r = Inl e"
      | ctx x where "execution_context s t = Inr ctx" "remaining_wall_time (at_before turn) ctx \<noteq> 0"
          "\<not> ac_max_steps (ag_config a) < as_next_step active" "r = Inr x" "remaining_wall_time (at_after turn) ctx = 0"
      by (cases "execution_context s t"; cases r) blast+
    then have "\<exists>result. drive_turn env turn a s = Inr result \<and> round_ok t (as_next_step active) (ag_config a) (Inr result)"
      by cases (use assms dec in \<open>auto simp: drive_turn_def with_active_def round_ok_def intro!: matches_intros\<close>)
    then show ?thesis by metis
  qed
qed

section \<open>The loop\<close>

text \<open>A valid configuration, and a session that has not used more than its steps.\<close>

definition agent_ok :: "('m, 'd, 'h, 'k) agent_runtime \<Rightarrow> bool" where
  "agent_ok a \<longleftrightarrow> ac_max_steps (ag_config a) \<le> MAX_MODEL_STEPS
     \<and> (\<forall>active. ag_active a = Some active \<longrightarrow>
          0 < as_next_step active \<and> as_next_step active \<le> ac_max_steps (ag_config a) + 1)"

lemma step_add_one:
  assumes "(step :: u16) \<le> limit" and "limit \<le> MAX_MODEL_STEPS"
  shows "unat (step + 1) = Suc (unat step)" "unat (limit + 1) = Suc (unat limit)" "0 < step + 1" "step + 1 \<le> limit + 1"
proof -
  have le: "unat step \<le> unat limit" "unat limit \<le> 64"
    using assms by (simp_all add: word_le_nat_alt MAX_MODEL_STEPS_def)
  then show s: "unat (step + 1) = Suc (unat step)" "unat (limit + 1) = Suc (unat limit)"
    by (simp_all add: unat_word_ariths)
  then show "0 < step + 1" "step + 1 \<le> limit + 1" using le by (simp_all add: word_le_nat_alt word_less_nat_alt)
qed

lemma drive_facts:
  assumes "agent_ok a" and "ag_active a = Some active" and "as_task_id active = t"
    and "Suc (unat (ac_max_steps (ag_config a))) < fuel + unat (as_next_step active)"
  shows "\<exists>result. drive env fuel turns a s = Some result \<and> outcome_matches t result \<and> agent_ok (fst (snd result))
     \<and> ag_config (fst (snd result)) = ag_config a"
  using assms
proof (induction fuel arbitrary: turns a s active)
  case 0
  then have "as_next_step active \<le> ac_max_steps (ag_config a) + 1" "ac_max_steps (ag_config a) \<le> MAX_MODEL_STEPS"
    by (auto simp: agent_ok_def)
  then have "unat (as_next_step active) \<le> Suc (unat (ac_max_steps (ag_config a)))"
    using step_add_one(2) [OF order_refl] by (simp add: word_le_nat_alt)
  with 0 show ?case by simp
next
  case (Suc fuel)
  let ?max = "ac_max_steps (ag_config a)"
  from Suc.prems(1,2) have lim: "?max \<le> MAX_MODEL_STEPS" and st: "0 < as_next_step active" "as_next_step active \<le> ?max + 1"
    by (auto simp: agent_ok_def)
  from drive_turn_round [OF Suc.prems(2,3), of env "turns 0" s] show ?case
  proof (elim disjE exE conjE)
    fix result assume "drive_turn env (turns 0) a s = Inr result"
      "round_ok t (as_next_step active) (ag_config a) (drive_turn env (turns 0) a s)"
    then show ?thesis using lim st by (auto simp: round_ok_def agent_ok_def)
  next
    assume le: "as_next_step active \<le> ?max"
      and r: "round_ok t (as_next_step active + 1) (ag_config a) (drive_turn env (turns 0) a s)"
    note n = step_add_one [OF le lim]
    show ?thesis
    proof (cases "drive_turn env (turns 0) a s")
      case (Inr result)
      with r n lim show ?thesis by (auto simp: round_ok_def agent_ok_def)
    next
      case (Inl p)
      with r obtain a' s' active' where p: "p = (a', s')" and act: "ag_active a' = Some active'" "as_task_id active' = t"
        "as_next_step active' = as_next_step active + 1" "ag_config a' = ag_config a"
        by (cases p) (auto simp: round_ok_def)
      have "agent_ok a'" using act lim n by (simp add: agent_ok_def)
      moreover have "Suc (unat (ac_max_steps (ag_config a'))) < fuel + unat (as_next_step active')"
        using Suc.prems(4) act n(1) by simp
      ultimately show ?thesis using Suc.IH [OF _ act(1,2), of "\<lambda>i. turns (Suc i)" s'] Inl p act(4) by simp
    qed
  qed
qed

lemma drive_fuel_enough:
  assumes "agent_ok a" and "ag_active a = Some active" and "as_task_id active = t"
  shows "\<exists>result. drive env DRIVE_FUEL turns a s = Some result \<and> outcome_matches t result \<and> agent_ok (fst (snd result))
     \<and> ag_config (fst (snd result)) = ag_config a"
proof -
  have "unat (ac_max_steps (ag_config a)) \<le> 64" "0 < unat (as_next_step active)"
    using assms by (auto simp: agent_ok_def word_le_nat_alt MAX_MODEL_STEPS_def unat_gt_0)
  then have "Suc (unat (ac_max_steps (ag_config a))) < DRIVE_FUEL + unat (as_next_step active)"
    by (simp add: DRIVE_FUEL_def)
  from drive_facts [OF assms this] show ?thesis by blast
qed

text \<open>A call returns, with the bounds kept and a result that matches.\<close>

definition returns_ok ::
  "agent_config \<Rightarrow> bool \<Rightarrow> task_id \<Rightarrow> ('m, 'd, 'h, 'k, 's, agent_run_outcome) agent_result option \<Rightarrow> bool" where
  "returns_ok config own t ret \<longleftrightarrow> (\<exists>result. ret = Some result \<and> agent_ok (fst (snd result))
     \<and> ag_config (fst (snd result)) = config \<and> (own \<longrightarrow> outcome_matches t result))"

lemma returns_okI:
  "agent_ok (fst (snd result)) \<Longrightarrow> ag_config (fst (snd result)) = config \<Longrightarrow> outcome_matches t result
   \<Longrightarrow> returns_ok config own t (Some result)"
  by (simp add: returns_ok_def)

lemma agent_ok_None [simp]: "agent_ok (a\<lparr>ag_active := None\<rparr>) \<longleftrightarrow> ac_max_steps (ag_config a) \<le> MAX_MODEL_STEPS"
  by (simp add: agent_ok_def)

lemma agent_ok_fail:
  assumes "agent_ok a"
  shows "agent_ok (fst (snd (fail_then (fail_active ab w a s t) v)))"
    "agent_ok (fst (snd (fail_then (fail_budget_active ab w a s t) v)))"
  using assms by (simp_all add: agent_ok_def)

lemma agent_start_returns:
  assumes "agent_ok a"
  shows "returns_ok (ag_config a) (ag_active a = None) t (agent_start env w1 w2 now turns a s t)"
proof (cases "ag_active a")
  case (Some active)
  with assms show ?thesis by (simp add: agent_start_def returns_ok_def)
next
  case None
  obtain r s1 where st: "start_execution (ae_append env) w1 now s t = (r, s1)" by fastforce
  show ?thesis
  proof (cases r)
    case (Inl e)
    with None st assms show ?thesis by (simp add: agent_start_def returns_ok_def outcome_matches_def)
  next
    case (Inr input)
    let ?routes = "route_names_for_tools (ag_tool_catalog a) (tei_capability_tools input)"
    let ?dests = "case ag_network a of None \<Rightarrow> [] | Some _ \<Rightarrow> filter (\<lambda>destination.
        is_ok (prepare_tcp_exchange (nd_host destination) (nd_port destination) [])) (tei_network_destinations input)"
    obtain d m where ss: "ae_start_session env (ag_model_adapter a) \<lparr>msr_goal = tei_goal input,
        msr_tool_routes = ?routes, msr_network_destinations = ?dests\<rparr> = (d, m)" by fastforce
    show ?thesis
    proof (cases d)
      case err: (Inl e)
      obtain f s2 where f: "fail (ae_append env) w2 s1 t = (f, s2)" by fastforce
      have "agent_ok (a\<lparr>ag_model_adapter := m\<rparr>)" using assms by (simp add: agent_ok_def)
      then show ?thesis using None st Inr ss err f fail_state [of "ae_append env" w2 s1 t]
        by (cases f) (auto simp: agent_start_def returns_ok_def outcome_matches_def Let_def)
    next
      case ok: (Inr model)
      let ?act = "\<lparr>as_task_id = t, as_model = model, as_next_step = 1,
                        as_previous_operation_output = None, as_pending_approval = None\<rparr>"
      let ?a = "a\<lparr>ag_model_adapter := m, ag_active := Some ?act\<rparr>"
      have "ac_max_steps (ag_config a) \<le> MAX_MODEL_STEPS" using assms by (simp add: agent_ok_def)
      from step_add_one(4) [OF _ this, of 0] have "agent_ok ?a" using assms by (simp add: agent_ok_def)
      from drive_fuel_enough [OF this, of ?act t env turns s1]
      have "returns_ok (ag_config a) True t (drive env DRIVE_FUEL turns ?a s1)" by (auto simp: returns_ok_def)
      then show ?thesis using None st Inr ss ok by (auto simp: agent_start_def Let_def returns_ok_def)
    qed
  qed
qed

lemma resume_result_returns:
  assumes "agent_ok a" and "ag_active a = Some active" and "as_task_id active = t" and "failed \<noteq> InvalidState"
  shows "returns_ok (ag_config a) True t (resume_result env w turns budget failed into_bytes result a s t)"
proof (cases result)
  case (Inl e)
  with assms(1,4) show ?thesis
    by (cases e) (auto simp: resume_result_def agent_ok_fail intro!: returns_okI matches_intros)
next
  case (Inr out)
  let ?act = "active\<lparr>as_pending_approval := None, as_previous_operation_output := Some (into_bytes (ex_output out))\<rparr>"
  have "agent_ok (a\<lparr>ag_active := Some ?act\<rparr>)" using assms by (simp add: agent_ok_def)
  from drive_fuel_enough [OF this, of ?act t env turns s] assms(2,3) Inr show ?thesis
    by (auto simp: resume_result_def resume_with_output_def returns_ok_def)
qed

lemma approve_and_resume_returns:
  assumes "agent_ok a"
  shows "returns_ok (ag_config a)
       (\<exists>adapter. require_pending a ai = Inr (t, adapter) \<and> (adapter = PendingNetwork \<longrightarrow> ag_network a \<noteq> None)) t
     (approve_and_resume env ws v1 v2 v3 x now1 now2 now3 turns a s ai)"
proof (cases "\<exists>u adapter. require_pending a ai = Inr (u, adapter) \<and> (adapter = PendingNetwork \<longrightarrow> ag_network a \<noteq> None)")
  case False
  then show ?thesis
    using assms
    by (cases "require_pending a ai")
      (auto simp: approve_and_resume_def returns_ok_def outcome_matches_def split: pending_adapter.splits)
next
  case True
  then obtain u adapter where p: "require_pending a ai = Inr (u, adapter)"
    and net: "adapter = PendingNetwork \<longrightarrow> ag_network a \<noteq> None" by blast
  then obtain active where act: "ag_active a = Some active" "as_task_id active = u"
    by (auto simp: require_pending_def split: option.splits if_splits)
  have own: "require_pending a ai = Inr (t, adapter') \<longrightarrow> u = t" for adapter' using p by auto
  show ?thesis
  proof (cases adapter)
    case PendingTool
    obtain result g s' where run: "tool_gate_approve_and_execute (ae_append env) (ae_handle env) ws v1 v2 x now1 now2 now3
        (ag_tool_gate a) s ai = (result, g, s')" using prod_cases3 by blast
    have "returns_ok (ag_config (a\<lparr>ag_tool_gate := g\<rparr>)) True u
        (resume_result env v3 turns ToolBudgetExceeded ToolFailed output_bytes result (a\<lparr>ag_tool_gate := g\<rparr>) s' u)"
      by (rule resume_result_returns) (use assms act in \<open>simp_all add: agent_ok_def\<close>)
    with p PendingTool run own show ?thesis by (auto simp: approve_and_resume_def returns_ok_def)
  next
    case PendingNetwork
    with net obtain n where n: "ag_network a = Some n" by auto
    obtain result g s' where run: "network_gate_approve_and_execute (ae_append env) (ae_net env) ws v1 v2 now1 now2 now3
        n s ai = (result, g, s')" using prod_cases3 by blast
    have "returns_ok (ag_config (a\<lparr>ag_network := Some g\<rparr>)) True u
        (resume_result env v3 turns NetBudgetExceeded NetworkFailed tr_bytes result (a\<lparr>ag_network := Some g\<rparr>) s' u)"
      by (rule resume_result_returns) (use assms act in \<open>simp_all add: agent_ok_def\<close>)
    with p PendingNetwork n run own show ?thesis by (auto simp: approve_and_resume_def returns_ok_def)
  qed
qed

section \<open>Properties\<close>

text \<open>C36: the agent always comes back, and asks the model at most \<open>max_steps\<close> times. With a
  configuration that \<open>AgentConfig::new\<close> accepts, \<open>start\<close> and \<open>approve_and_resume\<close> return for
  every model, handler, peer, clock and store: the loop ends within 65 rounds. The step
  counter of the session never passes \<open>max_steps + 1\<close>, also across the approvals that
  interrupt it, so it never wraps around in its 16 bits.\<close>

theorem agent_always_returns:
  assumes "agent_config_new max_steps ttl = Inr (ag_config a)"
    and "\<And>active. ag_active a = Some active \<Longrightarrow> 0 < as_next_step active \<and> as_next_step active \<le> max_steps + 1"
  shows "\<exists>r1 a1 s1 r2 a2 s2.
       agent_start env w1 w2 now turns a s t = Some (r1, a1, s1)
     \<and> approve_and_resume env ws v1 v2 v3 x now1 now2 now3 turns a s ai = Some (r2, a2, s2)
     \<and> (\<forall>a' \<in> {a1, a2}. \<forall>active. ag_active a' = Some active \<longrightarrow>
          0 < unat (as_next_step active) \<and> unat (as_next_step active) \<le> unat max_steps + 1)"
proof -
  have cfg: "ac_max_steps (ag_config a) = max_steps" "max_steps \<le> MAX_MODEL_STEPS"
    using assms(1) by (cases "ag_config a", auto simp: agent_config_new_def split: if_splits)+
  have ok: "agent_ok a" using assms(2) cfg by (simp add: agent_ok_def)
  have step: "0 < unat (as_next_step active) \<and> unat (as_next_step active) \<le> unat max_steps + 1"
    if "agent_ok a'" "ag_config a' = ag_config a" "ag_active a' = Some active" for a' active
    using that cfg step_add_one(2) [OF order_refl cfg(2)] by (auto simp: agent_ok_def word_le_nat_alt word_less_nat_alt)
  from agent_start_returns [OF ok, of t env w1 w2 now turns s] obtain r1 a1 s1 where
    1: "agent_start env w1 w2 now turns a s t = Some (r1, a1, s1)" "agent_ok a1" "ag_config a1 = ag_config a"
    by (auto simp: returns_ok_def)
  from approve_and_resume_returns [OF ok, of ai t env ws v1 v2 v3 x now1 now2 now3 turns s] obtain r2 a2 s2 where
    2: "approve_and_resume env ws v1 v2 v3 x now1 now2 now3 turns a s ai = Some (r2, a2, s2)" "agent_ok a2"
      "ag_config a2 = ag_config a"
    by (auto simp: returns_ok_def)
  have "\<forall>a' \<in> {a1, a2}. \<forall>active. ag_active a' = Some active \<longrightarrow>
      0 < unat (as_next_step active) \<and> unat (as_next_step active) \<le> unat max_steps + 1"
    using step [OF 1(2,3)] step [OF 2(2,3)] by blast
  with 1(1) 2(1) show ?thesis by blast
qed

section \<open>A concrete run\<close>

definition demo_env ::
  "(nat \<Rightarrow> nat, in_memory_store, unit, nat, sim, scripted_model_adapter, scripted_model_session, scripted_model_error) agent_env" where
  "demo_env = \<lparr>ae_append = in_memory_append, ae_handle = demo_handle, ae_net = sim_net,
     ae_start_session = scripted_start_session, ae_decide = scripted_decide\<rparr>"

definition demo_turns :: "nat \<Rightarrow> (nat \<Rightarrow> nat, unit) agent_turn" where
  "demo_turns i = \<lparr>at_before = 6, at_after = 6, at_now1 = 6, at_now2 = 6, at_world = demo_clock, at_worlds = (\<lambda>_. demo_clock),
     at_handler = (6, ()), at_operation_id = OperationId (of_nat i), at_approval_id = ApprovalId (of_nat i)\<rparr>"

definition demo_agent :: "(scripted_model_adapter, scripted_model_session, nat, sim) agent_runtime" where
  "demo_agent = agent_new (projr (scripted_new [CallTool ''git-status'' [''hi''], Finish (AgentOutput ''done'')]))
     (fst (builder_build demo_builder)) (snd (builder_build demo_builder)) agent_config_default"

definition demo_agent_run ::
  "(scripted_model_adapter, scripted_model_session, nat, sim, in_memory_store, agent_run_outcome) agent_result option" where
  "demo_agent_run = agent_start demo_env demo_clock demo_clock 5 demo_turns demo_agent (snd demo_submitted) (TaskId 1)"

lemma demo_agent_facts:
  "agent_config_new 16 (from_secs 300) = Inr (ag_config demo_agent)" "ag_active demo_agent = None"
  by (simp_all add: demo_agent_def agent_new_def agent_config_default_def agent_config_new_def MAX_MODEL_STEPS_def
      DEFAULT_MAX_MODEL_STEPS_def DEFAULT_APPROVAL_TTL_def AGENT_MAX_APPROVAL_TTL_def from_secs_def from_millis_def)

theorem agent_always_returns_witness:
  "\<exists>r a s. demo_agent_run = Some (r, a, s)"
  using agent_always_returns [OF demo_agent_facts(1), of demo_env demo_clock demo_clock 5 demo_turns "snd demo_submitted" "TaskId 1"
      "\<lambda>_. demo_clock" demo_clock demo_clock demo_clock "(6, ())" 6 6 6 "ApprovalId 0"]
  by (auto simp: demo_agent_facts(2) demo_agent_run_def)

text \<open>C37: the agent reports the state its task is really in. After \<open>start\<close> on an idle runtime, and
  after \<open>approve_and_resume\<close> on the runtime's own pending approval: \<open>Completed\<close> means the task
  has succeeded, \<open>Denied\<close> that it has failed, \<open>WaitingApproval\<close> that it waits and this very
  approval can be resumed; a limit, model, tool or network error means the task has
  failed; and in every case but the wait the session is gone. Only an error of the
  supervisor itself leaves this open.\<close>

theorem agent_outcome_is_task_state:
  assumes "agent_config_new max_steps ttl = Inr (ag_config a)"
    and "\<And>active. ag_active a = Some active \<Longrightarrow> 0 < as_next_step active \<and> as_next_step active \<le> max_steps + 1"
  shows "(ag_active a = None \<longrightarrow> (\<exists>result. agent_start env w1 w2 now turns a s t = Some result \<and> outcome_matches t result))
     \<and> (\<forall>adapter. require_pending a ai = Inr (t, adapter) \<longrightarrow> adapter = PendingTool \<or> ag_network a \<noteq> None \<longrightarrow>
          (\<exists>result. approve_and_resume env ws v1 v2 v3 x now1 now2 now3 turns a s ai = Some result \<and> outcome_matches t result))"
proof -
  have cfg: "ac_max_steps (ag_config a) = max_steps" "max_steps \<le> MAX_MODEL_STEPS"
    using assms(1) by (cases "ag_config a", auto simp: agent_config_new_def split: if_splits)+
  have ok: "agent_ok a" using assms(2) cfg by (simp add: agent_ok_def)
  from agent_start_returns [OF ok, of t env w1 w2 now turns s]
    approve_and_resume_returns [OF ok, of ai t env ws v1 v2 v3 x now1 now2 now3 turns s]
  show ?thesis unfolding returns_ok_def by blast
qed

theorem agent_outcome_is_task_state_witness:
  "\<exists>a s. demo_agent_run = Some (Inr (Completed (AgentOutput ''done'')), a, s) \<and> sup_task_state s (TaskId 1) = Some Succeeded"
proof -
  have "map_option fst demo_agent_run = Some (Inr (Completed (AgentOutput ''done'')))" by code_simp
  then obtain a s where run: "demo_agent_run = Some (Inr (Completed (AgentOutput ''done'')), a, s)" by (auto simp del: split_paired_Ex)
  have "\<exists>result. demo_agent_run = Some result \<and> outcome_matches (TaskId 1) result"
    using agent_outcome_is_task_state [OF demo_agent_facts(1), of demo_env demo_clock demo_clock 5 demo_turns "snd demo_submitted"
        "TaskId 1"] by (simp add: demo_agent_facts(2) demo_agent_run_def)
  then obtain result where r: "demo_agent_run = Some result" "outcome_matches (TaskId 1) result" by blast
  from trans [OF r(1) [symmetric] run] have "result = (Inr (Completed (AgentOutput ''done'')), a, s)"
    by (rule option.inject [THEN iffD1])
  with r(2) have "sup_task_state s (TaskId 1) = Some Succeeded" by (simp add: outcome_matches_def)
  with run show ?thesis by blast
qed

text \<open>C39: \<open>expire\<close> is documented to drop a session whose task became terminal, but it never does
  when the task ended outside its own call: the wall-time query before it fails with
  \<open>TaskNotRunning\<close> for a task in a final state, the call returns that error, and the
  session stays, so \<open>start\<close> refuses every further task with \<open>CapacityExceeded\<close>.\<close>

theorem agent_expire_keeps_dead_session:
  assumes "ag_active a = Some active" and "bt_get (sup_tasks s) (as_task_id active) = Some record"
    and "is_terminal (tr_state record)"
  shows "agent_expire ab ws w now1 now2 a s = (Inl (AgentSupervisor TaskNotRunning), a, s)
     \<and> agent_start env w1 w2 now turns a s t = Some (Inl AgentCapacityExceeded, a, s)"
proof -
  have "\<not> (tr_state record = Running \<or> tr_state record = WaitingApproval)" using assms(3) by auto
  with assms show ?thesis by (simp add: agent_expire_def agent_start_def wall_time_exceeded_def)
qed

text \<open>A run into this: the model proposes a commit, which needs approval; the approval comes
  after its deadline.\<close>

definition demo_waiting_run ::
  "(scripted_model_adapter, scripted_model_session, nat, sim, in_memory_store, agent_run_outcome) agent_result" where
  "demo_waiting_run =
     (let b = snd (builder_register (projr (builder_new 4)) ''git-commit'' ''git'' ''git.commit'' 0);
          a = agent_new (projr (scripted_new [CallTool ''git-commit'' []])) (fst (builder_build b)) (snd (builder_build b))
                agent_config_default in
      the (agent_start demo_env demo_clock demo_clock 5 demo_turns a (snd demo_submitted) (TaskId 1)))"

definition demo_late_run ::
  "(scripted_model_adapter, scripted_model_session, nat, sim, in_memory_store, agent_run_outcome) agent_result" where
  "demo_late_run =
     (let late = from_secs 400 in
      the (approve_and_resume demo_env (\<lambda>_. demo_clock) demo_clock demo_clock demo_clock (late, ()) late late late demo_turns
             (fst (snd demo_waiting_run)) (snd (snd demo_waiting_run)) (ApprovalId 0)))"

theorem agent_expire_keeps_dead_session_witness:
  "fst (agent_expire in_memory_append (\<lambda>_. demo_clock) demo_clock (from_secs 400) (from_secs 400)
      (fst (snd demo_late_run)) (snd (snd demo_late_run)))
     = Inl (AgentSupervisor TaskNotRunning)
   \<and> active_task (fst (snd demo_late_run)) = Some (TaskId 1)"
proof -
  let ?a = "fst (snd demo_late_run)" and ?s = "snd (snd demo_late_run)"
  have t: "active_task ?a = Some (TaskId 1)" by code_simp
  then obtain active where act: "ag_active ?a = Some active" "as_task_id active = TaskId 1"
    by (auto simp: active_task_def)
  have "map_option tr_state (bt_get (sup_tasks ?s) (TaskId 1)) = Some Failed" by code_simp
  then obtain r where rec: "bt_get (sup_tasks ?s) (as_task_id active) = Some r" "is_terminal (tr_state r)"
    using act(2) by auto
  from agent_expire_keeps_dead_session [OF act(1) rec, of in_memory_append "\<lambda>_. demo_clock" demo_clock "from_secs 400"
      "from_secs 400" demo_env demo_clock demo_clock 0 demo_turns "TaskId 2"] t
  show ?thesis by simp
qed

end
