(* ===== verification/Std_Path.thy ===== *)
theory Std_Path
  imports Prelude
begin

text \<open>
  \<open>std::path\<close> on Unix, as far as the adapters use it. A path is its byte string; comparison,
  \<open>starts_with\<close>, \<open>strip_prefix\<close> and \<open>parent\<close> work on its components: repeated separators, a
  separator at the end and \<open>.\<close> after the beginning do not count, \<open>..\<close> does. Also the flags of
  \<open>openat2\<close> that the adapters pass.
\<close>

datatype component = RootDir | CurDir | ParentDir | Normal string

definition path_is_absolute :: "string \<Rightarrow> bool" where
  "path_is_absolute path \<longleftrightarrow> starts_with path ''/''"

definition path_pieces :: "string \<Rightarrow> string list" where
  "path_pieces path = filter (\<lambda>c. c \<noteq> [] \<and> c \<noteq> ''.'') (split_on (CHR ''/'') path)"

definition path_components :: "string \<Rightarrow> component list" where
  "path_components path =
     (if path_is_absolute path then [RootDir]
      else if hd (split_on (CHR ''/'') path) = ''.'' then [CurDir] else [])
     @ map (\<lambda>c. if c = ''..'' then ParentDir else Normal c) (path_pieces path)"

text \<open>\<open>==\<close>, \<open>starts_with\<close>, \<open>strip_prefix\<close>, \<open>join\<close> and \<open>parent\<close>.\<close>

definition path_eq :: "string \<Rightarrow> string \<Rightarrow> bool" where
  "path_eq p q \<longleftrightarrow> path_components p = path_components q"

definition path_starts_with :: "string \<Rightarrow> string \<Rightarrow> bool" where
  "path_starts_with path base \<longleftrightarrow> starts_with (path_components path) (path_components base)"

definition path_strip_prefix :: "string \<Rightarrow> string \<Rightarrow> component list option" where
  "path_strip_prefix path base = strip_prefix (path_components base) (path_components path)"

definition path_join :: "string \<Rightarrow> string \<Rightarrow> string" where
  "path_join base path =
     (if path_is_absolute path then path
      else if base = [] \<or> last base = CHR ''/'' then base @ path
      else base @ ''/'' @ path)"

definition path_parent :: "string \<Rightarrow> component list option" where
  "path_parent path =
     (case rev (path_components path) of
        [] \<Rightarrow> None
      | RootDir # _ \<Rightarrow> None
      | _ # rest \<Rightarrow> Some (rev rest))"

fun component_normal :: "component \<Rightarrow> bool" where
  "component_normal (Normal c) = True"
| "component_normal _ = False"

section \<open>Flags of \<open>openat2\<close>\<close>

datatype o_flag = O_PATH | O_DIRECTORY | O_CLOEXEC | O_WRONLY | O_CREATE | O_EXCL
datatype mode_flag = RUSR | WUSR
datatype resolve_flag = BENEATH | NO_MAGICLINKS | NO_SYMLINKS | NO_XDEV

section \<open>Lemmas\<close>

lemma path_components_root [simp]: "path_components ''/'' = [RootDir]"
  by (simp add: path_components_def path_pieces_def path_is_absolute_def starts_with_def)

lemma split_on_absolute: "path_is_absolute path \<Longrightarrow> split_on (CHR ''/'') path = [] # split_on (CHR ''/'') (drop 1 path)"
  by (auto simp: path_is_absolute_def starts_with_def prefix_def)

lemma path_pieces_ok:
  "\<forall>c \<in> set cs. c \<noteq> [] \<and> c \<noteq> ''.'' \<Longrightarrow> split_on (CHR ''/'') path = [] # cs \<Longrightarrow> path_pieces path = cs"
  by (simp add: path_pieces_def filter_id_conv)

lemma path_components_normal:
  assumes "path_is_absolute path" and "\<forall>c \<in> set (drop 1 (split_on (CHR ''/'') path)). c \<noteq> [] \<and> c \<noteq> ''.'' \<and> c \<noteq> ''..''"
  shows "path_components path = RootDir # map Normal (drop 1 (split_on (CHR ''/'') path))"
proof -
  have "path_pieces path = drop 1 (split_on (CHR ''/'') path)"
    using assms split_on_absolute [OF assms(1)] by (intro path_pieces_ok) simp_all
  with assms show ?thesis by (simp add: path_components_def)
qed

lemma path_strip_root:
  "path_components path = RootDir # cs \<Longrightarrow> path_strip_prefix path ''/'' = Some cs"
  by (simp add: path_strip_prefix_def)

lemma path_starts_with_refl [simp]: "path_starts_with p p"
  by (simp add: path_starts_with_def starts_with_def)

lemma path_starts_with_trans: "path_starts_with a b \<Longrightarrow> path_starts_with b c \<Longrightarrow> path_starts_with a c"
  unfolding path_starts_with_def starts_with_def by (rule prefix_order.trans)

end
