(* ===== verification/Host.thy ===== *)
theory Host
  imports Std_Path
begin

text \<open>
  The operating system as the process sandbox sees it. A call is a function of the state \<open>k\<close> of
  the system (\<open>io\<close>): its answer, an error or a value, and the next state, so two calls in a row may
  see different files. The record \<open>host_api\<close> holds the calls of \<open>std::fs\<close>, \<open>std::process\<close>,
  \<open>std::time\<close> and \<open>rustix\<close> that the crate makes. \<open>io_bind\<close> is the question mark operator,
  \<open>io_map_err\<close> is \<open>map_err\<close> with a constant.
\<close>

section \<open>Calls\<close>

type_synonym ('k, 'e, 'a) io = "'k \<Rightarrow> ('e + 'a) \<times> 'k"

definition io_ret :: "'a \<Rightarrow> ('k, 'e, 'a) io" where
  "io_ret x k = (Inr x, k)"

definition io_err :: "'e \<Rightarrow> ('k, 'e, 'a) io" where
  "io_err e k = (Inl e, k)"

definition io_bind :: "('k, 'e, 'a) io \<Rightarrow> ('a \<Rightarrow> ('k, 'e, 'b) io) \<Rightarrow> ('k, 'e, 'b) io" where
  "io_bind m f k = (case m k of (Inl e, k) \<Rightarrow> (Inl e, k) | (Inr x, k) \<Rightarrow> f x k)"

definition io_map_err :: "'e \<Rightarrow> ('k, 'd, 'a) io \<Rightarrow> ('k, 'e, 'a) io" where
  "io_map_err e m k = (case m k of (Inl _, k) \<Rightarrow> (Inl e, k) | (Inr x, k) \<Rightarrow> (Inr x, k))"

text \<open>\<open>if c \<open>{ return Err(e) }\<close>\<close>, and a pure result.\<close>

definition io_reject :: "bool \<Rightarrow> 'e \<Rightarrow> ('k, 'e, unit) io" where
  "io_reject c e = (if c then io_err e else io_ret ())"

definition io_pure :: "'e + 'a \<Rightarrow> ('k, 'e, 'a) io" where
  "io_pure r k = (r, k)"

text \<open>A call whose result is thrown away.\<close>

definition io_ignore :: "('k, 'd, 'b) io \<Rightarrow> ('k, 'e, unit) io" where
  "io_ignore m k = (Inr (), snd (m k))"

section \<open>The system\<close>

datatype io_error = NotFound | OtherIo

datatype file_type = FtDir | FtFile | FtSymlink | FtOther

record metadata =
  md_type :: file_type
  md_mode :: u32
  md_dev :: nat
  md_ino :: nat
  md_nlink :: nat
  md_len :: nat

text \<open>An opened file: its metadata and what the successive reads return, up to the empty one.\<close>

record open_file =
  of_metadata :: "io_error + metadata"
  of_reads :: "(io_error + u8 list) list"

datatype stdin_source = StdinNull | StdinChannel nat

text \<open>\<open>std::process::Command\<close>; standard output and error are null in every command of the crate.\<close>

record command =
  cmd_program :: string
  cmd_args :: "string list"
  cmd_dir :: string
  cmd_env :: "(string, string) btree"
  cmd_stdin :: stdin_source

datatype seal_flag = SEAL_WRITE | SEAL_GROW | SEAL_SHRINK | SEAL_SEAL

datatype exit_status = ExitSuccess | ExitFailure

text \<open>What \<open>recvmsg\<close> returns: the number of bytes, the byte read, whether data or control data was
  truncated, and the descriptors of the \<open>ScmRights\<close> messages.\<close>

record received_message =
  rm_bytes :: nat
  rm_payload :: u8
  rm_truncated :: bool
  rm_rights :: "nat list list"

record 'k host_api =
  h_now :: "'k \<Rightarrow> instant \<times> 'k"
  h_sleep :: "duration \<Rightarrow> 'k \<Rightarrow> 'k"
  h_symlink_metadata :: "string \<Rightarrow> ('k, io_error, metadata) io"
  h_metadata :: "string \<Rightarrow> ('k, io_error, metadata) io"
  h_canonicalize :: "string \<Rightarrow> ('k, io_error, string) io"
  h_create_dir :: "string \<Rightarrow> u32 \<Rightarrow> ('k, io_error, unit) io"
  h_set_permissions :: "string \<Rightarrow> u32 \<Rightarrow> ('k, io_error, unit) io"
  h_remove_dir :: "string \<Rightarrow> ('k, io_error, unit) io"
  h_read_to_string :: "string \<Rightarrow> ('k, io_error, string) io"
  h_write :: "string \<Rightarrow> string \<Rightarrow> ('k, io_error, unit) io"
  h_read_dir :: "string \<Rightarrow> ('k, io_error, (io_error + string) list) io"
  h_open :: "string \<Rightarrow> ('k, io_error, open_file) io"
  h_create_new :: "string \<Rightarrow> u32 \<Rightarrow> ('k, io_error, unit) io"
  h_copy :: "string \<Rightarrow> string \<Rightarrow> ('k, io_error, nat) io"
  h_open_dir :: "string \<Rightarrow> ('k, io_error, nat) io"
  h_openat2 :: "nat \<Rightarrow> component list \<Rightarrow> o_flag list \<Rightarrow> resolve_flag list \<Rightarrow> ('k, io_error, nat) io"
  h_memfd_create :: "string \<Rightarrow> ('k, io_error, nat) io"
  h_fd_write_all :: "nat \<Rightarrow> u8 list \<Rightarrow> ('k, io_error, unit) io"
  h_fd_rewind :: "nat \<Rightarrow> ('k, io_error, unit) io"
  h_add_seals :: "nat \<Rightarrow> seal_flag list \<Rightarrow> ('k, io_error, unit) io"
  h_clear_cloexec :: "nat \<Rightarrow> ('k, io_error, unit) io"
  h_socket_pair :: "('k, io_error, nat \<times> nat) io"
  h_sendmsg :: "nat \<Rightarrow> u8 list \<Rightarrow> nat list \<Rightarrow> ('k, io_error, nat) io"
  h_recvmsg :: "('k, io_error, received_message) io"
  h_open_write :: "string \<Rightarrow> ('k, io_error, nat) io"
  h_process_id :: "'k \<Rightarrow> nat"
  h_spawn :: "command \<Rightarrow> ('k, io_error, nat) io"
  h_try_wait :: "nat \<Rightarrow> ('k, io_error, exit_status option) io"
  h_kill :: "nat \<Rightarrow> ('k, io_error, unit) io"
  h_wait :: "nat \<Rightarrow> ('k, io_error, exit_status) io"

definition md_is_symlink :: "metadata \<Rightarrow> bool" where "md_is_symlink md \<longleftrightarrow> md_type md = FtSymlink"
definition md_is_dir :: "metadata \<Rightarrow> bool" where "md_is_dir md \<longleftrightarrow> md_type md = FtDir"
definition md_is_file :: "metadata \<Rightarrow> bool" where "md_is_file md \<longleftrightarrow> md_type md = FtFile"

text \<open>\<open>Path::is_file\<close> and \<open>Path::is_dir\<close>: follow symbolic links, an error is \<open>false\<close>.\<close>

definition path_is_file :: "'k host_api \<Rightarrow> string \<Rightarrow> ('k, 'e, bool) io" where
  "path_is_file h path k = (case h_metadata h path k of
      (Inl _, k) \<Rightarrow> (Inr False, k) | (Inr md, k) \<Rightarrow> (Inr (md_is_file md), k))"

definition path_is_dir :: "'k host_api \<Rightarrow> string \<Rightarrow> ('k, 'e, bool) io" where
  "path_is_dir h path k = (case h_metadata h path k of
      (Inl _, k) \<Rightarrow> (Inr False, k) | (Inr md, k) \<Rightarrow> (Inr (md_is_dir md), k))"

definition io_now :: "'k host_api \<Rightarrow> ('k, 'e, instant) io" where
  "io_now h k = (case h_now h k of (now, k) \<Rightarrow> (Inr now, k))"

text \<open>A \<open>for\<close> loop that stops at the first error.\<close>

fun io_each :: "('a \<Rightarrow> ('k, 'e, unit) io) \<Rightarrow> 'a list \<Rightarrow> ('k, 'e, unit) io" where
  "io_each f [] = io_ret ()"
| "io_each f (x # xs) = io_bind (f x) (\<lambda>_. io_each f xs)"

fun io_collect :: "('a \<Rightarrow> ('k, 'e, 'b) io) \<Rightarrow> 'a list \<Rightarrow> ('k, 'e, 'b list) io" where
  "io_collect f [] = io_ret []"
| "io_collect f (x # xs) = io_bind (f x) (\<lambda>y. io_bind (io_collect f xs) (\<lambda>ys. io_ret (y # ys)))"

section \<open>Lemmas\<close>

named_theorems io_simps \<open>when a sequence of calls succeeds\<close>

lemma io_bind_Inr [io_simps]:
  "io_bind m f k = (Inr y, k') \<longleftrightarrow> (\<exists>x k1. m k = (Inr x, k1) \<and> f x k1 = (Inr y, k'))"
  by (auto simp: io_bind_def split: prod.splits sum.splits)

lemma io_ret_Inr [io_simps]: "io_ret x k = (Inr y, k') \<longleftrightarrow> y = x \<and> k' = k"
  by (auto simp: io_ret_def)

lemma io_err_Inr [io_simps]: "io_err e k = (Inr y, k') \<longleftrightarrow> False"
  by (simp add: io_err_def)

lemma io_map_err_Inr [io_simps]: "io_map_err e m k = (Inr y, k') \<longleftrightarrow> m k = (Inr y, k')"
  by (auto simp: io_map_err_def split: prod.splits sum.splits)

lemma io_reject_Inr [io_simps]: "io_reject c e k = (Inr u, k') \<longleftrightarrow> \<not> c \<and> k' = k"
  by (auto simp: io_reject_def io_err_def io_ret_def)

lemma io_pure_Inr [io_simps]: "io_pure r k = (Inr y, k') \<longleftrightarrow> r = Inr y \<and> k' = k"
  by (auto simp: io_pure_def)

lemma io_ignore_Inr [io_simps]: "io_ignore m k = (Inr u, k') \<longleftrightarrow> k' = snd (m k)"
  by (auto simp: io_ignore_def)

lemma io_if_Inr [io_simps]: "(if c then m else n) k = (Inr y, k') \<longleftrightarrow> (if c then m k = (Inr y, k') else n k = (Inr y, k'))"
  by simp

lemma io_bind_assoc: "io_bind (io_bind m f) g = io_bind m (\<lambda>x. io_bind (f x) g)"
  by (rule ext) (simp add: io_bind_def split: prod.splits sum.splits)

lemma io_bind_ret [simp]: "io_bind (io_ret x) f = f x"
  by (rule ext) (simp add: io_bind_def io_ret_def)

lemma io_bind_pure: "io_bind (io_pure r) f = (case r of Inl e \<Rightarrow> io_err e | Inr x \<Rightarrow> f x)"
  by (rule ext) (simp add: io_bind_def io_pure_def io_err_def split: sum.splits)

lemma io_bind_err [simp]: "io_bind (io_err e) f = io_err e"
  by (rule ext) (simp add: io_bind_def io_err_def)

lemma io_bind_if: "io_bind (if c then m else n) f = (if c then io_bind m f else io_bind n f)"
  by simp

lemma io_bind_cong: "(\<And>x. f x = g x) \<Longrightarrow> io_bind m f = io_bind m g"
  by presburger

section \<open>Loops\<close>

text \<open>\<open>loop\<close>: a round that answers \<open>Some\<close> leaves the loop. \<open>None\<close> is a loop that never ends.\<close>

partial_function (option) io_loop :: "('k \<Rightarrow> 'a option \<times> 'k) \<Rightarrow> 'k \<Rightarrow> ('a \<times> 'k) option" where
  "io_loop round k = (case round k of (None, k) \<Rightarrow> io_loop round k | (Some r, k) \<Rightarrow> Some (r, k))"

declare io_loop.simps [code]

lemma io_loop_returns:
  assumes "\<And>k k'. round k = (None, k') \<Longrightarrow> m k' < (m k :: nat)"
  shows "\<exists>r k'. io_loop round k = Some (r, k')"
proof (induction "m k" arbitrary: k rule: less_induct)
  case less
  obtain q k1 where q: "round k = (q, k1)" by (cases "round k")
  show ?case
  proof (cases q)
    case None
    with q assms have "m k1 < m k" by blast
    from less [OF this] None q show ?thesis by (subst io_loop.simps) simp
  qed (use q in \<open>subst io_loop.simps, simp\<close>)
qed

lemma io_loop_result:
  assumes "io_loop round k = Some (r, k')"
  shows "\<exists>k1. round k1 = (Some r, k')"
proof -
  have "case y of (r, k') \<Rightarrow> \<exists>k1. round k1 = (Some r, k')" if "io_loop round k = Some y" for y
    using that by (rule io_loop.raw_induct [rotated]) (fastforce split: prod.splits option.splits)
  with assms show ?thesis by fastforce
qed

section \<open>Time\<close>

text \<open>A call that does not turn the clock back, and a system whose clock, as the loops read it, does
  not run backwards: \<open>Instant\<close> is monotonic and \<open>thread::sleep\<close> sleeps for at least its argument.\<close>

definition io_mono :: "('k \<Rightarrow> instant) \<Rightarrow> ('k, 'e, 'a) io \<Rightarrow> bool" where
  "io_mono clock m \<longleftrightarrow> (\<forall>k. clock k \<le> clock (snd (m k)))"

definition monotone_clock :: "'k host_api \<Rightarrow> ('k \<Rightarrow> instant) \<Rightarrow> bool" where
  "monotone_clock h clock \<longleftrightarrow>
     (\<forall>k. clock k \<le> fst (h_now h k) \<and> clock k \<le> clock (snd (h_now h k)))
     \<and> (\<forall>d k. clock k + d \<le> clock (h_sleep h d k))
     \<and> (\<forall>path. io_mono clock (h_symlink_metadata h path)) \<and> (\<forall>path. io_mono clock (h_metadata h path))
     \<and> (\<forall>path. io_mono clock (h_read_to_string h path)) \<and> (\<forall>child. io_mono clock (h_try_wait h child))"

named_theorems mono_intros \<open>calls that do not turn the clock back\<close>

lemma io_mono_bind [mono_intros]:
  assumes "io_mono clock m" and "\<And>x. io_mono clock (f x)" shows "io_mono clock (io_bind m f)"
proof -
  have "clock k \<le> clock (snd (io_bind m f k))" for k
  proof (cases "m k")
    case (Pair r k1)
    then have "clock k \<le> clock k1" using assms(1) by (metis io_mono_def snd_conv)
    moreover have "clock k1 \<le> clock (snd (f x k1))" for x using assms(2) by (simp add: io_mono_def)
    ultimately show ?thesis using Pair order.trans by (fastforce simp: io_bind_def split: sum.splits)
  qed
  then show ?thesis by (simp add: io_mono_def)
qed

lemma io_mono_basic [mono_intros]:
  "io_mono clock (io_ret x)" "io_mono clock (io_err e)" "io_mono clock (io_reject c e)" "io_mono clock (io_pure r)"
  by (simp_all add: io_mono_def io_ret_def io_err_def io_reject_def io_pure_def)

lemma io_mono_map_err [mono_intros]: "io_mono clock m \<Longrightarrow> io_mono clock (io_map_err e m)"
  unfolding io_mono_def io_map_err_def
  by (auto split: prod.splits sum.splits) (metis snd_conv)+

lemma io_mono_each [mono_intros]: "(\<And>x. io_mono clock (f x)) \<Longrightarrow> io_mono clock (io_each f xs)"
  by (induction xs) (auto intro!: mono_intros)

lemma io_mono_is_file [mono_intros]: "monotone_clock h clock \<Longrightarrow> io_mono clock (path_is_file h path)"
  unfolding io_mono_def monotone_clock_def path_is_file_def
  by (auto split: prod.splits sum.splits) (metis snd_conv)+

lemma monotone_clock_mono [mono_intros]:
  assumes "monotone_clock h clock"
  shows "io_mono clock (h_symlink_metadata h path)" "io_mono clock (h_metadata h path)"
    "io_mono clock (h_read_to_string h path)" "io_mono clock (h_try_wait h child)"
  using assms by (simp_all add: monotone_clock_def)

lemma io_monoD: "io_mono clock m \<Longrightarrow> m k = (r, k') \<Longrightarrow> clock k \<le> clock k'"
  unfolding io_mono_def by (metis snd_conv)

lemma monotone_clock_now: "monotone_clock h clock \<Longrightarrow> h_now h k = (now, k') \<Longrightarrow> clock k \<le> now \<and> clock k \<le> clock k'"
  unfolding monotone_clock_def by (metis fst_conv snd_conv)

lemma monotone_clock_sleep: "monotone_clock h clock \<Longrightarrow> clock k + d \<le> clock (h_sleep h d k)"
  by (simp add: monotone_clock_def)

end
