(* ===== verification/Sandbox.thy ===== *)
theory Sandbox
  imports Host Supervisor
begin

text \<open>
  \<open>aios-adapter-process/src/lib.rs\<close>, the part on paths and identities: which executables and
  directories the sandbox accepts, the identity by device and inode that later calls compare
  with, and the scratch directory of a task (\<open>TaskScratchManager\<close>). The platform is Linux.
\<close>

section \<open>Data\<close>

definition DEFAULT_TIMEOUT :: duration where "DEFAULT_TIMEOUT = from_secs 30"
definition MAX_TIMEOUT :: duration where "MAX_TIMEOUT = from_secs (60 * 60)"
definition PROC_MAX_ARGUMENTS :: nat where "PROC_MAX_ARGUMENTS = 64"
definition PROC_MAX_ARGUMENT_BYTES :: nat where "PROC_MAX_ARGUMENT_BYTES = 4096"
definition PROC_MAX_TOTAL_ARGUMENT_BYTES :: nat where "PROC_MAX_TOTAL_ARGUMENT_BYTES = 64 * 1024"
definition MAX_ENVIRONMENT_VARIABLES :: nat where "MAX_ENVIRONMENT_VARIABLES = 64"
definition MAX_ENVIRONMENT_NAME_BYTES :: nat where "MAX_ENVIRONMENT_NAME_BYTES = 128"
definition MAX_ENVIRONMENT_VALUE_BYTES :: nat where "MAX_ENVIRONMENT_VALUE_BYTES = 4096"
definition MAX_TOTAL_ENVIRONMENT_BYTES :: nat where "MAX_TOTAL_ENVIRONMENT_BYTES = 64 * 1024"
definition MAX_SANDBOX_PATH_BYTES :: nat where "MAX_SANDBOX_PATH_BYTES = 4096"
definition WAIT_POLL_INTERVAL :: duration where "WAIT_POLL_INTERVAL = 5 * 1000000"

datatype process_adapter_error =
  PaInvalidConfig | PaInvalidSandbox | PaUnsupportedPlatform | PaInvalidArguments | PaArgumentsDenied
  | PaExecutableChanged | PaSpawnFailed | PaWaitFailed | PaTimedOut | PaExitFailed | PaOutputFailed
  | PaInvalidResourceControl | PaResourceLimitExceeded | PaSeccompUnavailable
  | PaUnsupportedFilesystemCapability | PaDescriptorTransferFailed

definition process_error_message :: "process_adapter_error \<Rightarrow> string" where
  "process_error_message e = (case e of
      PaInvalidConfig \<Rightarrow> ''invalid Process Adapter configuration''
    | PaInvalidSandbox \<Rightarrow> ''invalid Process Adapter sandbox configuration''
    | PaUnsupportedPlatform \<Rightarrow> ''Process Adapter sandbox is unsupported on this platform''
    | PaInvalidArguments \<Rightarrow> ''invalid process arguments''
    | PaArgumentsDenied \<Rightarrow> ''process arguments denied''
    | PaExecutableChanged \<Rightarrow> ''configured executable identity changed''
    | PaSpawnFailed \<Rightarrow> ''process spawn failed''
    | PaWaitFailed \<Rightarrow> ''process wait failed''
    | PaTimedOut \<Rightarrow> ''process timed out''
    | PaExitFailed \<Rightarrow> ''process exited unsuccessfully''
    | PaOutputFailed \<Rightarrow> ''process output construction failed''
    | PaInvalidResourceControl \<Rightarrow> ''invalid Process Adapter resource control''
    | PaResourceLimitExceeded \<Rightarrow> ''process resource limit exceeded''
    | PaSeccompUnavailable \<Rightarrow> ''Process Adapter seccomp boundary unavailable''
    | PaUnsupportedFilesystemCapability \<Rightarrow> ''unsupported filesystem Capability semantics''
    | PaDescriptorTransferFailed \<Rightarrow> ''filesystem Capability descriptor transfer failed'')"

type_synonym ('k, 'a) pa_io = "('k, process_adapter_error, 'a) io"

section \<open>Identities\<close>

record directory_identity =
  di_device :: nat
  di_inode :: nat

definition directory_identity_read :: "'k host_api \<Rightarrow> string \<Rightarrow> ('k, directory_identity) pa_io" where
  "directory_identity_read h path =
     io_bind (io_map_err PaInvalidSandbox (h_metadata h path)) (\<lambda>md.
     io_bind (io_reject (\<not> md_is_dir md) PaInvalidSandbox) (\<lambda>_.
     io_ret \<lparr>di_device = md_dev md, di_inode = md_ino md\<rparr>))"

record executable_identity =
  ei_device :: nat
  ei_inode :: nat

text \<open>73 is \<open>0o111\<close>.\<close>

definition executable_identity_read :: "'k host_api \<Rightarrow> string \<Rightarrow> ('k, executable_identity) pa_io" where
  "executable_identity_read h path =
     io_bind (io_map_err PaExecutableChanged (h_metadata h path)) (\<lambda>md.
     io_bind (io_reject (\<not> md_is_file md \<or> and (md_mode md) 73 = 0) PaExecutableChanged) (\<lambda>_.
     io_ret \<lparr>ei_device = md_dev md, ei_inode = md_ino md\<rparr>))"

section \<open>Executables and directories\<close>

definition canonical_executable :: "'k host_api \<Rightarrow> string \<Rightarrow> ('k, string) pa_io" where
  "canonical_executable h path =
     io_bind (io_reject (\<not> path_is_absolute path) PaInvalidConfig) (\<lambda>_.
     io_bind (io_map_err PaInvalidConfig (h_canonicalize h path)) (\<lambda>canonical.
     io_bind (io_map_err PaInvalidConfig (executable_identity_read h canonical)) (\<lambda>_.
     io_ret canonical)))"

definition canonical_directory :: "'k host_api \<Rightarrow> string \<Rightarrow> ('k, string) pa_io" where
  "canonical_directory h path =
     io_bind (io_reject (\<not> path_is_absolute path) PaInvalidConfig) (\<lambda>_.
     io_bind (io_map_err PaInvalidConfig (h_canonicalize h path)) (\<lambda>canonical.
     io_bind (path_is_dir h canonical) (\<lambda>dir.
     io_bind (io_reject (\<not> dir) PaInvalidConfig) (\<lambda>_.
     io_ret canonical))))"

text \<open>63 is \<open>0o077\<close>, 448 is \<open>0o700\<close>.\<close>

definition validate_owner_only_directory :: "'k host_api \<Rightarrow> string \<Rightarrow> ('k, unit) pa_io" where
  "validate_owner_only_directory h path =
     io_bind (io_map_err PaInvalidSandbox (h_symlink_metadata h path)) (\<lambda>md.
     io_reject (md_is_symlink md \<or> \<not> md_is_dir md \<or> and (md_mode md) 63 \<noteq> 0) PaInvalidSandbox)"

definition canonical_task_scratch_root :: "'k host_api \<Rightarrow> string \<Rightarrow> ('k, string) pa_io" where
  "canonical_task_scratch_root h path =
     io_bind (io_reject (\<not> path_is_absolute path \<or> MAX_SANDBOX_PATH_BYTES < length path) PaInvalidSandbox) (\<lambda>_.
     io_bind (io_map_err PaInvalidSandbox (h_symlink_metadata h path)) (\<lambda>md.
     io_bind (io_reject (md_is_symlink md \<or> \<not> md_is_dir md) PaInvalidSandbox) (\<lambda>_.
     io_bind (validate_owner_only_directory h path) (\<lambda>_.
     io_bind (io_map_err PaInvalidSandbox (h_canonicalize h path)) (\<lambda>canonical.
     io_bind (io_reject (path_eq canonical ''/'') PaInvalidSandbox) (\<lambda>_.
     io_ret canonical))))))"

definition create_owner_only_directory :: "'k host_api \<Rightarrow> string \<Rightarrow> ('k, unit) pa_io" where
  "create_owner_only_directory h path =
     io_bind (io_map_err PaInvalidSandbox (h_create_dir h path 448)) (\<lambda>_ k.
       (case h_set_permissions h path 448 k of
          (Inl _, k) \<Rightarrow> (Inl PaInvalidSandbox, snd (h_remove_dir h path k))
        | (Inr _, k) \<Rightarrow> (Inr (), k)))"

definition canonical_task_scratch_directory :: "'k host_api \<Rightarrow> string \<Rightarrow> string \<Rightarrow> ('k, string) pa_io" where
  "canonical_task_scratch_directory h path root_directory =
     io_bind (validate_owner_only_directory h path) (\<lambda>_.
     io_bind (io_map_err PaInvalidSandbox (h_canonicalize h path)) (\<lambda>canonical.
     io_bind (io_reject (path_parent canonical \<noteq> Some (path_components root_directory)) PaInvalidSandbox) (\<lambda>_.
     io_ret canonical)))"

definition validate_task_scratch_identity :: "'k host_api \<Rightarrow> string \<Rightarrow> directory_identity \<Rightarrow> ('k, unit) pa_io" where
  "validate_task_scratch_identity h path expected =
     io_bind (validate_owner_only_directory h path) (\<lambda>_.
     io_bind (directory_identity_read h path) (\<lambda>identity.
     io_reject (identity \<noteq> expected) PaInvalidSandbox))"

definition canonical_sandbox_root :: "'k host_api \<Rightarrow> string \<Rightarrow> ('k, string) pa_io" where
  "canonical_sandbox_root h path =
     io_bind (io_map_err PaInvalidSandbox (canonical_directory h path)) (\<lambda>canonical.
     io_bind (io_reject (path_eq canonical ''/'') PaInvalidSandbox) (\<lambda>_.
     io_ret canonical))"

definition canonical_scratch_directory :: "'k host_api \<Rightarrow> string \<Rightarrow> string \<Rightarrow> ('k, string) pa_io" where
  "canonical_scratch_directory h path root_filesystem =
     io_bind (io_map_err PaInvalidSandbox (canonical_directory h path)) (\<lambda>canonical.
     io_bind (io_reject (path_eq canonical ''/'' \<or> path_starts_with canonical root_filesystem
         \<or> path_starts_with root_filesystem canonical) PaInvalidSandbox) (\<lambda>_.
     io_ret canonical))"

definition validate_sandbox_absolute_path :: "string \<Rightarrow> process_adapter_error + unit" where
  "validate_sandbox_absolute_path path =
     (if \<not> path_is_absolute path \<or> MAX_SANDBOX_PATH_BYTES < length path \<or> CHR 0x00 \<in> set path
      then Inl PaInvalidSandbox
      else
        (case path_components path of
           RootDir # cs \<Rightarrow> if list_all component_normal cs then Inr () else Inl PaInvalidSandbox
         | _ \<Rightarrow> Inl PaInvalidSandbox))"

text \<open>The relative path of what \<open>strip_prefix\<close> leaves; repeated separators inside it, which do not
  change what it names, are not kept.\<close>

fun relative_path :: "component list \<Rightarrow> string" where
  "relative_path [] = []"
| "relative_path [Normal c] = c"
| "relative_path (Normal c # cs) = c @ ''/'' @ relative_path cs"
| "relative_path (ParentDir # cs) = ''../'' @ relative_path cs"
| "relative_path (_ # cs) = relative_path cs"

definition canonical_sandbox_executable ::
  "'k host_api \<Rightarrow> string \<Rightarrow> string \<Rightarrow> ('k, string \<times> executable_identity \<times> string) pa_io" where
  "canonical_sandbox_executable h root_filesystem sandbox_executable =
     io_bind (io_pure (validate_sandbox_absolute_path sandbox_executable)) (\<lambda>_.
     io_bind (io_pure (ok_or PaInvalidSandbox (path_strip_prefix sandbox_executable ''/''))) (\<lambda>relative.
     io_bind (io_map_err PaInvalidSandbox (h_canonicalize h (path_join root_filesystem (relative_path relative)))) (\<lambda>executable.
     io_bind (io_reject (\<not> path_starts_with executable root_filesystem) PaInvalidSandbox) (\<lambda>_.
     io_bind (io_map_err PaInvalidSandbox (executable_identity_read h executable)) (\<lambda>identity.
     io_bind (io_pure (ok_or PaInvalidSandbox (path_strip_prefix executable root_filesystem))) (\<lambda>resolved_relative.
     io_ret (executable, identity, path_join ''/'' (relative_path resolved_relative))))))))"

definition validate_sandbox_mount_points :: "'k host_api \<Rightarrow> string \<Rightarrow> ('k, unit) pa_io" where
  "validate_sandbox_mount_points h root_filesystem =
     io_each (\<lambda>relative.
       io_bind (io_map_err PaInvalidSandbox (h_symlink_metadata h (path_join root_filesystem relative))) (\<lambda>md.
       io_reject (\<not> md_is_dir md) PaInvalidSandbox)) [''proc'', ''dev'', ''tmp'', ''workspace'']"

section \<open>The scratch directory of a task\<close>

record task_scratch_manager =
  sm_root_directory :: string
  sm_root_identity :: directory_identity

record task_scratch =
  tsc_task_id :: task_id
  tsc_directory :: string
  tsc_directory_identity :: directory_identity

definition validate_scratch_root :: "'k host_api \<Rightarrow> task_scratch_manager \<Rightarrow> ('k, unit) pa_io" where
  "validate_scratch_root h m =
     io_bind (validate_owner_only_directory h (sm_root_directory m)) (\<lambda>_.
     io_bind (directory_identity_read h (sm_root_directory m)) (\<lambda>identity.
     io_reject (identity \<noteq> sm_root_identity m) PaInvalidSandbox))"

definition scratch_manager_new :: "'k host_api \<Rightarrow> string \<Rightarrow> ('k, task_scratch_manager) pa_io" where
  "scratch_manager_new h root_directory =
     io_bind (canonical_task_scratch_root h root_directory) (\<lambda>root_directory.
     io_bind (directory_identity_read h root_directory) (\<lambda>root_identity.
     io_ret \<lparr>sm_root_directory = root_directory, sm_root_identity = root_identity\<rparr>))"

text \<open>\<open>uuid\<close> is \<open>TaskId::to_string\<close>. A directory that fails validation after it was created is
  removed again.\<close>

definition scratch_create ::
  "'k host_api \<Rightarrow> (task_id \<Rightarrow> string) \<Rightarrow> task_scratch_manager \<Rightarrow> task_id \<Rightarrow> ('k, task_scratch) pa_io" where
  "scratch_create h uuid m task_id =
     io_bind (validate_scratch_root h m) (\<lambda>_.
     let directory = path_join (sm_root_directory m) (uuid task_id) in
     io_bind (io_reject (MAX_SANDBOX_PATH_BYTES < length directory) PaInvalidSandbox) (\<lambda>_.
     io_bind (create_owner_only_directory h directory) (\<lambda>_ k.
       (case (io_bind (validate_scratch_root h m) (\<lambda>_.
              io_bind (canonical_task_scratch_directory h directory (sm_root_directory m)) (\<lambda>directory.
              io_bind (directory_identity_read h directory) (\<lambda>directory_identity.
              io_ret (directory, directory_identity))))) k of
          (Inr (directory, directory_identity), k) \<Rightarrow>
            (Inr \<lparr>tsc_task_id = task_id, tsc_directory = directory, tsc_directory_identity = directory_identity\<rparr>, k)
        | (Inl e, k) \<Rightarrow> (Inl e, snd (h_remove_dir h directory k))))))"

end
