(* ===== verification/Sim_Host.thy ===== *)
theory Sim_Host
  imports Host
begin

text \<open>
  A simulated operating system, on which the definitions of the sandbox run in examples: files and
  directories by their components, a clock that advances at every reading, and a child process that
  ends after a number of polls.
\<close>

record sim_node =
  sn_metadata :: metadata
  sn_content :: string
  sn_names :: "string list"

record sim_host =
  sh_clock :: instant
  sh_nodes :: "(component list \<times> sim_node) list"
  sh_spawned :: "command list"
  sh_polls :: nat
  sh_sent :: "nat list list"

definition sim_node_at :: "string \<Rightarrow> sim_host \<Rightarrow> sim_node option" where
  "sim_node_at path k = map_of (sh_nodes k) (path_components path)"

definition sim_get :: "(sim_node \<Rightarrow> 'a) \<Rightarrow> string \<Rightarrow> (sim_host, io_error, 'a) io" where
  "sim_get f path k = (case sim_node_at path k of None \<Rightarrow> (Inl NotFound, k) | Some node \<Rightarrow> (Inr (f node), k))"

definition sim_put :: "string \<Rightarrow> sim_node \<Rightarrow> sim_host \<Rightarrow> sim_host" where
  "sim_put path node k = k\<lparr>sh_nodes := (path_components path, node) # sh_nodes k\<rparr>"

definition sim_set :: "(sim_node \<Rightarrow> sim_node) \<Rightarrow> string \<Rightarrow> (sim_host, io_error, unit) io" where
  "sim_set f path k = (case sim_node_at path k of None \<Rightarrow> (Inl NotFound, k) | Some node \<Rightarrow> (Inr (), sim_put path (f node) k))"

definition sim_ok :: "(sim_host, io_error, unit) io" where
  "sim_ok k = (Inr (), k)"

definition sim_host_api :: "sim_host host_api" where
  "sim_host_api = \<lparr>
     h_now = (\<lambda>k. (sh_clock k, k\<lparr>sh_clock := Suc (sh_clock k)\<rparr>)),
     h_sleep = (\<lambda>d k. k\<lparr>sh_clock := sh_clock k + d\<rparr>),
     h_symlink_metadata = sim_get sn_metadata,
     h_metadata = sim_get sn_metadata,
     h_canonicalize = (\<lambda>path. if path_is_absolute path then sim_get (\<lambda>_. path) path else (\<lambda>k. (Inl OtherIo, k))),
     h_create_dir = (\<lambda>path mode k. if sim_node_at path k \<noteq> None then (Inl OtherIo, k)
       else (Inr (), sim_put path \<lparr>sn_metadata = \<lparr>md_type = FtDir, md_mode = mode, md_dev = 1,
         md_ino = length (sh_nodes k), md_nlink = 1, md_len = 0\<rparr>, sn_content = [], sn_names = []\<rparr> k)),
     h_set_permissions = (\<lambda>path mode. sim_set (\<lambda>n. n\<lparr>sn_metadata := (sn_metadata n)\<lparr>md_mode := mode\<rparr>\<rparr>) path),
     h_remove_dir = (\<lambda>path k. (Inr (), k\<lparr>sh_nodes := filter (\<lambda>(cs, _). cs \<noteq> path_components path) (sh_nodes k)\<rparr>)),
     h_read_to_string = sim_get sn_content,
     h_write = (\<lambda>path content. sim_set (\<lambda>n. n\<lparr>sn_content := content\<rparr>) path),
     h_read_dir = sim_get (\<lambda>n. map Inr (sn_names n)),
     h_open = sim_get (\<lambda>n. \<lparr>of_metadata = Inr (sn_metadata n), of_reads = [Inr (map of_char (sn_content n))]\<rparr>),
     h_create_new = (\<lambda>path mode k. (Inl OtherIo, k)),
     h_copy = (\<lambda>source destination k. (Inl OtherIo, k)),
     h_open_dir = sim_get (\<lambda>_. 20),
     h_openat2 = (\<lambda>d cs flags resolve k. (Inr (21 + length cs), k)),
     h_memfd_create = (\<lambda>name k. (Inr 7, k)),
     h_fd_write_all = (\<lambda>fd bytes. sim_ok),
     h_fd_rewind = (\<lambda>fd. sim_ok),
     h_add_seals = (\<lambda>fd seals. sim_ok),
     h_clear_cloexec = (\<lambda>fd. sim_ok),
     h_socket_pair = (\<lambda>k. (Inr (8, 9), k)),
     h_sendmsg = (\<lambda>fd bytes fds k. (Inr (length bytes), k\<lparr>sh_sent := sh_sent k @ [fds]\<rparr>)),
     h_recvmsg = (\<lambda>k. case sh_sent k of [] \<Rightarrow> (Inl OtherIo, k)
       | fds # sent \<Rightarrow> (Inr \<lparr>rm_bytes = 1, rm_payload = 1, rm_truncated = False, rm_rights = [fds]\<rparr>, k\<lparr>sh_sent := sent\<rparr>)),
     h_open_write = sim_get (\<lambda>_. 5),
     h_process_id = (\<lambda>k. 42),
     h_spawn = (\<lambda>cmd k. (Inr 1, k\<lparr>sh_spawned := sh_spawned k @ [cmd]\<rparr>)),
     h_try_wait = (\<lambda>child k. if sh_polls k = 0 then (Inr (Some ExitSuccess), k) else (Inr None, k\<lparr>sh_polls := sh_polls k - 1\<rparr>)),
     h_kill = (\<lambda>child. sim_ok),
     h_wait = (\<lambda>child k. (Inr ExitFailure, k))\<rparr>"

abbreviation sim_dir :: "nat \<Rightarrow> u32 \<Rightarrow> string list \<Rightarrow> sim_node" where
  "sim_dir ino mode names \<equiv> \<lparr>sn_metadata = \<lparr>md_type = FtDir, md_mode = mode, md_dev = 1, md_ino = ino, md_nlink = 1, md_len = 0\<rparr>,
     sn_content = [], sn_names = names\<rparr>"

abbreviation sim_file :: "nat \<Rightarrow> u32 \<Rightarrow> string \<Rightarrow> sim_node" where
  "sim_file ino mode content \<equiv> \<lparr>sn_metadata = \<lparr>md_type = FtFile, md_mode = mode, md_dev = 1, md_ino = ino, md_nlink = 1,
     md_len = length content\<rparr>, sn_content = content, sn_names = []\<rparr>"

lemma sim_clock: "monotone_clock sim_host_api sh_clock"
  by (simp add: monotone_clock_def sim_host_api_def io_mono_def sim_get_def split: option.split)

end
