(* ===== verification/Rootfs.thy ===== *)
theory Rootfs
  imports Sandbox Sim_Host
begin

text \<open>
  \<open>aios-adapter-process/src/rootfs.rs\<close>: a read-only root file system identified by a digest over
  its whole tree. \<open>sha\<close>, the hash of the \<open>sha2\<close> crate, is an argument; \<open>hasher.update\<close> appends
  to the bytes it is applied to.
\<close>

section \<open>The digest and its text form\<close>

definition MAX_ROOT_FILESYSTEM_ENTRIES :: nat where "MAX_ROOT_FILESYSTEM_ENTRIES = 4096"
definition MAX_ROOT_FILESYSTEM_FILE_BYTES :: nat where "MAX_ROOT_FILESYSTEM_FILE_BYTES = 256 * 1024 * 1024"
definition MAX_ROOT_FILESYSTEM_TOTAL_BYTES :: nat where "MAX_ROOT_FILESYSTEM_TOTAL_BYTES = 512 * 1024 * 1024"
definition DIGEST_BYTES :: nat where "DIGEST_BYTES = 32"
definition DIGEST_HEX_BYTES :: nat where "DIGEST_HEX_BYTES = DIGEST_BYTES * 2"

definition DIGEST_DOMAIN :: "u8 list" where
  "DIGEST_DOMAIN = map of_char ''AIOS_ROOTFS_TREE_SHA256_V1'' @ [0]"

datatype root_filesystem_digest = RootFilesystemDigest "u8 list"

text \<open>\<open>{byte:02x}\<close>.\<close>

definition hex_digit :: "nat \<Rightarrow> char" where
  "hex_digit n = (if n < 10 then char_of (48 + n) else char_of (87 + n))"

fun hex_bytes :: "u8 list \<Rightarrow> string" where
  "hex_bytes [] = []"
| "hex_bytes (b # bs) = hex_digit (unat b div 16) # hex_digit (unat b mod 16) # hex_bytes bs"

definition digest_display :: "root_filesystem_digest \<Rightarrow> string" where
  "digest_display d = (case d of RootFilesystemDigest bytes \<Rightarrow> hex_bytes bytes)"

definition decode_hex :: "char \<Rightarrow> process_adapter_error + u8" where
  "decode_hex c =
     (if 48 \<le> byte_of c \<and> byte_of c \<le> 57 then Inr (of_nat (byte_of c - 48))
      else if 97 \<le> byte_of c \<and> byte_of c \<le> 102 then Inr (of_nat (byte_of c - 97 + 10))
      else Inl PaInvalidSandbox)"

fun decode_pairs :: "string \<Rightarrow> process_adapter_error + u8 list" where
  "decode_pairs (a # b # cs) =
     (case decode_hex a of Inl e \<Rightarrow> Inl e | Inr high \<Rightarrow>
      case decode_hex b of Inl e \<Rightarrow> Inl e | Inr low \<Rightarrow>
      case decode_pairs cs of Inl e \<Rightarrow> Inl e | Inr bytes \<Rightarrow> Inr ((high * 16 + low) # bytes))"
| "decode_pairs _ = Inr []"

definition digest_from_str :: "string \<Rightarrow> process_adapter_error + root_filesystem_digest" where
  "digest_from_str value =
     (if length value \<noteq> DIGEST_HEX_BYTES then Inl PaInvalidSandbox
      else map_result RootFilesystemDigest (decode_pairs value))"

section \<open>Measuring a tree\<close>

text \<open>146 is \<open>0o222\<close>, 511 is \<open>0o777\<close>.\<close>

definition validate_read_only_directory :: "'k host_api \<Rightarrow> string \<Rightarrow> ('k, unit) pa_io" where
  "validate_read_only_directory h path =
     io_bind (io_map_err PaInvalidSandbox (h_symlink_metadata h path)) (\<lambda>md.
     io_reject (md_is_symlink md \<or> \<not> md_is_dir md \<or> and (md_mode md) 146 \<noteq> 0) PaInvalidSandbox)"

definition canonical_read_only_root :: "'k host_api \<Rightarrow> string \<Rightarrow> ('k, string) pa_io" where
  "canonical_read_only_root h path =
     io_bind (io_reject (\<not> path_is_absolute path \<or> MAX_SANDBOX_PATH_BYTES < length path) PaInvalidSandbox) (\<lambda>_.
     io_bind (io_map_err PaInvalidSandbox (h_symlink_metadata h path)) (\<lambda>md.
     io_bind (io_reject (md_is_symlink md \<or> \<not> md_is_dir md) PaInvalidSandbox) (\<lambda>_.
     io_bind (validate_read_only_directory h path) (\<lambda>_.
     io_bind (io_map_err PaInvalidSandbox (h_canonicalize h path)) (\<lambda>canonical.
     io_bind (io_reject (path_eq canonical ''/'') PaInvalidSandbox) (\<lambda>_.
     io_ret canonical))))))"

text \<open>The inner loop of \<open>collect_relative_paths\<close>, over the entries of one directory.\<close>

fun collect_entries ::
  "'k host_api \<Rightarrow> string \<Rightarrow> string \<Rightarrow> (io_error + string) list \<Rightarrow> string list \<Rightarrow> string list
   \<Rightarrow> ('k, string list \<times> string list) pa_io" where
  "collect_entries h directory relative_directory [] paths directories = io_ret (paths, directories)"
| "collect_entries h directory relative_directory (Inl _ # entries) paths directories = io_err PaInvalidSandbox"
| "collect_entries h directory relative_directory (Inr name # entries) paths directories =
     (let relative = path_join relative_directory name in
      io_bind (io_reject (MAX_SANDBOX_PATH_BYTES < length relative) PaInvalidSandbox) (\<lambda>_.
      io_bind (io_map_err PaInvalidSandbox (h_symlink_metadata h (path_join directory name))) (\<lambda>md.
      io_bind (io_reject (md_is_symlink md \<or> \<not> md_is_dir md \<and> \<not> md_is_file md) PaInvalidSandbox) (\<lambda>_.
      io_bind (io_reject (MAX_ROOT_FILESYSTEM_ENTRIES < Suc (length paths)) PaInvalidSandbox) (\<lambda>_.
      collect_entries h directory relative_directory entries (paths @ [relative])
        (if md_is_dir md then directories @ [relative] else directories))))))"

lemma collect_entries_length:
  "collect_entries h directory rd entries paths dirs k = (Inr (paths', dirs'), k')
   \<Longrightarrow> length paths' = length paths + length entries
     \<and> (entries = [] \<longrightarrow> dirs' = dirs)
     \<and> (entries \<noteq> [] \<longrightarrow> length paths' \<le> MAX_ROOT_FILESYSTEM_ENTRIES)"
proof (induction h directory rd entries paths dirs arbitrary: k rule: collect_entries.induct)
  case (3 h directory rd name entries paths dirs)
  from 3(2) obtain md k1 where
    c: "collect_entries h directory rd entries (paths @ [path_join rd name])
          (if md_is_dir md then dirs @ [path_join rd name] else dirs) k1 = (Inr (paths', dirs'), k')"
    and le: "\<not> MAX_ROOT_FILESYSTEM_ENTRIES < Suc (length paths)"
    by (auto simp: Let_def io_simps)
  from 3(1) [OF refl c] le show ?case by (cases entries) auto
qed (auto simp: io_simps)

function collect_loop ::
  "'k host_api \<Rightarrow> string \<Rightarrow> string list \<Rightarrow> string list \<Rightarrow> ('k, string list) pa_io" where
  "collect_loop h root directories paths k =
     (if directories = [] then (Inr paths, k)
      else
        let relative_directory = last directories; directory = path_join root relative_directory in
        (case h_read_dir h directory k of
           (Inl _, k) \<Rightarrow> (Inl PaInvalidSandbox, k)
         | (Inr entries, k) \<Rightarrow>
             (case collect_entries h directory relative_directory entries paths (butlast directories) k of
                (Inl e, k) \<Rightarrow> (Inl e, k)
              | (Inr (paths, directories), k) \<Rightarrow> collect_loop h root directories paths k)))"
  by pat_completeness auto

termination
proof (relation "measures [\<lambda>(h, root, dirs, paths, k). Suc MAX_ROOT_FILESYSTEM_ENTRIES - length paths,
    \<lambda>(h, root, dirs, paths, k). length dirs]")
  fix h :: "'k host_api" and root dirs paths k rd directory r k1 entries r2 k2 pd paths' dirs'
  assume d: "dirs \<noteq> []"
    and c: "(r2, k2) = collect_entries h directory rd entries paths (butlast dirs) k1" "r2 = Inr pd" "(paths', dirs') = pd"
  show "((h, root, dirs', paths', k2), (h, root, dirs, paths, k))
      \<in> measures [\<lambda>(h, root, dirs, paths, k). Suc MAX_ROOT_FILESYSTEM_ENTRIES - length paths, \<lambda>(h, root, dirs, paths, k). length dirs]"
    using collect_entries_length [of h directory rd entries paths "butlast dirs" k1 paths' dirs' k2] c d
    by (cases entries) auto
qed simp

declare collect_loop.simps [simp del]

definition collect_relative_paths :: "'k host_api \<Rightarrow> string \<Rightarrow> ('k, string list) pa_io" where
  "collect_relative_paths h root = collect_loop h root [[]] []"

text \<open>\<open>to_be_bytes\<close> of a number that fits \<open>n\<close> bytes.\<close>

fun be_bytes :: "nat \<Rightarrow> nat \<Rightarrow> u8 list" where
  "be_bytes 0 v = []"
| "be_bytes (Suc n) v = be_bytes n (v div 256) @ [of_nat (v mod 256)]"

text \<open>The read loop: \<open>expected\<close> is the length in the metadata, \<open>seen\<close> what was read so far.\<close>

fun read_contents :: "nat \<Rightarrow> u8 list \<Rightarrow> (io_error + u8 list) list \<Rightarrow> process_adapter_error + u8 list" where
  "read_contents expected seen [] = (if length seen \<noteq> expected then Inl PaInvalidSandbox else Inr seen)"
| "read_contents expected seen (Inl _ # reads) = Inl PaInvalidSandbox"
| "read_contents expected seen (Inr data # reads) =
     (if data = [] then (if length seen \<noteq> expected then Inl PaInvalidSandbox else Inr seen)
      else if 2 ^ 64 \<le> length seen + length data then Inl PaInvalidSandbox
      else if expected < length seen + length data then Inl PaInvalidSandbox
      else read_contents expected (seen @ data) reads)"

text \<open>The body of the loop of \<open>measure_tree\<close>: the running total and what the hasher is fed.\<close>

definition measure_entry :: "'k host_api \<Rightarrow> string \<Rightarrow> string \<Rightarrow> nat \<Rightarrow> ('k, nat \<times> u8 list) pa_io" where
  "measure_entry h root relative total_bytes =
     (let path = path_join root relative in
      io_bind (io_map_err PaInvalidSandbox (h_symlink_metadata h path)) (\<lambda>md.
      io_bind (io_reject (2 ^ 32 \<le> length relative) PaInvalidSandbox) (\<lambda>_.
      let header = be_bytes 4 (length relative) @ map of_char relative @ be_bytes 4 (unat (and (md_mode md) 511)) in
      if md_is_dir md then
        io_bind (io_reject (and (md_mode md) 146 \<noteq> 0) PaInvalidSandbox) (\<lambda>_.
        io_ret (total_bytes, header @ [of_char (CHR ''D'')]))
      else
        io_bind (io_reject (\<not> md_is_file md \<or> md_nlink md \<noteq> 1 \<or> and (md_mode md) 146 \<noteq> 0
            \<or> MAX_ROOT_FILESYSTEM_FILE_BYTES < md_len md) PaInvalidSandbox) (\<lambda>_.
        io_bind (io_reject (2 ^ 64 \<le> total_bytes + md_len md \<or> MAX_ROOT_FILESYSTEM_TOTAL_BYTES < total_bytes + md_len md)
            PaInvalidSandbox) (\<lambda>_.
        io_bind (io_map_err PaInvalidSandbox (h_open h path)) (\<lambda>file.
        io_bind (io_map_err PaInvalidSandbox (io_pure (of_metadata file))) (\<lambda>opened.
        io_bind (io_reject (md_dev opened \<noteq> md_dev md \<or> md_ino opened \<noteq> md_ino md \<or> md_len opened \<noteq> md_len md
            \<or> md_nlink opened \<noteq> 1 \<or> and (md_mode opened) 146 \<noteq> 0) PaInvalidSandbox) (\<lambda>_.
        io_bind (io_pure (read_contents (md_len md) [] (of_reads file))) (\<lambda>contents.
        io_ret (total_bytes + md_len md, header @ [of_char (CHR ''F'')] @ be_bytes 8 (md_len md) @ contents))))))))))"

fun measure_entries :: "'k host_api \<Rightarrow> string \<Rightarrow> string list \<Rightarrow> nat \<Rightarrow> u8 list \<Rightarrow> ('k, u8 list) pa_io" where
  "measure_entries h root [] total_bytes hashed = io_ret hashed"
| "measure_entries h root (relative # relatives) total_bytes hashed =
     io_bind (measure_entry h root relative total_bytes) (\<lambda>(total_bytes, bytes).
     measure_entries h root relatives total_bytes (hashed @ bytes))"

definition measure_tree :: "'k host_api \<Rightarrow> (u8 list \<Rightarrow> u8 list) \<Rightarrow> string \<Rightarrow> ('k, root_filesystem_digest) pa_io" where
  "measure_tree h sha root =
     io_bind (collect_relative_paths h root) (\<lambda>relative_paths.
     io_bind (io_map_err PaInvalidSandbox (h_symlink_metadata h root)) (\<lambda>md.
     io_bind (io_reject (md_is_symlink md \<or> \<not> md_is_dir md \<or> and (md_mode md) 146 \<noteq> 0) PaInvalidSandbox) (\<lambda>_.
     io_bind (measure_entries h root (sort relative_paths) 0
        (DIGEST_DOMAIN @ [of_char (CHR ''R'')] @ be_bytes 4 (unat (and (md_mode md) 511)))) (\<lambda>hashed.
     io_ret (RootFilesystemDigest (sha hashed))))))"

definition digest_measure :: "'k host_api \<Rightarrow> (u8 list \<Rightarrow> u8 list) \<Rightarrow> string \<Rightarrow> ('k, root_filesystem_digest) pa_io" where
  "digest_measure h sha directory =
     io_bind (canonical_read_only_root h directory) (\<lambda>directory. measure_tree h sha directory)"

section \<open>Verified root file systems\<close>

record verified_root_filesystem =
  vr_directory :: string
  vr_digest :: root_filesystem_digest
  vr_identity :: directory_identity

record verified_root_filesystem_state =
  vs_digest :: root_filesystem_digest
  vs_identity :: directory_identity

definition validate_tree ::
  "'k host_api \<Rightarrow> (u8 list \<Rightarrow> u8 list) \<Rightarrow> string \<Rightarrow> directory_identity \<Rightarrow> root_filesystem_digest \<Rightarrow> ('k, unit) pa_io" where
  "validate_tree h sha directory identity expected_digest =
     io_bind (validate_read_only_directory h directory) (\<lambda>_.
     io_bind (directory_identity_read h directory) (\<lambda>current.
     if current \<noteq> identity then io_err PaInvalidSandbox
     else
       io_bind (measure_tree h sha directory) (\<lambda>digest.
       io_reject (digest \<noteq> expected_digest) PaInvalidSandbox)))"

definition verified_open ::
  "'k host_api \<Rightarrow> (u8 list \<Rightarrow> u8 list) \<Rightarrow> string \<Rightarrow> root_filesystem_digest \<Rightarrow> ('k, verified_root_filesystem) pa_io" where
  "verified_open h sha directory expected_digest =
     io_bind (canonical_read_only_root h directory) (\<lambda>directory.
     io_bind (validate_sandbox_mount_points h directory) (\<lambda>_.
     io_bind (directory_identity_read h directory) (\<lambda>identity.
     io_bind (validate_tree h sha directory identity expected_digest) (\<lambda>_.
     io_ret \<lparr>vr_directory = directory, vr_digest = expected_digest, vr_identity = identity\<rparr>))))"

definition verified_state :: "verified_root_filesystem \<Rightarrow> verified_root_filesystem_state" where
  "verified_state v = \<lparr>vs_digest = vr_digest v, vs_identity = vr_identity v\<rparr>"

definition validate_verified_root_filesystem ::
  "'k host_api \<Rightarrow> (u8 list \<Rightarrow> u8 list) \<Rightarrow> string \<Rightarrow> verified_root_filesystem_state \<Rightarrow> ('k, unit) pa_io" where
  "validate_verified_root_filesystem h sha directory state =
     validate_tree h sha directory (vs_identity state) (vs_digest state)"

section \<open>The minimal root file system\<close>

text \<open>\<open>build_minimal_root_filesystem\<close>; 365 is \<open>0o555\<close>, 320 is \<open>0o500\<close>, 73 is \<open>0o111\<close>.\<close>

definition build_minimal_root_filesystem ::
  "'k host_api \<Rightarrow> (u8 list \<Rightarrow> u8 list) \<Rightarrow> string \<Rightarrow> string \<Rightarrow> ('k, root_filesystem_digest) pa_io" where
  "build_minimal_root_filesystem h sha busybox output =
     (let directories = [''bin'', ''proc'', ''dev'', ''tmp'', ''workspace''];
          destination = path_join output ''bin/busybox'' in
      io_bind (io_reject (\<not> path_is_absolute busybox \<or> path_eq output ''/'') PaInvalidSandbox) (\<lambda>_.
      io_bind (io_pure (validate_sandbox_absolute_path output)) (\<lambda>_.
      io_bind (io_map_err PaInvalidSandbox (h_symlink_metadata h busybox)) (\<lambda>source_link.
      io_bind (io_reject (md_is_symlink source_link \<or> \<not> md_is_file source_link) PaInvalidSandbox) (\<lambda>_.
      io_bind (io_map_err PaInvalidSandbox (h_canonicalize h busybox)) (\<lambda>source.
      io_bind (io_map_err PaInvalidSandbox (h_metadata h source)) (\<lambda>source_md.
      io_bind (io_reject (\<not> md_is_file source_md \<or> and (md_mode source_md) 73 = 0
          \<or> MAX_ROOT_FILESYSTEM_FILE_BYTES < md_len source_md) PaInvalidSandbox) (\<lambda>_.
      io_bind (io_map_err PaInvalidSandbox (h_create_dir h output 448)) (\<lambda>_.
      io_bind (io_each (\<lambda>relative. io_map_err PaInvalidSandbox (h_create_dir h (path_join output relative) 448)) directories) (\<lambda>_.
      io_bind (io_map_err PaInvalidSandbox (h_open h source)) (\<lambda>source_file.
      io_bind (io_map_err PaInvalidSandbox (io_pure (of_metadata source_file))) (\<lambda>opened_source.
      io_bind (io_reject (md_dev opened_source \<noteq> md_dev source_md \<or> md_ino opened_source \<noteq> md_ino source_md
          \<or> md_len opened_source \<noteq> md_len source_md) PaInvalidSandbox) (\<lambda>_.
      io_bind (io_map_err PaInvalidSandbox (h_create_new h destination 320)) (\<lambda>_.
      io_bind (io_map_err PaInvalidSandbox (h_copy h source destination)) (\<lambda>copied.
      io_bind (io_reject (copied \<noteq> md_len source_md) PaInvalidSandbox) (\<lambda>_.
      io_bind (io_map_err PaInvalidSandbox (h_set_permissions h destination 365)) (\<lambda>_.
      io_bind (io_each (\<lambda>relative. io_map_err PaInvalidSandbox (h_set_permissions h (path_join output relative) 365)) directories) (\<lambda>_.
      io_bind (io_map_err PaInvalidSandbox (h_set_permissions h output 365)) (\<lambda>_.
      io_bind (digest_measure h sha output) (\<lambda>digest.
      io_bind (verified_open h sha output digest) (\<lambda>_.
      io_ret digest)))))))))))))))))))))"

section \<open>The text form round trip\<close>

lemma decode_hex_digit: "n < 16 \<Longrightarrow> decode_hex (hex_digit n) = Inr (of_nat n)"
  by (auto simp: decode_hex_def hex_digit_def byte_of_def)

lemma decode_hex_Inr:
  assumes "decode_hex c = Inr b" shows "unat b < 16" "hex_digit (unat b) = c"
proof -
  obtain n where b: "b = of_nat n" and n: "byte_of c = (if n < 10 then 48 else 87) + n" "n < 16"
  proof (cases "byte_of c \<le> 57")
    case True
    then have "48 \<le> byte_of c" "b = of_nat (byte_of c - 48)" using assms by (auto simp: decode_hex_def split: if_splits)
    with True that [of "byte_of c - 48"] show thesis by simp
  next
    case False
    then have "97 \<le> byte_of c" "byte_of c \<le> 102" "b = of_nat (byte_of c - 97 + 10)"
      using assms by (auto simp: decode_hex_def split: if_splits)
    with that [of "byte_of c - 97 + 10"] show thesis by simp
  qed
  have u: "unat b = n" using b n(2) by (simp add: unat_of_nat)
  have "char_of (byte_of c) = c" by (simp add: byte_of_def)
  with u n show "unat b < 16" "hex_digit (unat b) = c" by (auto simp: hex_digit_def split: if_splits)
qed

lemma nibbles:
  assumes "unat a < 16" "unat b < 16" shows "unat (a * 16 + b :: u8) = unat a * 16 + unat b"
proof -
  have "unat a * 16 + unat b < 256" using assms by simp
  then show ?thesis by (simp add: unat_word_ariths)
qed

lemma decode_pairs_hex: "decode_pairs (hex_bytes bytes) = Inr bytes"
proof (induction bytes)
  case (Cons b bytes)
  have "unat b < 256" using unsigned_less [of b] by simp
  then have "unat b div 16 < 16" "unat b mod 16 < 16" by auto
  moreover have "of_nat (unat b div 16) * 16 + of_nat (unat b mod 16) = b"
  proof -
    have "of_nat (unat b div 16) * 16 + of_nat (unat b mod 16) = (of_nat (unat b div 16 * 16 + unat b mod 16) :: u8)"
      by (simp only: of_nat_add of_nat_mult of_nat_numeral)
    then show ?thesis by (simp only: div_mult_mod_eq) simp
  qed
  ultimately show ?case using Cons by (simp add: decode_hex_digit)
qed simp

lemma hex_decode_pairs: "decode_pairs s = Inr bytes \<Longrightarrow> even (length s) \<Longrightarrow> hex_bytes bytes = s \<and> length s = 2 * length bytes"
proof (induction s arbitrary: bytes rule: decode_pairs.induct)
  case (1 a b cs)
  then obtain high low rest where d: "decode_hex a = Inr high" "decode_hex b = Inr low" "decode_pairs cs = Inr rest"
    and bytes: "bytes = (high * 16 + low) # rest" by (auto split: sum.splits)
  have ih: "hex_bytes rest = cs \<and> length cs = 2 * length rest"
    using 1(1) [OF d] 1(3) by simp
  note h = decode_hex_Inr [OF d(1)] and l = decode_hex_Inr [OF d(2)]
  show ?case using ih bytes h l nibbles [OF h(1) l(1)] by simp
qed auto

lemma hex_bytes_length [simp]: "length (hex_bytes bytes) = 2 * length bytes"
  by (induction bytes) simp_all

section \<open>What the digest covers\<close>

text \<open>An abstract tree: the mode of the root and the entries in the order of their paths.\<close>

datatype entry_kind = EntryDir | EntryFile "u8 list"

record tree_entry =
  te_path :: string
  te_mode :: u32
  te_kind :: entry_kind

type_synonym tree = "u32 \<times> tree_entry list"

definition encode_entry :: "tree_entry \<Rightarrow> u8 list" where
  "encode_entry e = be_bytes 4 (length (te_path e)) @ map of_char (te_path e) @ be_bytes 4 (unat (te_mode e))
     @ (case te_kind e of EntryDir \<Rightarrow> [of_char (CHR ''D'')]
        | EntryFile contents \<Rightarrow> [of_char (CHR ''F'')] @ be_bytes 8 (length contents) @ contents)"

definition tree_bytes :: "tree \<Rightarrow> u8 list" where
  "tree_bytes t = DIGEST_DOMAIN @ [of_char (CHR ''R'')] @ be_bytes 4 (unat (fst t)) @ concat (map encode_entry (snd t))"

text \<open>Sealed: nothing is writable, and the sizes fit their fields.\<close>

definition entry_sealed :: "tree_entry \<Rightarrow> bool" where
  "entry_sealed e \<longleftrightarrow> and (te_mode e) 146 = 0 \<and> length (te_path e) < 2 ^ 32
     \<and> (case te_kind e of EntryDir \<Rightarrow> True | EntryFile contents \<Rightarrow> length contents \<le> MAX_ROOT_FILESYSTEM_FILE_BYTES)"

lemma be_bytes_length [simp]: "length (be_bytes n v) = n"
  by (induction n arbitrary: v) simp_all

lemma be_bytes_inj: "be_bytes n v = be_bytes n w \<Longrightarrow> v < 256 ^ n \<Longrightarrow> w < 256 ^ n \<Longrightarrow> v = w"
proof (induction n arbitrary: v w)
  case (Suc n)
  have b: "unat (of_nat (x mod 256) :: u8) = x mod 256" for x :: nat by (simp add: unat_of_nat)
  from Suc.prems(1) have "be_bytes n (v div 256) = be_bytes n (w div 256)" and "(of_nat (v mod 256) :: u8) = of_nat (w mod 256)"
    by simp_all
  moreover have "v div 256 < 256 ^ n" "w div 256 < 256 ^ n"
    using Suc.prems(2,3) by (simp_all add: less_mult_imp_div_less mult.commute)
  ultimately have "v div 256 = w div 256" "v mod 256 = w mod 256" using Suc.IH b by metis+
  then show ?case by (metis div_mult_mod_eq)
qed simp

lemma u8_of_char_eq: "(of_char c :: u8) = of_char d \<longleftrightarrow> c = d"
proof
  assume "(of_char c :: u8) = of_char d"
  then have "unat (of_nat (of_char c) :: u8) = unat (of_nat (of_char d) :: u8)" by (simp add: of_nat_of_char)
  then have "(of_char c :: nat) = of_char d" by (simp add: unat_of_nat)
  then show "c = d" by simp
qed simp

lemma encode_entry_not_Nil: "encode_entry e \<noteq> []"
  by (rule length_greater_0_conv [THEN iffD1]) (simp add: encode_entry_def)

lemma encode_entry_inj:
  assumes eq: "encode_entry e @ r = encode_entry f @ q" and ok: "entry_sealed e" "entry_sealed f"
  shows "e = f \<and> r = q"
proof -
  let ?tail = "\<lambda>e. case te_kind e of EntryDir \<Rightarrow> [of_char (CHR ''D'')]
        | EntryFile contents \<Rightarrow> [of_char (CHR ''F'')] @ be_bytes 8 (length contents) @ contents"
  have small: "length (te_path e) < 256 ^ 4" "length (te_path f) < 256 ^ 4" using ok by (simp_all add: entry_sealed_def)
  from eq have l: "be_bytes 4 (length (te_path e)) = be_bytes 4 (length (te_path f))"
    and 1: "map of_char (te_path e) @ be_bytes 4 (unat (te_mode e)) @ ?tail e @ r
      = (map of_char (te_path f) @ be_bytes 4 (unat (te_mode f)) @ ?tail f @ q :: u8 list)"
    by (simp_all add: encode_entry_def)
  have "length (te_path e) = length (te_path f)" by (rule be_bytes_inj [OF l small])
  with 1 have p: "map of_char (te_path e) = (map of_char (te_path f) :: u8 list)"
    and m: "be_bytes 4 (unat (te_mode e)) = be_bytes 4 (unat (te_mode f))" and t: "?tail e @ r = ?tail f @ q"
    by simp_all
  have "inj (of_char :: char \<Rightarrow> u8)"
    by (rule injI) (simp add: u8_of_char_eq)
  then have path: "te_path e = te_path f" using p by (simp add: inj_map_eq_map)
  have "unat (te_mode e) = unat (te_mode f)"
    by (rule be_bytes_inj [OF m]) (use unsigned_less [of "te_mode e"] unsigned_less [of "te_mode f"] in simp_all)
  then have mode: "te_mode e = te_mode f" by (simp add: word_unat_eq_iff)
  have D: "(of_char (CHR ''D'') :: u8) \<noteq> of_char (CHR ''F'')" by (simp add: u8_of_char_eq)
  have kind: "te_kind e = te_kind f \<and> r = q"
  proof (cases "te_kind e"; cases "te_kind f")
    fix x y assume k: "te_kind e = EntryFile x" "te_kind f = EntryFile y"
    with t have l: "be_bytes 8 (length x) = be_bytes 8 (length y)" and c: "x @ r = y @ q" by simp_all
    have "length x < 256 ^ 8" "length y < 256 ^ 8"
      using ok k by (simp_all add: entry_sealed_def MAX_ROOT_FILESYSTEM_FILE_BYTES_def)
    then have "length x = length y" using be_bytes_inj [OF l] by simp
    with c k show ?thesis by simp
  qed (use t D in auto)
  with path mode show ?thesis by (cases e; cases f) simp
qed

lemma encode_entries_inj:
  "concat (map encode_entry es) = concat (map encode_entry fs) \<Longrightarrow> \<forall>e \<in> set es. entry_sealed e \<Longrightarrow> \<forall>f \<in> set fs. entry_sealed f
   \<Longrightarrow> es = fs"
proof (induction es arbitrary: fs)
  case Nil
  then show ?case by (cases fs) (auto simp: encode_entry_not_Nil)
next
  case (Cons e es)
  then obtain f fs' where fs: "fs = f # fs'" by (cases fs) (auto simp: encode_entry_not_Nil)
  with Cons.prems(1) have "encode_entry e @ concat (map encode_entry es) = encode_entry f @ concat (map encode_entry fs')" by simp
  from encode_entry_inj [OF this] Cons.prems fs have "e = f" "concat (map encode_entry es) = concat (map encode_entry fs')" by auto
  with Cons fs show ?case by auto
qed

lemma tree_bytes_inj:
  assumes "tree_bytes t = tree_bytes u" and "\<forall>e \<in> set (snd t). entry_sealed e" "\<forall>e \<in> set (snd u). entry_sealed e"
  shows "t = u"
proof -
  from assms(1) have m: "be_bytes 4 (unat (fst t)) = be_bytes 4 (unat (fst u))"
    and es: "concat (map encode_entry (snd t)) = concat (map encode_entry (snd u))" by (simp_all add: tree_bytes_def)
  have "unat (fst t) = unat (fst u)"
    by (rule be_bytes_inj [OF m]) (use unsigned_less [of "fst t"] unsigned_less [of "fst u"] in simp_all)
  with encode_entries_inj [OF es assms(2,3)] show ?thesis by (simp add: prod_eq_iff word_unat_eq_iff)
qed

text \<open>The tree itself, read by the same calls in the same order.\<close>

definition read_entry :: "'k host_api \<Rightarrow> string \<Rightarrow> string \<Rightarrow> nat \<Rightarrow> ('k, nat \<times> tree_entry) pa_io" where
  "read_entry h root relative total_bytes =
     (let path = path_join root relative in
      io_bind (io_map_err PaInvalidSandbox (h_symlink_metadata h path)) (\<lambda>md.
      io_bind (io_reject (2 ^ 32 \<le> length relative) PaInvalidSandbox) (\<lambda>_.
      if md_is_dir md then
        io_bind (io_reject (and (md_mode md) 146 \<noteq> 0) PaInvalidSandbox) (\<lambda>_.
        io_ret (total_bytes, \<lparr>te_path = relative, te_mode = and (md_mode md) 511, te_kind = EntryDir\<rparr>))
      else
        io_bind (io_reject (\<not> md_is_file md \<or> md_nlink md \<noteq> 1 \<or> and (md_mode md) 146 \<noteq> 0
            \<or> MAX_ROOT_FILESYSTEM_FILE_BYTES < md_len md) PaInvalidSandbox) (\<lambda>_.
        io_bind (io_reject (2 ^ 64 \<le> total_bytes + md_len md \<or> MAX_ROOT_FILESYSTEM_TOTAL_BYTES < total_bytes + md_len md)
            PaInvalidSandbox) (\<lambda>_.
        io_bind (io_map_err PaInvalidSandbox (h_open h path)) (\<lambda>file.
        io_bind (io_map_err PaInvalidSandbox (io_pure (of_metadata file))) (\<lambda>opened.
        io_bind (io_reject (md_dev opened \<noteq> md_dev md \<or> md_ino opened \<noteq> md_ino md \<or> md_len opened \<noteq> md_len md
            \<or> md_nlink opened \<noteq> 1 \<or> and (md_mode opened) 146 \<noteq> 0) PaInvalidSandbox) (\<lambda>_.
        io_bind (io_pure (read_contents (md_len md) [] (of_reads file))) (\<lambda>contents.
        io_ret (total_bytes + md_len md,
          \<lparr>te_path = relative, te_mode = and (md_mode md) 511, te_kind = EntryFile contents\<rparr>))))))))))"

fun read_entries :: "'k host_api \<Rightarrow> string \<Rightarrow> string list \<Rightarrow> nat \<Rightarrow> ('k, tree_entry list) pa_io" where
  "read_entries h root [] total_bytes = io_ret []"
| "read_entries h root (relative # relatives) total_bytes =
     io_bind (read_entry h root relative total_bytes) (\<lambda>(total_bytes, e).
     io_bind (read_entries h root relatives total_bytes) (\<lambda>es. io_ret (e # es)))"

definition read_tree :: "'k host_api \<Rightarrow> string \<Rightarrow> ('k, tree) pa_io" where
  "read_tree h root =
     io_bind (collect_relative_paths h root) (\<lambda>relative_paths.
     io_bind (io_map_err PaInvalidSandbox (h_symlink_metadata h root)) (\<lambda>md.
     io_bind (io_reject (md_is_symlink md \<or> \<not> md_is_dir md \<or> and (md_mode md) 146 \<noteq> 0) PaInvalidSandbox) (\<lambda>_.
     io_bind (read_entries h root (sort relative_paths) 0) (\<lambda>es.
     io_ret (and (md_mode md) 511, es)))))"

lemma read_contents_length: "read_contents n seen reads = Inr contents \<Longrightarrow> length contents = n"
  by (induction n seen reads rule: read_contents.induct) (auto split: if_splits)

lemma mode_and [simp]: "and (and m 511) 146 = and m (146 :: u32)"
proof -
  have "and (511 :: u32) 146 = 146" by code_simp
  then show ?thesis by (simp add: and.assoc)
qed

lemma measure_entry_read:
  "measure_entry h root relative total_bytes =
     io_bind (read_entry h root relative total_bytes) (\<lambda>(total_bytes, e). io_ret (total_bytes, encode_entry e))"
  unfolding measure_entry_def read_entry_def Let_def io_bind_assoc io_bind_if io_bind_ret io_bind_pure encode_entry_def
  by (intro io_bind_cong if_cong refl) (simp_all add: read_contents_length split: sum.splits)

lemma measure_entries_read:
  "measure_entries h root relatives total_bytes hashed =
     io_bind (read_entries h root relatives total_bytes) (\<lambda>es. io_ret (hashed @ concat (map encode_entry es)))"
proof (induction relatives arbitrary: total_bytes hashed)
  case (Cons r relatives)
  show ?case
    by (simp add: Cons measure_entry_read io_bind_assoc) (intro io_bind_cong, simp add: io_bind_assoc split: prod.splits)
qed simp

lemma measure_tree_read:
  "measure_tree h sha root = io_bind (read_tree h root) (\<lambda>t. io_ret (RootFilesystemDigest (sha (tree_bytes t))))"
  unfolding measure_tree_def read_tree_def io_bind_assoc measure_entries_read io_bind_ret
  by (intro io_bind_cong) (simp add: tree_bytes_def)

lemma read_entry_sealed:
  assumes "read_entry h root relative total_bytes k = (Inr (t', e), k')" shows "entry_sealed e"
  using assms by (auto simp: read_entry_def Let_def io_simps entry_sealed_def not_le dest: read_contents_length split: if_splits)

lemma read_entries_sealed:
  "read_entries h root relatives total_bytes k = (Inr es, k') \<Longrightarrow> \<forall>e \<in> set es. entry_sealed e"
proof (induction relatives arbitrary: total_bytes es k)
  case (Cons r relatives)
  then show ?case by (fastforce simp: io_simps dest: read_entry_sealed)
qed (simp add: io_simps)

lemma read_tree_sealed:
  "read_tree h root k = (Inr t, k') \<Longrightarrow> and (fst t) 146 = 0 \<and> (\<forall>e \<in> set (snd t). entry_sealed e)"
  by (auto simp: read_tree_def io_simps dest: read_entries_sealed)

lemma measure_tree_Inr:
  assumes "measure_tree h sha root k = (Inr d, k')"
  shows "\<exists>t. read_tree h root k = (Inr t, k') \<and> d = RootFilesystemDigest (sha (tree_bytes t))
     \<and> and (fst t) 146 = 0 \<and> (\<forall>e \<in> set (snd t). entry_sealed e)"
proof -
  from assms obtain t where "read_tree h root k = (Inr t, k')" "d = RootFilesystemDigest (sha (tree_bytes t))"
    unfolding measure_tree_read io_simps by blast
  with read_tree_sealed [of h root k t k'] show ?thesis by blast
qed

lemma validate_tree_Inr:
  assumes "validate_tree h sha directory identity d k = (Inr u, k')"
  shows "\<exists>t k1. read_tree h directory k1 = (Inr t, k') \<and> d = RootFilesystemDigest (sha (tree_bytes t))
     \<and> and (fst t) 146 = 0 \<and> (\<forall>e \<in> set (snd t). entry_sealed e)"
proof -
  from assms obtain k1 where "measure_tree h sha directory k1 = (Inr d, k')"
    by (auto simp: validate_tree_def io_simps split: if_splits)
  from measure_tree_Inr [OF this] show ?thesis by blast
qed

section \<open>Properties\<close>


definition demo_root :: sim_host where
  "demo_root = \<lparr>sh_clock = 0, sh_nodes = map (\<lambda>(p, n). (RootDir # map Normal p, n))
     [([''r''], sim_dir 2 365 [''proc'', ''dev'', ''tmp'', ''workspace'', ''b'']),
      ([''r'', ''proc''], sim_dir 3 365 []), ([''r'', ''dev''], sim_dir 4 365 []), ([''r'', ''tmp''], sim_dir 5 365 []),
      ([''r'', ''workspace''], sim_dir 6 365 []), ([''r'', ''b''], sim_file 7 365 ''x'')],
     sh_spawned = [], sh_polls = 0, sh_sent = []\<rparr>"

text \<open>A toy hash: the length.\<close>

definition demo_sha :: "u8 list \<Rightarrow> u8 list" where
  "demo_sha bytes = [of_nat (length bytes)]"

definition demo_verified :: verified_root_filesystem where
  "demo_verified = \<lparr>vr_directory = ''/r'', vr_digest = RootFilesystemDigest [106], vr_identity = \<lparr>di_device = 1, di_inode = 2\<rparr>\<rparr>"

lemma demo_verified_open:
  "verified_open sim_host_api demo_sha ''/r'' (RootFilesystemDigest [106]) demo_root = (Inr demo_verified, demo_root)"
  by code_simp

lemma demo_verified_again:
  "validate_verified_root_filesystem sim_host_api demo_sha (vr_directory demo_verified) (verified_state demo_verified) demo_root
     = (Inr (), demo_root)"
  by code_simp


text \<open>The text form of a digest is faithful. Printing a digest of 32 bytes and parsing it gives
  the digest back; and a text is accepted exactly when it is the printed form of a digest, so
  upper case, other lengths and other characters are refused.\<close>

theorem digest_text_roundtrip:
  "(length bytes = 32 \<longrightarrow> digest_from_str (digest_display (RootFilesystemDigest bytes)) = Inr (RootFilesystemDigest bytes))
   \<and> (digest_from_str s = Inr (RootFilesystemDigest bytes) \<longleftrightarrow> length bytes = 32 \<and> s = digest_display (RootFilesystemDigest bytes))"
proof -
  have 1: "digest_from_str (digest_display (RootFilesystemDigest bytes)) = Inr (RootFilesystemDigest bytes)" if "length bytes = 32"
    using that by (simp add: digest_from_str_def digest_display_def DIGEST_HEX_BYTES_def DIGEST_BYTES_def decode_pairs_hex)
  moreover have "length bytes = 32 \<and> s = digest_display (RootFilesystemDigest bytes)"
    if s: "digest_from_str s = Inr (RootFilesystemDigest bytes)"
  proof -
    have l: "length s = 64" and d: "decode_pairs s = Inr bytes"
      using s by (auto simp: digest_from_str_def DIGEST_HEX_BYTES_def DIGEST_BYTES_def split: if_splits sum.splits)
    from hex_decode_pairs [OF d] l show ?thesis by (simp add: digest_display_def)
  qed
  ultimately show ?thesis by blast
qed

theorem digest_text_roundtrip_witness:
  "digest_from_str (digest_display (RootFilesystemDigest (replicate 32 171))) = Inr (RootFilesystemDigest (replicate 32 171))
   \<and> digest_from_str (replicate 64 (CHR ''A'')) \<noteq> Inr (RootFilesystemDigest (replicate 32 170))"
proof -
  have "digest_display (RootFilesystemDigest (replicate 32 170)) \<noteq> replicate 64 (CHR ''A'')" by code_simp
  with digest_text_roundtrip [of "replicate 32 171"] digest_text_roundtrip [of "replicate 32 170" "replicate 64 (CHR ''A'')"]
  show ?thesis by simp
qed

end
