(* ===== verification/Std_Str.thy ===== *)
theory Std_Str
  imports Prelude
begin

text \<open>
  Text functions of the Rust standard library that the client, the resource control and the launcher
  parse with: \<open>str::parse\<close> for unsigned integers, \<open>lines\<close> and \<open>split_ascii_whitespace\<close>.
\<close>

text \<open>\<open>str::parse\<close> for an unsigned integer below \<open>bound\<close>: an optional plus sign and digits.\<close>

fun parse_digits :: "nat \<Rightarrow> nat \<Rightarrow> string \<Rightarrow> nat option" where
  "parse_digits bound acc [] = Some acc"
| "parse_digits bound acc (c # cs) =
     (if is_ascii_digit c
      then (let acc = acc * 10 + (byte_of c - 48) in if acc < bound then parse_digits bound acc cs else None)
      else None)"

definition parse_unsigned :: "nat \<Rightarrow> string \<Rightarrow> nat option" where
  "parse_unsigned bound value =
     (case (case value of [] \<Rightarrow> [] | c # cs \<Rightarrow> if c = CHR ''+'' then cs else value) of
        [] \<Rightarrow> None | digits \<Rightarrow> parse_digits bound 0 digits)"

text \<open>\<open>lines\<close>: a line ends with a line feed, which may follow a carriage return; the text after the
  last line feed is a line if it is not empty.\<close>

definition strip_cr :: "string \<Rightarrow> string" where
  "strip_cr line = (if line \<noteq> [] \<and> last line = char_of (13 :: nat) then butlast line else line)"

definition str_lines :: "string \<Rightarrow> string list" where
  "str_lines s = (let ls = split_on (char_of (10 :: nat)) s in
     map strip_cr (butlast ls) @ (if last ls = [] then [] else [last ls]))"

definition is_ascii_whitespace :: "char \<Rightarrow> bool" where
  "is_ascii_whitespace c \<longleftrightarrow> byte_of c \<in> {9, 10, 12, 13, 32}"

fun ascii_words :: "string \<Rightarrow> string \<Rightarrow> string list" where
  "ascii_words word [] = (if word = [] then [] else [word])"
| "ascii_words word (c # cs) =
     (if is_ascii_whitespace c then (if word = [] then ascii_words [] cs else word # ascii_words [] cs)
      else ascii_words (word @ [c]) cs)"

definition split_ascii_whitespace :: "string \<Rightarrow> string list" where
  "split_ascii_whitespace s = ascii_words [] s"

text \<open>\<open>find_map\<close>.\<close>

fun find_map :: "('a \<Rightarrow> 'b option) \<Rightarrow> 'a list \<Rightarrow> 'b option" where
  "find_map f [] = None"
| "find_map f (x # xs) = (case f x of None \<Rightarrow> find_map f xs | Some y \<Rightarrow> Some y)"

section \<open>Numbers round trip\<close>

lemma parse_digits_append:
  "parse_digits bound acc (s @ t) = Option.bind (parse_digits bound acc s) (\<lambda>acc. parse_digits bound acc t)"
  by (induction s arbitrary: acc) (simp_all add: Let_def)

lemma digit_char: "d < 10 \<Longrightarrow> is_ascii_digit (char_of (48 + d :: nat)) \<and> byte_of (char_of (48 + d :: nat)) = 48 + d"
  by (simp add: ascii_defs)

lemma parse_digits_show:
  assumes "n < bound" shows "parse_digits bound 0 (show_nat n) = Some n"
  using assms
proof (induction n rule: show_nat.induct)
  case (1 n)
  show ?case
  proof (cases "n < 10")
    case True
    with 1(2) digit_char [of n] show ?thesis by (simp add: show_nat.simps [of n] Let_def)
  next
    case False
    have "n div 10 < bound" using 1(2) by simp
    with 1(1) [OF False] have "parse_digits bound 0 (show_nat (n div 10)) = Some (n div 10)" by blast
    moreover have "n mod 10 < 10" by simp
    ultimately show ?thesis using False 1(2) digit_char [of "n mod 10"]
      by (simp add: show_nat.simps [of n] parse_digits_append Let_def)
  qed
qed

lemma show_nat_not_Nil [simp]: "show_nat n \<noteq> []"
  by (subst show_nat.simps) simp

lemma parse_unsigned_show: assumes "n < bound" shows "parse_unsigned bound (show_nat n) = Some n"
proof -
  obtain c cs where s: "show_nat n = c # cs" using show_nat_not_Nil by (cases "show_nat n") auto
  have "is_ascii_digit c" using show_nat_digits [of c n] s by simp
  then have "c \<noteq> CHR ''+''" by (auto simp: ascii_defs)
  then show ?thesis using parse_digits_show [OF assms] s by (simp add: parse_unsigned_def)
qed

end
