(* ===== verification/Cgroup.thy ===== *)
theory Cgroup
  imports Sandbox Std_Str Sim_Host
begin

text \<open>
  \<open>aios-adapter-process/src/cgroup.rs\<close>: CPU time and memory ceilings of a task by a cgroup v2 of its
  own beneath a delegated root. The loop that waits for a killed cgroup to become empty is an
  \<open>io_loop\<close>, so that not returning would be \<open>None\<close>; on a system whose clock does not run backwards
  it returns, and the clean-up at startup touches the cgroups of the given tasks only.
\<close>

section \<open>Budgets\<close>

definition CGROUP2_MOUNT :: string where "CGROUP2_MOUNT = ''/sys/fs/cgroup''"
definition CLEANUP_TIMEOUT :: duration where "CLEANUP_TIMEOUT = from_secs 5"
definition CLEANUP_POLL_INTERVAL :: duration where "CLEANUP_POLL_INTERVAL = 5 * 1000000"

record cgroup_resource_budget =
  cb_cpu_time_micros :: nat
  cb_memory_bytes :: nat

definition cgroup_budget_new :: "duration \<Rightarrow> nat \<Rightarrow> process_adapter_error + cgroup_resource_budget" where
  "cgroup_budget_new cpu_time memory =
     (let cpu_time_micros = cpu_time div 1000 in
      if 2 ^ 64 \<le> cpu_time_micros then Inl PaInvalidConfig
      else if cpu_time_micros = 0 \<or> MAX_TIMEOUT < cpu_time \<or> memory = 0 then Inl PaInvalidConfig
      else Inr \<lparr>cb_cpu_time_micros = cpu_time_micros, cb_memory_bytes = memory\<rparr>)"

definition cgroup_budget_from_task :: "budget \<Rightarrow> process_adapter_error + cgroup_resource_budget" where
  "cgroup_budget_from_task b =
     cgroup_budget_new (from_secs (unat (wall_time_seconds b))) (unat (memory_bytes b))"

definition cgroup_budget_cpu_time :: "cgroup_resource_budget \<Rightarrow> duration" where
  "cgroup_budget_cpu_time b = cb_cpu_time_micros b * 1000"

section \<open>Reading control files\<close>

definition contains_word :: "string \<Rightarrow> string \<Rightarrow> bool" where
  "contains_word contents expected = list_ex (\<lambda>word. word = expected) (split_ascii_whitespace contents)"

definition read_text :: "'k host_api \<Rightarrow> string \<Rightarrow> ('k, string) pa_io" where
  "read_text h path = io_map_err PaInvalidResourceControl (h_read_to_string h path)"

definition keyed_value :: "string \<Rightarrow> string \<Rightarrow> string option" where
  "keyed_value key line =
     (case split_ascii_whitespace line of [name, value] \<Rightarrow> if name = key then Some value else None | _ \<Rightarrow> None)"

definition read_keyed_u64 :: "'k host_api \<Rightarrow> string \<Rightarrow> string \<Rightarrow> ('k, nat) pa_io" where
  "read_keyed_u64 h path key =
     io_bind (read_text h path) (\<lambda>contents.
     io_bind (io_pure (ok_or PaInvalidResourceControl (find_map (keyed_value key) (str_lines contents)))) (\<lambda>value.
     io_pure (ok_or PaInvalidResourceControl (parse_unsigned (2 ^ 64) value))))"

definition require_files :: "'k host_api \<Rightarrow> string \<Rightarrow> string list \<Rightarrow> ('k, unit) pa_io" where
  "require_files h directory files =
     io_each (\<lambda>file. io_bind (path_is_file h (path_join directory file)) (\<lambda>ok. io_reject (\<not> ok) PaInvalidResourceControl)) files"

definition task_cgroup_files :: "string list" where
  "task_cgroup_files = [''cgroup.procs'', ''cgroup.kill'', ''cgroup.events'', ''cpu.stat'', ''memory.current'',
     ''memory.events'', ''memory.max'', ''memory.swap.max'', ''memory.oom.group'']"

definition current_cgroup_directory :: "'k host_api \<Rightarrow> ('k, string) pa_io" where
  "current_cgroup_directory h =
     io_bind (read_text h ''/proc/self/cgroup'') (\<lambda>membership.
     io_bind (io_pure (ok_or PaInvalidResourceControl (find_map (strip_prefix ''0::'') (str_lines membership)))) (\<lambda>relative.
     io_bind (io_pure (ok_or PaInvalidResourceControl (strip_prefix ''/'' relative))) (\<lambda>relative.
     io_map_err PaInvalidResourceControl (h_canonicalize h (path_join CGROUP2_MOUNT relative)))))"

section \<open>The delegated root\<close>

definition canonical_cgroup_root :: "'k host_api \<Rightarrow> string \<Rightarrow> ('k, string) pa_io" where
  "canonical_cgroup_root h path =
     io_bind (io_reject (\<not> path_is_absolute path \<or> MAX_SANDBOX_PATH_BYTES < length path) PaInvalidResourceControl) (\<lambda>_.
     io_bind (io_map_err PaInvalidResourceControl (h_symlink_metadata h path)) (\<lambda>md.
     io_bind (io_reject (md_is_symlink md \<or> \<not> md_is_dir md) PaInvalidResourceControl) (\<lambda>_.
     io_bind (io_map_err PaInvalidResourceControl (h_canonicalize h path)) (\<lambda>canonical.
     io_bind (io_reject (path_eq canonical CGROUP2_MOUNT \<or> \<not> path_starts_with canonical CGROUP2_MOUNT)
         PaInvalidResourceControl) (\<lambda>_.
     io_ret canonical)))))"

definition validate_cgroup_root :: "'k host_api \<Rightarrow> string \<Rightarrow> ('k, unit) pa_io" where
  "validate_cgroup_root h path =
     io_bind (require_files h path [''cgroup.controllers'', ''cgroup.procs'', ''cgroup.subtree_control'']) (\<lambda>_.
     io_bind (read_text h (path_join path ''cgroup.controllers'')) (\<lambda>controllers.
     io_bind (read_text h (path_join path ''cgroup.subtree_control'')) (\<lambda>enabled.
     io_bind (io_reject (\<not> contains_word controllers ''cpu'' \<or> \<not> contains_word controllers ''memory''
         \<or> \<not> contains_word enabled ''cpu'' \<or> \<not> contains_word enabled ''memory'') PaInvalidResourceControl) (\<lambda>_.
     io_bind (read_text h (path_join path ''cgroup.procs'')) (\<lambda>root_processes.
     io_bind (io_reject (trim_chars (utf8_chars root_processes) \<noteq> []) PaInvalidResourceControl) (\<lambda>_.
     io_bind (current_cgroup_directory h) (\<lambda>current.
     io_reject (path_eq current path \<or> \<not> path_starts_with current path) PaInvalidResourceControl)))))))"

record cgroup_v2_manager =
  cm_root_directory :: string
  cm_root_identity :: directory_identity

definition cgroup_identity_read :: "'k host_api \<Rightarrow> string \<Rightarrow> ('k, directory_identity) pa_io" where
  "cgroup_identity_read h path = io_map_err PaInvalidResourceControl (directory_identity_read h path)"

definition cgroup_manager_new :: "bool \<Rightarrow> 'k host_api \<Rightarrow> string \<Rightarrow> ('k, cgroup_v2_manager) pa_io" where
  "cgroup_manager_new linux h root_directory =
     io_bind (io_reject (\<not> linux) PaUnsupportedPlatform) (\<lambda>_.
     io_bind (canonical_cgroup_root h root_directory) (\<lambda>root_directory.
     io_bind (validate_cgroup_root h root_directory) (\<lambda>_.
     io_bind (cgroup_identity_read h root_directory) (\<lambda>root_identity.
     io_ret \<lparr>cm_root_directory = root_directory, cm_root_identity = root_identity\<rparr>))))"

definition cgroup_validate_root :: "'k host_api \<Rightarrow> cgroup_v2_manager \<Rightarrow> ('k, unit) pa_io" where
  "cgroup_validate_root h m =
     io_bind (validate_cgroup_root h (cm_root_directory m)) (\<lambda>_.
     io_bind (cgroup_identity_read h (cm_root_directory m)) (\<lambda>identity.
     io_reject (identity \<noteq> cm_root_identity m) PaInvalidResourceControl))"

section \<open>The cgroup of a task\<close>

record task_cgroup =
  tcg_task_id :: task_id
  tcg_directory :: string
  tcg_directory_identity :: directory_identity
  tcg_budget :: cgroup_resource_budget

definition configure_task_cgroup :: "'k host_api \<Rightarrow> string \<Rightarrow> cgroup_resource_budget \<Rightarrow> ('k, unit) pa_io" where
  "configure_task_cgroup h directory b =
     io_bind (require_files h directory task_cgroup_files) (\<lambda>_.
     io_map_err PaInvalidResourceControl
       (io_bind (h_write h (path_join directory ''memory.max'') (show_nat (cb_memory_bytes b))) (\<lambda>_.
        io_bind (h_write h (path_join directory ''memory.swap.max'') ''0'') (\<lambda>_.
        h_write h (path_join directory ''memory.oom.group'') ''1''))))"

definition task_cgroup_path :: "(task_id \<Rightarrow> string) \<Rightarrow> cgroup_v2_manager \<Rightarrow> task_id \<Rightarrow> string" where
  "task_cgroup_path uuid m task_id = path_join (cm_root_directory m) (''task-'' @ uuid task_id)"

text \<open>511 is the mode \<open>0o777\<close> of \<open>fs::create_dir\<close>.\<close>

definition cgroup_create ::
  "'k host_api \<Rightarrow> (task_id \<Rightarrow> string) \<Rightarrow> cgroup_v2_manager \<Rightarrow> task_id \<Rightarrow> cgroup_resource_budget \<Rightarrow> ('k, task_cgroup) pa_io" where
  "cgroup_create h uuid m task_id b =
     io_bind (cgroup_validate_root h m) (\<lambda>_.
     let directory = task_cgroup_path uuid m task_id in
     io_bind (io_reject (MAX_SANDBOX_PATH_BYTES < length directory) PaInvalidResourceControl) (\<lambda>_.
     io_bind (io_map_err PaInvalidResourceControl (h_create_dir h directory 511)) (\<lambda>_ k.
       (case (io_bind (configure_task_cgroup h directory b) (\<lambda>_.
              io_bind (cgroup_identity_read h directory) (\<lambda>directory_identity.
              io_ret \<lparr>tcg_task_id = task_id, tcg_directory = directory, tcg_directory_identity = directory_identity,
                tcg_budget = b\<rparr>))) k of
          (Inl e, k) \<Rightarrow> (Inl e, snd (h_remove_dir h directory k))
        | (Inr cgroup, k) \<Rightarrow> (Inr cgroup, k)))))"

definition validate_task_cgroup_identity :: "'k host_api \<Rightarrow> string \<Rightarrow> directory_identity \<Rightarrow> ('k, unit) pa_io" where
  "validate_task_cgroup_identity h directory expected_identity =
     io_bind (io_map_err PaInvalidResourceControl (h_symlink_metadata h directory)) (\<lambda>md.
     io_bind (io_reject (md_is_symlink md \<or> \<not> md_is_dir md) PaInvalidResourceControl) (\<lambda>_.
     io_bind (cgroup_identity_read h directory) (\<lambda>identity.
     io_bind (io_reject (identity \<noteq> expected_identity) PaInvalidResourceControl) (\<lambda>_.
     require_files h directory task_cgroup_files))))"

definition terminate_task_cgroup :: "'k host_api \<Rightarrow> string \<Rightarrow> directory_identity \<Rightarrow> ('k, unit) pa_io" where
  "terminate_task_cgroup h directory expected_identity =
     io_bind (validate_task_cgroup_identity h directory expected_identity) (\<lambda>_.
     io_map_err PaInvalidResourceControl (h_write h (path_join directory ''cgroup.kill'') ''1''))"

definition validate_cleanup_target :: "'k host_api \<Rightarrow> string \<Rightarrow> directory_identity \<Rightarrow> ('k, unit) pa_io" where
  "validate_cleanup_target h directory expected_identity =
     io_bind (validate_task_cgroup_identity h directory expected_identity) (\<lambda>_.
     io_bind (current_cgroup_directory h) (\<lambda>current.
     io_reject (path_eq current directory \<or> path_starts_with current directory) PaInvalidResourceControl))"

definition task_cgroup_validate :: "'k host_api \<Rightarrow> task_cgroup \<Rightarrow> ('k, unit) pa_io" where
  "task_cgroup_validate h c =
     io_bind (validate_task_cgroup_identity h (tcg_directory c) (tcg_directory_identity c)) (\<lambda>_.
     io_bind (read_text h (path_join (tcg_directory c) ''memory.max'')) (\<lambda>memory_max.
     io_bind (read_text h (path_join (tcg_directory c) ''memory.swap.max'')) (\<lambda>swap_max.
     io_bind (read_text h (path_join (tcg_directory c) ''memory.oom.group'')) (\<lambda>oom_group.
     io_reject (trim_chars (utf8_chars memory_max) \<noteq> map byte_of (show_nat (cb_memory_bytes (tcg_budget c)))
         \<or> trim_chars (utf8_chars swap_max) \<noteq> map byte_of ''0''
         \<or> trim_chars (utf8_chars oom_group) \<noteq> map byte_of ''1'') PaInvalidResourceControl))))"

definition launch_identity :: "task_cgroup \<Rightarrow> string \<times> nat \<times> nat" where
  "launch_identity c = (path_join (tcg_directory c) ''cgroup.procs'',
     di_device (tcg_directory_identity c), di_inode (tcg_directory_identity c))"

definition limit_reached :: "'k host_api \<Rightarrow> task_cgroup \<Rightarrow> ('k, bool) pa_io" where
  "limit_reached h c =
     io_bind (task_cgroup_validate h c) (\<lambda>_.
     io_bind (read_keyed_u64 h (path_join (tcg_directory c) ''cpu.stat'') ''usage_usec'') (\<lambda>cpu_usage.
     io_bind (read_keyed_u64 h (path_join (tcg_directory c) ''memory.events'') ''max'') (\<lambda>memory_max_events.
     io_bind (read_keyed_u64 h (path_join (tcg_directory c) ''memory.events'') ''oom_kill'') (\<lambda>oom_kills.
     io_ret (cb_cpu_time_micros (tcg_budget c) \<le> cpu_usage \<or> 0 < memory_max_events \<or> 0 < oom_kills)))))"

definition task_cgroup_terminate :: "'k host_api \<Rightarrow> task_cgroup \<Rightarrow> ('k, unit) pa_io" where
  "task_cgroup_terminate h c = terminate_task_cgroup h (tcg_directory c) (tcg_directory_identity c)"

section \<open>Waiting and removing\<close>

definition wait_round ::
  "'k host_api \<Rightarrow> string \<Rightarrow> directory_identity \<Rightarrow> instant \<Rightarrow> 'k \<Rightarrow> (process_adapter_error + unit) option \<times> 'k" where
  "wait_round h directory expected_identity deadline k =
     (case h_now h k of (now, k) \<Rightarrow>
      if deadline \<le> now then (Some (Inl PaInvalidResourceControl), k)
      else
        (case io_bind (validate_task_cgroup_identity h directory expected_identity) (\<lambda>_.
                read_keyed_u64 h (path_join directory ''cgroup.events'') ''populated'') k of
           (Inl e, k) \<Rightarrow> (Some (Inl e), k)
         | (Inr populated, k) \<Rightarrow>
             if populated = 0 then (Some (Inr ()), k) else (None, h_sleep h CLEANUP_POLL_INTERVAL k)))"

definition wait_until_empty_until ::
  "'k host_api \<Rightarrow> string \<Rightarrow> directory_identity \<Rightarrow> instant \<Rightarrow> 'k \<Rightarrow> ((process_adapter_error + unit) \<times> 'k) option" where
  "wait_until_empty_until h directory expected_identity deadline = io_loop (wait_round h directory expected_identity deadline)"

definition wait_until_empty ::
  "'k host_api \<Rightarrow> string \<Rightarrow> directory_identity \<Rightarrow> 'k \<Rightarrow> ((process_adapter_error + unit) \<times> 'k) option" where
  "wait_until_empty h directory expected_identity k =
     (case h_now h k of (now, k) \<Rightarrow>
        wait_until_empty_until h directory expected_identity (now + CLEANUP_TIMEOUT) k)"

definition task_cgroup_finish :: "'k host_api \<Rightarrow> task_cgroup \<Rightarrow> 'k \<Rightarrow> ((process_adapter_error + unit) \<times> 'k) option" where
  "task_cgroup_finish h c k =
     (case task_cgroup_terminate h c k of
        (Inl e, k) \<Rightarrow> Some (Inl e, k)
      | (Inr _, k) \<Rightarrow>
          map_option (\<lambda>(r, k). case r of
              Inl e \<Rightarrow> (Inl e, k)
            | Inr _ \<Rightarrow> io_map_err PaInvalidResourceControl (h_remove_dir h (tcg_directory c)) k)
            (wait_until_empty h (tcg_directory c) (tcg_directory_identity c) k))"

text \<open>One round of \<open>reconcile_stale_task_cgroups\<close>, up to the wait: \<open>None\<close> if the task has no cgroup.\<close>

definition reconcile_kill ::
  "'k host_api \<Rightarrow> (task_id \<Rightarrow> string) \<Rightarrow> cgroup_v2_manager \<Rightarrow> instant \<Rightarrow> task_id \<Rightarrow> ('k, directory_identity option) pa_io" where
  "reconcile_kill h uuid m deadline task_id =
     (let directory = task_cgroup_path uuid m task_id in
      io_bind (io_now h) (\<lambda>now.
      io_bind (io_reject (deadline \<le> now) PaInvalidResourceControl) (\<lambda>_.
      io_bind (cgroup_validate_root h m) (\<lambda>_.
      io_bind (io_reject (MAX_SANDBOX_PATH_BYTES < length directory) PaInvalidResourceControl) (\<lambda>_ k.
        (case h_symlink_metadata h directory k of
           (Inl io_error.NotFound, k) \<Rightarrow> (Inr None, k)
         | (Inl OtherIo, k) \<Rightarrow> (Inl PaInvalidResourceControl, k)
         | (Inr md, k) \<Rightarrow>
             (io_bind (io_reject (md_is_symlink md \<or> \<not> md_is_dir md) PaInvalidResourceControl) (\<lambda>_.
              io_bind (cgroup_identity_read h directory) (\<lambda>directory_identity.
              io_bind (validate_cleanup_target h directory directory_identity) (\<lambda>_.
              io_bind (terminate_task_cgroup h directory directory_identity) (\<lambda>_.
              io_ret (Some directory_identity)))))) k))))))"

definition reconcile_remove ::
  "'k host_api \<Rightarrow> (task_id \<Rightarrow> string) \<Rightarrow> cgroup_v2_manager \<Rightarrow> instant \<Rightarrow> task_id \<Rightarrow> directory_identity \<Rightarrow> ('k, unit) pa_io" where
  "reconcile_remove h uuid m deadline task_id directory_identity =
     (let directory = task_cgroup_path uuid m task_id in
      io_bind (io_now h) (\<lambda>now.
      io_bind (io_reject (deadline \<le> now) PaInvalidResourceControl) (\<lambda>_.
      io_bind (cgroup_validate_root h m) (\<lambda>_.
      io_bind (validate_cleanup_target h directory directory_identity) (\<lambda>_.
      io_map_err PaInvalidResourceControl (h_remove_dir h directory))))))"

fun reconcile_loop ::
  "'k host_api \<Rightarrow> (task_id \<Rightarrow> string) \<Rightarrow> cgroup_v2_manager \<Rightarrow> instant \<Rightarrow> task_id list \<Rightarrow> nat \<Rightarrow> 'k
   \<Rightarrow> ((process_adapter_error + nat) \<times> 'k) option" where
  "reconcile_loop h uuid m deadline [] removed k = Some (Inr removed, k)"
| "reconcile_loop h uuid m deadline (task_id # task_ids) removed k =
     (case reconcile_kill h uuid m deadline task_id k of
        (Inl e, k) \<Rightarrow> Some (Inl e, k)
      | (Inr None, k) \<Rightarrow> reconcile_loop h uuid m deadline task_ids removed k
      | (Inr (Some directory_identity), k) \<Rightarrow>
          (case wait_until_empty_until h (task_cgroup_path uuid m task_id) directory_identity deadline k of
             None \<Rightarrow> None
           | Some (Inl e, k) \<Rightarrow> Some (Inl e, k)
           | Some (Inr _, k) \<Rightarrow>
               (case reconcile_remove h uuid m deadline task_id directory_identity k of
                  (Inl e, k) \<Rightarrow> Some (Inl e, k)
                | (Inr _, k) \<Rightarrow>
                    if 2 ^ 64 \<le> removed + 1 then Some (Inl PaInvalidResourceControl, k)
                    else reconcile_loop h uuid m deadline task_ids (removed + 1) k)))"

definition reconcile_stale_task_cgroups ::
  "'k host_api \<Rightarrow> (task_id \<Rightarrow> string) \<Rightarrow> cgroup_v2_manager \<Rightarrow> task_id list \<Rightarrow> 'k \<Rightarrow> ((process_adapter_error + nat) \<times> 'k) option" where
  "reconcile_stale_task_cgroups h uuid m task_ids k =
     (case cgroup_validate_root h m k of
        (Inl e, k) \<Rightarrow> Some (Inl e, k)
      | (Inr _, k) \<Rightarrow>
          (case h_now h k of (now, k) \<Rightarrow>
           map_option (\<lambda>(r, k). case r of
               Inl e \<Rightarrow> (Inl e, k)
             | Inr removed \<Rightarrow> io_bind (cgroup_validate_root h m) (\<lambda>_. io_ret removed) k)
             (reconcile_loop h uuid m (now + CLEANUP_TIMEOUT) task_ids 0 k)))"

section \<open>The clean-up returns\<close>

lemma validate_task_cgroup_identity_mono [mono_intros]:
  "monotone_clock h clock \<Longrightarrow> io_mono clock (validate_task_cgroup_identity h directory identity)"
  unfolding validate_task_cgroup_identity_def cgroup_identity_read_def directory_identity_read_def require_files_def
  by (intro mono_intros)

lemma read_keyed_u64_mono [mono_intros]: "monotone_clock h clock \<Longrightarrow> io_mono clock (read_keyed_u64 h path key)"
  unfolding read_keyed_u64_def read_text_def by (intro mono_intros)

lemma wait_until_empty_until_returns:
  assumes mono: "monotone_clock h clock"
  shows "\<exists>r k'. wait_until_empty_until h directory identity deadline k = Some (r, k')"
  unfolding wait_until_empty_until_def
proof (rule io_loop_returns)
  fix k k'
  let ?probe = "io_bind (validate_task_cgroup_identity h directory identity) (\<lambda>_.
    read_keyed_u64 h (path_join directory ''cgroup.events'') ''populated'')"
  assume round: "wait_round h directory identity deadline k = (None, k')"
  obtain now k1 where now: "h_now h k = (now, k1)" by (cases "h_now h k")
  with round obtain populated k2 where probe: "?probe k1 = (Inr populated, k2)" and early: "now < deadline"
      and k': "k' = h_sleep h CLEANUP_POLL_INTERVAL k2"
    by (auto simp: wait_round_def split: if_splits prod.splits sum.splits)
  have "io_mono clock ?probe" by (intro mono_intros mono)
  from io_monoD [OF this probe] have "clock k1 \<le> clock k2" .
  moreover have "clock k \<le> now" "clock k \<le> clock k1" using monotone_clock_now [OF mono now] by simp_all
  moreover have "clock k2 + CLEANUP_POLL_INTERVAL \<le> clock k'" using monotone_clock_sleep [OF mono] k' by simp
  ultimately show "deadline - clock k' < deadline - clock k"
    using early by (simp add: CLEANUP_POLL_INTERVAL_def)
qed

lemma wait_until_empty_returns:
  "monotone_clock h clock \<Longrightarrow> \<exists>r k'. wait_until_empty h directory identity k = Some (r, k')"
  by (simp add: wait_until_empty_def wait_until_empty_until_returns split: prod.splits)

lemma task_cgroup_finish_returns:
  assumes "monotone_clock h clock" shows "\<exists>r k'. task_cgroup_finish h c k = Some (r, k')"
proof (cases "task_cgroup_terminate h c k")
  case (Pair r k1)
  obtain r2 k2 where "wait_until_empty h (tcg_directory c) (tcg_directory_identity c) k1 = Some (r2, k2)"
    using wait_until_empty_returns [OF assms] by blast
  with Pair show ?thesis by (cases r; cases r2) (auto simp: task_cgroup_finish_def io_map_err_def split: prod.splits sum.splits)
qed

lemma reconcile_loop_returns:
  assumes mono: "monotone_clock h clock" shows "\<exists>r k'. reconcile_loop h uuid m deadline ids removed k = Some (r, k')"
proof (induction ids arbitrary: removed k)
  case (Cons t ids)
  have wait: "\<exists>r k'. wait_until_empty_until h directory identity deadline k = Some (r, k')" for directory identity k
    by (rule wait_until_empty_until_returns [OF mono])
  obtain r k1 where kill: "reconcile_kill h uuid m deadline t k = (r, k1)" by (cases "reconcile_kill h uuid m deadline t k")
  show ?case
  proof (cases "\<exists>identity. r = Inr (Some identity)")
    case True
    then obtain identity where r: "r = Inr (Some identity)" by blast
    obtain r2 k2 where w: "wait_until_empty_until h (task_cgroup_path uuid m t) identity deadline k1 = Some (r2, k2)"
      using wait by blast
    from kill r w Cons.IH show ?thesis by (cases r2) (auto split: prod.splits sum.splits)
  qed (use kill Cons.IH in \<open>auto split: sum.splits option.splits\<close>)
qed simp

lemma reconcile_returns:
  assumes "monotone_clock h clock" shows "\<exists>r k'. reconcile_stale_task_cgroups h uuid m ids k = Some (r, k')"
proof -
  obtain r k1 where v: "cgroup_validate_root h m k = (r, k1)" by (cases "cgroup_validate_root h m k")
  obtain now k2 where n: "h_now h k1 = (now, k2)" by (cases "h_now h k1")
  obtain r3 k3 where l: "reconcile_loop h uuid m (now + CLEANUP_TIMEOUT) ids 0 k2 = Some (r3, k3)"
    using reconcile_loop_returns [OF assms] by blast
  show ?thesis
    by (cases r; cases r3) (auto simp: reconcile_stale_task_cgroups_def v n l split: prod.splits)
qed

lemma task_cgroup_finish_empty:
  assumes "task_cgroup_finish h c k = Some (Inr (), k')"
  shows "\<exists>k1 k2. read_keyed_u64 h (path_join (tcg_directory c) ''cgroup.events'') ''populated'' k1 = (Inr 0, k2)
    \<and> h_remove_dir h (tcg_directory c) k2 = (Inr (), k')"
proof -
  obtain k0 where "task_cgroup_terminate h c k = (Inr (), k0)"
    using assms by (cases "task_cgroup_terminate h c k") (auto simp: task_cgroup_finish_def split: sum.splits)
  with assms obtain r k2 where "wait_until_empty h (tcg_directory c) (tcg_directory_identity c) k0 = Some (r, k2)"
      and "(case r of Inl e \<Rightarrow> (Inl e, k2)
        | Inr _ \<Rightarrow> io_map_err PaInvalidResourceControl (h_remove_dir h (tcg_directory c)) k2) = (Inr (), k')"
    by (auto simp: task_cgroup_finish_def)
  then have wait: "wait_until_empty h (tcg_directory c) (tcg_directory_identity c) k0 = Some (Inr (), k2)"
      and rm: "h_remove_dir h (tcg_directory c) k2 = (Inr (), k')"
    by (auto simp: io_simps split: sum.splits)
  from wait obtain deadline k1 where "wait_round h (tcg_directory c) (tcg_directory_identity c) deadline k1 = (Some (Inr ()), k2)"
    unfolding wait_until_empty_def wait_until_empty_until_def
    by (auto split: prod.splits dest!: io_loop_result)
  then have "\<exists>k3. read_keyed_u64 h (path_join (tcg_directory c) ''cgroup.events'') ''populated'' k3 = (Inr 0, k2)"
    by (auto simp: wait_round_def io_simps split: if_splits prod.splits sum.splits)
  with rm show ?thesis by blast
qed

section \<open>The clean-up touches the given tasks only\<close>

text \<open>The system with other calls for writing, removing and listing.\<close>

abbreviation rewired ::
  "'k host_api \<Rightarrow> (string \<Rightarrow> string \<Rightarrow> ('k, io_error, unit) io) \<Rightarrow> (string \<Rightarrow> ('k, io_error, unit) io)
   \<Rightarrow> (string \<Rightarrow> ('k, io_error, (io_error + string) list) io) \<Rightarrow> 'k host_api" where
  "rewired h write remove list \<equiv> h\<lparr>h_write := write, h_remove_dir := remove, h_read_dir := list\<rparr>"

lemma rewired_path_is_file: "path_is_file (rewired h write remove list) path = path_is_file h path"
  by (rule ext) (simp add: path_is_file_def)

lemma rewired_read_text: "read_text (rewired h write remove list) path = read_text h path"
  by (simp add: read_text_def)

lemma rewired_identity_read: "cgroup_identity_read (rewired h write remove list) path = cgroup_identity_read h path"
  by (simp add: cgroup_identity_read_def directory_identity_read_def)

lemma rewired_current: "current_cgroup_directory (rewired h write remove list) = current_cgroup_directory h"
  by (simp add: current_cgroup_directory_def rewired_read_text)

lemma rewired_now: "io_now (rewired h write remove list) = io_now h"
  by (rule ext) (simp add: io_now_def)

lemmas rewired_reads = rewired_now rewired_path_is_file rewired_read_text rewired_identity_read rewired_current

lemma rewired_validate_root: "cgroup_validate_root (rewired h write remove list) m = cgroup_validate_root h m"
  by (simp add: cgroup_validate_root_def validate_cgroup_root_def require_files_def rewired_reads)

lemma rewired_validate_identity:
  "validate_task_cgroup_identity (rewired h write remove list) directory identity = validate_task_cgroup_identity h directory identity"
  by (simp add: validate_task_cgroup_identity_def require_files_def rewired_reads)

lemma rewired_cleanup_target:
  "validate_cleanup_target (rewired h write remove list) directory identity = validate_cleanup_target h directory identity"
  by (simp add: validate_cleanup_target_def rewired_validate_identity rewired_current)

lemma rewired_wait:
  "wait_until_empty_until (rewired h write remove list) directory identity deadline = wait_until_empty_until h directory identity deadline"
proof -
  have "wait_round (rewired h write remove list) directory identity deadline = wait_round h directory identity deadline"
    by (rule ext) (simp add: wait_round_def rewired_validate_identity read_keyed_u64_def rewired_read_text
        cong: if_cong prod.case_cong sum.case_cong)
  then show ?thesis by (simp add: wait_until_empty_until_def)
qed

lemma rewired_reconcile_loop:
  assumes "\<forall>t \<in> set ids. remove (task_cgroup_path uuid m t) = h_remove_dir h (task_cgroup_path uuid m t)"
    and "\<forall>t \<in> set ids. write (path_join (task_cgroup_path uuid m t) ''cgroup.kill'') ''1''
           = h_write h (path_join (task_cgroup_path uuid m t) ''cgroup.kill'') ''1''"
  shows "reconcile_loop (rewired h write remove list) uuid m deadline ids removed k = reconcile_loop h uuid m deadline ids removed k"
  using assms
proof (induction ids arbitrary: removed k)
  case (Cons t ids)
  have kill: "reconcile_kill (rewired h write remove list) uuid m deadline t = reconcile_kill h uuid m deadline t"
    using Cons.prems(2)
    by (simp add: reconcile_kill_def Let_def rewired_validate_root rewired_reads rewired_cleanup_target terminate_task_cgroup_def
        rewired_validate_identity cong: prod.case_cong sum.case_cong io_error.case_cong)
  have remove: "reconcile_remove (rewired h write remove list) uuid m deadline t = reconcile_remove h uuid m deadline t"
    by (rule ext) (use Cons.prems(1) in \<open>simp add: reconcile_remove_def Let_def rewired_validate_root rewired_cleanup_target rewired_now\<close>)
  have IH: "reconcile_loop (rewired h write remove list) uuid m deadline ids removed k = reconcile_loop h uuid m deadline ids removed k"
    for removed k using Cons by simp
  show ?case
    by (simp add: kill remove rewired_wait IH cong: if_cong prod.case_cong sum.case_cong option.case_cong)
qed simp

section \<open>Properties\<close>

text \<open>C16: cleaning up the cgroup of a task always comes to an end, and success means that the cgroup is
  gone. On a system whose clock does not run backwards, \<open>TaskCgroup::finish\<close> and
  \<open>reconcile_stale_task_cgroups\<close> return whatever the files of the cgroup say: the waiting loop
  gives up at its deadline. \<open>finish\<close> answers \<open>Ok\<close> only after the kernel reported the cgroup as not
  populated and the directory was removed.\<close>

theorem cgroup_cleanup_returns:
  assumes "monotone_clock h clock"
  shows "(\<exists>r k'. task_cgroup_finish h c k = Some (r, k')
           \<and> (r = Inr () \<longrightarrow> (\<exists>k1 k2. read_keyed_u64 h (path_join (tcg_directory c) ''cgroup.events'') ''populated'' k1 = (Inr 0, k2)
                \<and> h_remove_dir h (tcg_directory c) k2 = (Inr (), k'))))
    \<and> (\<exists>r k'. reconcile_stale_task_cgroups h uuid m ids k = Some (r, k'))"
proof -
  obtain r k' where r: "task_cgroup_finish h c k = Some (r, k')" using task_cgroup_finish_returns [OF assms] by blast
  have "\<exists>r k'. task_cgroup_finish h c k = Some (r, k')
      \<and> (r = Inr () \<longrightarrow> (\<exists>k1 k2. read_keyed_u64 h (path_join (tcg_directory c) ''cgroup.events'') ''populated'' k1 = (Inr 0, k2)
           \<and> h_remove_dir h (tcg_directory c) k2 = (Inr (), k')))"
    using r task_cgroup_finish_empty [of h c k k'] by (intro exI [of _ r] exI [of _ k']) simp
  with reconcile_returns [OF assms] show ?thesis by blast
qed

definition demo_cgroup :: task_cgroup where
  "demo_cgroup = \<lparr>tcg_task_id = TaskId 1, tcg_directory = ''/c'', tcg_directory_identity = \<lparr>di_device = 1, di_inode = 3\<rparr>,
     tcg_budget = \<lparr>cb_cpu_time_micros = 1, cb_memory_bytes = 1\<rparr>\<rparr>"

text \<open>A cgroup whose processes have ended, and one that stays populated.\<close>

definition demo_cgroup_host :: "string \<Rightarrow> sim_host" where
  "demo_cgroup_host populated = \<lparr>sh_clock = 0,
     sh_nodes = ([RootDir, Normal ''c''], sim_dir 3 0 []) # map (\<lambda>f. ([RootDir, Normal ''c'', Normal f],
       sim_file 4 0 (if f = ''cgroup.events'' then ''populated '' @ populated else []))) task_cgroup_files,
     sh_spawned = [], sh_polls = 0, sh_sent = []\<rparr>"

lemma demo_cgroup_finish:
  "map_option fst (task_cgroup_finish sim_host_api demo_cgroup (demo_cgroup_host ''0'')) = Some (Inr ())"
  by code_simp

theorem cgroup_cleanup_returns_witness:
  "monotone_clock sim_host_api sh_clock
   \<and> (\<exists>k'. task_cgroup_finish sim_host_api demo_cgroup (demo_cgroup_host ''0'') = Some (Inr (), k')
        \<and> (\<exists>k1 k2. read_keyed_u64 sim_host_api (path_join (tcg_directory demo_cgroup) ''cgroup.events'') ''populated'' k1 = (Inr 0, k2)
             \<and> h_remove_dir sim_host_api (tcg_directory demo_cgroup) k2 = (Inr (), k')))
   \<and> (\<exists>r k'. task_cgroup_finish sim_host_api demo_cgroup (demo_cgroup_host ''1'') = Some (r, k'))"
proof (intro conjI)
  show "monotone_clock sim_host_api sh_clock" by (rule sim_clock)
  obtain r k' where r: "task_cgroup_finish sim_host_api demo_cgroup (demo_cgroup_host ''0'') = Some (r, k')"
      and ok: "r = Inr () \<longrightarrow> (\<exists>k1 k2. read_keyed_u64 sim_host_api (path_join (tcg_directory demo_cgroup) ''cgroup.events'') ''populated'' k1 = (Inr 0, k2)
             \<and> h_remove_dir sim_host_api (tcg_directory demo_cgroup) k2 = (Inr (), k'))"
    using cgroup_cleanup_returns [OF sim_clock, of demo_cgroup] by blast
  have "r = Inr ()" using demo_cgroup_finish unfolding r by simp
  with r ok show "\<exists>k'. task_cgroup_finish sim_host_api demo_cgroup (demo_cgroup_host ''0'') = Some (Inr (), k')
        \<and> (\<exists>k1 k2. read_keyed_u64 sim_host_api (path_join (tcg_directory demo_cgroup) ''cgroup.events'') ''populated'' k1 = (Inr 0, k2)
             \<and> h_remove_dir sim_host_api (tcg_directory demo_cgroup) k2 = (Inr (), k'))"
    by blast
  show "\<exists>r k'. task_cgroup_finish sim_host_api demo_cgroup (demo_cgroup_host ''1'') = Some (r, k')"
    using cgroup_cleanup_returns [OF sim_clock, of demo_cgroup "demo_cgroup_host ''1''"] by blast
qed

text \<open>C15: the clean-up at startup touches the cgroups of the recovered tasks and nothing else. The only
  writes of \<open>reconcile_stale_task_cgroups\<close> are \<open>1\<close> to the \<open>cgroup.kill\<close> of exact
  \<open>task-<id>\<close> children of the delegated root for the given identifiers, the only directories it
  removes are these children, and it never lists a directory: its answer and the resulting state
  of the system stay the same if every other write, every other removal and every listing of the
  system is replaced by an arbitrary one.\<close>

theorem cgroup_reconcile_confined:
  assumes "\<forall>t \<in> set ids. remove (task_cgroup_path uuid m t) = h_remove_dir h (task_cgroup_path uuid m t)"
    and "\<forall>t \<in> set ids. write (path_join (task_cgroup_path uuid m t) ''cgroup.kill'') ''1''
           = h_write h (path_join (task_cgroup_path uuid m t) ''cgroup.kill'') ''1''"
  shows "reconcile_stale_task_cgroups (h\<lparr>h_write := write, h_remove_dir := remove, h_read_dir := list\<rparr>) uuid m ids k
    = reconcile_stale_task_cgroups h uuid m ids k"
proof -
  have "reconcile_loop (rewired h write remove list) uuid m deadline ids 0 k = reconcile_loop h uuid m deadline ids 0 k"
    for deadline k using assms by (rule rewired_reconcile_loop)
  then show ?thesis
    by (simp add: reconcile_stale_task_cgroups_def rewired_validate_root cong: prod.case_cong sum.case_cong)
qed

definition demo_delegated_host :: sim_host where
  "demo_delegated_host = \<lparr>sh_clock = 0,
     sh_nodes = (let cg = [RootDir, Normal ''sys'', Normal ''fs'', Normal ''cgroup'', Normal ''a''] in
       [(cg, sim_dir 2 0 []), (cg @ [Normal ''cgroup.controllers''], sim_file 4 0 ''cpu memory''),
        (cg @ [Normal ''cgroup.procs''], sim_file 4 0 []), (cg @ [Normal ''cgroup.subtree_control''], sim_file 4 0 ''cpu memory''),
        ([RootDir, Normal ''proc'', Normal ''self'', Normal ''cgroup''], sim_file 4 0 ''0::/a/r''), (cg @ [Normal ''r''], sim_dir 3 0 []),
        (cg @ [Normal ''task-1''], sim_dir 3 0 [])]
       @ map (\<lambda>f. (cg @ [Normal ''task-1'', Normal f], sim_file 4 0 (if f = ''cgroup.events'' then ''populated 0'' else []))) task_cgroup_files),
     sh_spawned = [], sh_polls = 0, sh_sent = []\<rparr>"

definition demo_manager :: cgroup_v2_manager where
  "demo_manager = \<lparr>cm_root_directory = ''/sys/fs/cgroup/a'', cm_root_identity = \<lparr>di_device = 1, di_inode = 2\<rparr>\<rparr>"

definition demo_only_task_1 :: "sim_host host_api" where
  "demo_only_task_1 = sim_host_api\<lparr>
     h_write := (\<lambda>path content. if path = ''/sys/fs/cgroup/a/task-1/cgroup.kill'' then h_write sim_host_api path content else (\<lambda>k. (Inl OtherIo, k))),
     h_remove_dir := (\<lambda>path. if path = ''/sys/fs/cgroup/a/task-1'' then h_remove_dir sim_host_api path else (\<lambda>k. (Inl OtherIo, k))),
     h_read_dir := (\<lambda>path k. (Inl OtherIo, k))\<rparr>"

lemma demo_reconcile:
  "map_option fst (reconcile_stale_task_cgroups sim_host_api (\<lambda>_. ''1'') demo_manager [TaskId 1] demo_delegated_host) = Some (Inr 1)"
  by code_simp

theorem cgroup_reconcile_confined_witness:
  "map_option fst (reconcile_stale_task_cgroups demo_only_task_1 (\<lambda>_. ''1'') demo_manager [TaskId 1] demo_delegated_host) = Some (Inr 1)"
proof -
  have "task_cgroup_path (\<lambda>_. ''1'') demo_manager (TaskId 1) = ''/sys/fs/cgroup/a/task-1''"
    "path_join ''/sys/fs/cgroup/a/task-1'' ''cgroup.kill'' = ''/sys/fs/cgroup/a/task-1/cgroup.kill''"
    by (simp_all add: task_cgroup_path_def demo_manager_def path_join_def path_is_absolute_def starts_with_def)
  then have "reconcile_stale_task_cgroups demo_only_task_1 (\<lambda>_. ''1'') demo_manager [TaskId 1] demo_delegated_host
      = reconcile_stale_task_cgroups sim_host_api (\<lambda>_. ''1'') demo_manager [TaskId 1] demo_delegated_host"
    unfolding demo_only_task_1_def by (intro cgroup_reconcile_confined) simp_all
  then show ?thesis by (simp only: demo_reconcile)
qed

end
