(* ===== verification/Descriptor.thy ===== *)
theory Descriptor
  imports Sandbox "HOL-Library.Multiset"
begin

text \<open>
  \<open>aios-adapter-process/src/descriptor.rs\<close>: the read capabilities of a task as descriptors opened
  beneath one trusted root, and the channel that hands them, after the seccomp filter, to the
  launcher.
\<close>

section \<open>Capabilities\<close>

definition MAX_FILESYSTEM_CAPABILITY_MOUNTS :: nat where "MAX_FILESYSTEM_CAPABILITY_MOUNTS = 128"

text \<open>The derived order of \<open>FileAccess\<close>.\<close>

instantiation file_access :: linorder
begin

definition less_eq_file_access :: "file_access \<Rightarrow> file_access \<Rightarrow> bool" where
  "less_eq_file_access a b \<longleftrightarrow> a = Read \<or> b = Write"

definition less_file_access :: "file_access \<Rightarrow> file_access \<Rightarrow> bool" where
  "less_file_access a b \<longleftrightarrow> a = Read \<and> b = Write"

instance
proof
  fix a b c :: file_access
  show "a < b \<longleftrightarrow> a \<le> b \<and> \<not> b \<le> a" by (cases a; cases b) (simp_all add: less_eq_file_access_def less_file_access_def)
  show "a \<le> b \<or> b \<le> a" by (cases a) (simp_all add: less_eq_file_access_def)
  show "a \<le> b \<Longrightarrow> b \<le> a \<Longrightarrow> a = b" by (cases a; cases b) (simp_all add: less_eq_file_access_def)
  show "a \<le> b \<Longrightarrow> b \<le> c \<Longrightarrow> a \<le> c" by (cases b) (simp_all add: less_eq_file_access_def)
qed (simp add: less_eq_file_access_def, metis file_access.exhaust)

end

record filesystem_capability_mount =
  fm_capability :: file_capability
  fm_descriptor :: nat

text \<open>The loop of \<open>validate_mount_capabilities\<close> over the capabilities in their order.\<close>

fun check_capabilities :: "(string \<times> file_access) option \<Rightarrow> file_capability list \<Rightarrow> process_adapter_error + unit" where
  "check_capabilities previous [] = Inr ()"
| "check_capabilities previous (capability # ordered) =
     (case validate_sandbox_absolute_path (fc_path capability) of
        Inl e \<Rightarrow> Inl e
      | Inr _ \<Rightarrow>
          if fc_path capability = ''/'' then Inl PaInvalidSandbox
          else if fc_access capability \<noteq> Read then Inl PaUnsupportedFilesystemCapability
          else if previous = Some (fc_path capability, fc_access capability) then Inl PaInvalidSandbox
          else check_capabilities (Some (fc_path capability, fc_access capability)) ordered)"

definition validate_mount_capabilities :: "file_capability list \<Rightarrow> process_adapter_error + unit" where
  "validate_mount_capabilities capabilities =
     (if MAX_FILESYSTEM_CAPABILITY_MOUNTS < length capabilities then Inl PaInvalidSandbox
      else check_capabilities None (sort_key (\<lambda>c. (fc_path c, fc_access c)) capabilities))"

definition path_depth :: "string \<Rightarrow> nat" where
  "path_depth path = length (path_components path)"

definition open_capability :: "'k host_api \<Rightarrow> nat \<Rightarrow> file_capability \<Rightarrow> ('k, filesystem_capability_mount) pa_io" where
  "open_capability h root capability =
     io_bind (io_pure (ok_or PaInvalidSandbox (path_strip_prefix (fc_path capability) ''/''))) (\<lambda>relative.
     io_bind (io_map_err PaInvalidSandbox
       (h_openat2 h root relative [O_PATH, O_CLOEXEC] [BENEATH, NO_MAGICLINKS, NO_SYMLINKS, NO_XDEV])) (\<lambda>descriptor.
     io_ret \<lparr>fm_capability = capability, fm_descriptor = descriptor\<rparr>))"

definition open_capabilities ::
  "'k host_api \<Rightarrow> string \<Rightarrow> file_capability list \<Rightarrow> ('k, filesystem_capability_mount list) pa_io" where
  "open_capabilities h source_root capabilities =
     io_bind (io_map_err PaInvalidSandbox (h_open_dir h source_root)) (\<lambda>root.
     io_collect (open_capability h root) (sort_key (\<lambda>c. (path_depth (fc_path c), fc_path c)) capabilities))"

definition open_filesystem_capabilities ::
  "bool \<Rightarrow> 'k host_api \<Rightarrow> string \<Rightarrow> file_capability list \<Rightarrow> ('k, filesystem_capability_mount list) pa_io" where
  "open_filesystem_capabilities linux h source_root capabilities =
     (if capabilities = [] then io_ret []
      else
        io_bind (io_reject (\<not> linux) PaUnsupportedPlatform) (\<lambda>_.
        io_bind (canonical_directory h source_root) (\<lambda>source_root.
        io_bind (io_pure (validate_mount_capabilities capabilities)) (\<lambda>_.
        open_capabilities h source_root capabilities))))"

section \<open>The channel\<close>

definition descriptor_channel :: "'k host_api \<Rightarrow> ('k, nat \<times> nat) pa_io" where
  "descriptor_channel h = io_map_err PaDescriptorTransferFailed (h_socket_pair h)"

definition descriptor_send :: "'k host_api \<Rightarrow> nat \<Rightarrow> nat \<Rightarrow> filesystem_capability_mount list \<Rightarrow> ('k, unit) pa_io" where
  "descriptor_send h sender seccomp mounts =
     (let payload = [1 :: u8] in
      io_bind (io_map_err PaDescriptorTransferFailed (h_sendmsg h sender payload (seccomp # map fm_descriptor mounts))) (\<lambda>sent.
      io_reject (sent \<noteq> length payload) PaDescriptorTransferFailed))"

section \<open>Which capabilities are accepted\<close>

definition mountable :: "file_capability \<Rightarrow> bool" where
  "mountable c \<longleftrightarrow> validate_sandbox_absolute_path (fc_path c) = Inr () \<and> fc_path c \<noteq> ''/'' \<and> fc_access c = Read"

lemma check_capabilities_ok:
  assumes "sorted (map fc_path cs)"
  shows "check_capabilities (map_option (\<lambda>p. (p, Read)) previous) cs = Inr ()
    \<longleftrightarrow> (\<forall>c \<in> set cs. mountable c) \<and> distinct (map fc_path cs)
        \<and> (case cs of [] \<Rightarrow> True | c # _ \<Rightarrow> previous \<noteq> Some (fc_path c))"
  using assms
proof (induction cs arbitrary: previous)
  case (Cons c cs)
  have next_differs: "distinct (map fc_path (c # cs)) \<longleftrightarrow>
      distinct (map fc_path cs) \<and> (case cs of [] \<Rightarrow> True | d # _ \<Rightarrow> Some (fc_path c) \<noteq> Some (fc_path d))"
    using Cons.prems by (cases cs) auto
  show ?case
  proof (cases "mountable c \<and> previous \<noteq> Some (fc_path c)")
    case True
    then show ?thesis
      using Cons.IH [of "Some (fc_path c)"] Cons.prems unfolding next_differs
      by (auto simp: mountable_def)
  next
    case False
    then show ?thesis by (auto simp: mountable_def split: sum.splits)
  qed
qed simp

lemma sorted_by_path:
  "sorted (map fc_path (sort_key (\<lambda>c. (fc_path c, fc_access c)) cs))"
proof -
  have "sorted (map (\<lambda>c. (fc_path c, fc_access c)) (sort_key (\<lambda>c. (fc_path c, fc_access c)) cs))" by (rule sorted_sort_key)
  then have "sorted_wrt (\<lambda>c d. (fc_path c, fc_access c) \<le> (fc_path d, fc_access d)) (sort_key (\<lambda>c. (fc_path c, fc_access c)) cs)"
    by (simp add: sorted_wrt_map)
  then have "sorted_wrt (\<lambda>c d. fc_path c \<le> fc_path d) (sort_key (\<lambda>c. (fc_path c, fc_access c)) cs)"
    by (rule sorted_wrt_mono_rel [rotated]) auto
  then show ?thesis by (simp add: sorted_wrt_map)
qed

lemma distinct_map_sort_key: "distinct (map f (sort_key g xs)) \<longleftrightarrow> distinct (map f xs)"
  by (metis mset_map mset_eq_imp_distinct_iff mset_sort)

lemma validate_mount_capabilities_ok:
  "validate_mount_capabilities cs = Inr () \<longleftrightarrow>
     length cs \<le> MAX_FILESYSTEM_CAPABILITY_MOUNTS \<and> (\<forall>c \<in> set cs. mountable c) \<and> distinct (map fc_path cs)"
  using check_capabilities_ok [OF sorted_by_path, of None cs]
  by (auto simp: validate_mount_capabilities_def distinct_map_sort_key split: list.splits)

section \<open>Which descriptors are opened\<close>

lemma io_collectD:
  "io_collect f xs k = (Inr ys, k') \<Longrightarrow> list_all2 (\<lambda>x y. \<exists>k1 k2. f x k1 = (Inr y, k2)) xs ys"
  by (induction xs arbitrary: ys k) (auto simp: io_simps)

text \<open>The descriptor of a mount was returned for its capability by \<open>openat2\<close> beneath some directory.\<close>

definition opened_beneath :: "'k host_api \<Rightarrow> filesystem_capability_mount \<Rightarrow> bool" where
  "opened_beneath h m \<longleftrightarrow> (\<exists>root relative k k'. path_components (fc_path (fm_capability m)) = RootDir # relative
     \<and> h_openat2 h root relative [O_PATH, O_CLOEXEC] [BENEATH, NO_MAGICLINKS, NO_SYMLINKS, NO_XDEV] k = (Inr (fm_descriptor m), k'))"

lemma open_capability_ok:
  assumes "open_capability h root c k = (Inr m, k')"
  shows "fm_capability m = c \<and> opened_beneath h m"
  using assms by (fastforce simp: open_capability_def opened_beneath_def io_simps path_strip_prefix_def)

lemma sorted_wrt_keys:
  assumes "\<And>x y. f x \<le> f y \<Longrightarrow> P x y" shows "sorted_wrt P (sort_key f xs)"
proof -
  have "sorted_wrt (\<lambda>x y. f x \<le> f y) (sort_key f xs)" using sorted_sort_key [of f xs] by (simp add: sorted_wrt_map)
  then show ?thesis by (rule sorted_wrt_mono_rel [rotated]) (rule assms)
qed

text \<open>Every accepted capability is mounted once, from a descriptor opened beneath the source root, and
  a directory before what is below it.\<close>

definition mounts_ok :: "'k host_api \<Rightarrow> file_capability list \<Rightarrow> filesystem_capability_mount list \<Rightarrow> bool" where
  "mounts_ok h cs mounts \<longleftrightarrow> mset (map fm_capability mounts) = mset cs
     \<and> sorted_wrt (\<lambda>c d. path_depth (fc_path c) \<le> path_depth (fc_path d)) (map fm_capability mounts)
     \<and> (\<forall>m \<in> set mounts. mountable (fm_capability m) \<and> opened_beneath h m)
     \<and> distinct (map (\<lambda>m. fc_path (fm_capability m)) mounts) \<and> length mounts \<le> MAX_FILESYSTEM_CAPABILITY_MOUNTS"

lemma open_filesystem_capabilities_ok:
  assumes "open_filesystem_capabilities linux h source_root cs k = (Inr mounts, k')"
  shows "mounts_ok h cs mounts"
proof -
  let ?key = "\<lambda>c. (path_depth (fc_path c), fc_path c)"
  consider (none) "cs = []" "mounts = []"
    | (some) root k1 where "validate_mount_capabilities cs = Inr ()"
        "io_collect (open_capability h root) (sort_key ?key cs) k1 = (Inr mounts, k')"
    using assms by (auto simp: open_filesystem_capabilities_def open_capabilities_def io_simps split: if_splits)
  then show ?thesis
  proof cases
    case some
    have "list_all2 (\<lambda>c m. fm_capability m = c \<and> opened_beneath h m) (sort_key ?key cs) mounts"
      by (rule list_all2_mono [OF io_collectD [OF some(2)]]) (blast dest: open_capability_ok)
    then have caps: "map fm_capability mounts = sort_key ?key cs" and opened: "\<forall>m \<in> set mounts. opened_beneath h m"
      by (auto simp: list_all2_conv_all_nth in_set_conv_nth intro!: nth_equalityI)
    have members: "set (map fm_capability mounts) = set cs" and len: "length mounts = length cs"
      by (simp_all add: caps flip: length_map [of fm_capability])
    have paths: "map (\<lambda>m. fc_path (fm_capability m)) mounts = map fc_path (sort_key ?key cs)"
      by (simp flip: caps)
    have ordered: "sorted_wrt (\<lambda>c d. path_depth (fc_path c) \<le> path_depth (fc_path d)) (sort_key ?key cs)"
      by (rule sorted_wrt_keys) auto
    have "mountable (fm_capability m)" if "m \<in> set mounts" for m
    proof -
      have "fm_capability m \<in> set cs" using that by (simp flip: members)
      with some(1) show ?thesis by (simp add: validate_mount_capabilities_ok)
    qed
    with some(1) opened ordered show ?thesis
      unfolding mounts_ok_def paths distinct_map_sort_key caps by (simp add: validate_mount_capabilities_ok len)
  qed (simp add: mounts_ok_def)
qed

end
