(* ===== verification/Seccomp.thy ===== *)
theory Seccomp
  imports Prelude
begin

text \<open>
  \<open>aios-adapter-process/src/seccomp.rs\<close>: the system call filter of the process sandbox, as the
  bytes handed to the kernel (x86_64, so native order is little endian). The decoder
  \<open>instruction\<close> and the evaluator \<open>evaluate\<close> are those of the crate's tests; a panic of the
  evaluator (an offset or an instruction it does not know, or running past the end) is
  \<open>None\<close>. The result speaks about all 2^64 pairs of architecture and call number.
\<close>

section \<open>The filter\<close>

definition AUDIT_ARCH_X86_64 :: u32 where "AUDIT_ARCH_X86_64 = 0xc000003e"
definition X32_SYSCALL_BIT :: u32 where "X32_SYSCALL_BIT = 0x40000000"
definition MAX_REVIEWED_SYSCALL :: u32 where "MAX_REVIEWED_SYSCALL = 470"

definition BPF_LD_W_ABS :: u16 where "BPF_LD_W_ABS = 0x20"
definition BPF_JMP_JEQ_K :: u16 where "BPF_JMP_JEQ_K = 0x15"
definition BPF_JMP_JGE_K :: u16 where "BPF_JMP_JGE_K = 0x35"
definition BPF_JMP_JGT_K :: u16 where "BPF_JMP_JGT_K = 0x25"
definition BPF_RET_K :: u16 where "BPF_RET_K = 0x06"

definition SECCOMP_DATA_NR_OFFSET :: u32 where "SECCOMP_DATA_NR_OFFSET = 0"
definition SECCOMP_DATA_ARCH_OFFSET :: u32 where "SECCOMP_DATA_ARCH_OFFSET = 4"
definition SECCOMP_RET_KILL_PROCESS :: u32 where "SECCOMP_RET_KILL_PROCESS = 0x80000000"
definition SECCOMP_RET_ALLOW :: u32 where "SECCOMP_RET_ALLOW = 0x7fff0000"

lemmas bpf_codes = BPF_LD_W_ABS_def BPF_JMP_JEQ_K_def BPF_JMP_JGE_K_def BPF_JMP_JGT_K_def BPF_RET_K_def
  SECCOMP_DATA_NR_OFFSET_def SECCOMP_DATA_ARCH_OFFSET_def

definition BLOCKED_SYSCALLS :: "(string \<times> u32) list" where
  "BLOCKED_SYSCALLS =
     [(''ptrace'', 101), (''syslog'', 103), (''personality'', 135), (''vhangup'', 153),
      (''pivot_root'', 155), (''acct'', 163), (''settimeofday'', 164), (''mount'', 165),
      (''umount2'', 166), (''swapon'', 167), (''swapoff'', 168), (''reboot'', 169), (''iopl'', 172),
      (''ioperm'', 173), (''init_module'', 175), (''delete_module'', 176), (''quotactl'', 179),
      (''lookup_dcookie'', 212), (''clock_settime'', 227), (''kexec_load'', 246), (''add_key'', 248),
      (''request_key'', 249), (''keyctl'', 250), (''unshare'', 272), (''perf_event_open'', 298),
      (''fanotify_init'', 300), (''name_to_handle_at'', 303), (''open_by_handle_at'', 304),
      (''clock_adjtime'', 305), (''setns'', 308), (''process_vm_readv'', 310),
      (''process_vm_writev'', 311), (''kcmp'', 312), (''finit_module'', 313),
      (''kexec_file_load'', 320), (''bpf'', 321), (''userfaultfd'', 323), (''io_uring_setup'', 425),
      (''io_uring_enter'', 426), (''io_uring_register'', 427), (''open_tree'', 428),
      (''move_mount'', 429), (''fsopen'', 430), (''fsconfig'', 431), (''fsmount'', 432),
      (''fspick'', 433), (''pidfd_getfd'', 438), (''process_madvise'', 440), (''mount_setattr'', 442),
      (''quotactl_fd'', 443), (''memfd_secret'', 447), (''process_mrelease'', 448),
      (''statmount'', 457), (''listmount'', 458), (''lsm_set_self_attr'', 460),
      (''lsm_list_modules'', 461), (''open_tree_attr'', 467), (''file_getattr'', 468),
      (''file_setattr'', 469), (''listns'', 470)]"

record filter_instruction =
  fi_code :: u16
  fi_jump_true :: u8
  fi_jump_false :: u8
  fi_value :: u32

definition fi_statement :: "u16 \<Rightarrow> u32 \<Rightarrow> filter_instruction" where
  "fi_statement code value = \<lparr>fi_code = code, fi_jump_true = 0, fi_jump_false = 0, fi_value = value\<rparr>"

definition fi_jump :: "u16 \<Rightarrow> u32 \<Rightarrow> u8 \<Rightarrow> u8 \<Rightarrow> filter_instruction" where
  "fi_jump code value jump_true jump_false =
     \<lparr>fi_code = code, fi_jump_true = jump_true, fi_jump_false = jump_false, fi_value = value\<rparr>"

definition u16_to_ne_bytes :: "u16 \<Rightarrow> u8 list" where
  "u16_to_ne_bytes w = [ucast w, ucast (drop_bit 8 w)]"

definition append_bytes :: "filter_instruction \<Rightarrow> u8 list \<Rightarrow> u8 list" where
  "append_bytes i bytes =
     bytes @ u16_to_ne_bytes (fi_code i) @ [fi_jump_true i] @ [fi_jump_false i] @ u32_to_ne_bytes (fi_value i)"

definition default_filter :: "filter_instruction list" where
  "default_filter =
     [fi_statement BPF_LD_W_ABS SECCOMP_DATA_ARCH_OFFSET,
      fi_jump BPF_JMP_JEQ_K AUDIT_ARCH_X86_64 1 0,
      fi_statement BPF_RET_K SECCOMP_RET_KILL_PROCESS,
      fi_statement BPF_LD_W_ABS SECCOMP_DATA_NR_OFFSET,
      fi_jump BPF_JMP_JGE_K X32_SYSCALL_BIT 0 1,
      fi_statement BPF_RET_K SECCOMP_RET_KILL_PROCESS,
      fi_jump BPF_JMP_JGT_K MAX_REVIEWED_SYSCALL 0 1,
      fi_statement BPF_RET_K SECCOMP_RET_KILL_PROCESS]
     @ concat (map (\<lambda>(name, syscall). [fi_jump BPF_JMP_JEQ_K syscall 0 1, fi_statement BPF_RET_K SECCOMP_RET_KILL_PROCESS])
         BLOCKED_SYSCALLS)
     @ [fi_statement BPF_RET_K SECCOMP_RET_ALLOW]"

definition default_filter_bytes :: "u8 list" where
  "default_filter_bytes = fold append_bytes default_filter []"

section \<open>The evaluator\<close>

definition u16_from_ne_bytes :: "u8 \<Rightarrow> u8 \<Rightarrow> u16" where
  "u16_from_ne_bytes a b = ucast a OR push_bit 8 (ucast b)"

definition instruction :: "u8 list \<Rightarrow> nat \<Rightarrow> (u16 \<times> u8 \<times> u8 \<times> u32) option" where
  "instruction bytes index =
     (let offset = index * 8 in
      if offset + 8 \<le> length bytes
      then Some (u16_from_ne_bytes (bytes ! offset) (bytes ! (offset + 1)), bytes ! (offset + 2), bytes ! (offset + 3),
             u32_from_ne_bytes (bytes ! (offset + 4)) (bytes ! (offset + 5)) (bytes ! (offset + 6)) (bytes ! (offset + 7)))
      else None)"

function evaluate_loop :: "u8 list \<Rightarrow> u32 \<Rightarrow> u32 \<Rightarrow> u32 \<Rightarrow> nat \<Rightarrow> u32 option" where
  "evaluate_loop bytes architecture syscall accumulator program_counter =
     (case instruction bytes program_counter of
        None \<Rightarrow> None
      | Some (code, jump_true, jump_false, value) \<Rightarrow>
          if code = BPF_LD_W_ABS then
            (if value = SECCOMP_DATA_NR_OFFSET
             then evaluate_loop bytes architecture syscall syscall (program_counter + 1)
             else if value = SECCOMP_DATA_ARCH_OFFSET
             then evaluate_loop bytes architecture syscall architecture (program_counter + 1)
             else None)
          else if code = BPF_JMP_JEQ_K then
            evaluate_loop bytes architecture syscall accumulator
              (program_counter + (unat (if accumulator = value then jump_true else jump_false) + 1))
          else if code = BPF_JMP_JGE_K then
            evaluate_loop bytes architecture syscall accumulator
              (program_counter + (unat (if value \<le> accumulator then jump_true else jump_false) + 1))
          else if code = BPF_JMP_JGT_K then
            evaluate_loop bytes architecture syscall accumulator
              (program_counter + (unat (if value < accumulator then jump_true else jump_false) + 1))
          else if code = BPF_RET_K then Some value
          else None)"
  by pat_completeness auto

termination
  by (relation "measure (\<lambda>(bytes, arch, nr, acc, pc). length bytes - pc)")
    (auto simp: instruction_def Let_def split: if_splits)

declare evaluate_loop.simps [simp del]

definition evaluate_filter :: "u8 list \<Rightarrow> u32 \<Rightarrow> u32 \<Rightarrow> u32 option" where
  "evaluate_filter bytes architecture syscall = evaluate_loop bytes architecture syscall 0 0"

section \<open>Encoding and decoding\<close>

lemma u16_ne_roundtrip: "u16_from_ne_bytes (ucast w) (ucast (drop_bit 8 w)) = w"
  unfolding u16_from_ne_bytes_def by (rule bit_word_eqI) (auto simp: bit_simps)

definition encode :: "filter_instruction list \<Rightarrow> u8 list" where
  "encode is = concat (map (\<lambda>i. append_bytes i []) is)"

lemma fold_append_bytes: "fold append_bytes is bytes = bytes @ encode is"
  by (induction "is" arbitrary: bytes) (auto simp: encode_def append_bytes_def)

lemma instruction_Suc: "length b = 8 \<Longrightarrow> instruction (b @ bytes) (Suc n) = instruction bytes n"
  by (simp add: instruction_def Let_def nth_append add.commute [of _ "n * 8"])

lemma instruction_encode:
  "drop pc is = i # rest \<Longrightarrow> instruction (encode is) pc = Some (fi_code i, fi_jump_true i, fi_jump_false i, fi_value i)"
proof (induction pc arbitrary: "is")
  case 0
  then show ?case
    by (simp add: encode_def instruction_def append_bytes_def u16_to_ne_bytes_def u32_to_ne_bytes_def
        u16_ne_roundtrip u32_ne_roundtrip nth_append)
next
  case (Suc pc)
  then obtain j js where "is = j # js" by (cases "is") auto
  with Suc have "instruction (encode js) pc = Some (fi_code i, fi_jump_true i, fi_jump_false i, fi_value i)" by simp
  moreover have "length (append_bytes j []) = 8"
    by (simp add: append_bytes_def u16_to_ne_bytes_def u32_to_ne_bytes_def)
  ultimately show ?case using \<open>is = j # js\<close> instruction_Suc by (simp add: encode_def)
qed

text \<open>One step of the evaluator at a known instruction.\<close>

lemma evaluate_load_nr:
  "drop pc is = fi_statement BPF_LD_W_ABS SECCOMP_DATA_NR_OFFSET # rest
   \<Longrightarrow> evaluate_loop (encode is) a n acc pc = evaluate_loop (encode is) a n n (Suc pc)"
  by (subst evaluate_loop.simps) (simp add: instruction_encode fi_statement_def)

lemma evaluate_load_arch:
  "drop pc is = fi_statement BPF_LD_W_ABS SECCOMP_DATA_ARCH_OFFSET # rest
   \<Longrightarrow> evaluate_loop (encode is) a n acc pc = evaluate_loop (encode is) a n a (Suc pc)"
  by (subst evaluate_loop.simps) (simp add: instruction_encode fi_statement_def bpf_codes)

lemma evaluate_ret:
  "drop pc is = fi_statement BPF_RET_K v # rest \<Longrightarrow> evaluate_loop (encode is) a n acc pc = Some v"
  by (subst evaluate_loop.simps) (simp add: instruction_encode fi_statement_def bpf_codes)

lemma evaluate_jump:
  assumes "drop pc is = fi_jump code v t f # rest" and "code \<in> {BPF_JMP_JEQ_K, BPF_JMP_JGE_K, BPF_JMP_JGT_K}"
  shows "evaluate_loop (encode is) a n acc pc = evaluate_loop (encode is) a n acc
     (pc + Suc (unat (if (if code = BPF_JMP_JEQ_K then acc = v else if code = BPF_JMP_JGE_K then v \<le> acc else v < acc)
        then t else f)))"
  using assms by (subst evaluate_loop.simps) (auto simp: instruction_encode fi_jump_def bpf_codes)

text \<open>The table: every blocked number kills, any other number falls through.\<close>

lemma evaluate_table:
  assumes "drop pc is = concat (map (\<lambda>(name, nr). [fi_jump BPF_JMP_JEQ_K nr 0 1, fi_statement BPF_RET_K SECCOMP_RET_KILL_PROCESS]) table)
      @ [fi_statement BPF_RET_K SECCOMP_RET_ALLOW]"
  shows "evaluate_loop (encode is) a n acc pc
     = Some (if acc \<in> snd ` set table then SECCOMP_RET_KILL_PROCESS else SECCOMP_RET_ALLOW)"
  using assms
proof (induction table arbitrary: pc)
  case Nil
  then show ?case by (simp add: evaluate_ret)
next
  case (Cons e table)
  obtain name nr where e: "e = (name, nr)" by (cases e)
  let ?rest = "concat (map (\<lambda>(name, nr). [fi_jump BPF_JMP_JEQ_K nr 0 1, fi_statement BPF_RET_K SECCOMP_RET_KILL_PROCESS]) table)
      @ [fi_statement BPF_RET_K SECCOMP_RET_ALLOW]"
  have d: "drop pc is = fi_jump BPF_JMP_JEQ_K nr 0 1 # fi_statement BPF_RET_K SECCOMP_RET_KILL_PROCESS # ?rest"
    using Cons.prems e by simp
  then have d1: "drop (Suc pc) is = fi_statement BPF_RET_K SECCOMP_RET_KILL_PROCESS # ?rest"
    by (simp add: drop_Suc tl_drop [symmetric])
  then have d2: "drop (Suc (Suc pc)) is = ?rest" by (simp add: drop_Suc tl_drop [symmetric])
  show ?case
    using evaluate_jump [OF d, of a n acc] evaluate_ret [OF d1] Cons.IH [OF d2] e by (auto simp: bpf_codes)
qed

section \<open>Properties\<close>

text \<open>C32: the filter is exactly the reviewed policy. For every architecture and every call
  number the bytes of the default filter evaluate to a verdict, never run off the end and
  hold no instruction the evaluator does not know; a call is allowed if and only if it is
  an x86_64 call, without the x32 bit, of a number up to the last reviewed one, and not in
  the deny table. Everything else kills the process.\<close>

theorem seccomp_filter_exact:
  "evaluate_filter default_filter_bytes architecture syscall =
     Some (if architecture = AUDIT_ARCH_X86_64 \<and> syscall < X32_SYSCALL_BIT \<and> syscall \<le> MAX_REVIEWED_SYSCALL
              \<and> syscall \<notin> snd ` set BLOCKED_SYSCALLS
           then SECCOMP_RET_ALLOW else SECCOMP_RET_KILL_PROCESS)"
proof -
  let ?is = default_filter
  have b: "default_filter_bytes = encode ?is" by (simp add: default_filter_bytes_def fold_append_bytes)
  note step = default_filter_def drop_Suc
  have ld: "evaluate_loop (encode ?is) architecture syscall 0 0 = evaluate_loop (encode ?is) architecture syscall architecture 1"
    using evaluate_load_arch [of 0 ?is] by (simp add: default_filter_def)
  have j1: "evaluate_loop (encode ?is) architecture syscall architecture 1
      = evaluate_loop (encode ?is) architecture syscall architecture (if architecture = AUDIT_ARCH_X86_64 then 3 else 2)"
    using evaluate_jump [of 1 ?is BPF_JMP_JEQ_K] by (simp add: default_filter_def numeral_eq_Suc)
  have kill: "evaluate_loop (encode ?is) a syscall acc 2 = Some SECCOMP_RET_KILL_PROCESS"
    "evaluate_loop (encode ?is) a syscall acc 5 = Some SECCOMP_RET_KILL_PROCESS"
    "evaluate_loop (encode ?is) a syscall acc 7 = Some SECCOMP_RET_KILL_PROCESS" for a acc
    using evaluate_ret [of 2 ?is] evaluate_ret [of 5 ?is] evaluate_ret [of 7 ?is]
    by (simp_all add: default_filter_def)
  have ld2: "evaluate_loop (encode ?is) a syscall acc 3 = evaluate_loop (encode ?is) a syscall syscall 4" for a acc
    using evaluate_load_nr [of 3 ?is] by (simp add: default_filter_def)
  have j2: "evaluate_loop (encode ?is) a syscall acc 4
      = evaluate_loop (encode ?is) a syscall acc (if X32_SYSCALL_BIT \<le> acc then 5 else 6)" for a acc
    using evaluate_jump [of 4 ?is BPF_JMP_JGE_K] by (simp add: default_filter_def bpf_codes)
  have j3: "evaluate_loop (encode ?is) a syscall acc 6
      = evaluate_loop (encode ?is) a syscall acc (if MAX_REVIEWED_SYSCALL < acc then 7 else 8)" for a acc
    using evaluate_jump [of 6 ?is BPF_JMP_JGT_K] by (simp add: default_filter_def bpf_codes)
  have tab: "evaluate_loop (encode ?is) a syscall acc 8
     = Some (if acc \<in> snd ` set BLOCKED_SYSCALLS then SECCOMP_RET_KILL_PROCESS else SECCOMP_RET_ALLOW)" for a acc
    by (rule evaluate_table) (simp add: default_filter_def)
  show ?thesis
    unfolding evaluate_filter_def b ld j1
    by (auto simp: kill ld2 j2 j3 tab not_le not_less)
qed

end
