(* ===== verification/Process_Adapter.thy ===== *)
theory Process_Adapter
  imports Rootfs Cgroup Descriptor Seccomp Tool_Adapter
begin

text \<open>
  \<open>aios-adapter-process/src/lib.rs\<close>: the two builders, the handler they make, and one run of it, from
  the checks over the command that is spawned to the loop that supervises the child. \<open>target\<close> is
  what \<open>cfg!\<close> tests, \<open>sha\<close> the SHA-256 of the \<open>sha2\<close> crate.
\<close>

section \<open>Arguments and environment\<close>

fun process_arguments_loop :: "nat \<Rightarrow> string list \<Rightarrow> process_adapter_error + unit" where
  "process_arguments_loop total_bytes [] = Inr ()"
| "process_arguments_loop total_bytes (argument # arguments) =
     (if PROC_MAX_ARGUMENT_BYTES < length argument \<or> CHR 0x00 \<in> set argument then Inl PaInvalidArguments
      else
        (let total_bytes = total_bytes + length argument in
         if 2 ^ 64 \<le> total_bytes then Inl PaInvalidArguments
         else if PROC_MAX_TOTAL_ARGUMENT_BYTES < total_bytes then Inl PaInvalidArguments
         else process_arguments_loop total_bytes arguments))"

definition process_validate_arguments :: "string list \<Rightarrow> string list \<Rightarrow> process_adapter_error + unit" where
  "process_validate_arguments fixed dynamic =
     (let count = length fixed + length dynamic in
      if 2 ^ 64 \<le> count then Inl PaInvalidArguments
      else if PROC_MAX_ARGUMENTS < count then Inl PaInvalidArguments
      else process_arguments_loop 0 (fixed @ dynamic))"

text \<open>On the bytes of the name: a character that is not ASCII has a byte that is not.\<close>

definition is_valid_environment_name :: "string \<Rightarrow> bool" where
  "is_valid_environment_name name =
     (case name of
        [] \<Rightarrow> False
      | first # characters \<Rightarrow>
          length name \<le> MAX_ENVIRONMENT_NAME_BYTES
          \<and> (is_ascii_alphabetic first \<or> first = CHR ''_'')
          \<and> list_all (\<lambda>c. is_ascii_alphanumeric c \<or> c = CHR ''_'') characters)"

fun validate_environment_loop ::
  "nat \<Rightarrow> (string, string) btree \<Rightarrow> (string \<times> string) list \<Rightarrow> process_adapter_error + (string, string) btree" where
  "validate_environment_loop total_bytes environment [] = Inr environment"
| "validate_environment_loop total_bytes environment ((name, value) # entries) =
     (if \<not> is_valid_environment_name name \<or> MAX_ENVIRONMENT_VALUE_BYTES < length value \<or> CHR 0x00 \<in> set value
      then Inl PaInvalidConfig
      else
        (let total_bytes = total_bytes + length name + length value in
         if 2 ^ 64 \<le> total_bytes then Inl PaInvalidConfig
         else if MAX_TOTAL_ENVIRONMENT_BYTES < total_bytes \<or> bt_contains environment name then Inl PaInvalidConfig
         else validate_environment_loop total_bytes (bt_insert name value environment) entries))"

definition validate_environment :: "(string \<times> string) list \<Rightarrow> process_adapter_error + (string, string) btree" where
  "validate_environment entries =
     (if MAX_ENVIRONMENT_VARIABLES < length entries then Inl PaInvalidConfig
      else validate_environment_loop 0 [] entries)"

section \<open>The seccomp filter file\<close>

record target_platform =
  target_linux :: bool
  target_x86_64 :: bool

definition ensure_supported_target :: "target_platform \<Rightarrow> process_adapter_error + unit" where
  "ensure_supported_target t = (if target_linux t \<and> target_x86_64 t then Inr () else Inl PaUnsupportedPlatform)"

text \<open>A sealed memory file with the filter; its descriptor.\<close>

definition seccomp_file_create :: "target_platform \<Rightarrow> 'k host_api \<Rightarrow> bool \<Rightarrow> ('k, nat) pa_io" where
  "seccomp_file_create target h inherit_across_exec =
     io_bind (io_pure (ensure_supported_target target)) (\<lambda>_.
     io_bind (io_map_err PaSeccompUnavailable (h_memfd_create h ''aios-seccomp'')) (\<lambda>file.
     io_bind (io_map_err PaSeccompUnavailable
       (io_bind (h_fd_write_all h file default_filter_bytes) (\<lambda>_. h_fd_rewind h file))) (\<lambda>_.
     io_bind (io_map_err PaSeccompUnavailable (h_add_seals h file [SEAL_WRITE, SEAL_GROW, SEAL_SHRINK, SEAL_SEAL])) (\<lambda>_.
     io_bind (if inherit_across_exec then io_map_err PaSeccompUnavailable (h_clear_cloexec h file) else io_ret ()) (\<lambda>_.
     io_bind (io_reject (file \<le> 2) PaSeccompUnavailable) (\<lambda>_.
     io_ret file))))))"

section \<open>Builders\<close>

type_synonym argument_policy = "string list \<Rightarrow> bool"

record process_tool_builder =
  pb_executable :: string
  pb_working_directory :: string
  pb_fixed_arguments :: "string list"
  pb_environment :: "(string \<times> string) list"
  pb_timeout :: duration
  pb_argument_policy :: argument_policy

record bubblewrap_builder =
  bb_bubblewrap :: string
  bb_root_filesystem :: string
  bb_sandbox_executable :: string
  bb_scratch_directory :: string
  bb_task_scratch_identity :: "directory_identity option"
  bb_task_id :: "task_id option"
  bb_verified_root_state :: "verified_root_filesystem_state option"
  bb_task_cgroup_state :: "task_cgroup option"
  bb_cgroup_launcher :: "string option"
  bb_filesystem_capability_source_root :: "string option"
  bb_filesystem_capabilities :: "file_capability list"
  bb_fixed_arguments :: "string list"
  bb_environment :: "(string \<times> string) list"
  bb_timeout :: duration
  bb_argument_policy :: argument_policy

definition process_builder_new :: "string \<Rightarrow> string \<Rightarrow> argument_policy \<Rightarrow> process_tool_builder" where
  "process_builder_new executable working_directory policy =
     \<lparr>pb_executable = executable, pb_working_directory = working_directory, pb_fixed_arguments = [],
      pb_environment = [], pb_timeout = DEFAULT_TIMEOUT, pb_argument_policy = policy\<rparr>"

definition bubblewrap_builder_new :: "string \<Rightarrow> string \<Rightarrow> string \<Rightarrow> string \<Rightarrow> argument_policy \<Rightarrow> bubblewrap_builder" where
  "bubblewrap_builder_new bubblewrap root_filesystem sandbox_executable scratch_directory policy =
     \<lparr>bb_bubblewrap = bubblewrap, bb_root_filesystem = root_filesystem, bb_sandbox_executable = sandbox_executable,
      bb_scratch_directory = scratch_directory, bb_task_scratch_identity = None, bb_task_id = None,
      bb_verified_root_state = None, bb_task_cgroup_state = None, bb_cgroup_launcher = None,
      bb_filesystem_capability_source_root = None, bb_filesystem_capabilities = [], bb_fixed_arguments = [],
      bb_environment = [], bb_timeout = DEFAULT_TIMEOUT, bb_argument_policy = policy\<rparr>"

definition builder_new_for_task :: "string \<Rightarrow> string \<Rightarrow> string \<Rightarrow> task_scratch \<Rightarrow> argument_policy \<Rightarrow> bubblewrap_builder" where
  "builder_new_for_task bubblewrap root_filesystem sandbox_executable scratch policy =
     (bubblewrap_builder_new bubblewrap root_filesystem sandbox_executable (tsc_directory scratch) policy)
       \<lparr>bb_task_scratch_identity := Some (tsc_directory_identity scratch), bb_task_id := Some (tsc_task_id scratch)\<rparr>"

definition builder_new_for_verified_task ::
  "string \<Rightarrow> verified_root_filesystem \<Rightarrow> string \<Rightarrow> task_scratch \<Rightarrow> argument_policy \<Rightarrow> bubblewrap_builder" where
  "builder_new_for_verified_task bubblewrap root_filesystem sandbox_executable scratch policy =
     (builder_new_for_task bubblewrap (vr_directory root_filesystem) sandbox_executable scratch policy)
       \<lparr>bb_verified_root_state := Some (verified_state root_filesystem)\<rparr>"

definition builder_task_cgroup :: "task_cgroup \<Rightarrow> string \<Rightarrow> bubblewrap_builder \<Rightarrow> bubblewrap_builder" where
  "builder_task_cgroup task_cgroup cgroup_launcher b =
     b\<lparr>bb_task_cgroup_state := Some task_cgroup, bb_cgroup_launcher := Some cgroup_launcher\<rparr>"

definition builder_filesystem_capabilities :: "string \<Rightarrow> file_capability list \<Rightarrow> bubblewrap_builder \<Rightarrow> bubblewrap_builder" where
  "builder_filesystem_capabilities source_root capabilities b =
     b\<lparr>bb_filesystem_capability_source_root := Some source_root, bb_filesystem_capabilities := capabilities\<rparr>"

text \<open>The setters both builders have.\<close>

definition builder_fixed_arguments :: "string list \<Rightarrow> bubblewrap_builder \<Rightarrow> bubblewrap_builder" where
  "builder_fixed_arguments arguments b = b\<lparr>bb_fixed_arguments := arguments\<rparr>"

definition builder_environment :: "(string \<times> string) list \<Rightarrow> bubblewrap_builder \<Rightarrow> bubblewrap_builder" where
  "builder_environment environment b = b\<lparr>bb_environment := environment\<rparr>"

definition builder_timeout :: "duration \<Rightarrow> bubblewrap_builder \<Rightarrow> bubblewrap_builder" where
  "builder_timeout timeout b = b\<lparr>bb_timeout := timeout\<rparr>"

definition process_fixed_arguments :: "string list \<Rightarrow> process_tool_builder \<Rightarrow> process_tool_builder" where
  "process_fixed_arguments arguments b = b\<lparr>pb_fixed_arguments := arguments\<rparr>"

definition process_environment :: "(string \<times> string) list \<Rightarrow> process_tool_builder \<Rightarrow> process_tool_builder" where
  "process_environment environment b = b\<lparr>pb_environment := environment\<rparr>"

definition process_timeout :: "duration \<Rightarrow> process_tool_builder \<Rightarrow> process_tool_builder" where
  "process_timeout timeout b = b\<lparr>pb_timeout := timeout\<rparr>"

section \<open>The handler\<close>

record cgroup_launch =
  cl_launcher :: string
  cl_launcher_identity :: executable_identity
  cl_task_cgroup :: task_cgroup

record bubblewrap_launcher =
  bl_bubblewrap :: string
  bl_bubblewrap_identity :: executable_identity
  bl_root_filesystem :: string
  bl_verified_root_state :: "verified_root_filesystem_state option"
  bl_sandbox_executable :: string
  bl_cgroup_launch :: "cgroup_launch option"
  bl_mounts :: "filesystem_capability_mount list"

datatype process_launcher = Direct | Bubblewrap bubblewrap_launcher

record process_tool_handler =
  ph_executable :: string
  ph_executable_identity :: executable_identity
  ph_working_directory :: string
  ph_working_directory_identity :: "directory_identity option"
  ph_fixed_arguments :: "string list"
  ph_environment :: "(string, string) btree"
  ph_timeout :: duration
  ph_argument_policy :: argument_policy
  ph_launcher :: process_launcher

definition process_build :: "'k host_api \<Rightarrow> process_tool_builder \<Rightarrow> ('k, process_tool_handler) pa_io" where
  "process_build h b =
     io_bind (io_reject (pb_timeout b = 0 \<or> MAX_TIMEOUT < pb_timeout b) PaInvalidConfig) (\<lambda>_.
     io_bind (io_pure (process_validate_arguments (pb_fixed_arguments b) [])) (\<lambda>_.
     io_bind (canonical_executable h (pb_executable b)) (\<lambda>executable.
     io_bind (executable_identity_read h executable) (\<lambda>executable_identity.
     io_bind (canonical_directory h (pb_working_directory b)) (\<lambda>working_directory.
     io_bind (io_pure (validate_environment (pb_environment b))) (\<lambda>environment.
     io_ret \<lparr>ph_executable = executable, ph_executable_identity = executable_identity,
       ph_working_directory = working_directory, ph_working_directory_identity = None,
       ph_fixed_arguments = pb_fixed_arguments b, ph_environment = environment, ph_timeout = pb_timeout b,
       ph_argument_policy = pb_argument_policy b, ph_launcher = Direct\<rparr>))))))"

text \<open>A check on what an optional field holds.\<close>

definition io_option :: "('a \<Rightarrow> ('k, 'e, unit) io) \<Rightarrow> 'a option \<Rightarrow> ('k, 'e, unit) io" where
  "io_option f x = (case x of None \<Rightarrow> io_ret () | Some y \<Rightarrow> f y)"

text \<open>The combinations of options that \<open>build\<close> refuses before it looks at the system.\<close>

definition check_builder_options :: "'k host_api \<Rightarrow> bubblewrap_builder \<Rightarrow> ('k, unit) pa_io" where
  "check_builder_options h b =
     io_bind (io_option (\<lambda>task_cgroup.
       io_bind (io_reject (bb_task_id b \<noteq> Some (tcg_task_id task_cgroup)) PaInvalidResourceControl) (\<lambda>_.
       task_cgroup_validate h task_cgroup)) (bb_task_cgroup_state b)) (\<lambda>_.
     io_bind (io_reject ((bb_task_cgroup_state b \<noteq> None) \<noteq> (bb_cgroup_launcher b \<noteq> None)) PaInvalidResourceControl) (\<lambda>_.
     io_bind (io_reject (bb_filesystem_capabilities b \<noteq> [] \<and> (bb_task_id b = None \<or> bb_task_cgroup_state b = None)) PaInvalidSandbox) (\<lambda>_.
     io_reject ((bb_filesystem_capability_source_root b \<noteq> None) \<noteq> (bb_filesystem_capabilities b \<noteq> [])) PaInvalidSandbox)))"

definition build_cgroup_launch :: "'k host_api \<Rightarrow> bubblewrap_builder \<Rightarrow> ('k, cgroup_launch option) pa_io" where
  "build_cgroup_launch h b =
     (case (bb_task_cgroup_state b, bb_cgroup_launcher b) of
        (Some task_cgroup, Some launcher) \<Rightarrow>
          io_bind (io_map_err PaInvalidResourceControl (canonical_executable h launcher)) (\<lambda>launcher.
          io_bind (io_map_err PaInvalidResourceControl (executable_identity_read h launcher)) (\<lambda>launcher_identity.
          io_ret (Some \<lparr>cl_launcher = launcher, cl_launcher_identity = launcher_identity, cl_task_cgroup = task_cgroup\<rparr>)))
      | (None, None) \<Rightarrow> io_ret None
      | _ \<Rightarrow> io_err PaInvalidResourceControl)"

definition bubblewrap_build ::
  "target_platform \<Rightarrow> 'k host_api \<Rightarrow> (u8 list \<Rightarrow> u8 list) \<Rightarrow> bubblewrap_builder \<Rightarrow> ('k, process_tool_handler) pa_io" where
  "bubblewrap_build target h sha b =
     io_bind (io_reject (\<not> target_linux target) PaUnsupportedPlatform) (\<lambda>_.
     io_bind (io_pure (ensure_supported_target target)) (\<lambda>_.
     io_bind (io_reject (bb_timeout b = 0 \<or> MAX_TIMEOUT < bb_timeout b) PaInvalidConfig) (\<lambda>_.
     io_bind (check_builder_options h b) (\<lambda>_.
     io_bind (io_pure (process_validate_arguments (bb_fixed_arguments b) [])) (\<lambda>_.
     io_bind (canonical_executable h (bb_bubblewrap b)) (\<lambda>bubblewrap.
     io_bind (executable_identity_read h bubblewrap) (\<lambda>bubblewrap_identity.
     io_bind (canonical_sandbox_root h (bb_root_filesystem b)) (\<lambda>root_filesystem.
     io_bind (validate_sandbox_mount_points h root_filesystem) (\<lambda>_.
     io_bind (io_option (validate_verified_root_filesystem h sha root_filesystem) (bb_verified_root_state b)) (\<lambda>_.
     io_bind (canonical_scratch_directory h (bb_scratch_directory b) root_filesystem) (\<lambda>scratch_directory.
     io_bind (io_option (validate_task_scratch_identity h scratch_directory) (bb_task_scratch_identity b)) (\<lambda>_.
     io_bind (canonical_sandbox_executable h root_filesystem (bb_sandbox_executable b)) (\<lambda>(executable, executable_identity, sandbox_executable).
     io_bind (io_pure (validate_environment (bb_environment b))) (\<lambda>environment.
     io_bind (case bb_filesystem_capability_source_root b of
         Some source_root \<Rightarrow> open_filesystem_capabilities (target_linux target) h source_root (bb_filesystem_capabilities b)
       | None \<Rightarrow> io_ret []) (\<lambda>mounts.
     io_bind (build_cgroup_launch h b) (\<lambda>cgroup_launch.
     io_ret \<lparr>ph_executable = executable, ph_executable_identity = executable_identity,
       ph_working_directory = scratch_directory, ph_working_directory_identity = bb_task_scratch_identity b,
       ph_fixed_arguments = bb_fixed_arguments b, ph_environment = environment, ph_timeout = bb_timeout b,
       ph_argument_policy = bb_argument_policy b,
       ph_launcher = Bubblewrap \<lparr>bl_bubblewrap = bubblewrap, bl_bubblewrap_identity = bubblewrap_identity,
         bl_root_filesystem = root_filesystem, bl_verified_root_state = bb_verified_root_state b,
         bl_sandbox_executable = sandbox_executable, bl_cgroup_launch = cgroup_launch, bl_mounts = mounts\<rparr>\<rparr>))))))))))))))))"

section \<open>The command\<close>

definition bubblewrap_arguments :: "string \<Rightarrow> string \<Rightarrow> string \<Rightarrow> nat option \<Rightarrow> string list" where
  "bubblewrap_arguments root_filesystem scratch_directory sandbox_executable seccomp_fd =
     [''--unshare-all'', ''--unshare-user'', ''--disable-userns'', ''--die-with-parent'', ''--new-session'']
     @ (case seccomp_fd of Some fd \<Rightarrow> [''--seccomp'', show_nat fd] | None \<Rightarrow> [])
     @ [''--cap-drop'', ''ALL'', ''--ro-bind'', root_filesystem, ''/'', ''--proc'', ''/proc'', ''--dev'', ''/dev'',
        ''--tmpfs'', ''/tmp'', ''--bind'', scratch_directory, ''/workspace'', ''--chdir'', ''/workspace'', ''--'',
        sandbox_executable]"

text \<open>The program with its leading arguments, and the channel of the descriptors if there are any:
  the sender, and the receiver as standard input.\<close>

definition launch_prefix :: "'k host_api \<Rightarrow> bubblewrap_launcher \<Rightarrow> ('k, string \<times> string list \<times> (nat \<times> nat) option) pa_io" where
  "launch_prefix h b =
     (case bl_cgroup_launch b of
        Some cgroup_launch \<Rightarrow>
          (case launch_identity (cl_task_cgroup cgroup_launch) of (process_file, device, inode) \<Rightarrow>
           if bl_mounts b = [] then
             io_ret (cl_launcher cgroup_launch, [process_file, show_nat device, show_nat inode, bl_bubblewrap b], None)
           else
             io_bind (descriptor_channel h) (\<lambda>(sender, receiver).
             io_ret (cl_launcher cgroup_launch,
               [''--descriptor-broker'', process_file, show_nat device, show_nat inode, bl_bubblewrap b, show_nat (length (bl_mounts b))]
               @ concat (map (\<lambda>mount. [''read'', fc_path (fm_capability mount)]) (bl_mounts b)),
               Some (sender, receiver))))
      | None \<Rightarrow>
          if bl_mounts b \<noteq> [] then io_err PaInvalidResourceControl else io_ret (bl_bubblewrap b, [], None))"

definition require_identity :: "'k host_api \<Rightarrow> string \<Rightarrow> executable_identity \<Rightarrow> ('k, unit) pa_io" where
  "require_identity h path expected =
     io_bind (executable_identity_read h path) (\<lambda>identity. io_reject (identity \<noteq> expected) PaExecutableChanged)"

definition launch_command ::
  "'k host_api \<Rightarrow> (u8 list \<Rightarrow> u8 list) \<Rightarrow> process_tool_handler \<Rightarrow> string list \<Rightarrow> nat option
   \<Rightarrow> ('k, command \<times> nat option) pa_io" where
  "launch_command h sha p dynamic_arguments seccomp_filter =
     (case ph_launcher p of
        Direct \<Rightarrow>
          io_ret (\<lparr>cmd_program = ph_executable p, cmd_args = ph_fixed_arguments p @ dynamic_arguments,
            cmd_dir = ph_working_directory p, cmd_env = ph_environment p, cmd_stdin = StdinNull\<rparr>, None)
      | Bubblewrap b \<Rightarrow>
          io_bind (require_identity h (bl_bubblewrap b) (bl_bubblewrap_identity b)) (\<lambda>_.
          io_bind (io_option (validate_verified_root_filesystem h sha (bl_root_filesystem b)) (bl_verified_root_state b)) (\<lambda>_.
          io_bind (io_option (\<lambda>cgroup_launch. require_identity h (cl_launcher cgroup_launch) (cl_launcher_identity cgroup_launch))
            (bl_cgroup_launch b)) (\<lambda>_.
          io_bind (launch_prefix h b) (\<lambda>(program, prefix, channel).
          io_bind (if bl_mounts b = [] then io_bind (io_pure (ok_or PaSeccompUnavailable seccomp_filter)) (\<lambda>fd. io_ret (Some fd))
                   else io_ret None) (\<lambda>seccomp_fd.
          io_ret (\<lparr>cmd_program = program,
              cmd_args = prefix @ bubblewrap_arguments (bl_root_filesystem b) (ph_working_directory p) (bl_sandbox_executable b) seccomp_fd
                @ ph_fixed_arguments p @ dynamic_arguments,
              cmd_dir = ''/'', cmd_env = ph_environment p,
              cmd_stdin = (case channel of None \<Rightarrow> StdinNull | Some (_, receiver) \<Rightarrow> StdinChannel receiver)\<rparr>,
            map_option fst channel)))))))"

section \<open>One run\<close>

definition launcher_mounts :: "process_launcher \<Rightarrow> filesystem_capability_mount list" where
  "launcher_mounts l = (case l of Direct \<Rightarrow> [] | Bubblewrap b \<Rightarrow> bl_mounts b)"

definition launcher_cgroup :: "process_launcher \<Rightarrow> task_cgroup option" where
  "launcher_cgroup l = (case l of Direct \<Rightarrow> None | Bubblewrap b \<Rightarrow> map_option cl_task_cgroup (bl_cgroup_launch b))"

definition reject_limit_reached :: "'k host_api \<Rightarrow> task_cgroup option \<Rightarrow> ('k, unit) pa_io" where
  "reject_limit_reached h task_cgroup =
     io_option (\<lambda>c. io_bind (limit_reached h c) (\<lambda>reached. io_reject reached PaResourceLimitExceeded)) task_cgroup"

text \<open>Everything before the deadline is taken: the command, the sender of the descriptors and the
  seccomp filter.\<close>

definition prepare_run ::
  "target_platform \<Rightarrow> 'k host_api \<Rightarrow> (u8 list \<Rightarrow> u8 list) \<Rightarrow> process_tool_handler \<Rightarrow> string list \<Rightarrow> duration \<Rightarrow> bool
   \<Rightarrow> ('k, command \<times> nat option \<times> nat option) pa_io" where
  "prepare_run target h sha p dynamic_arguments timeout filesystem_capabilities_authorized =
     io_bind (io_reject (timeout = 0 \<or> MAX_TIMEOUT < timeout) PaInvalidConfig) (\<lambda>_.
     io_bind (io_pure (process_validate_arguments (ph_fixed_arguments p) dynamic_arguments)) (\<lambda>_.
     io_bind (io_reject (\<not> ph_argument_policy p dynamic_arguments) PaArgumentsDenied) (\<lambda>_.
     io_bind (require_identity h (ph_executable p) (ph_executable_identity p)) (\<lambda>_.
     io_bind (io_option (validate_task_scratch_identity h (ph_working_directory p)) (ph_working_directory_identity p)) (\<lambda>_.
     let descriptor_mounts_present = (launcher_mounts (ph_launcher p) \<noteq> []) in
     io_bind (io_reject (descriptor_mounts_present \<and> \<not> filesystem_capabilities_authorized) PaInvalidSandbox) (\<lambda>_.
     io_bind (case ph_launcher p of
         Bubblewrap _ \<Rightarrow> io_bind (seccomp_file_create target h (\<not> descriptor_mounts_present)) (\<lambda>fd. io_ret (Some fd))
       | Direct \<Rightarrow> io_ret None) (\<lambda>seccomp_filter.
     io_bind (launch_command h sha p dynamic_arguments seccomp_filter) (\<lambda>(command, descriptor_sender).
     io_bind (reject_limit_reached h (launcher_cgroup (ph_launcher p))) (\<lambda>_.
     io_ret (command, descriptor_sender, seccomp_filter))))))))))"

definition terminate_cgroup_child :: "'k host_api \<Rightarrow> task_cgroup \<Rightarrow> nat \<Rightarrow> ('k, unit) pa_io" where
  "terminate_cgroup_child h task_cgroup child k =
     (case task_cgroup_terminate h task_cgroup k of (termination, k) \<Rightarrow>
      io_bind (io_ignore (h_kill h child)) (\<lambda>_.
      io_bind (io_map_err PaWaitFailed (h_wait h child)) (\<lambda>_.
      io_pure termination)) k)"

text \<open>The child is killed and reaped on the way out; failures of that do not count.\<close>

definition abandon_child :: "'k host_api \<Rightarrow> task_cgroup option \<Rightarrow> nat \<Rightarrow> ('k, unit) pa_io" where
  "abandon_child h task_cgroup child =
     (case task_cgroup of
        Some c \<Rightarrow> io_ignore (terminate_cgroup_child h c child)
      | None \<Rightarrow> io_bind (io_ignore (h_kill h child)) (\<lambda>_. io_ignore (h_wait h child)))"

definition kill_at_deadline :: "'k host_api \<Rightarrow> task_cgroup option \<Rightarrow> nat \<Rightarrow> ('k, unit) pa_io" where
  "kill_at_deadline h task_cgroup child k =
     (case task_cgroup of
        Some c \<Rightarrow> terminate_cgroup_child h c child k
      | None \<Rightarrow>
          (case h_kill h child k of
             (Inr _, k) \<Rightarrow> io_bind (io_map_err PaWaitFailed (h_wait h child)) (\<lambda>_. io_ret ()) k
           | (Inl _, k) \<Rightarrow>
               io_bind (io_map_err PaWaitFailed (h_try_wait h child)) (\<lambda>status. io_reject (status = None) PaWaitFailed) k))"

definition start_child ::
  "'k host_api \<Rightarrow> process_tool_handler \<Rightarrow> command \<Rightarrow> nat option \<Rightarrow> nat option \<Rightarrow> duration \<Rightarrow> ('k, nat \<times> instant) pa_io" where
  "start_child h p command descriptor_sender seccomp_filter timeout =
     io_bind (io_now h) (\<lambda>now.
     io_bind (io_pure (ok_or PaInvalidConfig (instant_checked_add now timeout))) (\<lambda>deadline.
     io_bind (io_map_err PaSpawnFailed (h_spawn h command)) (\<lambda>child.
     io_bind (io_option (\<lambda>sender k.
       (case (case (ph_launcher p, seccomp_filter) of
                (Bubblewrap b, Some fd) \<Rightarrow> descriptor_send h sender fd (bl_mounts b)
              | _ \<Rightarrow> io_err PaDescriptorTransferFailed) k of
          (Inl e, k) \<Rightarrow> (Inl e, snd (abandon_child h (launcher_cgroup (ph_launcher p)) child k))
        | (Inr _, k) \<Rightarrow> (Inr (), k))) descriptor_sender) (\<lambda>_.
     io_ret (child, deadline)))))"

text \<open>One round of the supervising loop.\<close>

definition child_exited :: "'k host_api \<Rightarrow> task_cgroup option \<Rightarrow> exit_status \<Rightarrow> ('k, tool_output) pa_io" where
  "child_exited h task_cgroup status =
     io_bind (reject_limit_reached h task_cgroup) (\<lambda>_.
     case status of
       ExitSuccess \<Rightarrow> io_map_err PaOutputFailed (io_pure (output_from_bytes []))
     | ExitFailure \<Rightarrow> io_err PaExitFailed)"

definition poll_deadline ::
  "'k host_api \<Rightarrow> task_cgroup option \<Rightarrow> nat \<Rightarrow> instant \<Rightarrow> instant \<Rightarrow> 'k \<Rightarrow> (process_adapter_error + tool_output) option \<times> 'k" where
  "poll_deadline h task_cgroup child deadline now k =
     (if deadline \<le> now then
        (case io_bind (kill_at_deadline h task_cgroup child) (\<lambda>_. io_err PaTimedOut) k of (r, k) \<Rightarrow> (Some r, k))
      else (None, h_sleep h (min WAIT_POLL_INTERVAL (deadline - now)) k))"

definition supervise_round ::
  "'k host_api \<Rightarrow> task_cgroup option \<Rightarrow> nat \<Rightarrow> instant \<Rightarrow> 'k \<Rightarrow> (process_adapter_error + tool_output) option \<times> 'k" where
  "supervise_round h task_cgroup child deadline k =
     (case h_try_wait h child k of
        (Inl _, k) \<Rightarrow> (Some (Inl PaWaitFailed), snd (abandon_child h task_cgroup child k))
      | (Inr (Some status), k) \<Rightarrow> (case child_exited h task_cgroup status k of (r, k) \<Rightarrow> (Some r, k))
      | (Inr None, k) \<Rightarrow>
          (case h_now h k of (now, k) \<Rightarrow>
           case task_cgroup of
             None \<Rightarrow> poll_deadline h task_cgroup child deadline now k
           | Some c \<Rightarrow>
               (case limit_reached h c k of
                  (Inr False, k) \<Rightarrow> poll_deadline h task_cgroup child deadline now k
                | (Inr True, k) \<Rightarrow>
                    (case io_bind (terminate_cgroup_child h c child) (\<lambda>_. io_err PaResourceLimitExceeded) k of (r, k) \<Rightarrow> (Some r, k))
                | (Inl e, k) \<Rightarrow>
                    (case io_bind (terminate_cgroup_child h c child) (\<lambda>_. io_err e) k of (r, k) \<Rightarrow> (Some r, k)))))"

definition run_checked_with_timeout ::
  "target_platform \<Rightarrow> 'k host_api \<Rightarrow> (u8 list \<Rightarrow> u8 list) \<Rightarrow> process_tool_handler \<Rightarrow> string list \<Rightarrow> duration \<Rightarrow> bool
   \<Rightarrow> 'k \<Rightarrow> ((process_adapter_error + tool_output) \<times> 'k) option" where
  "run_checked_with_timeout target h sha p dynamic_arguments timeout filesystem_capabilities_authorized k =
     (case io_bind (prepare_run target h sha p dynamic_arguments timeout filesystem_capabilities_authorized)
             (\<lambda>(command, descriptor_sender, seccomp_filter). start_child h p command descriptor_sender seccomp_filter timeout) k of
        (Inl e, k) \<Rightarrow> Some (Inl e, k)
      | (Inr (child, deadline), k) \<Rightarrow> io_loop (supervise_round h (launcher_cgroup (ph_launcher p)) child deadline) k)"

definition run_checked where
  "run_checked target h sha p dynamic_arguments =
     run_checked_with_timeout target h sha p dynamic_arguments (ph_timeout p) False"

section \<open>The tool handler\<close>

definition process_execute ::
  "target_platform \<Rightarrow> 'k host_api \<Rightarrow> (u8 list \<Rightarrow> u8 list) \<Rightarrow> process_tool_handler \<Rightarrow> string list
   \<Rightarrow> 'k \<Rightarrow> ((tool_failure + tool_output) \<times> 'k) option" where
  "process_execute target h sha p arguments k =
     map_option (\<lambda>(r, k). (map_sum (\<lambda>_. failure_new) id r, k)) (run_checked target h sha p arguments k)"

definition filesystem_capabilities_match :: "file_capability list \<Rightarrow> filesystem_capability_mount list \<Rightarrow> bool" where
  "filesystem_capabilities_match expected mounted \<longleftrightarrow>
     length expected = length mounted
     \<and> sort (map (\<lambda>c. (fc_path c, fc_access c)) expected)
       = sort (map (\<lambda>m. (fc_path (fm_capability m), fc_access (fm_capability m))) mounted)"

text \<open>The timeout of a run for a task, and whether it is the budget of the task.\<close>

definition task_run_timeout :: "process_tool_handler \<Rightarrow> task_execution_context \<Rightarrow> duration \<Rightarrow> (duration \<times> bool) option" where
  "task_run_timeout p ctx task_timeout =
     (case ph_launcher p of
        Direct \<Rightarrow> Some (min (ph_timeout p) task_timeout, task_timeout \<le> ph_timeout p)
      | Bubblewrap b \<Rightarrow>
          (case bl_cgroup_launch b of
             None \<Rightarrow> None
           | Some cgroup_launch \<Rightarrow>
               (case cgroup_budget_from_task (tec_budget ctx) of
                  Inl _ \<Rightarrow> None
                | Inr derived_budget \<Rightarrow>
                    if tcg_task_id (cl_task_cgroup cgroup_launch) \<noteq> tec_task_id ctx
                       \<or> tcg_budget (cl_task_cgroup cgroup_launch) \<noteq> derived_budget
                       \<or> \<not> filesystem_capabilities_match (tec_filesystem_capabilities ctx) (bl_mounts b)
                    then None
                    else Some (task_timeout, True))))"

definition process_execute_for_task ::
  "target_platform \<Rightarrow> 'k host_api \<Rightarrow> (u8 list \<Rightarrow> u8 list) \<Rightarrow> process_tool_handler \<Rightarrow> task_execution_context \<Rightarrow> string list
   \<Rightarrow> 'k \<Rightarrow> ((tool_failure + tool_output) \<times> 'k) option" where
  "process_execute_for_task target h sha p ctx arguments k =
     (case h_now h k of (now, k) \<Rightarrow>
      let task_timeout = remaining_wall_time now ctx in
      if task_timeout = 0 then Some (Inl failure_budget_exceeded, k)
      else
        (case task_run_timeout p ctx task_timeout of
           None \<Rightarrow> Some (Inl failure_new, k)
         | Some (timeout, timeout_is_task_budget) \<Rightarrow>
             map_option (\<lambda>(r, k). (map_sum (\<lambda>e.
                 if e = PaResourceLimitExceeded \<or> (e = PaTimedOut \<and> timeout_is_task_budget)
                 then failure_budget_exceeded else failure_new) id r, k))
               (run_checked_with_timeout target h sha p arguments timeout True k)))"

end
