(* ===== verification/Cgroup_Launch.thy ===== *)
theory Cgroup_Launch
  imports Process_Adapter
begin

text \<open>
  \<open>aios-adapter-process/src/bin/aios-cgroup-launch.rs\<close>: the launcher that puts itself into the cgroup
  of the task and then becomes Bubblewrap. A run ends with an error or with the program image that
  \<open>exec\<close> installs. \<open>aios-rootfs-build.rs\<close> is a command line for \<open>build_minimal_root_filesystem\<close>.
\<close>

section \<open>The launcher\<close>

definition MAX_LAUNCH_ARGUMENTS :: nat where "MAX_LAUNCH_ARGUMENTS = 512"
definition MAX_DESCRIPTOR_MOUNTS :: nat where "MAX_DESCRIPTOR_MOUNTS = 128"
definition LAUNCH_MAX_PATH_BYTES :: nat where "LAUNCH_MAX_PATH_BYTES = 4096"

text \<open>The image: program, arguments and environment; standard input is null or the launcher's own.\<close>

record exec_image =
  ex_program :: string
  ex_args :: "string list"
  ex_env :: "(string, string) btree"
  ex_stdin_null :: bool

type_synonym ('k, 'a) launch_io = "('k, unit, 'a) io"

definition parse_u64 :: "string \<Rightarrow> unit + nat" where
  "parse_u64 value = ok_or () (parse_unsigned (2 ^ 64) value)"

definition parse_usize :: "string \<Rightarrow> unit + nat" where
  "parse_usize value = ok_or () (parse_unsigned (2 ^ 64) value)"

definition validate_sandbox_path :: "string \<Rightarrow> unit + unit" where
  "validate_sandbox_path path =
     (if \<not> path_is_absolute path \<or> LAUNCH_MAX_PATH_BYTES < length path then Inl ()
      else
        (case path_components path of
           RootDir # cs \<Rightarrow> if list_all component_normal cs then Inr () else Inl ()
         | _ \<Rightarrow> Inl ()))"

definition path_file_name :: "string \<Rightarrow> string option" where
  "path_file_name path = (case rev (path_components path) of Normal c # _ \<Rightarrow> Some c | _ \<Rightarrow> None)"

definition components_path :: "component list \<Rightarrow> string" where
  "components_path cs = (case cs of RootDir # rest \<Rightarrow> ''/'' @ relative_path rest | _ \<Rightarrow> relative_path cs)"

definition open_cgroup_procs :: "'k host_api \<Rightarrow> string \<Rightarrow> nat \<Rightarrow> nat \<Rightarrow> ('k, nat) launch_io" where
  "open_cgroup_procs h path expected_device expected_inode =
     io_bind (io_reject (\<not> path_is_absolute path \<or> LAUNCH_MAX_PATH_BYTES < length path
         \<or> path_file_name path \<noteq> Some ''cgroup.procs'') ()) (\<lambda>_.
     io_bind (io_map_err () (h_symlink_metadata h path)) (\<lambda>md.
     io_bind (io_reject (md_is_symlink md \<or> \<not> md_is_file md) ()) (\<lambda>_.
     io_bind (io_map_err () (h_open_write h path)) (\<lambda>file.
     io_bind (io_pure (ok_or () (path_parent path))) (\<lambda>parent.
     io_bind (io_map_err () (h_metadata h (components_path parent))) (\<lambda>parent_metadata.
     io_bind (io_reject (\<not> md_is_dir parent_metadata \<or> md_dev parent_metadata \<noteq> expected_device
         \<or> md_ino parent_metadata \<noteq> expected_inode) ()) (\<lambda>_.
     io_ret file)))))))"

definition validate_executable :: "'k host_api \<Rightarrow> string \<Rightarrow> ('k, unit) launch_io" where
  "validate_executable h path =
     io_bind (io_reject (\<not> path_is_absolute path \<or> LAUNCH_MAX_PATH_BYTES < length path) ()) (\<lambda>_.
     io_bind (io_map_err () (h_metadata h path)) (\<lambda>md.
     io_reject (\<not> md_is_file md) ()))"

definition enter_cgroup :: "'k host_api \<Rightarrow> nat \<Rightarrow> ('k, unit) launch_io" where
  "enter_cgroup h file k = io_map_err () (h_fd_write_all h file (map of_char (show_nat (h_process_id h k)))) k"

record launch_request =
  lr_cgroup_procs :: string
  lr_device :: nat
  lr_inode :: nat
  lr_executable :: string
  lr_mounts :: "string list"
  lr_child_arguments :: "string list"

definition parse_legacy :: "string \<Rightarrow> string list \<Rightarrow> unit + launch_request" where
  "parse_legacy cgroup_procs arguments =
     (case arguments of
        device # inode # executable # child_arguments \<Rightarrow>
          (case (parse_u64 device, parse_u64 inode) of
             (Inr expected_device, Inr expected_inode) \<Rightarrow>
               if MAX_LAUNCH_ARGUMENTS < length child_arguments then Inl ()
               else Inr \<lparr>lr_cgroup_procs = cgroup_procs, lr_device = expected_device, lr_inode = expected_inode,
                 lr_executable = executable, lr_mounts = [], lr_child_arguments = child_arguments\<rparr>
           | _ \<Rightarrow> Inl ())
      | _ \<Rightarrow> Inl ())"

definition run_legacy :: "'k host_api \<Rightarrow> string \<Rightarrow> string list \<Rightarrow> ('k, exec_image) launch_io" where
  "run_legacy h cgroup_procs arguments =
     io_bind (io_pure (parse_legacy cgroup_procs arguments)) (\<lambda>request.
     io_bind (open_cgroup_procs h (lr_cgroup_procs request) (lr_device request) (lr_inode request)) (\<lambda>file.
     io_bind (validate_executable h (lr_executable request)) (\<lambda>_.
     io_bind (enter_cgroup h file) (\<lambda>_.
     io_ret \<lparr>ex_program = lr_executable request, ex_args = lr_child_arguments request, ex_env = [], ex_stdin_null = False\<rparr>))))"

fun parse_mounts :: "nat \<Rightarrow> string list \<Rightarrow> unit + (string list \<times> string list)" where
  "parse_mounts mount_count arguments =
     (if mount_count = 0 then Inr ([], arguments)
      else
        (case arguments of
           access # destination # arguments \<Rightarrow>
             if access \<noteq> ''read'' then Inl ()
             else
               (case validate_sandbox_path destination of
                  Inl _ \<Rightarrow> Inl ()
                | Inr _ \<Rightarrow> map_sum id (\<lambda>(mounts, rest). (destination # mounts, rest)) (parse_mounts (mount_count - 1) arguments))
         | _ \<Rightarrow> Inl ()))"

declare parse_mounts.simps [simp del]

definition parse_descriptor_broker :: "string list \<Rightarrow> unit + launch_request" where
  "parse_descriptor_broker arguments =
     (case arguments of
        cgroup_procs # device # inode # executable # number # arguments \<Rightarrow>
          (case (parse_u64 device, parse_u64 inode, parse_usize number) of
             (Inr expected_device, Inr expected_inode, Inr mount_count) \<Rightarrow>
               if MAX_DESCRIPTOR_MOUNTS < mount_count then Inl ()
               else
                 (case parse_mounts mount_count arguments of
                    Inl _ \<Rightarrow> Inl ()
                  | Inr (mounts, child_arguments) \<Rightarrow>
                      if MAX_LAUNCH_ARGUMENTS < length child_arguments + (mount_count * 3 + 2) then Inl ()
                      else Inr \<lparr>lr_cgroup_procs = cgroup_procs, lr_device = expected_device, lr_inode = expected_inode,
                        lr_executable = executable, lr_mounts = mounts, lr_child_arguments = child_arguments\<rparr>)
           | _ \<Rightarrow> Inl ())
      | _ \<Rightarrow> Inl ())"

definition receive_descriptors :: "'k host_api \<Rightarrow> nat \<Rightarrow> ('k, nat list) launch_io" where
  "receive_descriptors h expected =
     io_bind (io_map_err () (h_recvmsg h)) (\<lambda>received.
     io_bind (io_reject (rm_bytes received \<noteq> 1 \<or> rm_truncated received \<or> rm_payload received \<noteq> 1) ()) (\<lambda>_.
     let descriptors = concat (rm_rights received) in
     io_bind (io_reject (length descriptors \<noteq> expected) ()) (\<lambda>_.
     io_ret descriptors)))"

definition descriptor_arguments :: "nat list \<Rightarrow> string list \<Rightarrow> string list" where
  "descriptor_arguments descriptors mounts =
     [''--seccomp'', show_nat (hd descriptors)]
     @ concat (map (\<lambda>(mount, descriptor). [''--ro-bind-fd'', show_nat descriptor, mount]) (zip mounts (tl descriptors)))"

text \<open>The arguments with \<open>inserted\<close> before the first \<open>--\<close>.\<close>

definition splice_before_delimiter :: "string list \<Rightarrow> string list \<Rightarrow> unit + string list" where
  "splice_before_delimiter inserted arguments =
     (if ''--'' \<in> set arguments
      then Inr (takeWhile (\<lambda>a. a \<noteq> ''--'') arguments @ inserted @ dropWhile (\<lambda>a. a \<noteq> ''--'') arguments)
      else Inl ())"

definition run_descriptor_broker :: "'k host_api \<Rightarrow> string list \<Rightarrow> ('k, exec_image) launch_io" where
  "run_descriptor_broker h arguments =
     io_bind (io_pure (parse_descriptor_broker arguments)) (\<lambda>request.
     io_bind (open_cgroup_procs h (lr_cgroup_procs request) (lr_device request) (lr_inode request)) (\<lambda>file.
     io_bind (validate_executable h (lr_executable request)) (\<lambda>_.
     io_bind (receive_descriptors h (length (lr_mounts request) + 1)) (\<lambda>descriptors.
     io_bind (io_reject (list_ex (\<lambda>descriptor. descriptor \<le> 2) descriptors) ()) (\<lambda>_.
     io_bind (enter_cgroup h file) (\<lambda>_.
     io_bind (io_pure (splice_before_delimiter (descriptor_arguments descriptors (lr_mounts request)) (lr_child_arguments request))) (\<lambda>child_arguments.
     io_bind (io_each (\<lambda>descriptor. io_map_err () (h_clear_cloexec h descriptor)) descriptors) (\<lambda>_.
     io_ret \<lparr>ex_program = lr_executable request, ex_args = child_arguments, ex_env = [], ex_stdin_null = True\<rparr>))))))))"

text \<open>The arguments after the program name.\<close>

definition cgroup_launch_run :: "'k host_api \<Rightarrow> string list \<Rightarrow> ('k, exec_image) launch_io" where
  "cgroup_launch_run h arguments =
     (case arguments of
        [] \<Rightarrow> io_err ()
      | first # arguments \<Rightarrow>
          if first = ''--descriptor-broker'' then run_descriptor_broker h arguments else run_legacy h first arguments)"

section \<open>The rootfs builder\<close>

datatype exit_code = ExitOk | ExitFail | ExitUsage

definition rootfs_build_main ::
  "'k host_api \<Rightarrow> (u8 list \<Rightarrow> u8 list) \<Rightarrow> string list \<Rightarrow> 'k \<Rightarrow> (string \<times> exit_code) \<times> 'k" where
  "rootfs_build_main h sha arguments k =
     (case arguments of
        [busybox, output] \<Rightarrow>
          (case build_minimal_root_filesystem h sha busybox output k of
             (Inr digest, k) \<Rightarrow> ((digest_display digest, ExitOk), k)
           | (Inl e, k) \<Rightarrow> ((process_error_message e, ExitFail), k))
      | _ \<Rightarrow> ((''usage: aios-rootfs-build <absolute-busybox-path> <absolute-output-path>'', ExitUsage), k))"

end
