(* ===== verification/Process_Demo.thy ===== *)
theory Process_Demo
  imports Cgroup_Launch
begin

text \<open>
  A sandbox on the simulated system: the root \<open>/r\<close> with the executable \<open>/r/e\<close>, Bubblewrap \<open>/b\<close>, the
  launcher \<open>/l\<close>, scratch space \<open>/s\<close>, the cgroup \<open>/c\<close> of task 1 and a read capability for \<open>/d\<close>.
\<close>

definition demo_platform :: target_platform where
  "demo_platform = \<lparr>target_linux = True, target_x86_64 = True\<rparr>"

definition demo_cgroup_content :: "string \<Rightarrow> string" where
  "demo_cgroup_content f =
     (if f = ''memory.max'' \<or> f = ''memory.oom.group'' then ''1''
      else if f = ''memory.swap.max'' then ''0''
      else if f = ''cpu.stat'' then ''usage_usec 0''
      else if f = ''memory.events'' then ''max 0'' @ [char_of (10 :: nat)] @ ''oom_kill 0''
      else [])"

definition demo_sandbox_host :: sim_host where
  "demo_sandbox_host = \<lparr>sh_clock = 0,
     sh_nodes =
       [([RootDir, Normal ''r''], sim_dir 10 0 []), ([RootDir, Normal ''r'', Normal ''proc''], sim_dir 11 0 []),
        ([RootDir, Normal ''r'', Normal ''dev''], sim_dir 12 0 []), ([RootDir, Normal ''r'', Normal ''tmp''], sim_dir 13 0 []),
        ([RootDir, Normal ''r'', Normal ''workspace''], sim_dir 14 0 []), ([RootDir, Normal ''r'', Normal ''e''], sim_file 15 73 []),
        ([RootDir, Normal ''b''], sim_file 16 73 []), ([RootDir, Normal ''l''], sim_file 17 73 []),
        ([RootDir, Normal ''s''], sim_dir 18 448 []), ([RootDir, Normal ''q''], sim_dir 19 0 []), ([RootDir, Normal ''c''], sim_dir 3 0 [])]
       @ map (\<lambda>f. ([RootDir, Normal ''c'', Normal f], sim_file 20 0 (demo_cgroup_content f))) task_cgroup_files,
     sh_spawned = [], sh_polls = 1, sh_sent = []\<rparr>"

definition demo_task_budget :: budget where
  "demo_task_budget = \<lparr>wall_time_seconds = 1, memory_bytes = 1, max_parallel_agents = 1\<rparr>"

definition demo_task_cgroup :: task_cgroup where
  "demo_task_cgroup = \<lparr>tcg_task_id = TaskId 1, tcg_directory = ''/c'', tcg_directory_identity = \<lparr>di_device = 1, di_inode = 3\<rparr>,
     tcg_budget = \<lparr>cb_cpu_time_micros = 1000000, cb_memory_bytes = 1\<rparr>\<rparr>"

definition demo_read_d :: file_capability where
  "demo_read_d = \<lparr>fc_path = ''/d'', fc_access = Read\<rparr>"

definition demo_task_context :: task_execution_context where
  "demo_task_context = \<lparr>tec_task_id = TaskId 1, tec_budget = demo_task_budget, tec_filesystem_capabilities = [demo_read_d], tec_started_at = 0\<rparr>"

definition demo_builder :: bubblewrap_builder where
  "demo_builder = builder_filesystem_capabilities ''/q'' [demo_read_d]
     (builder_task_cgroup demo_task_cgroup ''/l''
       (builder_new_for_task ''/b'' ''/r'' ''/e''
         \<lparr>tsc_task_id = TaskId 1, tsc_directory = ''/s'', tsc_directory_identity = \<lparr>di_device = 1, di_inode = 18\<rparr>\<rparr>
         (\<lambda>arguments. arguments \<noteq> [''x''])))"

definition demo_launcher :: bubblewrap_launcher where
  "demo_launcher = \<lparr>bl_bubblewrap = ''/b'', bl_bubblewrap_identity = \<lparr>ei_device = 1, ei_inode = 16\<rparr>, bl_root_filesystem = ''/r'',
     bl_verified_root_state = None, bl_sandbox_executable = ''/e'',
     bl_cgroup_launch = Some \<lparr>cl_launcher = ''/l'', cl_launcher_identity = \<lparr>ei_device = 1, ei_inode = 17\<rparr>, cl_task_cgroup = demo_task_cgroup\<rparr>,
     bl_mounts = [\<lparr>fm_capability = demo_read_d, fm_descriptor = 22\<rparr>]\<rparr>"

definition demo_handler :: process_tool_handler where
  "demo_handler = \<lparr>ph_executable = ''/r/e'', ph_executable_identity = \<lparr>ei_device = 1, ei_inode = 15\<rparr>,
     ph_working_directory = ''/s'', ph_working_directory_identity = Some \<lparr>di_device = 1, di_inode = 18\<rparr>, ph_fixed_arguments = [],
     ph_environment = [], ph_timeout = DEFAULT_TIMEOUT, ph_argument_policy = (\<lambda>arguments. arguments \<noteq> [''x'']),
     ph_launcher = Bubblewrap demo_launcher\<rparr>"

lemma demo_build:
  "(case fst (bubblewrap_build demo_platform sim_host_api id demo_builder demo_sandbox_host) of Inr p \<Rightarrow> ph_executable p = ''/r/e'' | Inl e \<Rightarrow> False)"
  by code_simp

lemma demo_run:
  "map_option fst (process_execute_for_task demo_platform sim_host_api id demo_handler demo_task_context [''--''] demo_sandbox_host)
     = Some (Inr (ToolOutput []))"
  by code_simp

definition demo_command :: command where
  "demo_command = \<lparr>cmd_program = ''/l'',
     cmd_args = [''--descriptor-broker'', ''/c/cgroup.procs'', ''1'', ''3'', ''/b'', ''1'', ''read'', ''/d'']
       @ bubblewrap_arguments ''/r'' ''/s'' ''/e'' None @ [''--''],
     cmd_dir = ''/'', cmd_env = [], cmd_stdin = StdinChannel 9\<rparr>"

lemma demo_prepare:
  "fst (prepare_run demo_platform sim_host_api id demo_handler [''--''] 1 True demo_sandbox_host) = Inr (demo_command, Some 8, Some 7)"
  by code_simp

lemma demo_launch:
  "(case fst (cgroup_launch_run sim_host_api (cmd_args demo_command) (demo_sandbox_host\<lparr>sh_sent := [[7, 22]]\<rparr>)) of
      Inr img \<Rightarrow> ex_program img = ''/b'' | Inl _ \<Rightarrow> False)"
  by code_simp

end
