(* ===== verification/Process_Props.thy ===== *)
theory Process_Props
  imports Process_Demo
begin

text \<open>
  What the process sandbox guarantees: the handler a builder makes is well formed, a run returns and
  spawns only what the task is authorized for, and what the launcher executes is the sandbox the
  handler was built with.
\<close>

section \<open>Arguments and environment\<close>

definition arguments_ok :: "string list \<Rightarrow> bool" where
  "arguments_ok arguments \<longleftrightarrow> length arguments \<le> PROC_MAX_ARGUMENTS
     \<and> (\<forall>a \<in> set arguments. length a \<le> PROC_MAX_ARGUMENT_BYTES \<and> CHR 0x00 \<notin> set a)
     \<and> (\<Sum>a \<leftarrow> arguments. length a) \<le> PROC_MAX_TOTAL_ARGUMENT_BYTES"

lemma process_arguments_loop_ok:
  "n \<le> PROC_MAX_TOTAL_ARGUMENT_BYTES \<Longrightarrow> process_arguments_loop n arguments = Inr () \<longleftrightarrow>
     (\<forall>a \<in> set arguments. length a \<le> PROC_MAX_ARGUMENT_BYTES \<and> CHR 0x00 \<notin> set a)
     \<and> n + (\<Sum>a \<leftarrow> arguments. length a) \<le> PROC_MAX_TOTAL_ARGUMENT_BYTES"
proof (induction arguments arbitrary: n)
  case (Cons a arguments)
  show ?case
  proof (cases "n + length a \<le> PROC_MAX_TOTAL_ARGUMENT_BYTES")
    case True
    moreover have "PROC_MAX_TOTAL_ARGUMENT_BYTES < 2 ^ 64" by (simp add: PROC_MAX_TOTAL_ARGUMENT_BYTES_def)
    ultimately show ?thesis using Cons.IH [OF True] by (auto simp: Let_def)
  qed (auto simp: Let_def)
qed simp

lemma process_validate_arguments_ok [simp]:
  "process_validate_arguments fixed dynamic = Inr () \<longleftrightarrow> arguments_ok (fixed @ dynamic)"
proof -
  have "PROC_MAX_ARGUMENTS < 2 ^ 64" by (simp add: PROC_MAX_ARGUMENTS_def)
  then show ?thesis
    using process_arguments_loop_ok [of 0 "fixed @ dynamic"]
    by (auto simp: process_validate_arguments_def arguments_ok_def Let_def)
qed

definition entry_ok :: "string \<Rightarrow> string \<Rightarrow> bool" where
  "entry_ok name v \<longleftrightarrow> is_valid_environment_name name \<and> length v \<le> MAX_ENVIRONMENT_VALUE_BYTES \<and> CHR 0x00 \<notin> set v"

definition environment_ok :: "(string, string) btree \<Rightarrow> bool" where
  "environment_ok environment \<longleftrightarrow> bt_wf environment \<and> length environment \<le> MAX_ENVIRONMENT_VARIABLES
     \<and> (\<forall>name v. bt_get environment name = Some v \<longrightarrow> entry_ok name v)"

lemma validate_environment_loop_ok:
  assumes "validate_environment_loop n environment entries = Inr environment'" and "bt_wf environment"
  shows "bt_wf environment' \<and> length environment' = length environment + length entries
    \<and> bt_get environment' = bt_get environment ++ map_of entries \<and> distinct (map fst entries)
    \<and> (\<forall>(name, v) \<in> set entries. entry_ok name v \<and> bt_get environment name = None)"
  using assms
proof (induction entries arbitrary: n environment)
  case (Cons entry entries)
  obtain name v where entry: "entry = (name, v)" by (cases entry)
  with Cons have step: "validate_environment_loop (n + length name + length v) (bt_insert name v environment) entries = Inr environment'"
      and ok: "entry_ok name v" "bt_get environment name = None"
    by (auto simp: Let_def entry_ok_def domIff split: if_splits)
  from Cons.IH [OF step bt_wf_insert [OF Cons.prems(2)]]
  have IH: "bt_wf environment' \<and> length environment' = length (bt_insert name v environment) + length entries
    \<and> bt_get environment' = bt_get (bt_insert name v environment) ++ map_of entries \<and> distinct (map fst entries)
    \<and> (\<forall>(name', v') \<in> set entries. entry_ok name' v' \<and> bt_get (bt_insert name v environment) name' = None)" .
  then have new: "name \<notin> fst ` set entries" by (auto split: if_splits)
  then have "map_of entries name = None" by (simp add: map_of_eq_None_iff)
  with IH ok Cons.prems(2) new entry show ?case
    by (auto simp: bt_length_insert fun_eq_iff map_add_def split: option.splits if_splits)
qed simp

lemma validate_environment_ok:
  assumes "validate_environment entries = Inr environment"
  shows "environment_ok environment \<and> bt_get environment = map_of entries \<and> distinct (map fst entries)"
  using assms validate_environment_loop_ok [of 0 "[]" entries environment]
  by (auto simp: validate_environment_def environment_ok_def dest!: map_of_SomeD split: if_splits)

section \<open>Handlers are well formed\<close>

definition cgroup_wf :: "task_cgroup \<Rightarrow> bool" where
  "cgroup_wf c \<longleftrightarrow> path_is_absolute (tcg_directory c)
     \<and> di_device (tcg_directory_identity c) < 2 ^ 64 \<and> di_inode (tcg_directory_identity c) < 2 ^ 64"

definition launch_wf :: "cgroup_launch \<Rightarrow> bool" where
  "launch_wf cl \<longleftrightarrow> path_is_absolute (cl_launcher cl) \<and> cgroup_wf (cl_task_cgroup cl)"

text \<open>Bubblewrap gets absolute paths only; the root is not the root of the host and does not overlap
  with the scratch directory; the executable lies in the root; only distinct read capabilities are
  mounted, and only together with a cgroup.\<close>

definition launcher_wf :: "string \<Rightarrow> string \<Rightarrow> bubblewrap_launcher \<Rightarrow> bool" where
  "launcher_wf executable scratch b \<longleftrightarrow>
     path_is_absolute (bl_bubblewrap b) \<and> path_is_absolute (bl_root_filesystem b) \<and> path_is_absolute (bl_sandbox_executable b)
     \<and> \<not> path_eq (bl_root_filesystem b) ''/'' \<and> \<not> path_eq scratch ''/''
     \<and> \<not> path_starts_with scratch (bl_root_filesystem b) \<and> \<not> path_starts_with (bl_root_filesystem b) scratch
     \<and> path_starts_with executable (bl_root_filesystem b)
     \<and> (\<forall>m \<in> set (bl_mounts b). mountable (fm_capability m)) \<and> distinct (map (\<lambda>m. fc_path (fm_capability m)) (bl_mounts b))
     \<and> length (bl_mounts b) \<le> MAX_FILESYSTEM_CAPABILITY_MOUNTS \<and> (bl_mounts b \<noteq> [] \<longrightarrow> bl_cgroup_launch b \<noteq> None)
     \<and> pred_option launch_wf (bl_cgroup_launch b)"

definition handler_wf :: "process_tool_handler \<Rightarrow> bool" where
  "handler_wf p \<longleftrightarrow> 0 < ph_timeout p \<and> ph_timeout p \<le> MAX_TIMEOUT \<and> arguments_ok (ph_fixed_arguments p)
     \<and> environment_ok (ph_environment p) \<and> path_is_absolute (ph_executable p) \<and> path_is_absolute (ph_working_directory p)
     \<and> (case ph_launcher p of Direct \<Rightarrow> True | Bubblewrap b \<Rightarrow> launcher_wf (ph_executable p) (ph_working_directory p) b)"

text \<open>\<open>fs::canonicalize\<close> returns absolute paths.\<close>

definition canonical_absolute :: "'k host_api \<Rightarrow> bool" where
  "canonical_absolute h \<longleftrightarrow> (\<forall>path k q k'. h_canonicalize h path k = (Inr q, k') \<longrightarrow> path_is_absolute q)"

lemma path_join_root_absolute: "path_is_absolute (path_join ''/'' path)"
  by (simp add: path_join_def path_is_absolute_def starts_with_def)

lemma canonical_executable_absolute:
  "canonical_absolute h \<Longrightarrow> canonical_executable h path k = (Inr q, k') \<Longrightarrow> path_is_absolute q"
  by (fastforce simp: canonical_executable_def canonical_absolute_def io_simps)

lemma canonical_directory_absolute:
  "canonical_absolute h \<Longrightarrow> canonical_directory h path k = (Inr q, k') \<Longrightarrow> path_is_absolute q"
  by (fastforce simp: canonical_directory_def canonical_absolute_def io_simps)

lemma canonical_sandbox_root_ok:
  "canonical_absolute h \<Longrightarrow> canonical_sandbox_root h path k = (Inr q, k') \<Longrightarrow> path_is_absolute q \<and> \<not> path_eq q ''/''"
  by (auto simp: canonical_sandbox_root_def io_simps intro: canonical_directory_absolute)

lemma canonical_scratch_directory_ok:
  "canonical_absolute h \<Longrightarrow> canonical_scratch_directory h path root k = (Inr q, k') \<Longrightarrow>
     path_is_absolute q \<and> \<not> path_eq q ''/'' \<and> \<not> path_starts_with q root \<and> \<not> path_starts_with root q"
  by (auto simp: canonical_scratch_directory_def io_simps intro: canonical_directory_absolute)

lemma canonical_sandbox_executable_ok:
  "canonical_absolute h \<Longrightarrow> canonical_sandbox_executable h root path k = (Inr (q, i, sandbox), k') \<Longrightarrow>
     path_is_absolute q \<and> path_starts_with q root \<and> path_is_absolute sandbox"
  by (fastforce simp: canonical_sandbox_executable_def canonical_absolute_def io_simps path_join_root_absolute)

lemma build_cgroup_launch_ok:
  assumes "canonical_absolute h" and "build_cgroup_launch h b k = (Inr l, k')" and "pred_option cgroup_wf (bb_task_cgroup_state b)"
  shows "pred_option launch_wf l \<and> map_option cl_task_cgroup l = bb_task_cgroup_state b"
  using assms canonical_executable_absolute [OF assms(1)]
  by (auto simp: build_cgroup_launch_def launch_wf_def io_simps split: option.splits)

lemma check_builder_options_ok:
  "check_builder_options h b k = (Inr u, k') \<Longrightarrow>
     (bb_filesystem_capabilities b \<noteq> [] \<longrightarrow> bb_task_cgroup_state b \<noteq> None)
     \<and> (\<forall>c. bb_task_cgroup_state b = Some c \<longrightarrow> bb_task_id b = Some (tcg_task_id c))
     \<and> (bb_filesystem_capability_source_root b = None \<longleftrightarrow> bb_filesystem_capabilities b = [])"
  by (auto simp: check_builder_options_def io_option_def io_simps split: option.splits)

lemma process_build_wf:
  assumes "canonical_absolute h" and "process_build h b k = (Inr p, k')"
  shows "handler_wf p"
  using assms(2)
  by (auto simp: process_build_def io_simps handler_wf_def dest: validate_environment_ok
      canonical_executable_absolute [OF assms(1)] canonical_directory_absolute [OF assms(1)])

lemma mounts_ok_launcher:
  "mounts_ok h cs mounts \<Longrightarrow> (\<forall>m \<in> set mounts. mountable (fm_capability m))
     \<and> distinct (map (\<lambda>m. fc_path (fm_capability m)) mounts) \<and> length mounts \<le> MAX_FILESYSTEM_CAPABILITY_MOUNTS
     \<and> (mounts = [] \<longleftrightarrow> cs = [])"
  unfolding mounts_ok_def by (metis map_is_Nil_conv mset_zero_iff)

lemma bubblewrap_build_mounts:
  assumes "(case bb_filesystem_capability_source_root b of
      Some source_root \<Rightarrow> open_filesystem_capabilities linux h source_root (bb_filesystem_capabilities b)
    | None \<Rightarrow> io_ret []) k = (Inr mounts, k')"
    and "bb_filesystem_capability_source_root b = None \<longleftrightarrow> bb_filesystem_capabilities b = []"
  shows "mounts_ok h (bb_filesystem_capabilities b) mounts"
  using assms by (auto simp: io_simps mounts_ok_def split: option.splits
      dest: open_filesystem_capabilities_ok [unfolded mounts_ok_def])

lemma io_bindE:
  assumes "io_bind m f k = (Inr y, k')" obtains x k1 where "m k = (Inr x, k1)" and "f x k1 = (Inr y, k')"
  using assms by (auto simp: io_bind_Inr)

lemma bubblewrap_build_wf:
  assumes "canonical_absolute h" and "bubblewrap_build target h sha b k = (Inr p, k')" and "pred_option cgroup_wf (bb_task_cgroup_state b)"
  shows "handler_wf p \<and> (\<exists>l. ph_launcher p = Bubblewrap l \<and> mounts_ok h (bb_filesystem_capabilities b) (bl_mounts l)
    \<and> map_option cl_task_cgroup (bl_cgroup_launch l) = bb_task_cgroup_state b
    \<and> (\<forall>c. bb_task_cgroup_state b = Some c \<longrightarrow> bb_task_id b = Some (tcg_task_id c)))"
  using assms(2) unfolding bubblewrap_build_def
  apply (elim io_bindE)
  apply (clarsimp simp: io_reject_Inr io_pure_Inr io_ret_Inr split: prod.splits)
  apply (elim io_bindE)
  apply (clarsimp simp: io_pure_Inr io_ret_Inr)
  apply (drule check_builder_options_ok)
  apply (drule canonical_executable_absolute [OF assms(1)] canonical_sandbox_root_ok [OF assms(1)]
      canonical_scratch_directory_ok [OF assms(1)] canonical_sandbox_executable_ok [OF assms(1)]
      validate_environment_ok build_cgroup_launch_ok [OF assms(1) _ assms(3)])+
  apply (drule bubblewrap_build_mounts, blast)
  apply (frule mounts_ok_launcher)
  apply (auto simp: handler_wf_def launcher_wf_def)
  done

section \<open>A run returns\<close>

lemma limit_reached_mono [mono_intros]:
  assumes "monotone_clock h clock" shows "io_mono clock (limit_reached h c)"
  unfolding limit_reached_def task_cgroup_validate_def read_text_def by (intro mono_intros assms)

lemma poll_deadline_None:
  "poll_deadline h c child deadline now k = (None, k') \<longleftrightarrow>
     now < deadline \<and> k' = h_sleep h (min WAIT_POLL_INTERVAL (deadline - now)) k"
  by (auto simp: poll_deadline_def split: prod.splits)

lemma supervise_round_None:
  assumes mono: "monotone_clock h clock" and round: "supervise_round h c child deadline k = (None, k')"
  shows "deadline - clock k' < deadline - clock k"
proof -
  obtain k1 where wait: "h_try_wait h child k = (Inr None, k1)"
    using round by (auto simp: supervise_round_def split: prod.splits sum.splits option.splits)
  obtain now k2 where now: "h_now h k1 = (now, k2)" by (cases "h_now h k1")
  obtain k3 where poll: "poll_deadline h c child deadline now k3 = (None, k')" and later: "clock k2 \<le> clock k3"
  proof (cases c)
    case None
    with round wait now that [of k2] show ?thesis by (simp add: supervise_round_def)
  next
    case (Some cg)
    obtain k3 where limit: "limit_reached h cg k2 = (Inr False, k3)" and p: "poll_deadline h c child deadline now k3 = (None, k')"
      using round wait now Some by (auto simp: supervise_round_def split: prod.splits sum.splits bool.splits)
    have "io_mono clock (limit_reached h cg)" by (intro mono_intros mono)
    from io_monoD [OF this limit] p that show ?thesis by blast
  qed
  from poll have early: "now < deadline" and k': "k' = h_sleep h (min WAIT_POLL_INTERVAL (deadline - now)) k3"
    by (simp_all add: poll_deadline_None)
  have "io_mono clock (h_try_wait h child)" by (intro mono_intros mono)
  from io_monoD [OF this wait] have "clock k \<le> clock k1" .
  moreover have "clock k1 \<le> now" "clock k1 \<le> clock k2" using monotone_clock_now [OF mono now] by simp_all
  moreover have "clock k3 + min WAIT_POLL_INTERVAL (deadline - now) \<le> clock k'" unfolding k' by (rule monotone_clock_sleep [OF mono])
  moreover have "0 < min WAIT_POLL_INTERVAL (deadline - now)" using early by (simp add: WAIT_POLL_INTERVAL_def)
  ultimately show ?thesis using later early by linarith
qed

lemma run_checked_with_timeout_returns:
  assumes "monotone_clock h clock"
  shows "\<exists>r k'. run_checked_with_timeout target h sha p arguments timeout authorized k = Some (r, k')"
proof -
  have "\<exists>r k'. io_loop (supervise_round h c child deadline) k = Some (r, k')" for c child deadline k
    by (rule io_loop_returns) (rule supervise_round_None [OF assms])
  then show ?thesis by (auto simp: run_checked_with_timeout_def split: prod.splits sum.splits)
qed

lemma process_execute_for_task_returns:
  assumes "monotone_clock h clock" shows "\<exists>r k'. process_execute_for_task target h sha p ctx arguments k = Some (r, k')"
proof -
  have "\<exists>r k'. run_checked_with_timeout target h sha p arguments timeout True k = Some (r, k')" for timeout k
    by (rule run_checked_with_timeout_returns [OF assms])
  then show ?thesis
    by (fastforce simp: process_execute_for_task_def Let_def split: prod.splits option.splits)
qed

lemma supervise_round_success:
  assumes "supervise_round h c child deadline k = (Some (Inr out), k')"
  shows "out = ToolOutput [] \<and> (\<exists>k2. h_try_wait h child k = (Inr (Some ExitSuccess), k2))"
proof -
  have "\<exists>k2. h_try_wait h child k = (Inr (Some ExitSuccess), k2) \<and> child_exited h c ExitSuccess k2 = (Inr out, k')"
    using assms
    by (auto simp: supervise_round_def poll_deadline_def child_exited_def io_simps
        split: prod.splits sum.splits option.splits bool.splits if_splits exit_status.splits)
  then show ?thesis by (auto simp: child_exited_def output_from_bytes_def io_simps)
qed

lemma map_sum_Inr: "map_sum f id r = Inr x \<longleftrightarrow> r = Inr x"
  by (cases r) auto

lemma process_execute_for_task_success:
  assumes "process_execute_for_task target h sha p ctx arguments k = Some (Inr out, k')"
  shows "out = ToolOutput [] \<and> (\<exists>child k1 k2. h_try_wait h child k1 = (Inr (Some ExitSuccess), k2))"
proof -
  from assms obtain timeout k1 where "run_checked_with_timeout target h sha p arguments timeout True k1 = Some (Inr out, k')"
    by (auto simp: process_execute_for_task_def Let_def map_sum_Inr split: prod.splits option.splits if_splits)
  then obtain c child deadline k2 where "io_loop (supervise_round h c child deadline) k2 = Some (Inr out, k')"
    by (auto simp: run_checked_with_timeout_def split: prod.splits sum.splits)
  from io_loop_result [OF this] obtain k3 where "supervise_round h c child deadline k3 = (Some (Inr out), k')" ..
  from supervise_round_success [OF this] show ?thesis by blast
qed

section \<open>What a run spawns\<close>

text \<open>A system with another \<open>spawn\<close>: nothing before and nothing after the one call notices.\<close>

named_theorems respawn_simps \<open>calls that do not spawn\<close>

lemma respawn_identity [respawn_simps]:
  "executable_identity_read (h\<lparr>h_spawn := s\<rparr>) path = executable_identity_read h path"
  "directory_identity_read (h\<lparr>h_spawn := s\<rparr>) path = directory_identity_read h path"
  "io_now (h\<lparr>h_spawn := s\<rparr>) = io_now h" "path_is_file (h\<lparr>h_spawn := s\<rparr>) path = path_is_file h path"
  by (rule ext | simp add: executable_identity_read_def directory_identity_read_def io_now_def path_is_file_def)+

lemma respawn_collect_entries [respawn_simps]:
  "collect_entries (h\<lparr>h_spawn := s\<rparr>) directory rd entries paths dirs = collect_entries h directory rd entries paths dirs"
  by (induction h directory rd entries paths dirs rule: collect_entries.induct) (simp_all add: Let_def)

lemma respawn_collect_loop:
  "collect_loop (h\<lparr>h_spawn := s\<rparr>) root dirs paths k = collect_loop h root dirs paths k"
proof (induction h root dirs paths k rule: collect_loop.induct)
  case (1 h root dirs paths k)
  then show ?case
    by (simp add: collect_loop.simps [of _ root dirs paths k] respawn_simps Let_def split: prod.split sum.split)
qed

lemma respawn_measure_entries [respawn_simps]:
  "measure_entries (h\<lparr>h_spawn := s\<rparr>) root rs n hashed = measure_entries h root rs n hashed"
proof -
  have "measure_entry (h\<lparr>h_spawn := s\<rparr>) root r n = measure_entry h root r n" for r n
    by (simp add: measure_entry_def Let_def cong: if_cong)
  then show ?thesis by (induction rs arbitrary: n hashed) simp_all
qed

lemma respawn_verified [respawn_simps]:
  "validate_verified_root_filesystem (h\<lparr>h_spawn := s\<rparr>) sha directory state = validate_verified_root_filesystem h sha directory state"
proof -
  have "collect_relative_paths (h\<lparr>h_spawn := s\<rparr>) root = collect_relative_paths h root" for root
    by (rule ext) (simp add: collect_relative_paths_def respawn_collect_loop)
  then show ?thesis
    by (simp add: validate_verified_root_filesystem_def validate_tree_def measure_tree_def validate_read_only_directory_def respawn_simps
        cong: if_cong)
qed

lemma respawn_cgroup [respawn_simps]:
  "limit_reached (h\<lparr>h_spawn := s\<rparr>) c = limit_reached h c"
  "task_cgroup_terminate (h\<lparr>h_spawn := s\<rparr>) c = task_cgroup_terminate h c"
  by (simp_all add: limit_reached_def task_cgroup_validate_def task_cgroup_terminate_def terminate_task_cgroup_def
      validate_task_cgroup_identity_def cgroup_identity_read_def require_files_def read_text_def read_keyed_u64_def respawn_simps)

lemma respawn_seccomp [respawn_simps]: "seccomp_file_create target (h\<lparr>h_spawn := s\<rparr>) inherit = seccomp_file_create target h inherit"
  by (simp add: seccomp_file_create_def cong: if_cong)

lemma respawn_prefix [respawn_simps]: "launch_prefix (h\<lparr>h_spawn := s\<rparr>) b = launch_prefix h b"
  by (simp add: launch_prefix_def descriptor_channel_def cong: if_cong option.case_cong)

lemma respawn_require_identity [respawn_simps]: "require_identity (h\<lparr>h_spawn := s\<rparr>) path identity = require_identity h path identity"
  by (simp add: require_identity_def respawn_simps)

lemma respawn_launch_command [respawn_simps]:
  "launch_command (h\<lparr>h_spawn := s\<rparr>) sha p arguments seccomp = launch_command h sha p arguments seccomp"
proof -
  have "validate_verified_root_filesystem (h\<lparr>h_spawn := s\<rparr>) sha root = validate_verified_root_filesystem h sha root" for root
    by (rule ext) (rule respawn_verified)
  then show ?thesis by (simp add: launch_command_def respawn_simps cong: process_launcher.case_cong)
qed

lemma respawn_prepare [respawn_simps]:
  "prepare_run target (h\<lparr>h_spawn := s\<rparr>) sha p arguments timeout authorized = prepare_run target h sha p arguments timeout authorized"
proof -
  have "validate_task_scratch_identity (h\<lparr>h_spawn := s\<rparr>) path = validate_task_scratch_identity h path" for path
    by (rule ext) (simp add: validate_task_scratch_identity_def validate_owner_only_directory_def respawn_simps)
  then show ?thesis
    by (simp add: prepare_run_def reject_limit_reached_def respawn_simps cong: process_launcher.case_cong)
qed

lemma respawn_terminate [respawn_simps]: "terminate_cgroup_child (h\<lparr>h_spawn := s\<rparr>) c child = terminate_cgroup_child h c child"
  by (rule ext) (simp add: terminate_cgroup_child_def respawn_simps)

lemma respawn_abandon [respawn_simps]: "abandon_child (h\<lparr>h_spawn := s\<rparr>) c child = abandon_child h c child"
  by (simp add: abandon_child_def respawn_simps split: option.split)

lemma respawn_kill [respawn_simps]: "kill_at_deadline (h\<lparr>h_spawn := s\<rparr>) c child = kill_at_deadline h c child"
  by (rule ext) (simp add: kill_at_deadline_def respawn_simps split: option.split prod.split sum.split)

lemma respawn_poll [respawn_simps]: "poll_deadline (h\<lparr>h_spawn := s\<rparr>) c child deadline now = poll_deadline h c child deadline now"
  by (rule ext) (simp add: poll_deadline_def respawn_simps)

lemma respawn_supervise [respawn_simps]:
  "supervise_round (h\<lparr>h_spawn := s\<rparr>) c child deadline = supervise_round h c child deadline"
  by (intro ext) (simp add: supervise_round_def child_exited_def reject_limit_reached_def respawn_simps
      cong: prod.case_cong sum.case_cong option.case_cong bool.case_cong)

lemma respawn_start_child:
  assumes "s command = h_spawn h command"
  shows "start_child (h\<lparr>h_spawn := s\<rparr>) p command sender seccomp timeout = start_child h p command sender seccomp timeout"
  using assms by (simp add: start_child_def descriptor_send_def respawn_simps
      cong: prod.case_cong sum.case_cong process_launcher.case_cong option.case_cong)

text \<open>The arguments of the launcher in front of those of Bubblewrap.\<close>

definition launcher_arguments :: "bubblewrap_launcher \<Rightarrow> task_cgroup \<Rightarrow> string list" where
  "launcher_arguments b c =
     (let place = [path_join (tcg_directory c) ''cgroup.procs'', show_nat (di_device (tcg_directory_identity c)),
        show_nat (di_inode (tcg_directory_identity c)), bl_bubblewrap b] in
      if bl_mounts b = [] then place
      else ''--descriptor-broker'' # place @ show_nat (length (bl_mounts b))
        # concat (map (\<lambda>m. [''read'', fc_path (fm_capability m)]) (bl_mounts b)))"

text \<open>The seccomp filter is inherited, or sent with the descriptors.\<close>

definition seccomp_argument :: "bubblewrap_launcher \<Rightarrow> nat option \<Rightarrow> bool" where
  "seccomp_argument b fd \<longleftrightarrow> (if bl_mounts b = [] then (\<exists>n. fd = Some n \<and> 2 < n) else fd = None)"

lemma launch_command_bubblewrap:
  assumes "launch_command h sha p arguments seccomp k = (Inr (cmd, sender), k')"
    and "ph_launcher p = Bubblewrap b" and "bl_cgroup_launch b = Some cl"
  shows "\<exists>fd. cmd_program cmd = cl_launcher cl \<and> cmd_env cmd = ph_environment p \<and> cmd_dir cmd = ''/''
    \<and> cmd_args cmd = launcher_arguments b (cl_task_cgroup cl)
        @ bubblewrap_arguments (bl_root_filesystem b) (ph_working_directory p) (bl_sandbox_executable b) fd
        @ ph_fixed_arguments p @ arguments
    \<and> fd = (if bl_mounts b = [] then seccomp else None) \<and> (bl_mounts b = [] \<longrightarrow> seccomp \<noteq> None)"
  using assms by (auto simp: launch_command_def launch_prefix_def launch_identity_def launcher_arguments_def Let_def io_simps
      split: if_splits prod.splits)

text \<open>What a run for a task may spawn: arguments that are within the limits and that the policy
  allows; directly only the configured executable; otherwise the launcher of a cgroup that belongs
  to the task and has the ceilings of its budget, with the arguments of the sandbox and the read
  capabilities of the task, no more and no less.\<close>

definition authorized_command :: "process_tool_handler \<Rightarrow> task_execution_context \<Rightarrow> string list \<Rightarrow> command \<Rightarrow> bool" where
  "authorized_command p ctx arguments cmd \<longleftrightarrow>
     arguments_ok (ph_fixed_arguments p @ arguments) \<and> ph_argument_policy p arguments \<and> cmd_env cmd = ph_environment p
     \<and> (case ph_launcher p of
          Direct \<Rightarrow>
            cmd_program cmd = ph_executable p \<and> cmd_args cmd = ph_fixed_arguments p @ arguments
            \<and> cmd_dir cmd = ph_working_directory p \<and> cmd_stdin cmd = StdinNull
        | Bubblewrap b \<Rightarrow>
            (\<exists>cl fd. bl_cgroup_launch b = Some cl
               \<and> tcg_task_id (cl_task_cgroup cl) = tec_task_id ctx
               \<and> cgroup_budget_from_task (tec_budget ctx) = Inr (tcg_budget (cl_task_cgroup cl))
               \<and> mset (map fm_capability (bl_mounts b)) = mset (tec_filesystem_capabilities ctx)
               \<and> cmd_program cmd = cl_launcher cl \<and> cmd_dir cmd = ''/'' \<and> seccomp_argument b fd
               \<and> cmd_args cmd = launcher_arguments b (cl_task_cgroup cl)
                   @ bubblewrap_arguments (bl_root_filesystem b) (ph_working_directory p) (bl_sandbox_executable b) fd
                   @ ph_fixed_arguments p @ arguments))"

lemma filesystem_capabilities_match_mset:
  assumes "filesystem_capabilities_match expected mounted"
  shows "mset (map fm_capability mounted) = mset expected"
proof -
  let ?key = "\<lambda>c. (fc_path c, fc_access c)"
  have "mset (map ?key expected) = mset (map ?key (map fm_capability mounted))"
    using assms unfolding filesystem_capabilities_match_def by (metis (no_types, lifting) list.map_comp comp_apply map_eq_conv mset_sort)
  then have "image_mset ?key (mset expected) = image_mset ?key (mset (map fm_capability mounted))" by (simp only: mset_map)
  with multiset.inj_map [OF file_key_inj] show ?thesis by (metis injD)
qed

lemma seccomp_file_create_fd: "seccomp_file_create target h inherit k = (Inr fd, k') \<Longrightarrow> 2 < fd"
  by (auto simp: seccomp_file_create_def io_simps)

lemma prepare_run_command:
  assumes "prepare_run target h sha p arguments timeout authorized k = (Inr (cmd, sender, seccomp), k')"
  shows "\<exists>k1 k2. arguments_ok (ph_fixed_arguments p @ arguments) \<and> ph_argument_policy p arguments
    \<and> (\<forall>b. ph_launcher p = Bubblewrap b \<longrightarrow> (\<exists>n. seccomp = Some n \<and> 2 < n))
    \<and> launch_command h sha p arguments seccomp k1 = (Inr (cmd, sender), k2)"
  using assms unfolding prepare_run_def Let_def
  by (elim io_bindE) (auto simp: io_simps dest: seccomp_file_create_fd split: process_launcher.splits prod.splits)

lemma prepare_run_authorized:
  assumes run: "prepare_run target h sha p arguments timeout True k = (Inr (cmd, sender, seccomp), k')"
    and task: "task_run_timeout p ctx task_timeout = Some t"
  shows "authorized_command p ctx arguments cmd"
proof -
  from prepare_run_command [OF run] obtain k1 k2 where ok: "arguments_ok (ph_fixed_arguments p @ arguments)" "ph_argument_policy p arguments"
      and filter: "\<And>b. ph_launcher p = Bubblewrap b \<Longrightarrow> \<exists>n. seccomp = Some n \<and> 2 < n"
      and launch: "launch_command h sha p arguments seccomp k1 = (Inr (cmd, sender), k2)" by blast
  show ?thesis
  proof (cases "ph_launcher p")
    case Direct
    with launch ok show ?thesis by (auto simp: authorized_command_def launch_command_def io_simps)
  next
    case (Bubblewrap b)
    with task obtain cl where cl: "bl_cgroup_launch b = Some cl" and "tcg_task_id (cl_task_cgroup cl) = tec_task_id ctx"
        and "cgroup_budget_from_task (tec_budget ctx) = Inr (tcg_budget (cl_task_cgroup cl))"
        and "filesystem_capabilities_match (tec_filesystem_capabilities ctx) (bl_mounts b)"
      by (auto simp: task_run_timeout_def split: option.splits sum.splits if_splits)
    with Bubblewrap ok filter [OF Bubblewrap] launch_command_bubblewrap [OF launch Bubblewrap cl] show ?thesis
      by (fastforce simp: authorized_command_def seccomp_argument_def dest: filesystem_capabilities_match_mset)
  qed
qed

lemma run_checked_confined:
  assumes "\<forall>cmd. authorized_command p ctx arguments cmd \<longrightarrow> spawn cmd = h_spawn h cmd"
    and "task_run_timeout p ctx task_timeout = Some t"
  shows "run_checked_with_timeout target (h\<lparr>h_spawn := spawn\<rparr>) sha p arguments timeout True k
    = run_checked_with_timeout target h sha p arguments timeout True k"
proof -
  let ?start = "\<lambda>h (command, sender, seccomp). start_child h p command sender seccomp timeout"
  have "io_bind (prepare_run target h sha p arguments timeout True) (?start (h\<lparr>h_spawn := spawn\<rparr>)) k
      = io_bind (prepare_run target h sha p arguments timeout True) (?start h) k"
  proof (cases "prepare_run target h sha p arguments timeout True k")
    case (Pair r k1)
    show ?thesis
    proof (cases r)
      case (Inr x)
      obtain cmd sender seccomp where x: "x = (cmd, sender, seccomp)" by (cases x)
      from Pair have "prepare_run target h sha p arguments timeout True k = (Inr (cmd, sender, seccomp), k1)" by (simp add: Inr x)
      then have "authorized_command p ctx arguments cmd" by (rule prepare_run_authorized [OF _ assms(2)])
      with assms(1) have "spawn cmd = h_spawn h cmd" by blast
      from respawn_start_child [of spawn, OF this] Pair Inr x show ?thesis by (simp add: io_bind_def)
    qed (simp add: io_bind_def Pair)
  qed
  then show ?thesis
    by (simp add: run_checked_with_timeout_def respawn_simps cong: prod.case_cong sum.case_cong)
qed

lemma process_execute_confined:
  assumes "\<forall>cmd. authorized_command p ctx arguments cmd \<longrightarrow> spawn cmd = h_spawn h cmd"
  shows "process_execute_for_task target (h\<lparr>h_spawn := spawn\<rparr>) sha p ctx arguments k
    = process_execute_for_task target h sha p ctx arguments k"
  using run_checked_confined [OF assms]
  by (simp add: process_execute_for_task_def Let_def split: prod.split option.split)

section \<open>What the launcher executes\<close>

definition isolation_options :: "string list" where
  "isolation_options = [''--unshare-all'', ''--unshare-user'', ''--disable-userns'', ''--die-with-parent'', ''--new-session'']"

definition mount_options :: "string \<Rightarrow> string \<Rightarrow> string list" where
  "mount_options root scratch = [''--cap-drop'', ''ALL'', ''--ro-bind'', root, ''/'', ''--proc'', ''/proc'', ''--dev'', ''/dev'',
     ''--tmpfs'', ''/tmp'', ''--bind'', scratch, ''/workspace'', ''--chdir'', ''/workspace'']"

text \<open>The options Bubblewrap gets: the filter, and read-only mounts of the descriptors at the paths of
  their capabilities.\<close>

definition sandbox_options :: "process_tool_handler \<Rightarrow> bubblewrap_launcher \<Rightarrow> nat \<Rightarrow> nat list \<Rightarrow> string list" where
  "sandbox_options p b seccomp fds =
     (if bl_mounts b = []
      then isolation_options @ [''--seccomp'', show_nat seccomp] @ mount_options (bl_root_filesystem b) (ph_working_directory p)
      else isolation_options @ mount_options (bl_root_filesystem b) (ph_working_directory p) @ [''--seccomp'', show_nat seccomp]
        @ concat (map (\<lambda>(m, fd). [''--ro-bind-fd'', show_nat fd, fc_path (fm_capability m)]) (zip (bl_mounts b) fds)))"

lemma absolute_not_option: "path_is_absolute path \<Longrightarrow> path \<noteq> CHR ''-'' # rest"
  by (auto simp: path_is_absolute_def starts_with_def)

lemma path_join_absolute: "path_is_absolute base \<Longrightarrow> path_is_absolute (path_join base path)"
  by (auto simp: path_join_def path_is_absolute_def starts_with_def)

lemma show_nat_not_option: "show_nat n \<noteq> CHR ''-'' # rest"
proof
  assume "show_nat n = CHR ''-'' # rest"
  then have "is_ascii_digit (CHR ''-'')" using show_nat_digits [of "CHR ''-''" n] by simp
  then show False by (simp add: ascii_defs)
qed

lemma mountable_path:
  assumes "mountable c" shows "path_is_absolute (fc_path c)" and "validate_sandbox_path (fc_path c) = Inr ()"
  using assms by (auto simp: mountable_def validate_sandbox_absolute_path_def validate_sandbox_path_def
      MAX_SANDBOX_PATH_BYTES_def LAUNCH_MAX_PATH_BYTES_def split: if_splits list.splits component.splits)

lemma sandbox_options_no_delimiter:
  assumes "path_is_absolute (bl_root_filesystem b)" "path_is_absolute (ph_working_directory p)" "\<forall>m \<in> set (bl_mounts b). mountable (fm_capability m)"
  shows "''--'' \<notin> set (sandbox_options p b seccomp fds)"
proof -
  have paths: "fc_path (fm_capability m) \<noteq> ''--''" if "(m, fd) \<in> set (zip (bl_mounts b) fds)" for m fd
    using set_zip_leftD [OF that] assms(3) mountable_path(1) absolute_not_option by blast
  have numbers: "show_nat n \<noteq> ''--''" for n by (rule show_nat_not_option)
  have "list_all (\<lambda>option. option \<noteq> ''--'') (sandbox_options p b seccomp fds)"
    using absolute_not_option [OF assms(1)] absolute_not_option [OF assms(2)] numbers numbers [THEN not_sym] paths paths [THEN not_sym]
    by (auto simp: sandbox_options_def isolation_options_def mount_options_def list_all_iff) blast
  then show ?thesis by (auto simp: list_all_iff)
qed

lemma parse_mounts_ok:
  "\<forall>m \<in> set mounts. mountable (fm_capability m) \<Longrightarrow>
   parse_mounts (length mounts) (concat (map (\<lambda>m. [''read'', fc_path (fm_capability m)]) mounts) @ child)
     = Inr (map (\<lambda>m. fc_path (fm_capability m)) mounts, child)"
  by (induction mounts) (simp_all add: parse_mounts.simps mountable_path(2))

text \<open>What the launcher reads from its arguments, before it looks at the system.\<close>

definition launch_parse :: "string list \<Rightarrow> unit + launch_request" where
  "launch_parse arguments =
     (case arguments of
        [] \<Rightarrow> Inl ()
      | first # rest \<Rightarrow> if first = ''--descriptor-broker'' then parse_descriptor_broker rest else parse_legacy first rest)"

lemma cgroup_launch_run_parse:
  "cgroup_launch_run h arguments k = (Inr img, k') \<Longrightarrow> launch_parse arguments = Inr request \<Longrightarrow>
     ex_program img = lr_executable request \<and> ex_env img = []
     \<and> (if hd arguments = ''--descriptor-broker''
        then (\<exists>fds. length fds = Suc (length (lr_mounts request)) \<and> (\<forall>fd \<in> set fds. 2 < fd)
          \<and> splice_before_delimiter (descriptor_arguments fds (lr_mounts request)) (lr_child_arguments request) = Inr (ex_args img))
        else ex_args img = lr_child_arguments request)"
  by (fastforce simp: cgroup_launch_run_def launch_parse_def run_descriptor_broker_def run_legacy_def receive_descriptors_def
      Let_def io_simps list_ex_iff not_le split: list.splits if_splits)

text \<open>The arguments after the launcher's own, and that they fit its limits.\<close>

definition child_arguments :: "process_tool_handler \<Rightarrow> bubblewrap_launcher \<Rightarrow> nat option \<Rightarrow> string list \<Rightarrow> string list" where
  "child_arguments p b fd arguments =
     bubblewrap_arguments (bl_root_filesystem b) (ph_working_directory p) (bl_sandbox_executable b) fd @ ph_fixed_arguments p @ arguments"

lemma child_arguments_length:
  "arguments_ok (ph_fixed_arguments p @ arguments) \<Longrightarrow> length (child_arguments p b fd arguments) \<le> 90"
  by (auto simp: child_arguments_def bubblewrap_arguments_def arguments_ok_def PROC_MAX_ARGUMENTS_def split: option.split)

lemma launch_parse_ok:
  assumes "launcher_wf exe scratch b" and "bl_cgroup_launch b = Some cl" and "length child \<le> 90"
  shows "launch_parse (launcher_arguments b (cl_task_cgroup cl) @ child)
    = Inr \<lparr>lr_cgroup_procs = path_join (tcg_directory (cl_task_cgroup cl)) ''cgroup.procs'',
        lr_device = di_device (tcg_directory_identity (cl_task_cgroup cl)),
        lr_inode = di_inode (tcg_directory_identity (cl_task_cgroup cl)), lr_executable = bl_bubblewrap b,
        lr_mounts = map (\<lambda>m. fc_path (fm_capability m)) (bl_mounts b), lr_child_arguments = child\<rparr>"
proof -
  let ?c = "cl_task_cgroup cl"
  from assms have wf: "cgroup_wf ?c" and mounts: "\<forall>m \<in> set (bl_mounts b). mountable (fm_capability m)"
      and n: "length (bl_mounts b) \<le> 128"
    by (auto simp: launcher_wf_def launch_wf_def MAX_FILESYSTEM_CAPABILITY_MOUNTS_def)
  then have numbers: "parse_u64 (show_nat (di_device (tcg_directory_identity ?c))) = Inr (di_device (tcg_directory_identity ?c))"
      "parse_u64 (show_nat (di_inode (tcg_directory_identity ?c))) = Inr (di_inode (tcg_directory_identity ?c))"
      "parse_usize (show_nat (length (bl_mounts b))) = Inr (length (bl_mounts b))"
    by (simp_all add: cgroup_wf_def parse_u64_def parse_usize_def parse_unsigned_show)
  have "path_is_absolute (path_join (tcg_directory ?c) ''cgroup.procs'')" using wf by (simp add: cgroup_wf_def path_join_absolute)
  then have place: "path_join (tcg_directory ?c) ''cgroup.procs'' \<noteq> ''--descriptor-broker''" by (rule absolute_not_option)
  show ?thesis
    using numbers place n assms(3) parse_mounts_ok [OF mounts, of child]
    by (auto simp: launch_parse_def launcher_arguments_def Let_def parse_legacy_def parse_descriptor_broker_def
        MAX_LAUNCH_ARGUMENTS_def MAX_DESCRIPTOR_MOUNTS_def)
qed

lemma splice_ok:
  "''--'' \<notin> set options \<Longrightarrow> splice_before_delimiter inserted (options @ ''--'' # rest) = Inr (options @ inserted @ ''--'' # rest)"
  by (auto simp: splice_before_delimiter_def takeWhile_append dropWhile_append)

lemma split_at_delimiter:
  assumes "''--'' \<notin> set options" and "args = options @ ''--'' # rest"
  shows "takeWhile (\<lambda>a. a \<noteq> ''--'') args = options \<and> dropWhile (\<lambda>a. a \<noteq> ''--'') args = ''--'' # rest"
  using assms by (auto simp: takeWhile_append dropWhile_append)

lemma child_arguments_options:
  "child_arguments p b (if bl_mounts b = [] then Some fd else None) arguments =
     (if bl_mounts b = [] then sandbox_options p b fd []
      else isolation_options @ mount_options (bl_root_filesystem b) (ph_working_directory p))
     @ ''--'' # bl_sandbox_executable b # ph_fixed_arguments p @ arguments"
  by (simp add: child_arguments_def bubblewrap_arguments_def sandbox_options_def isolation_options_def mount_options_def)

lemma launcher_image:
  assumes wf: "launcher_wf exe (ph_working_directory p) b" "path_is_absolute (ph_working_directory p)"
    and cl: "bl_cgroup_launch b = Some cl" and fits: "arguments_ok (ph_fixed_arguments p @ arguments)" and filter: "2 < seccomp"
    and run: "cgroup_launch_run h (launcher_arguments b (cl_task_cgroup cl)
      @ child_arguments p b (if bl_mounts b = [] then Some seccomp else None) arguments) k = (Inr img, k')"
  shows "ex_program img = bl_bubblewrap b \<and> ex_env img = []
    \<and> (\<exists>fd fds. 2 < fd \<and> (\<forall>n \<in> set fds. 2 < n) \<and> length fds = length (bl_mounts b) \<and> (bl_mounts b = [] \<longrightarrow> fd = seccomp)
        \<and> ex_args img = sandbox_options p b fd fds @ ''--'' # bl_sandbox_executable b # ph_fixed_arguments p @ arguments)"
proof -
  let ?fd = "if bl_mounts b = [] then Some seccomp else None"
  let ?rest = "bl_sandbox_executable b # ph_fixed_arguments p @ arguments"
  let ?paths = "map (\<lambda>m. fc_path (fm_capability m)) (bl_mounts b)"
  note img = cgroup_launch_run_parse [OF run launch_parse_ok [OF wf(1) cl child_arguments_length [OF fits]]]
  have broker: "hd (launcher_arguments b (cl_task_cgroup cl) @ child_arguments p b ?fd arguments) = ''--descriptor-broker'' \<longleftrightarrow> bl_mounts b \<noteq> []"
  proof -
    have "cgroup_wf (cl_task_cgroup cl)" using wf(1) cl by (simp add: launcher_wf_def launch_wf_def)
    then have "path_is_absolute (path_join (tcg_directory (cl_task_cgroup cl)) ''cgroup.procs'')" by (simp add: cgroup_wf_def path_join_absolute)
    from absolute_not_option [OF this] show ?thesis by (simp add: launcher_arguments_def Let_def)
  qed
  show ?thesis
  proof (cases "bl_mounts b = []")
    case True
    with child_arguments_options [of p b seccomp arguments]
    have "child_arguments p b (Some seccomp) arguments = sandbox_options p b seccomp [] @ ''--'' # ?rest" by simp
    with True img broker filter show ?thesis by auto
  next
    case False
    let ?options = "isolation_options @ mount_options (bl_root_filesystem b) (ph_working_directory p)"
    have "''--'' \<notin> set (sandbox_options p b seccomp [])"
      using wf by (intro sandbox_options_no_delimiter) (auto simp: launcher_wf_def)
    then have options: "''--'' \<notin> set ?options" using False by (simp add: sandbox_options_def)
    from img broker False obtain f fds where fds: "length (f # fds) = Suc (length (bl_mounts b))" "\<forall>n \<in> set (f # fds). 2 < n"
        and splice: "splice_before_delimiter (descriptor_arguments (f # fds) ?paths) (child_arguments p b ?fd arguments) = Inr (ex_args img)"
      by (fastforce simp: length_Suc_conv)
    have "child_arguments p b ?fd arguments = ?options @ ''--'' # ?rest"
      using child_arguments_options [of p b seccomp arguments] False by simp
    with splice splice_ok [OF options] have "ex_args img = ?options @ descriptor_arguments (f # fds) ?paths @ ''--'' # ?rest" by simp
    moreover have "?options @ descriptor_arguments (f # fds) ?paths = sandbox_options p b f fds"
      using False by (simp add: sandbox_options_def descriptor_arguments_def zip_map1 case_prod_unfold comp_def)
    ultimately have "ex_args img = sandbox_options p b f fds @ ''--'' # ?rest" by (metis append.assoc)
    with img fds False show ?thesis by auto
  qed
qed

section \<open>The example\<close>

lemma sim_canonical: "canonical_absolute sim_host_api"
  by (auto simp: canonical_absolute_def sim_host_api_def sim_get_def split: if_splits option.splits)

lemma demo_cgroup_wf: "cgroup_wf demo_task_cgroup"
  by (simp add: cgroup_wf_def demo_task_cgroup_def path_is_absolute_def starts_with_def)

lemma demo_handler_wf: "handler_wf demo_handler"
proof -
  have "mountable demo_read_d" unfolding mountable_def by code_simp
  moreover have "\<not> path_eq ''/r'' ''/''" "\<not> path_eq ''/s'' ''/''" "\<not> path_starts_with ''/s'' ''/r''" "\<not> path_starts_with ''/r'' ''/s''"
      "path_starts_with ''/r/e'' ''/r''"
    by code_simp+
  ultimately show ?thesis using demo_cgroup_wf
    by (simp add: handler_wf_def launcher_wf_def launch_wf_def demo_handler_def demo_launcher_def arguments_ok_def environment_ok_def
        path_is_absolute_def starts_with_def DEFAULT_TIMEOUT_def MAX_TIMEOUT_def from_secs_def MAX_FILESYSTEM_CAPABILITY_MOUNTS_def)
qed

section \<open>Properties\<close>



text \<open>A tool process is only ever started with the authority of the task. Whatever the system does,
  the only commands \<open>execute_for_task\<close> spawns are authorized ones: within the argument limits,
  allowed by the policy, with the configured environment, and, in the sandbox, through the launcher
  of a cgroup that belongs to this task and has exactly the ceilings of its budget, mounting
  exactly its file capabilities, with the fixed isolation arguments. Stated as non-interference:
  replacing \<open>spawn\<close> for every other command by anything changes neither the result nor the state
  of the system.\<close>

theorem process_spawn_authorized:
  assumes "\<forall>cmd. authorized_command p ctx arguments cmd \<longrightarrow> spawn cmd = h_spawn h cmd"
  shows "process_execute_for_task target (h\<lparr>h_spawn := spawn\<rparr>) sha p ctx arguments k
    = process_execute_for_task target h sha p ctx arguments k"
  using assms by (rule process_execute_confined)

theorem process_spawn_authorized_witness:
  "map_option fst (process_execute_for_task demo_platform
      (sim_host_api\<lparr>h_spawn := (\<lambda>cmd. if authorized_command demo_handler demo_task_context [''--''] cmd
         then h_spawn sim_host_api cmd else (\<lambda>k. (Inl OtherIo, k)))\<rparr>)
      id demo_handler demo_task_context [''--''] demo_sandbox_host) = Some (Inr (ToolOutput []))"
  by (subst process_spawn_authorized) (simp_all add: demo_run)

text \<open>C12: what the launcher finally executes is the sandbox the handler was built with. For every
  command a well-formed cgroup handler spawns, the launcher's parser accepts the arguments (they
  always fit its limits), and whenever the launcher reaches \<open>exec\<close> it executes the configured
  Bubblewrap with, up to the first \<open>--\<close>, exactly the isolation options, the seccomp filter and one
  read-only mount per capability at its path, and after it the sandbox executable with the fixed
  and the dynamic arguments: no dynamic argument, whatever it contains, is ever an option of
  Bubblewrap.\<close>

theorem launcher_execs_sandbox:
  assumes "handler_wf p" and "ph_launcher p = Bubblewrap b" and "bl_cgroup_launch b = Some cl"
    and "prepare_run target h sha p arguments timeout authorized k = (Inr (cmd, sender, seccomp), k')"
  shows "(\<exists>request. launch_parse (cmd_args cmd) = Inr request)
    \<and> (\<forall>k1 img k2. cgroup_launch_run h1 (cmd_args cmd) k1 = (Inr img, k2) \<longrightarrow>
         ex_program img = bl_bubblewrap b
         \<and> (\<exists>fd fds. length fds = length (bl_mounts b) \<and> (\<forall>n \<in> set (fd # fds). 2 < n) \<and> (bl_mounts b = [] \<longrightarrow> seccomp = Some fd)
              \<and> takeWhile (\<lambda>a. a \<noteq> ''--'') (ex_args img) = sandbox_options p b fd fds
              \<and> dropWhile (\<lambda>a. a \<noteq> ''--'') (ex_args img) = ''--'' # bl_sandbox_executable b # ph_fixed_arguments p @ arguments))"
proof (intro conjI allI impI)
  from prepare_run_command [OF assms(4)] assms(2) obtain n k3 k4 where n: "seccomp = Some n" "2 < n"
      and fits: "arguments_ok (ph_fixed_arguments p @ arguments)"
      and launch: "launch_command h sha p arguments seccomp k3 = (Inr (cmd, sender), k4)" by blast
  from launch_command_bubblewrap [OF launch assms(2,3)] n(1)
  have args: "cmd_args cmd = launcher_arguments b (cl_task_cgroup cl) @ child_arguments p b (if bl_mounts b = [] then Some n else None) arguments"
    by (auto simp: child_arguments_def)
  have wf: "launcher_wf (ph_executable p) (ph_working_directory p) b" "path_is_absolute (ph_working_directory p)"
    using assms(1,2) by (auto simp: handler_wf_def)
  show "\<exists>request. launch_parse (cmd_args cmd) = Inr request"
    unfolding args launch_parse_ok [OF wf(1) assms(3) child_arguments_length [OF fits]] by blast
  fix k1 img k2
  assume "cgroup_launch_run h1 (cmd_args cmd) k1 = (Inr img, k2)"
  from launcher_image [OF wf assms(3) fits n(2) this [unfolded args]] obtain fd fds where
    image: "ex_program img = bl_bubblewrap b" "length fds = length (bl_mounts b)" "\<forall>n \<in> set (fd # fds). 2 < n" "bl_mounts b = [] \<longrightarrow> fd = n"
      "ex_args img = sandbox_options p b fd fds @ ''--'' # bl_sandbox_executable b # ph_fixed_arguments p @ arguments"
    by auto
  have "''--'' \<notin> set (sandbox_options p b fd fds)" using wf by (intro sandbox_options_no_delimiter) (auto simp: launcher_wf_def)
  from split_at_delimiter [OF this image(5)] image n(1)
  show "ex_program img = bl_bubblewrap b"
    and "\<exists>fd fds. length fds = length (bl_mounts b) \<and> (\<forall>n \<in> set (fd # fds). 2 < n) \<and> (bl_mounts b = [] \<longrightarrow> seccomp = Some fd)
      \<and> takeWhile (\<lambda>a. a \<noteq> ''--'') (ex_args img) = sandbox_options p b fd fds
      \<and> dropWhile (\<lambda>a. a \<noteq> ''--'') (ex_args img) = ''--'' # bl_sandbox_executable b # ph_fixed_arguments p @ arguments"
    by blast+
qed

theorem launcher_execs_sandbox_witness:
  "\<exists>img k2. cgroup_launch_run sim_host_api (cmd_args demo_command) (demo_sandbox_host\<lparr>sh_sent := [[7, 22]]\<rparr>) = (Inr img, k2)
     \<and> ex_program img = ''/b''
     \<and> (\<exists>fd fd1. takeWhile (\<lambda>a. a \<noteq> ''--'') (ex_args img) = sandbox_options demo_handler demo_launcher fd [fd1])
     \<and> dropWhile (\<lambda>a. a \<noteq> ''--'') (ex_args img) = [''--'', ''/e'', ''--'']"
proof -
  obtain img k2 where run: "cgroup_launch_run sim_host_api (cmd_args demo_command) (demo_sandbox_host\<lparr>sh_sent := [[7, 22]]\<rparr>) = (Inr img, k2)"
    using demo_launch
    by (cases "cgroup_launch_run sim_host_api (cmd_args demo_command) (demo_sandbox_host\<lparr>sh_sent := [[7, 22]]\<rparr>)") (auto split: sum.splits)
  obtain k' where prepare: "prepare_run demo_platform sim_host_api id demo_handler [''--''] 1 True demo_sandbox_host
      = (Inr (demo_command, Some 8, Some 7), k')"
    using demo_prepare by (cases "prepare_run demo_platform sim_host_api id demo_handler [''--''] 1 True demo_sandbox_host") simp
  have l: "ph_launcher demo_handler = Bubblewrap demo_launcher" "bl_cgroup_launch demo_launcher =
      Some \<lparr>cl_launcher = ''/l'', cl_launcher_identity = \<lparr>ei_device = 1, ei_inode = 17\<rparr>, cl_task_cgroup = demo_task_cgroup\<rparr>"
    by (simp_all add: demo_handler_def demo_launcher_def)
  from launcher_execs_sandbox [OF demo_handler_wf l prepare, of sim_host_api] run
  obtain fd fds where "ex_program img = bl_bubblewrap demo_launcher" and n: "length fds = length (bl_mounts demo_launcher)"
      and "takeWhile (\<lambda>a. a \<noteq> ''--'') (ex_args img) = sandbox_options demo_handler demo_launcher fd fds"
      and "dropWhile (\<lambda>a. a \<noteq> ''--'') (ex_args img) = ''--'' # bl_sandbox_executable demo_launcher # ph_fixed_arguments demo_handler @ [''--'']"
    by blast
  moreover from n obtain fd1 where "fds = [fd1]" by (auto simp: demo_launcher_def length_Suc_conv)
  ultimately show ?thesis using run by (auto simp: demo_launcher_def demo_handler_def)
qed

text \<open>C40: the configured environment does not reach a tool through the launcher. With a cgroup, the
  handler sets the values of \<open>environment\<close> on the command of the launcher, but whatever the
  launcher executes has an empty environment.\<close>

theorem launcher_drops_environment:
  assumes "ph_launcher p = Bubblewrap b" and "bl_cgroup_launch b = Some cl"
    and "launch_command h sha p arguments seccomp k = (Inr (cmd, sender), k')"
    and "cgroup_launch_run h1 (cmd_args cmd) k1 = (Inr img, k2)"
  shows "cmd_program cmd = cl_launcher cl \<and> cmd_env cmd = ph_environment p \<and> ex_env img = []"
  using launch_command_bubblewrap [OF assms(3,1,2)] assms(4)
  by (auto simp: cgroup_launch_run_def run_descriptor_broker_def run_legacy_def io_simps split: list.splits if_splits)

definition demo_env_handler :: process_tool_handler where
  "demo_env_handler = demo_handler\<lparr>ph_environment := [(''A'', ''1'')]\<rparr>"

lemma demo_env_command:
  "fst (launch_command sim_host_api id demo_env_handler [''--''] (Some 7) demo_sandbox_host)
     = Inr (demo_command\<lparr>cmd_env := [(''A'', ''1'')]\<rparr>, Some 8)"
  by code_simp

theorem launcher_drops_environment_witness:
  "\<exists>cmd sender img k1 k2. launch_command sim_host_api id demo_env_handler [''--''] (Some 7) demo_sandbox_host = (Inr (cmd, sender), k1)
     \<and> cgroup_launch_run sim_host_api (cmd_args cmd) (demo_sandbox_host\<lparr>sh_sent := [[7, 22]]\<rparr>) = (Inr img, k2)
     \<and> cmd_env cmd = [(''A'', ''1'')] \<and> ex_env img = []"
proof -
  let ?cmd = "demo_command\<lparr>cmd_env := [(''A'', ''1'')]\<rparr>"
  obtain img k2 where run: "cgroup_launch_run sim_host_api (cmd_args ?cmd) (demo_sandbox_host\<lparr>sh_sent := [[7, 22]]\<rparr>) = (Inr img, k2)"
    using demo_launch
    by (cases "cgroup_launch_run sim_host_api (cmd_args demo_command) (demo_sandbox_host\<lparr>sh_sent := [[7, 22]]\<rparr>)") (auto split: sum.splits)
  obtain k1 where launch: "launch_command sim_host_api id demo_env_handler [''--''] (Some 7) demo_sandbox_host = (Inr (?cmd, Some 8), k1)"
    using demo_env_command by (cases "launch_command sim_host_api id demo_env_handler [''--''] (Some 7) demo_sandbox_host") simp
  have l: "ph_launcher demo_env_handler = Bubblewrap demo_launcher" "bl_cgroup_launch demo_launcher =
      Some \<lparr>cl_launcher = ''/l'', cl_launcher_identity = \<lparr>ei_device = 1, ei_inode = 17\<rparr>, cl_task_cgroup = demo_task_cgroup\<rparr>"
    by (simp_all add: demo_env_handler_def demo_handler_def demo_launcher_def)
  from launcher_drops_environment [OF l launch run] launch run show ?thesis by (auto simp: demo_env_handler_def)
qed



end
