(* ===== verification/Sandboxed_Tools.thy ===== *)
theory Sandboxed_Tools
  imports Process_Props
begin

text \<open>
  The process adapter behind the execution gate: a \<open>ProcessToolHandler\<close> registered as a route of the
  \<open>ToolAdapter\<close>, from the request of an operation to the process that is started for it.
\<close>

section \<open>The registered handler\<close>

text \<open>\<open>impl ToolHandler for ProcessToolHandler\<close>: the handler with the system it runs on. \<open>None\<close>, a run that
  does not return, does not occur on a system whose clock does not run backwards.\<close>

definition process_handle ::
  "target_platform \<Rightarrow> 'k host_api \<Rightarrow> (u8 list \<Rightarrow> u8 list) \<Rightarrow> (unit, process_tool_handler \<times> 'k) tool_handler" where
  "process_handle target h sha u handler ctx arguments =
     (case handler of (p, k) \<Rightarrow>
      case process_execute_for_task target h sha p ctx arguments k of
        None \<Rightarrow> (Inl failure_new, (p, k))
      | Some (r, k) \<Rightarrow> (r, (p, k)))"

text \<open>The commands an operation may start: its route is registered with a handler, and the command is
  one the handler may start for the context and the arguments of the operation.\<close>

definition routed_command ::
  "(process_tool_handler \<times> 'k) tool_adapter \<Rightarrow> task_execution_context \<Rightarrow> tool_operation \<Rightarrow> command \<Rightarrow> bool" where
  "routed_command a ctx op cmd \<longleftrightarrow>
     (\<exists>p k. bt_get (ta_handlers a) (to_route op) = Some (p, k) \<and> authorized_command p ctx (to_arguments op) cmd)"

text \<open>The same for a request of the task \<open>t\<close>: the task is running and its policy allows what was
  registered for the route outright.\<close>

definition allowed_command ::
  "(process_tool_handler \<times> 'k) tool_adapter \<Rightarrow> 's supervisor \<Rightarrow> task_id \<Rightarrow> tool_operation \<Rightarrow> command \<Rightarrow> bool" where
  "allowed_command a s t op cmd \<longleftrightarrow>
     (\<exists>rec d ctx. bt_get (sup_tasks s) t = Some rec \<and> tr_state rec = Running \<and> execution_context s t = Inr ctx
        \<and> bt_get (ta_definitions a) (to_route op) = Some d
        \<and> evaluate \<lparr>cp_task = tr_spec rec\<rparr> (ToolRequest (rd_capability_tool d) (rd_action d)) = Allow
        \<and> is_ok (validate_arguments (to_arguments op)) \<and> routed_command a ctx op cmd)"

section \<open>The adapter starts what the route allows\<close>

lemma process_handle_confined:
  assumes "\<forall>cmd. authorized_command p ctx arguments cmd \<longrightarrow> spawn cmd = h_spawn h cmd"
  shows "process_handle target (h\<lparr>h_spawn := spawn\<rparr>) sha u (p, k) ctx arguments = process_handle target h sha u (p, k) ctx arguments"
  by (simp add: process_handle_def process_execute_confined [OF assms])

lemma tool_execute_confined:
  assumes "\<And>ctx d cmd. to_execution_context op = Some ctx \<Longrightarrow> bt_get (ta_definitions a) (to_route op) = Some d
      \<Longrightarrow> rd_capability_tool d = to_capability_tool op \<Longrightarrow> rd_action d = to_action op
      \<Longrightarrow> is_ok (validate_arguments (to_arguments op)) \<Longrightarrow> routed_command a ctx op cmd \<Longrightarrow> spawn cmd = h_spawn h cmd"
  shows "tool_execute (process_handle target (h\<lparr>h_spawn := spawn\<rparr>) sha) x a op = tool_execute (process_handle target h sha) x a op"
proof -
  have "process_handle target (h\<lparr>h_spawn := spawn\<rparr>) sha u handler ctx (to_arguments op)
      = process_handle target h sha u handler ctx (to_arguments op)"
    if "to_execution_context op = Some ctx" "bt_get (ta_definitions a) (to_route op) = Some d"
      "rd_capability_tool d = to_capability_tool op" "rd_action d = to_action op"
      "validate_arguments (to_arguments op) = Inr ()" "bt_get (ta_handlers a) (to_route op) = Some handler"
    for u handler ctx d
  proof (cases handler)
    case (Pair p k)
    show ?thesis
      unfolding Pair
    proof (rule process_handle_confined, intro allI impI)
      fix cmd assume "authorized_command p ctx (to_arguments op) cmd"
      then have "routed_command a ctx op cmd" using that(6) Pair by (auto simp: routed_command_def)
      with assms that(1-5) show "spawn cmd = h_spawn h cmd" by simp
    qed
  qed
  then show ?thesis by (simp add: tool_execute_def split: prod.split sum.split option.split)
qed

lemma gate_request_cong:
  assumes "\<And>s'. request_operation ab ws w now1 now2 oi ai s t (capreq op) ttl = (Inr OpAllowed, s')
      \<Longrightarrow> execute x (gate_adapter g) op = execute' x (gate_adapter g) op"
  shows "gate_request ab capreq execute ws w x now1 now2 oi ai g s t op ttl
    = gate_request ab capreq execute' ws w x now1 now2 oi ai g s t op ttl"
  using assms by (auto simp: gate_request_def split: prod.split sum.split operation_authorization.split)

text \<open>An approved operation is the retained one, with the context it was requested with.\<close>

definition retained_command :: "(process_tool_handler \<times> 'k) tool_gate \<Rightarrow> approval_id \<Rightarrow> command \<Rightarrow> bool" where
  "retained_command g i cmd \<longleftrightarrow>
     (\<exists>oi e ctx. bt_get (gate_approval_index g) i = Some oi \<and> bt_get (gate_pending g) oi = Some e
        \<and> to_execution_context (pe_operation e) = Some ctx \<and> routed_command (gate_adapter g) ctx (pe_operation e) cmd)"

lemma approve_and_execute_cong:
  assumes "\<And>oi e. bt_get (gate_approval_index g) i = Some oi \<Longrightarrow> bt_get (gate_pending g) oi = Some e
      \<Longrightarrow> execute x (gate_adapter g) (pe_operation e) = execute' x (gate_adapter g) (pe_operation e)"
  shows "approve_and_execute ab capreq execute ws w1 w2 x now1 now2 now3 g s i
    = approve_and_execute ab capreq execute' ws w1 w2 x now1 now2 now3 g s i"
  using assms by (auto simp: approve_and_execute_def remove_pending_def split: prod.split sum.split option.split)

lemma approved_spawn_confined:
  assumes "\<forall>cmd. retained_command g i cmd \<longrightarrow> spawn cmd = h_spawn h cmd"
  shows "tool_gate_approve_and_execute ab (process_handle target (h\<lparr>h_spawn := spawn\<rparr>) sha) ws w1 w2 x now1 now2 now3 g s i
    = tool_gate_approve_and_execute ab (process_handle target h sha) ws w1 w2 x now1 now2 now3 g s i"
  unfolding tool_gate_approve_and_execute_def
proof (rule approve_and_execute_cong, rule tool_execute_confined)
  fix oi e ctx cmd
  assume "bt_get (gate_approval_index g) i = Some oi" "bt_get (gate_pending g) oi = Some e"
    "to_execution_context (pe_operation e) = Some ctx" "routed_command (gate_adapter g) ctx (pe_operation e) cmd"
  then have "retained_command g i cmd" unfolding retained_command_def by blast
  with assms show "spawn cmd = h_spawn h cmd" by blast
qed

section \<open>Properties\<close>

text \<open>C11: no process without authority, from the request to the process. Whatever operation is requested of
  the tool gate in whatever reachable state of the supervisor, the only processes it may start
  are commands of the handler registered for the operation's route, for a task that is
  running, whose policy allows the registered tool and action outright, with the budget, the
  files and the cgroup of that task and with arguments within the limits: the answer, the gate, the
  log and the system stay the same if every other process start of the system is replaced by an
  arbitrary one. The approval of a retained operation may start only a command of the handler of its
  route with the context it was requested with.\<close>

theorem tool_spawn_confined:
  assumes "event_store ab listing lg ok" and "ok es" "\<forall>t. lg es t = []"
    and "with_max_tasks es n = Inr s0" "n < 2 ^ 64" and "sup_reachable ab s0 s"
    and "bt_get (aa_pending (sup_authority s)) ai = None"
    and "\<forall>cmd. allowed_command (gate_adapter g) s t op cmd \<longrightarrow> spawn cmd = h_spawn h cmd"
    and "\<forall>cmd. retained_command g i cmd \<longrightarrow> spawn2 cmd = h_spawn h cmd"
  shows "tool_gate_request ab (process_handle target (h\<lparr>h_spawn := spawn\<rparr>) sha) ws w x now1 now2 oi ai g s t op ttl
      = tool_gate_request ab (process_handle target h sha) ws w x now1 now2 oi ai g s t op ttl
    \<and> tool_gate_approve_and_execute ab (process_handle target (h\<lparr>h_spawn := spawn2\<rparr>) sha) ws w1 w2 x now1 now2 now3 g s i
      = tool_gate_approve_and_execute ab (process_handle target h sha) ws w1 w2 x now1 now2 now3 g s i"
proof (intro conjI)
  show "tool_gate_request ab (process_handle target (h\<lparr>h_spawn := spawn\<rparr>) sha) ws w x now1 now2 oi ai g s t op ttl
      = tool_gate_request ab (process_handle target h sha) ws w x now1 now2 oi ai g s t op ttl"
  proof (cases "execution_context s t")
    case (Inr ctx)
    let ?op = "op\<lparr>to_execution_context := Some ctx\<rparr>"
    have "gate_request ab tool_capability_request (tool_execute (process_handle target (h\<lparr>h_spawn := spawn\<rparr>) sha)) ws w x now1 now2
          oi ai g s t ?op ttl
        = gate_request ab tool_capability_request (tool_execute (process_handle target h sha)) ws w x now1 now2 oi ai g s t ?op ttl"
    proof (rule gate_request_cong, rule tool_execute_confined)
      fix s' c d cmd
      assume q: "request_operation ab ws w now1 now2 oi ai s t (tool_capability_request ?op) ttl = (Inr OpAllowed, s')"
        and d: "to_execution_context ?op = Some c" "bt_get (ta_definitions (gate_adapter g)) (to_route ?op) = Some d"
          "rd_capability_tool d = to_capability_tool ?op" "rd_action d = to_action ?op"
          "is_ok (validate_arguments (to_arguments ?op))" "routed_command (gate_adapter g) c ?op cmd"
      have "allowed_command (gate_adapter g) s t op cmd"
        using request_allowed [OF assms(1-7) q] d Inr
        by (auto simp: allowed_command_def tool_capability_request_def routed_command_def)
      with assms(8) show "spawn cmd = h_spawn h cmd" by blast
    qed
    then show ?thesis by (simp add: tool_gate_request_def Inr)
  qed (simp add: tool_gate_request_def)
  show "tool_gate_approve_and_execute ab (process_handle target (h\<lparr>h_spawn := spawn2\<rparr>) sha) ws w1 w2 x now1 now2 now3 g s i
      = tool_gate_approve_and_execute ab (process_handle target h sha) ws w1 w2 x now1 now2 now3 g s i"
    using assms(9) by (rule approved_spawn_confined)
qed

definition demo_direct :: process_tool_handler where
  "demo_direct = demo_handler\<lparr>ph_executable := ''/b'', ph_executable_identity := \<lparr>ei_device = 1, ei_inode = 16\<rparr>, ph_launcher := Direct\<rparr>"

definition demo_process_gate :: "(process_tool_handler \<times> sim_host) tool_gate" where
  "demo_process_gate = snd (builder_build (snd (builder_register (projr (Tool_Adapter.builder_new 4)) ''git-status'' ''git'' ''status''
     (demo_direct, demo_sandbox_host))))"

definition demo_operation :: tool_operation where
  "demo_operation = \<lparr>to_route = ''git-status'', to_capability_tool = ''git'', to_action = ''status'', to_arguments = [''-s''],
     to_execution_context = None\<rparr>"

definition demo_only_status :: "command \<Rightarrow> (sim_host, io_error, nat) io" where
  "demo_only_status cmd = (if cmd_program cmd = ''/b'' \<and> cmd_args cmd = [''-s''] then h_spawn sim_host_api cmd else (\<lambda>k. (Inl OtherIo, k)))"

definition demo_tool_run :: "sim_host host_api \<Rightarrow> ((process_tool_handler \<times> sim_host) tool_adapter, tool_operation, in_memory_store, tool_adapter_error,
    tool_output execution_outcome) gate_result" where
  "demo_tool_run h = tool_gate_request in_memory_append (process_handle demo_platform h id) (\<lambda>_. demo_clock) demo_clock (6, ()) 6 6
     (OperationId 2) (ApprovalId 3) demo_process_gate (snd demo_started) (TaskId 1) demo_operation (from_secs 60)"

lemma demo_tool_runs: "fst (demo_tool_run sim_host_api) = Inr (Executed \<lparr>ex_output = ToolOutput [], ex_approval = None\<rparr>)"
  by code_simp

theorem tool_spawn_confined_witness:
  "fst (demo_tool_run (sim_host_api\<lparr>h_spawn := demo_only_status\<rparr>)) = Inr (Executed \<lparr>ex_output = ToolOutput [], ex_approval = None\<rparr>)"
proof -
  have f: "bt_get (aa_pending (sup_authority (snd demo_started))) (ApprovalId 3) = None" by code_simp
  have a: "bt_get (ta_handlers (gate_adapter demo_process_gate)) ''git-status'' = Some (demo_direct, demo_sandbox_host)"
    and i: "gate_approval_index demo_process_gate = []"
    by (simp_all add: demo_process_gate_def builder_build_def builder_register_def Tool_Adapter.builder_new_def gate_new_def
        tool_limits tool_identifier_ok_def TOOL_MAX_IDENTIFIER_BYTES_def is_identifier_char_def ascii_defs)
  have "demo_only_status cmd = h_spawn sim_host_api cmd"
    if "allowed_command (gate_adapter demo_process_gate) (snd demo_started) (TaskId 1) demo_operation cmd" for cmd
    using that a by (auto simp: allowed_command_def routed_command_def authorized_command_def demo_operation_def demo_direct_def
        demo_handler_def demo_only_status_def)
  then have "demo_tool_run (sim_host_api\<lparr>h_spawn := demo_only_status\<rparr>) = demo_tool_run sim_host_api"
    unfolding demo_tool_run_def
    using tool_spawn_confined [OF im.event_store_axioms demo_init(2,3,1,4) demo_started_reachable f, of demo_process_gate "TaskId 1"
        demo_operation demo_only_status sim_host_api "ApprovalId 3" demo_only_status] i
    by (auto simp: retained_command_def)
  with demo_tool_runs show ?thesis by simp
qed

end
