(* ===== verification/Agent_Safety.thy ===== *)
theory Agent_Safety
  imports Agent_Props Sandboxed_Tools
begin

text \<open>
  The whole chain from an untrusted model to a process: the agent loop drives a task, the tool gate decides,
  the process adapter starts. Whatever the model answers, the loop starts only commands of handlers
  whose registered tool the policy of the task allows, in the context of that task.
\<close>

section \<open>The specification of a task does not change\<close>

definition task_spec_of :: "'s supervisor \<Rightarrow> task_id \<Rightarrow> task_spec option" where
  "task_spec_of s t = map_option tr_spec (bt_get (sup_tasks s) t)"

lemma task_spec_updates [simp]:
  "task_spec_of (s\<lparr>sup_authority := au\<rparr>) = task_spec_of s" "task_spec_of (s\<lparr>sup_pending := pe\<rparr>) = task_spec_of s"
  "task_spec_of (s\<lparr>sup_approved := ap\<rparr>) = task_spec_of s" "task_spec_of (s\<lparr>sup_event_store := es\<rparr>) = task_spec_of s"
  "task_spec_of (s\<lparr>sup_recovered := re\<rparr>) = task_spec_of s"
  by (simp_all add: task_spec_of_def fun_eq_iff)

lemma task_spec_modify:
  "(\<And>r. tr_spec (f r) = tr_spec r) \<Longrightarrow> task_spec_of (s\<lparr>sup_tasks := bt_modify t f (sup_tasks s)\<rparr>) = task_spec_of s"
  by (auto simp: task_spec_of_def fun_eq_iff option.map_comp comp_def)

lemma store_append_spec: "store_append ab w s t ks = (r, s') \<Longrightarrow> task_spec_of s' = task_spec_of s"
  by (auto simp: store_append_def split: prod.splits sum.splits)

lemma set_task_state_spec: "set_task_state s t st = (r, s') \<Longrightarrow> task_spec_of s' = task_spec_of s"
  by (auto simp: set_task_state_def task_spec_modify split: option.splits)

lemma expire_loop_spec: "expire_loop ab ws ids n s = (r, s') \<Longrightarrow> task_spec_of s' = task_spec_of s"
proof (induction ids arbitrary: ws n s)
  case (Cons i ids)
  from Cons.prems show ?case
    by (auto split: option.splits sum.splits prod.splits dest!: Cons.IH store_append_spec set_task_state_spec)
qed simp

lemma invalidate_approvals_spec [simp]: "task_spec_of (invalidate_approvals s t) = task_spec_of s"
  by (simp add: invalidate_approvals_eq task_spec_of_def fun_eq_iff)

lemma transition_spec: "transition ab w s t nxt = (r, s') \<Longrightarrow> task_spec_of s' = task_spec_of s"
  by (auto simp: transition_def apply_transition_def apply_transition_with_failure_def Let_def task_spec_modify
      split: option.splits sum.splits prod.splits if_splits dest!: store_append_spec)

lemma start_execution_spec: "start_execution ab w now s t = (r, s') \<Longrightarrow> task_spec_of s' = task_spec_of s"
  by (auto simp: start_execution_def start_def Let_def task_spec_modify
      split: option.splits sum.splits prod.splits dest!: transition_spec)

lemma request_operation_allowed:
  assumes "request_operation ab ws w now1 now2 oi ai s t capability ttl = (Inr OpAllowed, s')"
  shows "task_spec_of s' = task_spec_of s"
    and "\<exists>spec. task_spec_of s t = Some spec \<and> evaluate \<lparr>cp_task = spec\<rparr> capability = Allow"
proof -
  obtain n s1 rec where e: "expire_approvals ab ws now1 s = (Inr n, s1)" and r: "bt_get (sup_tasks s1) t = Some rec"
    and al: "evaluate \<lparr>cp_task = tr_spec rec\<rparr> capability = Allow" and a: "store_append ab w s1 t [OperationAllowed] = (Inr (), s')"
    using assms
    by (auto simp: request_operation_def request_approval_def Let_def from_task_def
        split: prod.splits sum.splits option.splits policy_decision.splits if_splits)
  have s1: "task_spec_of s1 = task_spec_of s" using e by (auto simp: expire_approvals_def dest: expire_loop_spec)
  with store_append_spec [OF a] show "task_spec_of s' = task_spec_of s" by simp
  have "task_spec_of s1 t = Some (tr_spec rec)" using r by (simp add: task_spec_of_def)
  with s1 al show "\<exists>spec. task_spec_of s t = Some spec \<and> evaluate \<lparr>cp_task = spec\<rparr> capability = Allow" by simp
qed

lemma approve_operation_spec: "approve_operation ab ws w now1 now2 s i = (r, s') \<Longrightarrow> task_spec_of s' = task_spec_of s"
  by (auto simp: approve_operation_def expire_approvals_def Let_def
      split: option.splits sum.splits prod.splits dest!: expire_loop_spec store_append_spec set_task_state_spec)

lemma authorize_operation_spec: "authorize_operation ab w now s t oi capability = (r, s') \<Longrightarrow> task_spec_of s' = task_spec_of s"
  by (auto simp: authorize_operation_def Let_def
      split: option.splits sum.splits prod.splits if_splits dest!: store_append_spec)

section \<open>The loop calls permitted handlers only\<close>

text \<open>A context is that of the task \<open>t\<close> with the specification \<open>spec\<close>, whenever it was started.\<close>

definition context_of :: "task_id \<Rightarrow> task_spec \<Rightarrow> task_execution_context \<Rightarrow> bool" where
  "context_of t spec ctx \<longleftrightarrow> tec_task_id ctx = t \<and> tec_budget ctx = ts_budget spec
     \<and> tec_filesystem_capabilities ctx = cs_filesystem (ts_capabilities spec)"

lemma execution_context_of:
  "execution_context s t = Inr ctx \<Longrightarrow> task_spec_of s t = Some spec \<Longrightarrow> context_of t spec ctx"
  by (auto simp: execution_context_def context_of_def task_spec_of_def split: option.splits if_splits)

text \<open>A call of a handler the task may make: the policy allows the tool and the action of one of its routes
  outright. \<open>keys\<close> names the handler of a route by the part of it that calls do not change.\<close>

definition permitted_call ::
  "(string, route_definition) btree \<Rightarrow> (string \<Rightarrow> 'q option) \<Rightarrow> task_id \<Rightarrow> task_spec \<Rightarrow> 'q \<Rightarrow> task_execution_context
   \<Rightarrow> string list \<Rightarrow> bool" where
  "permitted_call defs keys t spec q ctx arguments \<longleftrightarrow>
     context_of t spec ctx \<and> is_ok (validate_arguments arguments)
     \<and> (\<exists>route d. bt_get defs route = Some d \<and> keys route = Some q
          \<and> evaluate \<lparr>cp_task = spec\<rparr> (ToolRequest (rd_capability_tool d) (rd_action d)) = Allow)"

definition handler_keys :: "('h \<Rightarrow> 'q) \<Rightarrow> 'h tool_adapter \<Rightarrow> string \<Rightarrow> 'q option" where
  "handler_keys key a route = map_option key (bt_get (ta_handlers a) route)"

definition same_routes :: "('h \<Rightarrow> 'q) \<Rightarrow> (string, route_definition) btree \<Rightarrow> (string \<Rightarrow> 'q option) \<Rightarrow> 'h tool_adapter \<Rightarrow> bool" where
  "same_routes key defs keys a \<longleftrightarrow> ta_definitions a = defs \<and> handler_keys key a = keys"

text \<open>Handlers that agree on permitted calls; the loop cannot tell them apart.\<close>

definition agreeing ::
  "('h \<Rightarrow> 'q) \<Rightarrow> (string, route_definition) btree \<Rightarrow> (string \<Rightarrow> 'q option) \<Rightarrow> task_id \<Rightarrow> task_spec
   \<Rightarrow> ('y, 'h) tool_handler \<Rightarrow> ('y, 'h) tool_handler \<Rightarrow> bool" where
  "agreeing key defs keys t spec handle handle' \<longleftrightarrow>
     (\<forall>y h ctx arguments. key (snd (handle y h ctx arguments)) = key h
        \<and> (permitted_call defs keys t spec (key h) ctx arguments \<longrightarrow> handle' y h ctx arguments = handle y h ctx arguments))"

lemma tool_execute_routes:
  assumes keep: "\<And>y h ctx arguments. key (snd (handle y h ctx arguments)) = key h"
    and ex: "tool_execute handle x a op = (r, a')" and routes: "same_routes key defs keys a"
  shows "same_routes key defs keys a'"
proof -
  have "a' = a \<or> (\<exists>y h ctx. bt_get (ta_handlers a) (to_route op) = Some h
      \<and> a' = a\<lparr>ta_handlers := bt_insert (to_route op) (snd (handle y h ctx (to_arguments op))) (ta_handlers a)\<rparr>)"
    using ex by (auto simp: tool_execute_def split: prod.splits sum.splits option.splits if_splits) (metis snd_conv)+
  then show ?thesis
    using routes by (auto simp: same_routes_def handler_keys_def fun_eq_iff keep) (metis option.map(2))
qed

lemma tool_execute_agree:
  assumes agree: "agreeing key defs keys t spec handle handle'" and routes: "same_routes key defs keys a"
    and ctx: "to_execution_context op = Some ctx" "context_of t spec ctx"
    and allow: "evaluate \<lparr>cp_task = spec\<rparr> (tool_capability_request op) = Allow"
  shows "tool_execute handle' x a op = tool_execute handle x a op"
proof -
  have "handle' y h ctx (to_arguments op) = handle y h ctx (to_arguments op)"
    if "bt_get (ta_definitions a) (to_route op) = Some d" "rd_capability_tool d = to_capability_tool op" "rd_action d = to_action op"
      "validate_arguments (to_arguments op) = Inr ()" "bt_get (ta_handlers a) (to_route op) = Some h" for y h d
  proof -
    have "keys (to_route op) = Some (key h)" using routes that(5) by (auto simp: same_routes_def handler_keys_def)
    moreover have "bt_get defs (to_route op) = Some d" using routes that(1) by (simp add: same_routes_def)
    ultimately have "permitted_call defs keys t spec (key h) ctx (to_arguments op)"
      using ctx(2) allow that(2-4) unfolding permitted_call_def tool_capability_request_def
      by (auto intro!: exI [of _ "to_route op"] exI [of _ d])
    with agree show ?thesis by (simp add: agreeing_def)
  qed
  then show ?thesis using ctx(1) by (simp add: tool_execute_def split: prod.split sum.split option.split)
qed

lemma tool_request_agree:
  assumes agree: "agreeing key defs keys t spec handle handle'" and routes: "same_routes key defs keys (gate_adapter g)"
    and spec: "task_spec_of s t = Some spec"
  shows "tool_gate_request ab handle' ws w x now1 now2 oi ai g s t op ttl = tool_gate_request ab handle ws w x now1 now2 oi ai g s t op ttl"
proof (cases "execution_context s t")
  case (Inr ctx)
  let ?op = "op\<lparr>to_execution_context := Some ctx\<rparr>"
  have "gate_request ab tool_capability_request (tool_execute handle') ws w x now1 now2 oi ai g s t ?op ttl
      = gate_request ab tool_capability_request (tool_execute handle) ws w x now1 now2 oi ai g s t ?op ttl"
  proof (rule gate_request_cong)
    fix s' assume "request_operation ab ws w now1 now2 oi ai s t (tool_capability_request ?op) ttl = (Inr OpAllowed, s')"
    with spec have "evaluate \<lparr>cp_task = spec\<rparr> (tool_capability_request ?op) = Allow"
      using request_operation_allowed(2) by fastforce
    then show "tool_execute handle' x (gate_adapter g) ?op = tool_execute handle x (gate_adapter g) ?op"
      by (intro tool_execute_agree [OF agree routes _ execution_context_of [OF Inr spec]]) simp_all
  qed
  then show ?thesis by (simp add: tool_gate_request_def Inr)
qed (simp add: tool_gate_request_def)

lemma tool_request_executed:
  assumes keep: "\<And>y h ctx arguments. key (snd (handle y h ctx arguments)) = key h"
    and eq: "tool_gate_request ab handle ws w x now1 now2 oi ai g s t op ttl = (Inr (Executed out), g', s')"
    and routes: "same_routes key defs keys (gate_adapter g)"
  shows "task_spec_of s' = task_spec_of s" and "same_routes key defs keys (gate_adapter g')"
proof -
  obtain ctx s1 r a' where q: "request_operation ab ws w now1 now2 oi ai s t (tool_capability_request (op\<lparr>to_execution_context := Some ctx\<rparr>)) ttl
      = (Inr OpAllowed, s1)" and ex: "tool_execute handle x (gate_adapter g) (op\<lparr>to_execution_context := Some ctx\<rparr>) = (r, a')"
    and g': "g' = g\<lparr>gate_adapter := a'\<rparr>" "s' = s1"
    using eq by (auto simp: tool_gate_request_def gate_request_def split: sum.splits prod.splits operation_authorization.splits)
  show "task_spec_of s' = task_spec_of s" using request_operation_allowed(1) [OF q] g'(2) by simp
  show "same_routes key defs keys (gate_adapter g')" using tool_execute_routes [OF keep ex routes] g'(1) by simp
qed

lemma network_request_executed:
  "network_gate_request ab net ws w now1 now2 oi ai g s t op ttl = (Inr (Executed out), g', s') \<Longrightarrow> task_spec_of s' = task_spec_of s"
  by (auto simp: network_gate_request_def gate_request_def split: sum.splits prod.splits operation_authorization.splits
      dest!: request_operation_allowed(1))

section \<open>Connections\<close>

text \<open>The sockets with another \<open>connect\<close>.\<close>

abbreviation reconnected :: "'k tcp_api \<Rightarrow> (socket_addr \<Rightarrow> duration \<Rightarrow> 'k \<Rightarrow> (unit + unit) \<times> 'k) \<Rightarrow> 'k tcp_api" where
  "reconnected net connect \<equiv> net\<lparr>tcp_connect := connect\<rparr>"

lemma reconnected_clock [simp]:
  "effective_timeout (reconnected net connect) = effective_timeout net" "io_failure (reconnected net connect) = io_failure net"
  by (simp_all add: fun_eq_iff effective_timeout_def io_failure_def)

lemma reconnected_budget [simp]:
  "require_remaining_budget (reconnected net connect) = require_remaining_budget net"
  "or_io_failure (reconnected net connect) = or_io_failure net"
  unfolding fun_eq_iff require_remaining_budget_def or_io_failure_def reconnected_clock by blast+

lemma reconnected_install [simp]: "install_timeout (reconnected net connect) = install_timeout net"
  unfolding fun_eq_iff install_timeout_def reconnected_clock reconnected_budget by blast

lemma reconnected_write: "write_request (reconnected net connect) ctx c request offset i k = write_request net ctx c request offset i k"
  by (induction net ctx c request offset i k rule: write_request.induct)
    (subst (1 2) write_request.simps, simp split: prod.split sum.split)

lemma reconnected_read: "read_response (reconnected net connect) ctx c bytes i k = read_response net ctx c bytes i k"
  by (induction net ctx c bytes i k rule: read_response.induct)
    (subst (1 2) read_response.simps, simp add: Let_def split: prod.split sum.split)

text \<open>An exchange connects to the address of its own host and port only.\<close>

definition own_address :: "tcp_exchange_operation \<Rightarrow> socket_addr \<Rightarrow> bool" where
  "own_address op address \<longleftrightarrow> parse_ip (tx_host op) = Some (fst address) \<and> snd address = tx_port op"

lemma network_execute_confined:
  assumes "\<And>address. own_address op address \<Longrightarrow> connect address = tcp_connect net address"
  shows "network_execute (reconnected net connect) x adapter op = network_execute net x adapter op"
proof -
  have "connect (ip, tx_port op) = tcp_connect net (ip, tx_port op)"
    if "validate_operation (tx_host op) (tx_port op) (tx_request op) = Inr ip" for ip
    using that by (intro assms) (auto simp: own_address_def validate_operation_def split: if_splits option.splits)
  then show ?thesis
    by (simp add: network_execute_def network_exchange_def reconnected_write reconnected_read Let_def
        split: sum.split option.split cong: prod.case_cong sum.case_cong if_cong)
qed

text \<open>The same for connections: \<open>net'\<close> may differ in \<open>connect\<close>, but not for addresses the policy of the task
  allows outright.\<close>

definition allowed_address :: "task_spec \<Rightarrow> socket_addr \<Rightarrow> bool" where
  "allowed_address spec address \<longleftrightarrow>
     (\<exists>host. parse_ip host = Some (fst address) \<and> evaluate \<lparr>cp_task = spec\<rparr> (NetworkRequest host Tcp (snd address)) = Allow)"

definition net_agreeing :: "task_spec \<Rightarrow> 'k tcp_api \<Rightarrow> 'k tcp_api \<Rightarrow> bool" where
  "net_agreeing spec net net' \<longleftrightarrow>
     (\<exists>connect. net' = reconnected net connect \<and> (\<forall>address. allowed_address spec address \<longrightarrow> connect address = tcp_connect net address))"

lemma network_request_agree:
  assumes agree: "net_agreeing spec net net'" and spec: "task_spec_of s t = Some spec"
  shows "network_gate_request ab net' ws w now1 now2 oi ai g s t op ttl = network_gate_request ab net ws w now1 now2 oi ai g s t op ttl"
proof (cases "execution_context s t")
  case (Inr ctx)
  let ?op = "op\<lparr>tx_execution_context := Some ctx\<rparr>"
  obtain connect where net': "net' = reconnected net connect"
    and c: "\<And>address. allowed_address spec address \<Longrightarrow> connect address = tcp_connect net address"
    using agree by (auto simp: net_agreeing_def)
  have "gate_request ab tcp_capability_request (network_execute net') ws w () now1 now2 oi ai g s t ?op ttl
      = gate_request ab tcp_capability_request (network_execute net) ws w () now1 now2 oi ai g s t ?op ttl"
  proof (rule gate_request_cong, unfold net', rule network_execute_confined)
    fix s' address
    assume "request_operation ab ws w now1 now2 oi ai s t (tcp_capability_request ?op) ttl = (Inr OpAllowed, s')"
      and own: "own_address ?op address"
    with spec have "evaluate \<lparr>cp_task = spec\<rparr> (tcp_capability_request ?op) = Allow"
      using request_operation_allowed(2) by fastforce
    with own have "allowed_address spec address"
      by (auto simp: allowed_address_def own_address_def tcp_capability_request_def intro!: exI [of _ "tx_host op"])
    then show "connect address = tcp_connect net address" by (rule c)
  qed
  then show ?thesis by (simp add: network_gate_request_def Inr)
qed (simp add: network_gate_request_def)

section \<open>The loop\<close>

text \<open>What the loop keeps while it drives the task.\<close>

definition driving ::
  "('h \<Rightarrow> 'q) \<Rightarrow> (string, route_definition) btree \<Rightarrow> (string \<Rightarrow> 'q option) \<Rightarrow> task_id \<Rightarrow> task_spec
   \<Rightarrow> ('m, 'd, 'h, 'k) agent_runtime \<Rightarrow> 's supervisor \<Rightarrow> bool" where
  "driving key defs keys t spec a s \<longleftrightarrow> map_option as_task_id (ag_active a) = Some t \<and> task_spec_of s t = Some spec
     \<and> same_routes key defs keys (gate_adapter (ag_tool_gate a))"

lemma drive_outcome_continues:
  assumes "drive_outcome ab w adapter budget failed into_bytes outcome a s t = Inl (a', s')"
  obtains out active bytes where "outcome = Inr (Executed out)" "s' = s" "ag_active a = Some active"
    "a' = a\<lparr>ag_active := Some (active\<lparr>as_previous_operation_output := bytes\<rparr>)\<rparr>"
  using assms
  by (auto simp: drive_outcome_def with_active_def split: sum.splits execution_outcome.splits execution_error.splits option.splits if_splits)

lemma drive_decision_agree:
  assumes agree: "agreeing key defs keys t spec handle handle'" and nets: "net_agreeing spec net net'"
    and inv: "driving key defs keys t spec a s"
  shows "drive_decision (env\<lparr>ae_handle := handle', ae_net := net'\<rparr>) turn a s t decision = drive_decision (env\<lparr>ae_handle := handle, ae_net := net\<rparr>) turn a s t decision"
    and "drive_decision (env\<lparr>ae_handle := handle, ae_net := net\<rparr>) turn a s t decision = Inl (a', s') \<Longrightarrow> driving key defs keys t spec a' s'"
proof -
  have keep: "\<And>y h ctx arguments. key (snd (handle y h ctx arguments)) = key h" using agree by (simp add: agreeing_def)
  have routes: "same_routes key defs keys (gate_adapter (ag_tool_gate a))" and spec: "task_spec_of s t = Some spec"
    using inv by (simp_all add: driving_def)
  show "drive_decision (env\<lparr>ae_handle := handle', ae_net := net'\<rparr>) turn a s t decision = drive_decision (env\<lparr>ae_handle := handle, ae_net := net\<rparr>) turn a s t decision"
    by (cases decision) (simp_all add: drive_decision_def Let_def tool_request_agree [OF agree routes spec]
        network_request_agree [OF nets spec]
        split: option.split sum.split)
  assume eq: "drive_decision (env\<lparr>ae_handle := handle, ae_net := net\<rparr>) turn a s t decision = Inl (a', s')"
  show "driving key defs keys t spec a' s'"
  proof (cases decision)
    case (Finish out)
    then show ?thesis using eq by (auto simp: drive_decision_def Let_def split: prod.splits sum.splits)
  next
    case (CallTool route arguments)
    with eq obtain op outcome gate s1 where
      rq: "tool_gate_request (ae_append env) handle (at_worlds turn) (at_world turn) (at_handler turn) (at_now1 turn) (at_now2 turn)
         (at_operation_id turn) (at_approval_id turn) (ag_tool_gate a) s t op (ac_approval_ttl (ag_config a)) = (outcome, gate, s1)"
      and out: "drive_outcome (ae_append env) (at_world turn) PendingTool ToolBudgetExceeded ToolFailed output_bytes outcome
         (a\<lparr>ag_tool_gate := gate\<rparr>) s1 t = Inl (a', s')"
      by (auto simp: drive_decision_def Let_def split: sum.splits prod.splits)
    from out show ?thesis
    proof (cases rule: drive_outcome_continues)
      case (1 out active bytes)
      note ex = tool_request_executed [OF keep rq [unfolded 1(1)] routes]
      from 1 ex inv show ?thesis by (simp add: driving_def)
    qed
  next
    case (TcpExchange host port request)
    with eq obtain network op outcome gate s1 where
      rq: "network_gate_request (ae_append env) net (at_worlds turn) (at_world turn) (at_now1 turn) (at_now2 turn)
         (at_operation_id turn) (at_approval_id turn) network s t op (ac_approval_ttl (ag_config a)) = (outcome, gate, s1)"
      and out: "drive_outcome (ae_append env) (at_world turn) PendingNetwork NetBudgetExceeded NetworkFailed tr_bytes outcome
         (a\<lparr>ag_network := Some gate\<rparr>) s1 t = Inl (a', s')"
      by (auto simp: drive_decision_def Let_def split: sum.splits prod.splits option.splits)
    from out show ?thesis
    proof (cases rule: drive_outcome_continues)
      case (1 out active bytes)
      from 1 network_request_executed [OF rq [unfolded 1(1)]] inv show ?thesis by (simp add: driving_def)
    qed
  qed
qed

lemma drive_turn_agree:
  assumes agree: "agreeing key defs keys t spec handle handle'" and nets: "net_agreeing spec net net'"
    and inv: "driving key defs keys t spec a s"
  shows "drive_turn (env\<lparr>ae_handle := handle', ae_net := net'\<rparr>) turn a s = drive_turn (env\<lparr>ae_handle := handle, ae_net := net\<rparr>) turn a s"
    and "drive_turn (env\<lparr>ae_handle := handle, ae_net := net\<rparr>) turn a s = Inl (a', s') \<Longrightarrow> driving key defs keys t spec a' s'"
proof -
  obtain active where active: "ag_active a = Some active" "as_task_id active = t" using inv by (auto simp: driving_def)
  have next_inv: "driving key defs keys t spec (a\<lparr>ag_active := Some (active\<lparr>as_model := m, as_next_step := n\<rparr>)\<rparr>) s" for m n
    using inv active(2) by (simp add: driving_def)
  show "drive_turn (env\<lparr>ae_handle := handle', ae_net := net'\<rparr>) turn a s = drive_turn (env\<lparr>ae_handle := handle, ae_net := net\<rparr>) turn a s"
    by (simp add: drive_turn_def with_active_def active Let_def drive_decision_agree(1) [OF agree nets next_inv]
        cong: if_cong prod.case_cong sum.case_cong)
  assume "drive_turn (env\<lparr>ae_handle := handle, ae_net := net\<rparr>) turn a s = Inl (a', s')"
  then show "driving key defs keys t spec a' s'"
    by (auto simp: drive_turn_def with_active_def active Let_def split: if_splits prod.splits sum.splits
        dest!: drive_decision_agree(2) [OF agree nets next_inv])
qed

lemma drive_agree:
  assumes agree: "agreeing key defs keys t spec handle handle'" and nets: "net_agreeing spec net net'"
  shows "driving key defs keys t spec a s
    \<Longrightarrow> drive (env\<lparr>ae_handle := handle', ae_net := net'\<rparr>) fuel turns a s = drive (env\<lparr>ae_handle := handle, ae_net := net\<rparr>) fuel turns a s"
proof (induction fuel arbitrary: turns a s)
  case (Suc fuel)
  show ?case
  proof (cases "drive_turn (env\<lparr>ae_handle := handle, ae_net := net\<rparr>) (turns 0) a s")
    case (Inl as)
    obtain a' s' where as: "as = (a', s')" by (cases as)
    from Suc.IH [OF drive_turn_agree(2) [OF agree nets Suc.prems Inl [unfolded as]]] Inl as show ?thesis
      by (simp add: drive_turn_agree(1) [OF agree nets Suc.prems])
  qed (simp add: drive_turn_agree(1) [OF agree nets Suc.prems])
qed simp

lemma agent_start_agree:
  assumes agree: "\<And>spec. task_spec_of s t = Some spec
    \<Longrightarrow> agreeing key (ta_definitions (gate_adapter (ag_tool_gate a))) (handler_keys key (gate_adapter (ag_tool_gate a))) t spec handle handle'"
    and nets: "\<And>spec. task_spec_of s t = Some spec \<Longrightarrow> net_agreeing spec net net'"
  shows "agent_start (env\<lparr>ae_handle := handle', ae_net := net'\<rparr>) w1 w2 now turns a s t = agent_start (env\<lparr>ae_handle := handle, ae_net := net\<rparr>) w1 w2 now turns a s t"
proof -
  have "drive (env\<lparr>ae_handle := handle', ae_net := net'\<rparr>) DRIVE_FUEL turns (a\<lparr>ag_model_adapter := adapter, ag_active := Some active\<rparr>) s1
      = drive (env\<lparr>ae_handle := handle, ae_net := net\<rparr>) DRIVE_FUEL turns (a\<lparr>ag_model_adapter := adapter, ag_active := Some active\<rparr>) s1"
    if st: "start_execution (ae_append env) w1 now s t = (Inr input, s1)" and "as_task_id active = t" for input s1 adapter active
  proof -
    have "task_spec_of s t \<noteq> None" using st by (auto simp: start_execution_def task_spec_of_def split: option.splits)
    then obtain spec where spec: "task_spec_of s t = Some spec" by auto
    show ?thesis
      by (rule drive_agree [OF agree [OF spec] nets [OF spec]]) (simp add: driving_def same_routes_def that(2) start_execution_spec [OF st] spec)
  qed
  then show ?thesis by (simp add: agent_start_def Let_def split: prod.split sum.split)
qed

section \<open>Resuming after an approval\<close>

lemma gate_approve_spec:
  assumes "approve_and_execute ab capreq execute ws w1 w2 x now1 now2 now3 g s i = (r, g', s')"
  shows "task_spec_of s' = task_spec_of s"
  using assms
  by (auto simp: approve_and_execute_def split: option.splits if_splits prod.splits sum.splits
      dest!: approve_operation_spec authorize_operation_spec)

lemma gate_approve_adapter:
  assumes "approve_and_execute ab capreq execute ws w1 w2 x now1 now2 now3 g s i = (r, g', s')"
  shows "gate_adapter g' = gate_adapter g \<or> (\<exists>op res. execute x (gate_adapter g) op = (res, gate_adapter g'))"
  using assms
  by (auto simp: approve_and_execute_def remove_pending_def split: option.splits if_splits prod.splits sum.splits)

lemma resume_result_agree:
  assumes agree: "\<And>spec. task_spec_of s t = Some spec \<Longrightarrow> agreeing key defs keys t spec handle handle'"
    and nets: "\<And>spec. task_spec_of s t = Some spec \<Longrightarrow> net_agreeing spec net net'"
    and routes: "same_routes key defs keys (gate_adapter (ag_tool_gate a))" and active: "active_task a = Some t"
  shows "resume_result (env\<lparr>ae_handle := handle', ae_net := net'\<rparr>) w turns budget failed into_bytes result a s t
      = resume_result (env\<lparr>ae_handle := handle, ae_net := net\<rparr>) w turns budget failed into_bytes result a s t"
proof -
  obtain session where s: "ag_active a = Some session" "as_task_id session = t" using active by (auto simp: active_task_def)
  have "drive (env\<lparr>ae_handle := handle', ae_net := net'\<rparr>) DRIVE_FUEL turns (a\<lparr>ag_active := Some (session\<lparr>as_pending_approval := None,
        as_previous_operation_output := Some bytes\<rparr>)\<rparr>) s
      = drive (env\<lparr>ae_handle := handle, ae_net := net\<rparr>) DRIVE_FUEL turns (a\<lparr>ag_active := Some (session\<lparr>as_pending_approval := None,
        as_previous_operation_output := Some bytes\<rparr>)\<rparr>) s" for bytes
  proof (cases "task_spec_of s t")
    case None
    then have "execution_context s t = Inl TaskNotFound" by (simp add: execution_context_def task_spec_of_def)
    then show ?thesis by (simp add: DRIVE_FUEL_def eval_nat_numeral drive_turn_def with_active_def s(2))
  next
    case (Some spec)
    show ?thesis by (rule drive_agree [OF agree [OF Some] nets [OF Some]]) (simp add: driving_def s(2) Some routes)
  qed
  then show ?thesis
    by (simp add: resume_result_def resume_with_output_def s(1) split: sum.split execution_error.split)
qed

lemma approve_and_resume_agree:
  assumes agree: "\<And>spec t. active_task a = Some t \<Longrightarrow> task_spec_of s t = Some spec
      \<Longrightarrow> agreeing key (ta_definitions (gate_adapter (ag_tool_gate a))) (handler_keys key (gate_adapter (ag_tool_gate a))) t spec handle handle'"
    and nets: "\<And>spec t. active_task a = Some t \<Longrightarrow> task_spec_of s t = Some spec \<Longrightarrow> net_agreeing spec net net'"
    and keep: "\<And>y h ctx arguments. key (snd (handle y h ctx arguments)) = key h"
    and same: "tool_gate_approve_and_execute (ae_append env) handle' ws w1 w2 x now1 now2 now3 (ag_tool_gate a) s i
      = tool_gate_approve_and_execute (ae_append env) handle ws w1 w2 x now1 now2 now3 (ag_tool_gate a) s i"
    and same_net: "\<And>network. ag_network a = Some network \<Longrightarrow>
      network_gate_approve_and_execute (ae_append env) net' ws w1 w2 now1 now2 now3 network s i
      = network_gate_approve_and_execute (ae_append env) net ws w1 w2 now1 now2 now3 network s i"
  shows "approve_and_resume (env\<lparr>ae_handle := handle', ae_net := net'\<rparr>) ws w1 w2 w3 x now1 now2 now3 turns a s i
    = approve_and_resume (env\<lparr>ae_handle := handle, ae_net := net\<rparr>) ws w1 w2 w3 x now1 now2 now3 turns a s i"
proof (cases "require_pending a i")
  case (Inr p)
  obtain t adapter where p: "p = (t, adapter)" by (cases p)
  have active: "active_task a = Some t" using Inr p by (auto simp: require_pending_def active_task_def split: option.splits if_splits)
  have routes: "same_routes key (ta_definitions (gate_adapter (ag_tool_gate a))) (handler_keys key (gate_adapter (ag_tool_gate a)))
      (gate_adapter (ag_tool_gate a))" by (simp add: same_routes_def)
  have executes: "tool_execute handle x (gate_adapter (ag_tool_gate a)) op = (res, a') \<Longrightarrow>
      same_routes key (ta_definitions (gate_adapter (ag_tool_gate a))) (handler_keys key (gate_adapter (ag_tool_gate a))) a'" for op res a'
    by (rule tool_execute_routes [OF keep _ routes])
  show ?thesis
  proof (cases adapter)
    case PendingTool
    obtain r g s1 where rg: "tool_gate_approve_and_execute (ae_append env) handle ws w1 w2 x now1 now2 now3 (ag_tool_gate a) s i = (r, g, s1)"
      by (cases rule: prod_cases3)
    note rg' = rg [unfolded tool_gate_approve_and_execute_def]
    have "same_routes key (ta_definitions (gate_adapter (ag_tool_gate a))) (handler_keys key (gate_adapter (ag_tool_gate a))) (gate_adapter g)"
      using gate_approve_adapter [OF rg'] executes routes by auto
    with gate_approve_spec [OF rg'] active have
      "resume_result (env\<lparr>ae_handle := handle', ae_net := net'\<rparr>) w3 turns ToolBudgetExceeded ToolFailed output_bytes r (a\<lparr>ag_tool_gate := g\<rparr>) s1 t
        = resume_result (env\<lparr>ae_handle := handle, ae_net := net\<rparr>) w3 turns ToolBudgetExceeded ToolFailed output_bytes r (a\<lparr>ag_tool_gate := g\<rparr>) s1 t"
      by (intro resume_result_agree [OF agree [OF active] nets [OF active]]) (simp_all add: active_task_def)
    with Inr p PendingTool same rg show ?thesis by (simp add: approve_and_resume_def)
  next
    case PendingNetwork
    show ?thesis
    proof (cases "ag_network a")
      case (Some network)
      obtain r g s1 where rg: "network_gate_approve_and_execute (ae_append env) net ws w1 w2 now1 now2 now3 network s i = (r, g, s1)"
        by (cases rule: prod_cases3)
      have "resume_result (env\<lparr>ae_handle := handle', ae_net := net'\<rparr>) w3 turns NetBudgetExceeded NetworkFailed tr_bytes r (a\<lparr>ag_network := Some g\<rparr>) s1 t
        = resume_result (env\<lparr>ae_handle := handle, ae_net := net\<rparr>) w3 turns NetBudgetExceeded NetworkFailed tr_bytes r (a\<lparr>ag_network := Some g\<rparr>) s1 t"
        by (intro resume_result_agree [OF agree [OF active] nets [OF active]])
          (use gate_approve_spec [OF rg [unfolded network_gate_approve_and_execute_def]] active routes in \<open>simp_all add: active_task_def\<close>)
      with Inr p PendingNetwork Some same_net [OF Some] rg show ?thesis by (simp add: approve_and_resume_def)
    qed (use Inr p PendingNetwork in \<open>simp add: approve_and_resume_def\<close>)
  qed
qed (simp add: approve_and_resume_def)

section \<open>Processes\<close>

text \<open>The commands that a run of the agent for the task \<open>t\<close> may start by itself.\<close>

definition agent_command ::
  "('m, 'd, process_tool_handler \<times> 'k, 'n) agent_runtime \<Rightarrow> 's supervisor \<Rightarrow> task_id \<Rightarrow> command \<Rightarrow> bool" where
  "agent_command a s t cmd \<longleftrightarrow>
     (\<exists>spec route d p k ctx arguments. task_spec_of s t = Some spec
        \<and> bt_get (ta_definitions (gate_adapter (ag_tool_gate a))) route = Some d
        \<and> bt_get (ta_handlers (gate_adapter (ag_tool_gate a))) route = Some (p, k)
        \<and> evaluate \<lparr>cp_task = spec\<rparr> (ToolRequest (rd_capability_tool d) (rd_action d)) = Allow
        \<and> context_of t spec ctx \<and> is_ok (validate_arguments arguments) \<and> authorized_command p ctx arguments cmd)"

lemma process_handle_keeps: "fst (snd (process_handle target h sha y handler ctx arguments)) = fst handler"
  by (auto simp: process_handle_def split: prod.splits option.splits)

lemma process_agreeing:
  assumes spawn: "\<forall>cmd. agent_command a s t cmd \<longrightarrow> spawn cmd = h_spawn h cmd" and spec: "task_spec_of s t = Some spec"
  shows "agreeing fst (ta_definitions (gate_adapter (ag_tool_gate a))) (handler_keys fst (gate_adapter (ag_tool_gate a))) t spec
     (process_handle target h sha) (process_handle target (h\<lparr>h_spawn := spawn\<rparr>) sha)"
  unfolding agreeing_def
proof (intro allI conjI impI)
  fix y handler ctx arguments
  show "fst (snd (process_handle target h sha y handler ctx arguments)) = fst handler" by (rule process_handle_keeps)
  assume p: "permitted_call (ta_definitions (gate_adapter (ag_tool_gate a))) (handler_keys fst (gate_adapter (ag_tool_gate a))) t spec
      (fst handler) ctx arguments"
  obtain p k where hd: "handler = (p, k)" by (cases handler)
  have "spawn cmd = h_spawn h cmd" if "authorized_command p ctx arguments cmd" for cmd
  proof -
    have "agent_command a s t cmd"
      using p spec that unfolding agent_command_def permitted_call_def handler_keys_def hd by fastforce
    with spawn show ?thesis by blast
  qed
  then show "process_handle target (h\<lparr>h_spawn := spawn\<rparr>) sha y handler ctx arguments = process_handle target h sha y handler ctx arguments"
    unfolding hd by (intro process_handle_confined) blast
qed

text \<open>The addresses it may connect to, and those of an operation retained for an approval.\<close>

definition agent_address :: "'s supervisor \<Rightarrow> task_id \<Rightarrow> socket_addr \<Rightarrow> bool" where
  "agent_address s t address \<longleftrightarrow> (\<exists>spec. task_spec_of s t = Some spec \<and> allowed_address spec address)"

definition retained_address :: "('m, 'd, 'h, 'k) agent_runtime \<Rightarrow> approval_id \<Rightarrow> socket_addr \<Rightarrow> bool" where
  "retained_address a i address \<longleftrightarrow>
     (\<exists>network oi e. ag_network a = Some network \<and> bt_get (gate_approval_index network) i = Some oi
        \<and> bt_get (gate_pending network) oi = Some e \<and> own_address (pe_operation e) address)"

lemma agent_address_agreeing:
  "\<forall>address. agent_address s t address \<longrightarrow> connect address = tcp_connect net address \<Longrightarrow> task_spec_of s t = Some spec
   \<Longrightarrow> net_agreeing spec net (reconnected net connect)"
  unfolding net_agreeing_def agent_address_def by blast

lemma approved_connect_confined:
  assumes "\<forall>address. retained_address a i address \<longrightarrow> connect address = tcp_connect net address" and "ag_network a = Some network"
  shows "network_gate_approve_and_execute ab (reconnected net connect) ws w1 w2 now1 now2 now3 network s i
    = network_gate_approve_and_execute ab net ws w1 w2 now1 now2 now3 network s i"
  unfolding network_gate_approve_and_execute_def
proof (rule approve_and_execute_cong, rule network_execute_confined)
  fix oi e address
  assume "bt_get (gate_approval_index network) i = Some oi" "bt_get (gate_pending network) oi = Some e" "own_address (pe_operation e) address"
  then have "retained_address a i address" unfolding retained_address_def using assms(2) by blast
  with assms(1) show "connect address = tcp_connect net address" by blast
qed

section \<open>Properties\<close>

text \<open>C4: an untrusted model does nothing the task may not do. For every model, every sequence of its answers,
  every state of the supervisor and every behaviour of clocks, sockets and the store: the only
  processes a run of \<open>AgentRuntime::start\<close> starts are commands of handlers registered for a
  route whose tool and action the policy of the task allows outright, in the context (budget,
  files, cgroup) of that very task, and the only addresses it connects to are those the policy
  allows outright. After an approval, \<open>approve_and_resume\<close> may in addition start a command of, or connect
  to the address of, the operation that was retained for this approval. The result, the runtime,
  the supervisor and the system are the same if every other start of a process and every other
  connection is replaced by an arbitrary one.\<close>

theorem agent_confined:
  assumes "\<forall>cmd. agent_command a s t cmd \<longrightarrow> spawn cmd = h_spawn h cmd"
    and "\<forall>address. agent_address s t address \<longrightarrow> connect address = tcp_connect net address"
    and "\<forall>cmd. retained_command (ag_tool_gate a) i cmd \<or> (\<exists>u. active_task a = Some u \<and> agent_command a s u cmd)
           \<longrightarrow> resumed cmd = h_spawn h cmd"
    and "\<forall>address. retained_address a i address \<or> (\<exists>u. active_task a = Some u \<and> agent_address s u address)
           \<longrightarrow> reconnect address = tcp_connect net address"
  shows "agent_start (env\<lparr>ae_handle := process_handle target (h\<lparr>h_spawn := spawn\<rparr>) sha, ae_net := net\<lparr>tcp_connect := connect\<rparr>\<rparr>)
        w1 w2 now turns a s t
      = agent_start (env\<lparr>ae_handle := process_handle target h sha, ae_net := net\<rparr>) w1 w2 now turns a s t
    \<and> approve_and_resume (env\<lparr>ae_handle := process_handle target (h\<lparr>h_spawn := resumed\<rparr>) sha, ae_net := net\<lparr>tcp_connect := reconnect\<rparr>\<rparr>)
        ws w1 w2 w3 x now1 now2 now3 turns a s i
      = approve_and_resume (env\<lparr>ae_handle := process_handle target h sha, ae_net := net\<rparr>) ws w1 w2 w3 x now1 now2 now3 turns a s i"
proof (intro conjI)
  show "agent_start (env\<lparr>ae_handle := process_handle target (h\<lparr>h_spawn := spawn\<rparr>) sha, ae_net := net\<lparr>tcp_connect := connect\<rparr>\<rparr>)
        w1 w2 now turns a s t
      = agent_start (env\<lparr>ae_handle := process_handle target h sha, ae_net := net\<rparr>) w1 w2 now turns a s t"
    by (rule agent_start_agree [OF process_agreeing [OF assms(1)] agent_address_agreeing [OF assms(2)]])
  show "approve_and_resume (env\<lparr>ae_handle := process_handle target (h\<lparr>h_spawn := resumed\<rparr>) sha, ae_net := net\<lparr>tcp_connect := reconnect\<rparr>\<rparr>)
        ws w1 w2 w3 x now1 now2 now3 turns a s i
      = approve_and_resume (env\<lparr>ae_handle := process_handle target h sha, ae_net := net\<rparr>) ws w1 w2 w3 x now1 now2 now3 turns a s i"
  proof (rule approve_and_resume_agree [where key = fst])
    show "agreeing fst (ta_definitions (gate_adapter (ag_tool_gate a))) (handler_keys fst (gate_adapter (ag_tool_gate a))) u spec
        (process_handle target h sha) (process_handle target (h\<lparr>h_spawn := resumed\<rparr>) sha)"
      if "active_task a = Some u" "task_spec_of s u = Some spec" for u spec
      using that assms(3) by (intro process_agreeing) blast
    show "net_agreeing spec net (net\<lparr>tcp_connect := reconnect\<rparr>)" if "active_task a = Some u" "task_spec_of s u = Some spec" for u spec
      using that assms(4) by (intro agent_address_agreeing [of s u]) blast
    show "network_gate_approve_and_execute (ae_append env) (net\<lparr>tcp_connect := reconnect\<rparr>) ws w1 w2 now1 now2 now3 network s i
        = network_gate_approve_and_execute (ae_append env) net ws w1 w2 now1 now2 now3 network s i" if "ag_network a = Some network" for network
      using that assms(4) by (intro approved_connect_confined) blast
  qed (use assms(3) in \<open>simp_all add: process_handle_keeps approved_spawn_confined\<close>)
qed

definition demo_process_env ::
  "(nat \<Rightarrow> nat, in_memory_store, unit, process_tool_handler \<times> sim_host, sim, scripted_model_adapter, scripted_model_session, scripted_model_error) agent_env" where
  "demo_process_env = \<lparr>ae_append = in_memory_append, ae_handle = process_handle demo_platform sim_host_api id, ae_net = sim_net,
     ae_start_session = scripted_start_session, ae_decide = scripted_decide\<rparr>"

definition demo_process_agent :: "(scripted_model_adapter, scripted_model_session, process_tool_handler \<times> sim_host, sim) agent_runtime" where
  "demo_process_agent = agent_new (projr (scripted_new [CallTool ''git-status'' [''-s''], Finish (AgentOutput ''done'')]))
     \<lparr>tc_definitions = ta_definitions (gate_adapter demo_process_gate)\<rparr> demo_process_gate agent_config_default"

definition demo_process_run ::
  "sim_host host_api \<Rightarrow> sim tcp_api \<Rightarrow> (scripted_model_adapter, scripted_model_session, process_tool_handler \<times> sim_host, sim, in_memory_store, agent_run_outcome) agent_result option" where
  "demo_process_run h net = agent_start (demo_process_env\<lparr>ae_handle := process_handle demo_platform h id, ae_net := net\<rparr>) demo_clock demo_clock 5 demo_turns
     demo_process_agent (snd demo_submitted) (TaskId 1)"

definition demo_only_b :: "command \<Rightarrow> (sim_host, io_error, nat) io" where
  "demo_only_b cmd = (if cmd_program cmd = ''/b'' \<and> cmd_dir cmd = ''/s'' then h_spawn sim_host_api cmd else (\<lambda>k. (Inl OtherIo, k)))"

definition demo_only_local :: "socket_addr \<Rightarrow> duration \<Rightarrow> sim \<Rightarrow> (unit + unit) \<times> sim" where
  "demo_only_local address = (if address = (V4 127 0 0 1, 8080) then tcp_connect sim_net address else (\<lambda>timeout k. (Inl (), k)))"

lemma demo_process_completes: "map_option fst (demo_process_run sim_host_api sim_net) = Some (Inr (Completed (AgentOutput ''done'')))"
  by code_simp

theorem agent_confined_witness:
  "map_option fst (demo_process_run (sim_host_api\<lparr>h_spawn := demo_only_b\<rparr>) (sim_net\<lparr>tcp_connect := demo_only_local\<rparr>)) = Some (Inr (Completed (AgentOutput ''done'')))"
proof -
  have a: "ta_handlers (gate_adapter demo_process_gate) = [(''git-status'', (demo_direct, demo_sandbox_host))]"
    by (simp add: demo_process_gate_def builder_build_def builder_register_def Tool_Adapter.builder_new_def gate_new_def
        tool_limits tool_identifier_ok_def TOOL_MAX_IDENTIFIER_BYTES_def is_identifier_char_def ascii_defs)
  have "demo_only_b cmd = h_spawn sim_host_api cmd" if "agent_command demo_process_agent (snd demo_submitted) (TaskId 1) cmd" for cmd
    using that by (auto simp: agent_command_def demo_process_agent_def agent_new_def a authorized_command_def demo_direct_def
        demo_handler_def demo_only_b_def split: if_splits)
  moreover have "demo_only_local address = tcp_connect sim_net address" if "agent_address (snd demo_submitted) (TaskId 1) address" for address
  proof -
    have "task_spec_of (snd demo_submitted) (TaskId 1) = Some sample_task" by code_simp
    with that obtain host where h: "parse_ip host = Some (fst address)"
      "evaluate \<lparr>cp_task = sample_task\<rparr> (NetworkRequest host Tcp (snd address)) = Allow"
      by (auto simp: agent_address_def allowed_address_def)
    from h(2) have "host = ''127.0.0.1'' \<and> snd address = 8080"
      by (auto simp: evaluate_defs sample_task_def split: if_splits)
    moreover have "parse_ip ''127.0.0.1'' = Some (V4 127 0 0 1)" by code_simp
    ultimately show ?thesis using h(1) by (cases address) (simp add: demo_only_local_def)
  qed
  ultimately have "demo_process_run (sim_host_api\<lparr>h_spawn := demo_only_b\<rparr>) (sim_net\<lparr>tcp_connect := demo_only_local\<rparr>) = demo_process_run sim_host_api sim_net"
    unfolding demo_process_run_def
    by (intro agent_confined [where i = "ApprovalId 0" and resumed = "h_spawn sim_host_api" and reconnect = "tcp_connect sim_net", THEN conjunct1])
      simp_all
  with demo_process_completes show ?thesis by simp
qed

end
