(* ===== verification/Sqlite_Store.thy ===== *)
theory Sqlite_Store
  imports Recovery
begin

text \<open>
  \<open>aios-storage-sqlite/src/lib.rs\<close>: the persistent event store. \<open>rusqlite\<close>,
  \<open>serde_json\<close> and the text form of a UUID are libraries: the record \<open>sqlite_api\<close> holds
  the calls the store makes, with errors as \<open>Inl ()\<close> (the code maps every library error
  to \<open>Unavailable\<close> or \<open>Corrupt\<close>), and the locale \<open>sqlite_db\<close> states what is documented of
  them: a transaction works on a copy of the table until it commits, \<open>INSERT\<close> respects
  the primary key and the \<open>CHECK\<close> constraints, queries return the rows that match in key
  order, dropping a transaction rolls it back, deserializing a serialized event gives
  the event, parsing a displayed UUID gives the UUID. The outside world of each call
  (locks, disk, clock) is \<open>w\<close>; any call may fail.
\<close>

section \<open>The library interface\<close>

type_synonym sql_key = "string \<times> int"
type_synonym sql_value = "int \<times> string"
type_synonym sql_table = "(sql_key, sql_value) btree"

record ('w, 'c, 't) sqlite_api =
  sq_clock :: "'w \<Rightarrow> nat \<Rightarrow> nat"
  sq_busy_timeout :: "'w \<Rightarrow> 'c \<Rightarrow> unit + 'c"
  sq_foreign_keys :: "'w \<Rightarrow> 'c \<Rightarrow> unit + 'c"
  sq_journal_wal :: "'w \<Rightarrow> 'c \<Rightarrow> unit + 'c"
  sq_user_version :: "'w \<Rightarrow> 'c \<Rightarrow> unit + int"
  sq_transaction :: "'w \<Rightarrow> 'c \<Rightarrow> unit + 't"
  sq_create_schema :: "'w \<Rightarrow> 't \<Rightarrow> unit + 't"
  sq_set_user_version :: "'w \<Rightarrow> 't \<Rightarrow> int \<Rightarrow> unit + 't"
  sq_count_max :: "'w \<Rightarrow> 't \<Rightarrow> string \<Rightarrow> unit + int \<times> int"
  sq_insert :: "'w \<Rightarrow> 't \<Rightarrow> string \<Rightarrow> int \<Rightarrow> int \<Rightarrow> string \<Rightarrow> unit + 't"
  sq_commit :: "'w \<Rightarrow> 't \<Rightarrow> unit + 'c"
  sq_rollback :: "'t \<Rightarrow> 'c"
  sq_select :: "'w \<Rightarrow> 'c \<Rightarrow> string \<Rightarrow> int \<Rightarrow> unit + (unit + int \<times> int \<times> string) list"
  sq_task_ids :: "'w \<Rightarrow> 'c \<Rightarrow> unit + (unit + string) list"
  sq_to_json :: "event_kind \<Rightarrow> unit + string"
  sq_from_json :: "string \<Rightarrow> unit + event_kind"
  sq_task_text :: "task_id \<Rightarrow> string"
  sq_parse_task :: "string \<Rightarrow> task_id option"

record 'c sqlite_store =
  sqs_connection :: 'c
  sqs_max_events_per_task :: nat

section \<open>Operations\<close>

definition SCHEMA_VERSION :: int where "SCHEMA_VERSION = 1"

definition i64_try_from :: "nat \<Rightarrow> int option" where
  "i64_try_from n = (if n < 2 ^ 63 then Some (int n) else None)"

definition unsigned_try_from :: "int \<Rightarrow> nat option" where
  "unsigned_try_from i = (if 0 \<le> i then Some (nat i) else None)"

definition unavailable :: "unit + 'a \<Rightarrow> event_store_error + 'a" where
  "unavailable r = map_err (\<lambda>_. Unavailable) r"

definition initialize ::
  "('w, 'c, 't) sqlite_api \<Rightarrow> 'w \<Rightarrow> 'c \<Rightarrow> nat \<Rightarrow> bool \<Rightarrow> event_store_error + 'c sqlite_store" where
  "initialize db w connection max_events enable_wal =
     (case sq_busy_timeout db w connection of Inl _ \<Rightarrow> Inl Unavailable | Inr connection \<Rightarrow>
      case sq_foreign_keys db w connection of Inl _ \<Rightarrow> Inl Unavailable | Inr connection \<Rightarrow>
      case (if enable_wal then sq_journal_wal db w connection else Inr connection) of
        Inl _ \<Rightarrow> Inl Unavailable | Inr connection \<Rightarrow>
      case sq_user_version db w connection of Inl _ \<Rightarrow> Inl Unavailable | Inr schema_version \<Rightarrow>
        if schema_version = 0 then
          (case sq_transaction db w connection of Inl _ \<Rightarrow> Inl Unavailable | Inr transaction \<Rightarrow>
           case sq_create_schema db w transaction of Inl _ \<Rightarrow> Inl Unavailable | Inr transaction \<Rightarrow>
           case sq_set_user_version db w transaction SCHEMA_VERSION of
             Inl _ \<Rightarrow> Inl Unavailable | Inr transaction \<Rightarrow>
           case sq_commit db w transaction of Inl _ \<Rightarrow> Inl Unavailable | Inr connection \<Rightarrow>
             Inr \<lparr>sqs_connection = connection, sqs_max_events_per_task = max_events\<rparr>)
        else if schema_version = SCHEMA_VERSION then
          Inr \<lparr>sqs_connection = connection, sqs_max_events_per_task = max_events\<rparr>
        else Inl Corrupt)"

definition open_in_memory ::
  "('w, 'c, 't) sqlite_api \<Rightarrow> 'w \<Rightarrow> unit + 'c \<Rightarrow> nat \<Rightarrow> event_store_error + 'c sqlite_store" where
  "open_in_memory db w opened max_events =
     (if max_events = 0 then Inl StoreCapacityExceeded
      else (case opened of Inl _ \<Rightarrow> Inl Unavailable
            | Inr connection \<Rightarrow> initialize db w connection max_events False))"

text \<open>The database path as \<open>symlink_metadata\<close> sees it; \<open>MetadataError\<close> is any error but
  \<open>NotFound\<close>. \<open>create\<close> tells whether \<open>create_new\<close> succeeds. The mask 63 is \<open>0o077\<close>, the
  mode 384 is \<open>0o600\<close>.\<close>

record file_metadata =
  md_is_symlink :: bool
  md_is_file :: bool
  md_mode :: u32

datatype path_metadata = MetadataError | Missing | Present file_metadata

definition prepare_database_file :: "path_metadata \<Rightarrow> bool \<Rightarrow> (event_store_error + unit) \<times> path_metadata" where
  "prepare_database_file path create =
     (case path of
        Present metadata \<Rightarrow>
          if md_is_symlink metadata \<or> \<not> md_is_file metadata then (Inl InsecurePermissions, path)
          else if and (md_mode metadata) 63 \<noteq> 0 then (Inl InsecurePermissions, path)
          else (Inr (), path)
      | Missing \<Rightarrow>
          if create
          then (Inr (), Present \<lparr>md_is_symlink = False, md_is_file = True, md_mode = 384\<rparr>)
          else (Inl Unavailable, path)
      | MetadataError \<Rightarrow> (Inl Unavailable, path))"

definition sqlite_open ::
  "('w, 'c, 't) sqlite_api \<Rightarrow> 'w \<Rightarrow> path_metadata \<Rightarrow> bool \<Rightarrow> unit + 'c \<Rightarrow> nat
   \<Rightarrow> (event_store_error + 'c sqlite_store) \<times> path_metadata" where
  "sqlite_open db w path create opened max_events =
     (if max_events = 0 then (Inl StoreCapacityExceeded, path)
      else
        (case prepare_database_file path create of
           (Inl e, path) \<Rightarrow> (Inl e, path)
         | (Inr _, path) \<Rightarrow>
             (case opened of
                Inl _ \<Rightarrow> (Inl Unavailable, path)
              | Inr connection \<Rightarrow> (initialize db w connection max_events True, path))))"

text \<open>The loop of \<open>append_batch\<close>; on an error it hands back the transaction, which the
  caller drops.\<close>

fun insert_events ::
  "('w, 'c, 't) sqlite_api \<Rightarrow> 'w \<Rightarrow> task_id \<Rightarrow> nat \<Rightarrow> nat \<Rightarrow> event_kind list \<Rightarrow> 't
   \<Rightarrow> (event_store_error + task_event list) \<times> 't" where
  "insert_events db w task_id first offset [] transaction = (Inr [], transaction)"
| "insert_events db w task_id first offset (kind # kinds) transaction =
     (case u64_try_from offset of None \<Rightarrow> (Inl SequenceExhausted, transaction) | Some off \<Rightarrow>
      case checked_add first off of None \<Rightarrow> (Inl SequenceExhausted, transaction) | Some sequence \<Rightarrow>
      case task_event_now (sq_clock db w offset) task_id sequence kind of
        Inl e \<Rightarrow> (Inl e, transaction) | Inr event \<Rightarrow>
      case i64_try_from (ev_sequence event) of None \<Rightarrow> (Inl SequenceExhausted, transaction)
      | Some sequence_sql \<Rightarrow>
      case i64_try_from (ev_occurred_at_unix_ms event) of None \<Rightarrow> (Inl SequenceExhausted, transaction)
      | Some occurred_at_sql \<Rightarrow>
      case sq_to_json db (ev_kind event) of Inl _ \<Rightarrow> (Inl Unavailable, transaction) | Inr event_json \<Rightarrow>
      case sq_insert db w transaction (sq_task_text db task_id) sequence_sql occurred_at_sql event_json of
        Inl _ \<Rightarrow> (Inl Unavailable, transaction) | Inr transaction \<Rightarrow>
      case insert_events db w task_id first (Suc offset) kinds transaction of
        (Inl e, transaction) \<Rightarrow> (Inl e, transaction)
      | (Inr events, transaction) \<Rightarrow> (Inr (event # events), transaction))"

definition sqlite_append :: "('w, 'c, 't) sqlite_api \<Rightarrow> ('w, 'c sqlite_store) append_fn" where
  "sqlite_append db w store task_id kinds =
     (if kinds = [] then (Inr [], store)
      else
        (case sq_transaction db w (sqs_connection store) of
           Inl _ \<Rightarrow> (Inl Unavailable, store)
         | Inr transaction \<Rightarrow>
             (let drop_tx = (\<lambda>tx. store\<lparr>sqs_connection := sq_rollback db tx\<rparr>) in
              case sq_count_max db w transaction (sq_task_text db task_id) of
                Inl _ \<Rightarrow> (Inl Unavailable, drop_tx transaction)
              | Inr (existing, last_sequence) \<Rightarrow>
              case unsigned_try_from existing of None \<Rightarrow> (Inl Corrupt, drop_tx transaction)
              | Some existing_count \<Rightarrow>
              case checked_add existing_count (length kinds) of
                None \<Rightarrow> (Inl StoreCapacityExceeded, drop_tx transaction)
              | Some resulting_count \<Rightarrow>
              if sqs_max_events_per_task store < resulting_count
              then (Inl StoreCapacityExceeded, drop_tx transaction)
              else
                (case unsigned_try_from last_sequence of None \<Rightarrow> (Inl Corrupt, drop_tx transaction)
                 | Some last_seq \<Rightarrow>
                 case checked_add last_seq 1 of None \<Rightarrow> (Inl SequenceExhausted, drop_tx transaction)
                 | Some first_sequence \<Rightarrow>
                 case insert_events db w task_id first_sequence 0 kinds transaction of
                   (Inl e, transaction) \<Rightarrow> (Inl e, drop_tx transaction)
                 | (Inr appended, transaction) \<Rightarrow>
                     (case sq_commit db w transaction of
                        Inl _ \<Rightarrow> (Inl Unavailable, drop_tx transaction)
                      | Inr connection \<Rightarrow> (Inr appended, store\<lparr>sqs_connection := connection\<rparr>))))))"

definition decode_row ::
  "('w, 'c, 't) sqlite_api \<Rightarrow> task_id \<Rightarrow> unit + int \<times> int \<times> string \<Rightarrow> event_store_error + task_event" where
  "decode_row db task_id row =
     (case row of Inl _ \<Rightarrow> Inl Unavailable | Inr (sequence, occurred_at, event_json) \<Rightarrow>
      case unsigned_try_from sequence of None \<Rightarrow> Inl Corrupt | Some sequence \<Rightarrow>
      case unsigned_try_from occurred_at of None \<Rightarrow> Inl Corrupt | Some occurred_at \<Rightarrow>
      case sq_from_json db event_json of Inl _ \<Rightarrow> Inl Corrupt | Inr kind \<Rightarrow>
        Inr \<lparr>ev_task_id = task_id, ev_sequence = sequence, ev_occurred_at_unix_ms = occurred_at, ev_kind = kind\<rparr>)"

definition sqlite_list :: "('w, 'c, 't) sqlite_api \<Rightarrow> 'w \<Rightarrow> 'c sqlite_store list_fn" where
  "sqlite_list db w store task_id after_sequence =
     (case i64_try_from after_sequence of
        None \<Rightarrow> Inl SequenceExhausted
      | Some after \<Rightarrow>
          (case sq_select db w (sqs_connection store) (sq_task_text db task_id) after of
             Inl _ \<Rightarrow> Inl Unavailable
           | Inr rows \<Rightarrow> collect_results (decode_row db task_id) rows))"

definition recover_task_snapshots ::
  "('w, 'c, 't) sqlite_api \<Rightarrow> 'w \<Rightarrow> 'c sqlite_store \<Rightarrow> event_store_error + task_snapshot list" where
  "recover_task_snapshots db w store =
     (case sq_task_ids db w (sqs_connection store) of
        Inl _ \<Rightarrow> Inl Unavailable
      | Inr rows \<Rightarrow>
          (case collect_results unavailable rows of
             Inl e \<Rightarrow> Inl e
           | Inr task_ids \<Rightarrow>
               collect_results (\<lambda>text.
                 case sq_parse_task db text of None \<Rightarrow> Inl Corrupt | Some task_id \<Rightarrow>
                 case sqlite_list db w store task_id 0 of Inl e \<Rightarrow> Inl e | Inr events \<Rightarrow>
                   recover_snapshot task_id events) task_ids))"

section \<open>The table and its log\<close>

definition table_for :: "string \<Rightarrow> sql_table \<Rightarrow> sql_table" where
  "table_for text T = filter (\<lambda>e. fst (fst e) = text) T"

definition table_event :: "('w, 'c, 't) sqlite_api \<Rightarrow> task_id \<Rightarrow> sql_key \<times> sql_value \<Rightarrow> task_event" where
  "table_event db t e = \<lparr>ev_task_id = t, ev_sequence = nat (snd (fst e)),
     ev_occurred_at_unix_ms = nat (fst (snd e)), ev_kind = projr (sq_from_json db (snd (snd e)))\<rparr>"

definition table_log :: "('w, 'c, 't) sqlite_api \<Rightarrow> sql_table \<Rightarrow> task_id \<Rightarrow> task_event list" where
  "table_log db T t = map (table_event db t) (table_for (sq_task_text db t) T)"

text \<open>The table invariant: every row belongs to a task and decodes, and the rows of a task
  are numbered from 1 without a gap.\<close>

definition table_ok :: "('w, 'c, 't) sqlite_api \<Rightarrow> sql_table \<Rightarrow> bool" where
  "table_ok db T \<longleftrightarrow> bt_wf T
     \<and> (\<forall>e \<in> set T. (\<exists>t. fst (fst e) = sq_task_text db t) \<and> 0 \<le> fst (snd e)
          \<and> (\<exists>k. sq_from_json db (snd (snd e)) = Inr k))
     \<and> (\<forall>t. map (\<lambda>e. snd (fst e)) (table_for (sq_task_text db t) T)
               = map int [1..<Suc (length (table_for (sq_task_text db t) T))]
          \<and> length (table_for (sq_task_text db t) T) < 2 ^ 63)"

lemma table_for_insert_other: "text \<noteq> text' \<Longrightarrow> table_for text (bt_insert (text', i) v T) = table_for text T"
  by (induction T) (auto simp: table_for_def)

lemma table_for_insert_last:
  "bt_wf T \<Longrightarrow> \<forall>e \<in> set (table_for text T). snd (fst e) < i
   \<Longrightarrow> table_for text (bt_insert (text, i) v T) = table_for text T @ [((text, i), v)]"
proof (induction T)
  case (Cons e T)
  show ?case
  proof (cases "fst e < (text, i)")
    case True
    with Cons show ?thesis by (auto simp: table_for_def bt_wf_Cons)
  next
    case False
    have late: "snd (fst x) > i" if "x \<in> set (e # T)" "fst (fst x) = text" "fst e \<noteq> (text, i)" for x
    proof -
      have "(text, i) < fst e" using False that(3) by (metis linorder_neqE)
      moreover have "fst e \<le> fst x" using Cons.prems(1) that(1) by (auto simp: bt_wf_Cons)
      ultimately have "(text, i) < fst x" by simp
      then show ?thesis using that(2) by (cases "fst x") auto
    qed
    have ne: "fst e \<noteq> (text, i)" using Cons.prems(2) by (auto simp: table_for_def)
    have "fst (fst x) \<noteq> text" if x: "x \<in> set (e # T)" for x
    proof
      assume t: "fst (fst x) = text"
      then have "snd (fst x) < i" using Cons.prems(2) x by (auto simp: table_for_def)
      with late [OF x t ne] show False by simp
    qed
    then have "table_for text (e # T) = []" by (simp add: table_for_def filter_empty_conv)
    then show ?thesis using False ne by (auto simp: table_for_def)
  qed
qed (simp add: table_for_def)

lemma set_bt_insert_new: "bt_wf T \<Longrightarrow> bt_get T k = None \<Longrightarrow> set (bt_insert k v T) = insert (k, v) (set T)"
  by (induction T) (auto simp: bt_wf_Cons split: if_splits)

lemma table_ok_insert:
  assumes ok: "table_ok db T" and inj: "\<And>u. sq_task_text db u = sq_task_text db t \<Longrightarrow> u = t"
    and n: "n = length (table_for (sq_task_text db t) T)" and lim: "Suc n < 2 ^ 63"
    and oc: "0 \<le> oc" and k: "sq_from_json db j = Inr k"
    and new: "bt_get T (sq_task_text db t, int (Suc n)) = None"
  defines "T' \<equiv> bt_insert (sq_task_text db t, int (Suc n)) (oc, j) T"
  shows "table_ok db T'"
    and "length (table_for (sq_task_text db t) T') = Suc n"
    and "table_log db T' = (table_log db T)(t := table_log db T t @
           [\<lparr>ev_task_id = t, ev_sequence = Suc n, ev_occurred_at_unix_ms = nat oc, ev_kind = k\<rparr>])"
proof -
  let ?x = "sq_task_text db t"
  have wf: "bt_wf T" and sq: "map (\<lambda>e. snd (fst e)) (table_for ?x T) = map int [1..<Suc n]"
    using ok n by (auto simp: table_ok_def)
  have "snd (fst e) < int (Suc n)" if "e \<in> set (table_for ?x T)" for e
  proof -
    have "snd (fst e) \<in> set (map int [1..<Suc n])" using that sq by (metis image_eqI set_map)
    then show ?thesis by auto
  qed
  then have mine: "table_for ?x T' = table_for ?x T @ [((?x, int (Suc n)), oc, j)]"
    unfolding T'_def by (intro table_for_insert_last [OF wf]) blast
  have other: "table_for (sq_task_text db u) T' = table_for (sq_task_text db u) T" if "u \<noteq> t" for u
    using that inj unfolding T'_def by (intro table_for_insert_other) blast
  show len: "length (table_for ?x T') = Suc n" using mine n by simp
  have "map (\<lambda>e. snd (fst e)) (table_for ?x T') = map int [1..<Suc (Suc n)]"
    using mine sq by simp
  then have "map (\<lambda>e. snd (fst e)) (table_for (sq_task_text db u) T')
               = map int [1..<Suc (length (table_for (sq_task_text db u) T'))]
          \<and> length (table_for (sq_task_text db u) T') < 2 ^ 63" for u
    using len lim other [of u] ok by (cases "u = t") (simp_all add: table_ok_def del: upt_Suc)
  then show "table_ok db T'"
    using ok oc k wf set_bt_insert_new [OF wf new] by (auto simp: table_ok_def T'_def simp del: upt_Suc)
  show "table_log db T' = (table_log db T)(t := table_log db T t @
           [\<lparr>ev_task_id = t, ev_sequence = Suc n, ev_occurred_at_unix_ms = nat oc, ev_kind = k\<rparr>])"
    using mine other k by (auto simp: table_log_def table_event_def fun_eq_iff)
qed

section \<open>The documented behaviour of the library\<close>

locale sqlite_db =
  fixes db :: "('w, 'c, 't) sqlite_api"
    and rows :: "'c \<Rightarrow> sql_table" and tx_rows :: "'t \<Rightarrow> sql_table" and tx_base :: "'t \<Rightarrow> sql_table"
  assumes transaction_ok: "sq_transaction db w c = Inr tx \<Longrightarrow> tx_rows tx = rows c \<and> tx_base tx = rows c"
    and rollback_ok: "rows (sq_rollback db tx) = tx_base tx"
    and insert_ok: "sq_insert db w tx text i oc j = Inr tx' \<Longrightarrow>
      bt_get (tx_rows tx) (text, i) = None \<and> 0 < i \<and> 0 \<le> oc
      \<and> tx_rows tx' = bt_insert (text, i) (oc, j) (tx_rows tx) \<and> tx_base tx' = tx_base tx"
    and count_max_ok: "sq_count_max db w tx text = Inr (n, m) \<Longrightarrow>
      n = int (length (table_for text (tx_rows tx)))
      \<and> m = Max (insert 0 (set (map (\<lambda>e. snd (fst e)) (table_for text (tx_rows tx)))))"
    and commit_ok: "sq_commit db w tx = Inr c \<Longrightarrow> rows c = tx_rows tx"
    and select_ok: "sq_select db w c text after = Inr rs \<Longrightarrow> rs = map Inr xs \<Longrightarrow>
      xs = map (\<lambda>e. (snd (fst e), fst (snd e), snd (snd e))) (filter (\<lambda>e. after < snd (fst e)) (table_for text (rows c)))"
    and task_ids_ok: "sq_task_ids db w c = Inr ids \<Longrightarrow> ids = map Inr texts \<Longrightarrow>
      texts = remdups (map (\<lambda>e. fst (fst e)) (rows c))"
    and json_ok: "sq_to_json db k = Inr j \<Longrightarrow> sq_from_json db j = Inr k"
    and text_ok: "sq_parse_task db (sq_task_text db t) = Some t"
begin

definition sq_log :: "'c sqlite_store \<Rightarrow> task_id \<Rightarrow> task_event list" where
  "sq_log store = table_log db (rows (sqs_connection store))"

definition sq_ok :: "'c sqlite_store \<Rightarrow> bool" where
  "sq_ok store \<longleftrightarrow> table_ok db (rows (sqs_connection store))"

lemma text_inj: "sq_task_text db u = sq_task_text db t \<Longrightarrow> u = t"
  by (metis option.inject text_ok)

lemma max_upt: "Max (insert 0 (set (map int [1..<Suc n]))) = int n"
proof (cases n)
  case (Suc m)
  show ?thesis
  proof (rule Max_eqI)
    fix y assume "y \<in> insert 0 (set (map int [1..<Suc n]))"
    then show "y \<le> int n" by auto
  qed (auto simp: Suc)
qed simp

lemma insert_events_facts:
  assumes "table_ok db (tx_rows tx)"
    and "first + off = Suc (length (table_for (sq_task_text db t) (tx_rows tx)))"
    and "insert_events db w t first off kinds tx = (r, tx')"
  shows "tx_base tx' = tx_base tx \<and> (\<forall>events. r = Inr events \<longrightarrow>
     table_ok db (tx_rows tx') \<and> map ev_kind events = kinds
     \<and> table_log db (tx_rows tx') = (table_log db (tx_rows tx))(t := table_log db (tx_rows tx) t @ events))"
  using assms
proof (induction kinds arbitrary: off tx r)
  case (Cons k kinds)
  let ?n = "length (table_for (sq_task_text db t) (tx_rows tx))"
  let ?occ = "unix_time_ms (sq_clock db w off)"
  show ?case
  proof (cases "\<exists>j tx1. off < 2 ^ 64 \<and> first + off < 2 ^ 63 \<and> ?occ < 2 ^ 63 \<and> sq_to_json db k = Inr j
      \<and> sq_insert db w tx (sq_task_text db t) (int (first + off)) (int ?occ) j = Inr tx1")
    case False
    have big: "first + off < 2 ^ 64" if "first + off < 2 ^ 63" using that by simp
    from False Cons.prems(3) have "(\<exists>e. r = Inl e) \<and> tx' = tx"
      by (auto simp: u64_try_from_def checked_add_def task_event_now_def i64_try_from_def
          split: option.splits if_splits sum.splits)
    then show ?thesis by auto
  next
    case True
    then obtain j tx1 where c: "off < 2 ^ 64" "first + off < 2 ^ 63" "?occ < 2 ^ 63" "sq_to_json db k = Inr j"
      and ins: "sq_insert db w tx (sq_task_text db t) (int (first + off)) (int ?occ) j = Inr tx1" by blast
    note i = insert_ok [OF ins]
    obtain r2 where rest: "insert_events db w t first (Suc off) kinds tx1 = (r2, tx')"
      and r: "r = (case r2 of Inl e \<Rightarrow> Inl e | Inr events \<Rightarrow> Inr (\<lparr>ev_task_id = t, ev_sequence = first + off,
          ev_occurred_at_unix_ms = ?occ, ev_kind = k\<rparr> # events))"
      using Cons.prems(2,3) c ins
      by (auto simp: u64_try_from_def checked_add_def task_event_now_def i64_try_from_def
          split: prod.splits sum.splits)
    have new: "bt_get (tx_rows tx) (sq_task_text db t, int (Suc ?n)) = None" using i Cons.prems(2) by simp
    have tx1: "tx_rows tx1 = bt_insert (sq_task_text db t, int (Suc ?n)) (int ?occ, j) (tx_rows tx)"
      using i Cons.prems(2) by simp
    have lim: "Suc ?n < 2 ^ 63" using c(2) Cons.prems(2) by simp
    have oc: "0 \<le> int ?occ" by simp
    note ok1 = table_ok_insert [OF Cons.prems(1) text_inj refl lim oc json_ok [OF c(4)] new, folded tx1]
    have len1: "first + Suc off = Suc (length (table_for (sq_task_text db t) (tx_rows tx1)))"
      using ok1(2) Cons.prems(2) by (simp only: add_Suc_right)
    have ih: "tx_base tx' = tx_base tx1 \<and> (\<forall>events. r2 = Inr events \<longrightarrow>
       table_ok db (tx_rows tx') \<and> map ev_kind events = kinds
       \<and> table_log db (tx_rows tx') = (table_log db (tx_rows tx1))(t := table_log db (tx_rows tx1) t @ events))"
      by (rule Cons.IH [OF ok1(1) len1 rest])
    show ?thesis
      using ih r i ok1(3) Cons.prems(2) by (cases r2) auto
  qed
qed simp

end

context sqlite_db
begin

lemma table_log_wf: assumes "table_ok db T" shows "log_wf t (table_log db T t)"
proof -
  let ?R = "table_for (sq_task_text db t) T"
  have sq: "map (\<lambda>e. snd (fst e)) ?R = map int [1..<Suc (length ?R)]" "length ?R < 2 ^ 63"
    using assms by (auto simp: table_ok_def)
  have "map ev_sequence (table_log db T t) = map nat (map (\<lambda>e. snd (fst e)) ?R)"
    by (simp add: table_log_def table_event_def comp_def)
  also have "\<dots> = [1..<Suc (length ?R)]" by (simp only: sq map_map comp_def nat_int map_ident)
  finally show ?thesis using sq(2) by (simp add: log_wf_def table_log_def table_event_def del: upt_Suc)
qed

lemma sqlite_append_Inr:
  assumes ok: "sq_ok store" and eq: "sqlite_append db w store t kinds = (Inr events, store')"
  shows "sq_ok store' \<and> sq_log store' = (sq_log store)(t := sq_log store t @ events) \<and> map ev_kind events = kinds
     \<and> (kinds \<noteq> [] \<longrightarrow> length (sq_log store t) + length kinds \<le> sqs_max_events_per_task store)"
proof (cases "kinds = []")
  case True
  with assms show ?thesis by (simp add: sqlite_append_def)
next
  case False
  let ?T = "rows (sqs_connection store)" and ?x = "sq_task_text db t"
  from False eq obtain tx n m ec f tx2 c where
    tx: "sq_transaction db w (sqs_connection store) = Inr tx"
    and cm: "sq_count_max db w tx ?x = Inr (n, m)" and ec: "unsigned_try_from n = Some ec"
    and cap: "ec + length kinds \<le> sqs_max_events_per_task store"
    and f: "unsigned_try_from m = Some f"
    and ins: "insert_events db w t (Suc f) 0 kinds tx = (Inr events, tx2)"
    and com: "sq_commit db w tx2 = Inr c" and st: "store' = store\<lparr>sqs_connection := c\<rparr>"
    by (auto simp: sqlite_append_def Let_def split: sum.splits option.splits if_splits prod.splits)
  note t = transaction_ok [OF tx] and c = count_max_ok [OF cm]
  have tok: "table_ok db ?T" using ok by (simp add: sq_ok_def)
  then have sq: "map (\<lambda>e. snd (fst e)) (table_for ?x ?T) = map int [1..<Suc (length (table_for ?x ?T))]"
    by (simp add: table_ok_def)
  have "m = int (length (table_for ?x ?T))"
    using c t max_upt [of "length (table_for ?x ?T)"] by (simp only: sq)
  then have first: "Suc f + 0 = Suc (length (table_for ?x (tx_rows tx)))"
    using f t by (auto simp: unsigned_try_from_def)
  have "table_ok db (tx_rows tx)" using tok t by simp
  note i = insert_events_facts [OF this first ins]
  have "ec = length (sq_log store t)"
    using c t ec by (auto simp: unsigned_try_from_def sq_log_def table_log_def)
  with i t cap show ?thesis by (simp add: sq_ok_def sq_log_def st commit_ok [OF com])
qed

lemma sqlite_append_Inl:
  assumes ok: "sq_ok store" and eq: "sqlite_append db w store t kinds = (Inl e, store')"
  shows "rows (sqs_connection store') = rows (sqs_connection store)
     \<and> sqs_max_events_per_task store' = sqs_max_events_per_task store"
proof (cases "store' = store")
  case False
  let ?T = "rows (sqs_connection store)"
  from eq False obtain tx where tx: "sq_transaction db w (sqs_connection store) = Inr tx"
    by (auto simp: sqlite_append_def split: if_splits sum.splits)
  note t = transaction_ok [OF tx]
  have "\<exists>tx'. store' = store\<lparr>sqs_connection := sq_rollback db tx'\<rparr> \<and> tx_base tx' = tx_base tx"
  proof (cases "store' = store\<lparr>sqs_connection := sq_rollback db tx\<rparr>")
    case other: False
    from eq False other tx obtain n m f r tx2 where
      cm: "sq_count_max db w tx (sq_task_text db t) = Inr (n, m)" and f: "unsigned_try_from m = Some f"
      and ins: "insert_events db w t (Suc f) 0 kinds tx = (r, tx2)"
      and st: "store' = store\<lparr>sqs_connection := sq_rollback db tx2\<rparr>"
      by (auto simp: sqlite_append_def Let_def split: sum.splits option.splits if_splits prod.splits)
    have tok: "table_ok db ?T" using ok by (simp add: sq_ok_def)
    then have sq: "map (\<lambda>e. snd (fst e)) (table_for (sq_task_text db t) ?T)
        = map int [1..<Suc (length (table_for (sq_task_text db t) ?T))]"
      by (simp add: table_ok_def)
    have "m = int (length (table_for (sq_task_text db t) ?T))"
      using count_max_ok [OF cm] t max_upt by (simp only: sq)
    then have first: "Suc f + 0 = Suc (length (table_for (sq_task_text db t) (tx_rows tx)))"
      using f t by (auto simp: unsigned_try_from_def)
    have "table_ok db (tx_rows tx)" using tok t by simp
    from insert_events_facts [OF this first ins] st show ?thesis by blast
  qed blast
  then show ?thesis using rollback_ok t by auto
qed simp

lemma decode_row_table:
  "table_ok db T \<Longrightarrow> e \<in> set (table_for (sq_task_text db t) T)
   \<Longrightarrow> decode_row db t (Inr (snd (fst e), fst (snd e), snd (snd e))) = Inr (table_event db t e)"
proof -
  assume ok: "table_ok db T" and e: "e \<in> set (table_for (sq_task_text db t) T)"
  then have "0 \<le> fst (snd e)" "\<exists>k. sq_from_json db (snd (snd e)) = Inr k"
    by (auto simp: table_ok_def table_for_def)
  moreover have "snd (fst e) \<in> set (map (\<lambda>e. snd (fst e)) (table_for (sq_task_text db t) T))" using e by simp
  then have "snd (fst e) \<in> set (map int [1..<Suc (length (table_for (sq_task_text db t) T))])"
    using ok by (simp only: table_ok_def)
  then have "0 \<le> snd (fst e)" by auto
  ultimately show ?thesis
    by (cases e; cases "snd e") (auto simp: decode_row_def table_event_def unsigned_try_from_def)
qed

lemma collect_Inr_rows: "collect_results (decode_row db t) rs = Inr events \<Longrightarrow> \<exists>xs. rs = map Inr xs"
proof (induction rs arbitrary: events)
  case (Cons r rs)
  then obtain x where "r = Inr x" by (cases r) (auto simp: decode_row_def)
  moreover obtain es where "collect_results (decode_row db t) rs = Inr es"
    using Cons.prems by (auto split: sum.splits)
  ultimately show ?case using Cons.IH by (metis list.simps(9))
qed simp

lemma sqlite_list_ok:
  assumes ok: "sq_ok store" and eq: "sqlite_list db w store t after = Inr events"
  shows "events = filter (\<lambda>e. after < ev_sequence e) (sq_log store t)"
proof -
  let ?T = "rows (sqs_connection store)" and ?x = "sq_task_text db t"
  have tok: "table_ok db ?T" using ok by (simp add: sq_ok_def)
  from eq obtain rs where sel: "sq_select db w (sqs_connection store) ?x (int after) = Inr rs"
    and col: "collect_results (decode_row db t) rs = Inr events"
    by (auto simp: sqlite_list_def i64_try_from_def split: if_splits sum.splits)
  obtain xs where xs: "rs = map Inr xs" using collect_Inr_rows [OF col] by blast
  let ?F = "filter (\<lambda>e. int after < snd (fst e)) (table_for ?x ?T)"
  have rs: "rs = map (\<lambda>e. Inr (snd (fst e), fst (snd e), snd (snd e))) ?F"
    using select_ok [OF sel xs] xs by simp
  have "collect_results (decode_row db t) rs = Inr (map (table_event db t) ?F)"
    unfolding rs by (rule collect_results_map) (use decode_row_table [OF tok] in simp)
  with col have "events = map (table_event db t) ?F" by simp
  moreover have "filter (\<lambda>e. after < ev_sequence e) (map (table_event db t) R)
      = map (table_event db t) (filter (\<lambda>e. int after < snd (fst e)) R)" for R
    by (induction R) (auto simp: table_event_def zless_nat_eq_int_zless)
  ultimately show ?thesis by (simp add: sq_log_def table_log_def)
qed

lemma sqlite_event_store: "event_store (sqlite_append db) (sqlite_list db w) sq_log sq_ok"
proof
  fix s t assume "sq_ok s"
  then show "log_wf t (sq_log s t)" using table_log_wf by (simp add: sq_ok_def sq_log_def)
next
  fix s w t kinds events s' assume "sq_ok s" "sqlite_append db w s t kinds = (Inr events, s')"
  then show "sq_ok s' \<and> sq_log s' = (sq_log s)(t := sq_log s t @ events) \<and> map ev_kind events = kinds"
    using sqlite_append_Inr by blast
next
  fix s w t kinds e s' assume "sq_ok s" "sqlite_append db w s t kinds = (Inl e, s')"
  then show "sq_ok s' \<and> sq_log s' = sq_log s"
    using sqlite_append_Inl by (auto simp: sq_ok_def sq_log_def)
next
  fix s t after events assume "sq_ok s" "sqlite_list db w s t after = Inr events"
  then show "events = filter (\<lambda>e. after < ev_sequence e) (sq_log s t)" by (rule sqlite_list_ok)
qed

lemma unavailable_simps [simp]: "unavailable (Inl u) = Inl Unavailable" "unavailable (Inr x) = Inr x"
  by (simp_all add: unavailable_def)

lemma collect_unavailable: "collect_results unavailable rs = Inr texts \<longleftrightarrow> rs = map Inr texts"
proof (induction rs arbitrary: texts)
  case (Cons r rs)
  show ?case
  proof (cases "collect_results unavailable rs")
    case (Inl e)
    then have "\<And>texts. rs \<noteq> map Inr texts" using Cons.IH by auto
    then show ?thesis using Inl by (cases r) auto
  next
    case (Inr ts)
    then have "rs = map Inr ts" using Cons.IH by blast
    then show ?thesis using Inr by (cases r) auto
  qed
qed auto

lemma recover_task_snapshots_ok:
  assumes ok: "sq_ok store" and eq: "recover_task_snapshots db w store = Inr snaps"
  shows "distinct (map snap_task_id snaps)"
    and "\<And>snap. snap \<in> set snaps \<Longrightarrow> recover_snapshot (snap_task_id snap) (sq_log store (snap_task_id snap)) = Inr snap"
    and "snap_task_id ` set snaps = {t. sq_log store t \<noteq> []}"
proof -
  let ?T = "rows (sqs_connection store)"
  let ?f = "\<lambda>text. case sq_parse_task db text of None \<Rightarrow> Inl Corrupt | Some task_id \<Rightarrow>
                 case sqlite_list db w store task_id 0 of Inl e \<Rightarrow> Inl e | Inr events \<Rightarrow>
                   recover_snapshot task_id events"
  have tok: "table_ok db ?T" using ok by (simp add: sq_ok_def)
  from eq obtain rs texts where ids: "sq_task_ids db w (sqs_connection store) = Inr rs"
    and cu: "collect_results unavailable rs = Inr texts" and col: "collect_results ?f texts = Inr snaps"
    by (simp add: recover_task_snapshots_def split: sum.splits)
  have texts: "rs = map Inr texts" using cu by (simp add: collect_unavailable)
  have tx: "texts = remdups (map (\<lambda>e. fst (fst e)) ?T)" by (rule task_ids_ok [OF ids texts])
  have each: "list_all2 (\<lambda>x y. ?f x = Inr y) texts snaps" by (rule collect_results_InrD [OF col])
  have one: "\<exists>t. x = sq_task_text db t \<and> snap_task_id y = t \<and> recover_snapshot t (sq_log store t) = Inr y"
    if xt: "x \<in> set texts" and fx: "?f x = Inr y" for x y
  proof -
    obtain e where e: "e \<in> set ?T" "x = fst (fst e)" using xt tx by auto
    obtain t where t: "x = sq_task_text db t" using e tok unfolding table_ok_def by blast
    with fx text_ok obtain events where l: "sqlite_list db w store t 0 = Inr events"
      and r: "recover_snapshot t events = Inr y" by (auto split: sum.splits)
    have "log_wf t (sq_log store t)" using table_log_wf [OF tok] by (simp add: sq_log_def)
    then have "set (map ev_sequence (sq_log store t)) \<subseteq> {1..}" by (auto simp: log_wf_def simp del: upt_Suc)
    then have "filter (\<lambda>e. 0 < ev_sequence e) (sq_log store t) = sq_log store t"
      by (auto simp: filter_id_conv)
    then have "events = sq_log store t" using sqlite_list_ok [OF ok l] by simp
    moreover have "snap_task_id y = t"
      using r by (auto simp: recover_snapshot_def split: sum.splits prod.splits if_splits option.splits)
    ultimately show ?thesis using t r by auto
  qed
  have len: "length texts = length snaps" using each by (rule list_all2_lengthD)
  have nth: "texts ! i = sq_task_text db (snap_task_id (snaps ! i))
      \<and> recover_snapshot (snap_task_id (snaps ! i)) (sq_log store (snap_task_id (snaps ! i))) = Inr (snaps ! i)"
    if i: "i < length snaps" for i
  proof -
    have "texts ! i \<in> set texts" "?f (texts ! i) = Inr (snaps ! i)"
      using i len each by (simp_all add: list_all2_conv_all_nth)
    from one [OF this] show ?thesis by auto
  qed
  have texts_eq: "texts = map (\<lambda>y. sq_task_text db (snap_task_id y)) snaps"
    using len nth by (intro nth_equalityI) simp_all
  show "distinct (map snap_task_id snaps)"
  proof -
    have "distinct (map (sq_task_text db) (map snap_task_id snaps))"
      using texts_eq tx distinct_remdups [of "map (\<lambda>e. fst (fst e)) ?T"] by (simp add: comp_def)
    then show ?thesis by (rule distinct_map [THEN iffD1, THEN conjunct1])
  qed
  show "\<And>snap. snap \<in> set snaps \<Longrightarrow> recover_snapshot (snap_task_id snap) (sq_log store (snap_task_id snap)) = Inr snap"
    using nth by (metis in_set_conv_nth)
  have "t \<in> snap_task_id ` set snaps \<longleftrightarrow> sq_task_text db t \<in> set texts" for t
    unfolding texts_eq using text_inj by (auto simp: image_iff)
  moreover have "sq_task_text db t \<in> set texts \<longleftrightarrow> sq_log store t \<noteq> []" for t
    by (force simp: tx sq_log_def table_log_def table_for_def filter_empty_conv image_iff)
  ultimately show "snap_task_id ` set snaps = {t. sq_log store t \<noteq> []}" by auto
qed

end

sublocale sqlite_db \<subseteq> sq: recoverable_event_store "sqlite_append db" "sqlite_list db w" sq_log sq_ok "recover_task_snapshots db w" for w
  by (intro recoverable_event_store.intro recoverable_event_store_axioms.intro sqlite_event_store conjI ballI recover_task_snapshots_ok)

lemma sqlite_recoverable:
  assumes "sqlite_db db rows tx_rows tx_base"
  shows "recoverable_event_store (sqlite_append db) (sqlite_list db w) (\<lambda>store. table_log db (rows (sqs_connection store)))
     (\<lambda>store. table_ok db (rows (sqs_connection store))) (recover_task_snapshots db w)"
proof -
  note defs = sqlite_db.sq_log_def [OF assms, abs_def] sqlite_db.sq_ok_def [OF assms, abs_def]
  note rec = sqlite_db.recover_task_snapshots_ok [OF assms, unfolded defs]
  show ?thesis
    by (intro recoverable_event_store.intro recoverable_event_store_axioms.intro conjI ballI rec)
      (use sqlite_db.sqlite_event_store [OF assms, of w] in \<open>simp add: defs\<close>)
qed

section \<open>Opening keeps the events\<close>

text \<open>What SQLite promises of the calls of \<open>initialize\<close>: the pragmas leave the table alone, and
  \<open>CREATE TABLE\<close> succeeds only where there is no table yet.\<close>

locale sqlite_setup = sqlite_db db rows tx_rows tx_base
  for db :: "('w, 'c, 't) sqlite_api" and rows tx_rows tx_base +
  assumes busy_timeout_keeps: "sq_busy_timeout db w c = Inr c' \<Longrightarrow> rows c' = rows c"
    and foreign_keys_keeps: "sq_foreign_keys db w c = Inr c' \<Longrightarrow> rows c' = rows c"
    and journal_wal_keeps: "sq_journal_wal db w c = Inr c' \<Longrightarrow> rows c' = rows c"
    and create_schema_keeps: "sq_create_schema db w tx = Inr tx' \<Longrightarrow> tx_rows tx' = tx_rows tx"
    and set_user_version_keeps: "sq_set_user_version db w tx v = Inr tx' \<Longrightarrow> tx_rows tx' = tx_rows tx"
begin

lemma initialize_keeps: "initialize db w c max_events wal = Inr store \<Longrightarrow> rows (sqs_connection store) = rows c"
  by (auto simp: initialize_def split: sum.splits if_splits
      dest!: busy_timeout_keeps foreign_keys_keeps journal_wal_keeps create_schema_keeps set_user_version_keeps
        transaction_ok commit_ok)

lemma sqlite_open_keeps:
  assumes "sqlite_open db w path create opened max_events = (Inr store, path')"
  obtains c where "opened = Inr c" "rows (sqs_connection store) = rows c"
  using assms by (auto simp: sqlite_open_def split: if_splits prod.splits sum.splits dest: initialize_keeps)

end

lemma sqlite_open_private:
  assumes "sqlite_open db w path create opened max_events = (Inr store, path')"
  obtains md where "path' = Present md" "\<not> md_is_symlink md" "md_is_file md" "and (md_mode md) 0x3F = 0"
proof -
  obtain u where p: "prepare_database_file path create = (Inr u, path')"
    using assms by (auto simp: sqlite_open_def split: if_splits sum.splits prod.splits)
  show thesis
  proof (cases path)
    case Missing
    then have "path' = Present \<lparr>md_is_symlink = False, md_is_file = True, md_mode = 384\<rparr>"
      using p by (simp add: prepare_database_file_def split: if_splits)
    moreover have "and (384 :: u32) 0x3F = 0" by code_simp
    ultimately show thesis by (intro that [of "\<lparr>md_is_symlink = False, md_is_file = True, md_mode = 384\<rparr>"]) simp_all
  next
    case (Present md)
    then show thesis using p by (intro that [of md]) (simp_all add: prepare_database_file_def split: if_splits)
  qed (use p in \<open>simp add: prepare_database_file_def\<close>)
qed

section \<open>A table as a database\<close>

text \<open>The hypotheses on the libraries can hold: a connection that is the schema version and
  the table itself, event texts from a finite list, and task identifiers in binary.\<close>

record table_tx =
  tt_base :: "int \<times> sql_table"
  tt_version :: int
  tt_rows :: sql_table

definition all_states :: "task_state list" where
  "all_states = [Submitted, Validating, Rejected, Queued, Running, WaitingApproval, Succeeded, Failed, Cancelled]"

definition state_text :: "task_state \<Rightarrow> string" where
  "state_text st = (case st of Submitted \<Rightarrow> ''submitted'' | Validating \<Rightarrow> ''validating'' | Rejected \<Rightarrow> ''rejected''
     | Queued \<Rightarrow> ''queued'' | Running \<Rightarrow> ''running'' | WaitingApproval \<Rightarrow> ''waiting'' | Succeeded \<Rightarrow> ''succeeded''
     | Failed \<Rightarrow> ''failed'' | Cancelled \<Rightarrow> ''cancelled'')"

definition kind_texts :: "(event_kind \<times> string) list" where
  "kind_texts = [(EvSubmitted, ''task''), (OperationAllowed, ''allowed''), (TaskFailed RuntimeRestarted, ''restarted'')]
     @ concat (map (\<lambda>f. map (\<lambda>t. (StateTransitioned f t, state_text f @ ''-'' @ state_text t)) all_states) all_states)"

fun nat_text :: "nat \<Rightarrow> string" where
  "nat_text n = (if n = 0 then [] else (if odd n then CHR ''1'' else CHR ''0'') # nat_text (n div 2))"

fun text_nat :: "string \<Rightarrow> nat" where
  "text_nat [] = 0"
| "text_nat (c # cs) = (if c = CHR ''1'' then 1 else 0) + 2 * text_nat cs"

declare nat_text.simps [simp del]

definition bits_text :: "task_id \<Rightarrow> string" where
  "bits_text t = nat_text (unat (task_uuid t))"

definition text_bits :: "string \<Rightarrow> task_id option" where
  "text_bits s = Some (TaskId (of_nat (text_nat s)))"

definition table_db :: "(nat \<Rightarrow> nat, int \<times> sql_table, table_tx) sqlite_api" where
  "table_db = \<lparr>sq_clock = (\<lambda>w. w), sq_busy_timeout = (\<lambda>w c. Inr c), sq_foreign_keys = (\<lambda>w c. Inr c),
     sq_journal_wal = (\<lambda>w c. Inr c), sq_user_version = (\<lambda>w c. Inr (fst c)),
     sq_transaction = (\<lambda>w c. Inr \<lparr>tt_base = c, tt_version = fst c, tt_rows = snd c\<rparr>),
     sq_create_schema = (\<lambda>w tx. if tt_rows tx = [] then Inr tx else Inl ()),
     sq_set_user_version = (\<lambda>w tx v. Inr (tx\<lparr>tt_version := v\<rparr>)),
     sq_count_max = (\<lambda>w tx text. Inr (int (length (table_for text (tt_rows tx))),
        Max (insert 0 (set (map (\<lambda>e. snd (fst e)) (table_for text (tt_rows tx))))))),
     sq_insert = (\<lambda>w tx text i oc j. if bt_get (tt_rows tx) (text, i) = None \<and> 0 < i \<and> 0 \<le> oc
        then Inr (tx\<lparr>tt_rows := bt_insert (text, i) (oc, j) (tt_rows tx)\<rparr>) else Inl ()),
     sq_commit = (\<lambda>w tx. Inr (tt_version tx, tt_rows tx)), sq_rollback = tt_base,
     sq_select = (\<lambda>w c text after. Inr (map (\<lambda>e. Inr (snd (fst e), fst (snd e), snd (snd e)))
        (filter (\<lambda>e. after < snd (fst e)) (table_for text (snd c))))),
     sq_task_ids = (\<lambda>w c. Inr (map Inr (remdups (map (\<lambda>e. fst (fst e)) (snd c))))),
     sq_to_json = (\<lambda>k. ok_or () (map_of kind_texts k)),
     sq_from_json = (\<lambda>s. ok_or () (map_of (map (\<lambda>(k, t). (t, k)) kind_texts) s)),
     sq_task_text = bits_text, sq_parse_task = text_bits\<rparr>"

lemma kind_texts_distinct: "distinct (map snd kind_texts)"
  by code_simp

lemma kind_texts_inverse:
  assumes "map_of kind_texts k = Some t" shows "map_of (map (\<lambda>(k, t). (t, k)) kind_texts) t = Some k"
proof -
  have "(t, k) \<in> set (map (\<lambda>(k, t). (t, k)) kind_texts)" using map_of_SomeD [OF assms] by force
  moreover have "distinct (map fst (map (\<lambda>(k, t). (t, k)) kind_texts))"
    using kind_texts_distinct by (simp add: comp_def case_prod_unfold)
  ultimately show ?thesis by (rule map_of_is_SomeI [rotated])
qed

lemma text_nat_nat_text: "text_nat (nat_text n) = n"
proof (induction n rule: nat_text.induct)
  case (1 n)
  then show ?case by (subst nat_text.simps) (auto elim: oddE)
qed

lemma text_bits_bits_text: "text_bits (bits_text t) = Some t"
  by (cases t) (simp add: text_bits_def bits_text_def text_nat_nat_text)

lemma map_Inr_inj: "map Inr xs = (map Inr ys :: (unit + 'a) list) \<Longrightarrow> ys = xs"
  by (simp add: inj_map_eq_map)

interpretation tdb: sqlite_db table_db snd tt_rows "snd \<circ> tt_base"
proof
  fix k j assume "sq_to_json table_db k = Inr j"
  then show "sq_from_json table_db j = Inr k"
    using kind_texts_inverse [of k j] by (simp add: table_db_def ok_or_def split: option.splits)
next
  fix t show "sq_parse_task table_db (sq_task_text table_db t) = Some t"
    by (simp add: table_db_def text_bits_bits_text)
next
  fix w and c :: "int \<times> sql_table" and tx after rs xs
  let ?f = "\<lambda>e. (snd (fst e), fst (snd e), snd (snd e))" and ?R = "filter (\<lambda>e. after < snd (fst e)) (table_for tx (snd c))"
  assume "sq_select table_db w c tx after = Inr rs" "rs = map Inr xs"
  then have "map (\<lambda>e. Inr (?f e)) ?R = (map Inr xs :: (unit + int \<times> int \<times> string) list)" by (simp add: table_db_def)
  then have "map Inr (map ?f ?R) = (map Inr xs :: (unit + int \<times> int \<times> string) list)" by (simp only: map_map comp_def)
  then show "xs = map (\<lambda>e. (snd (fst e), fst (snd e), snd (snd e))) (filter (\<lambda>e. after < snd (fst e)) (table_for tx (snd c)))"
    by (rule map_Inr_inj)
next
  fix w c ids texts
  assume "sq_task_ids table_db w c = Inr ids" "ids = map Inr texts"
  then have "map Inr (remdups (map (\<lambda>e. fst (fst e)) (snd c))) = (map Inr texts :: (unit + string) list)" by (simp add: table_db_def)
  then show "texts = remdups (map (\<lambda>e. fst (fst e)) (snd c))" by (rule map_Inr_inj)
qed (auto simp: table_db_def split: if_splits)

interpretation tsu: sqlite_setup table_db snd tt_rows "snd \<circ> tt_base"
  by unfold_locales (auto simp: table_db_def split: if_splits)

lemma empty_table_ok: "tdb.sq_ok \<lparr>sqs_connection = (v, []), sqs_max_events_per_task = n\<rparr>"
  by (simp add: tdb.sq_ok_def table_ok_def table_for_def)

section \<open>Properties\<close>

text \<open>C29: the SQLite store is an atomic append-only log, whatever the library calls do. From
  a table whose rows decode and are numbered without a gap, \<open>append_batch\<close> keeps that
  form; if it reports success, the task's log grew by exactly the batch, in order and
  numbered on, within the per-task capacity, and no other log changed; if it reports any
  error (a failing insert or commit in the middle included) the table is as before.\<close>

theorem sqlite_append_atomic:
  assumes "sqlite_db db rows tx_rows tx_base" and "table_ok db (rows (sqs_connection store))"
    and "sqlite_append db w store t kinds = (r, store')"
  shows "table_ok db (rows (sqs_connection store'))
     \<and> (case r of
          Inl e \<Rightarrow> rows (sqs_connection store') = rows (sqs_connection store)
        | Inr events \<Rightarrow> map ev_kind events = kinds
            \<and> (kinds \<noteq> [] \<longrightarrow> length (table_log db (rows (sqs_connection store)) t) + length kinds \<le> sqs_max_events_per_task store)
            \<and> table_log db (rows (sqs_connection store')) = (table_log db (rows (sqs_connection store)))
                 (t := table_log db (rows (sqs_connection store)) t @ events)
            \<and> log_wf t (table_log db (rows (sqs_connection store')) t))"
proof -
  note defs = sqlite_db.sq_log_def [OF assms(1)] sqlite_db.sq_ok_def [OF assms(1)]
  have ok: "sqlite_db.sq_ok db rows store" using assms(2) by (simp add: defs)
  show ?thesis
  proof (cases r)
    case (Inl e)
    then show ?thesis using sqlite_db.sqlite_append_Inl [OF assms(1) ok] assms by simp
  next
    case (Inr events)
    have "table_ok db (rows (sqs_connection store'))"
      using sqlite_db.sqlite_append_Inr [OF assms(1) ok] assms(3) Inr by (simp add: defs)
    moreover from this have "log_wf t (table_log db (rows (sqs_connection store')) t)"
      by (rule sqlite_db.table_log_wf [OF assms(1)])
    ultimately show ?thesis
      using sqlite_db.sqlite_append_Inr [OF assms(1) ok] assms(3) Inr by (auto simp: defs)
  qed
qed

definition demo_db :: "(int \<times> sql_table) sqlite_store" where
  "demo_db = \<lparr>sqs_connection = (1, []), sqs_max_events_per_task = 100\<rparr>"

definition demo_batch :: "event_kind list" where
  "demo_batch = [EvSubmitted, StateTransitioned Submitted Validating, StateTransitioned Validating Queued]"

definition demo_stored :: "(event_store_error + task_event list) \<times> (int \<times> sql_table) sqlite_store" where
  "demo_stored = sqlite_append table_db (\<lambda>i. 1700 + i) demo_db (TaskId 7) demo_batch"

lemma demo_db_ok: "table_ok table_db (snd (sqs_connection demo_db))"
  by (simp add: demo_db_def table_ok_def table_for_def)

lemma demo_stored_eq:
  "fst demo_stored = Inr (map (\<lambda>(i, k). \<lparr>ev_task_id = TaskId 7, ev_sequence = i,
     ev_occurred_at_unix_ms = 1699 + i, ev_kind = k\<rparr>) (zip [1, 2, 3] demo_batch))"
  by code_simp

theorem sqlite_append_atomic_witness:
  "table_ok table_db (snd (sqs_connection (snd demo_stored)))
   \<and> map ev_kind (table_log table_db (snd (sqs_connection (snd demo_stored))) (TaskId 7)) = demo_batch"
proof -
  have eq: "sqlite_append table_db (\<lambda>i. 1700 + i) demo_db (TaskId 7) demo_batch = (fst demo_stored, snd demo_stored)"
    by (simp add: demo_stored_def)
  have "table_log table_db (snd (sqs_connection demo_db)) (TaskId 7) = []"
    by (simp add: demo_db_def table_log_def table_for_def)
  then show ?thesis
    using sqlite_append_atomic [OF tdb.sqlite_db_axioms demo_db_ok eq]
    by (simp add: demo_stored_eq)
qed

text \<open>C30: what was appended is read back. After a successful \<open>append_batch\<close>, \<open>list\<close> from the
  previous end of the log returns exactly the appended events, with their sequence
  numbers, timestamps and kinds through the JSON text and the signed 64-bit columns,
  whenever the query itself succeeds.\<close>

theorem sqlite_roundtrip:
  assumes "sqlite_db db rows tx_rows tx_base" and "table_ok db (rows (sqs_connection store))"
    and "sqlite_append db w store t kinds = (Inr events, store')"
    and "sq_select db w' (sqs_connection store') (sq_task_text db t)
           (int (length (table_log db (rows (sqs_connection store)) t))) = Inr (map Inr rs)"
  shows "sqlite_list db w' store' t (length (table_log db (rows (sqs_connection store)) t)) = Inr events"
proof -
  let ?old = "table_log db (rows (sqs_connection store)) t" and ?T = "rows (sqs_connection store')"
  note defs = sqlite_db.sq_log_def [OF assms(1)] sqlite_db.sq_ok_def [OF assms(1)]
  have ok: "sqlite_db.sq_ok db rows store" using assms(2) by (simp add: defs)
  note app = sqlite_db.sqlite_append_Inr [OF assms(1) ok assms(3), unfolded defs]
  have new: "table_log db ?T t = ?old @ events" and tok: "table_ok db ?T" using app by simp_all
  have wf: "log_wf t (?old @ events)" using sqlite_db.table_log_wf [OF assms(1) tok, of t] new by simp
  have wf0: "log_wf t ?old" by (rule sqlite_db.table_log_wf [OF assms(1,2)])
  let ?F = "filter (\<lambda>e. int (length ?old) < snd (fst e)) (table_for (sq_task_text db t) ?T)"
  have "length ?old < 2 ^ 63" using assms(2) by (simp add: table_ok_def table_log_def)
  then have "i64_try_from (length ?old) = Some (int (length ?old))" by (simp add: i64_try_from_def)
  moreover have "rs = map (\<lambda>e. (snd (fst e), fst (snd e), snd (snd e))) ?F"
    by (rule sqlite_db.select_ok [OF assms(1,4) refl])
  moreover have "collect_results (decode_row db t) (map (\<lambda>e. Inr (snd (fst e), fst (snd e), snd (snd e))) ?F)
      = Inr (map (table_event db t) ?F)"
    by (rule collect_results_map) (use sqlite_db.decode_row_table [OF assms(1) tok] in simp)
  ultimately have l: "sqlite_list db w' store' t (length ?old) = Inr (map (table_event db t) ?F)"
    using assms(4) by (simp add: sqlite_list_def comp_def)
  have "sqlite_db.sq_ok db rows store'" using tok by (simp add: defs)
  from sqlite_db.sqlite_list_ok [OF assms(1) this l]
  have "map (table_event db t) ?F = filter (\<lambda>e. length ?old < ev_sequence e) (?old @ events)"
    by (simp only: defs new)
  also have "\<dots> = events" using wf wf0 by (rule log_wf_filter)
  finally show ?thesis using l by simp
qed

theorem sqlite_roundtrip_witness:
  "sqlite_list table_db (\<lambda>i. i) (snd demo_stored) (TaskId 7) 0
     = Inr (map (\<lambda>(i, k). \<lparr>ev_task_id = TaskId 7, ev_sequence = i,
         ev_occurred_at_unix_ms = 1699 + i, ev_kind = k\<rparr>) (zip [1, 2, 3] demo_batch))"
proof -
  let ?es = "map (\<lambda>(i, k). \<lparr>ev_task_id = TaskId 7, ev_sequence = i,
         ev_occurred_at_unix_ms = 1699 + i, ev_kind = k\<rparr>) (zip [1, 2, 3] demo_batch)"
  have eq: "sqlite_append table_db (\<lambda>i. 1700 + i) demo_db (TaskId 7) demo_batch = (Inr ?es, snd demo_stored)"
    using demo_stored_eq by (simp add: demo_stored_def prod_eq_iff)
  have old: "table_log table_db (snd (sqs_connection demo_db)) (TaskId 7) = []"
    by (simp add: demo_db_def table_log_def table_for_def)
  let ?rs = "map (\<lambda>e. (snd (fst e), fst (snd e), snd (snd e)))
      (filter (\<lambda>e. 0 < snd (fst e)) (table_for (bits_text (TaskId 7)) (snd (sqs_connection (snd demo_stored)))))"
  have "sq_select table_db (\<lambda>i. i) (sqs_connection (snd demo_stored)) (sq_task_text table_db (TaskId 7)) (int 0)
      = Inr (map Inr ?rs)"
    by (simp add: table_db_def comp_def)
  with sqlite_roundtrip [OF tdb.sqlite_db_axioms demo_db_ok eq, of "\<lambda>i. i" ?rs] old
  show ?thesis by simp
qed

text \<open>The database is never opened through a file others can reach. If \<open>open\<close> succeeds, the
  path names a regular file, not a symbolic link, with no permission bit for group or
  others, and the capacity is positive; an existing file that is a link, not regular or
  readable by others is refused with \<open>InsecurePermissions\<close> and left as it is.\<close>

theorem sqlite_open_secure:
  assumes "sqlite_open db w path create opened max_events = (r, path')"
  shows "(\<forall>store. r = Inr store \<longrightarrow> 0 < max_events \<and> sqs_max_events_per_task store = max_events
            \<and> (\<exists>md. path' = Present md \<and> \<not> md_is_symlink md \<and> md_is_file md \<and> and (md_mode md) 0x3F = 0))
       \<and> (\<forall>md. path = Present md \<longrightarrow> path' = path
            \<and> (0 < max_events \<longrightarrow> md_is_symlink md \<or> \<not> md_is_file md \<or> and (md_mode md) 0x3F \<noteq> 0
                 \<longrightarrow> r = Inl InsecurePermissions))"
proof -
  have init: "sqs_max_events_per_task store = max_events" if "initialize db w c max_events wal = Inr store" for c wal store
    using that by (auto simp: initialize_def split: sum.splits if_splits)
  have mode: "and (384 :: u32) 63 = 0" by code_simp
  show ?thesis
    using assms init mode
    by (cases path) (auto simp: sqlite_open_def prepare_database_file_def split: if_splits sum.splits)
qed

theorem sqlite_open_secure_witness:
  "fst (sqlite_open table_db (\<lambda>i. i) (Present \<lparr>md_is_symlink = False, md_is_file = True, md_mode = 420\<rparr>) True (Inr (0, [])) 10)
     = Inl InsecurePermissions
   \<and> (\<exists>md. snd (sqlite_open table_db (\<lambda>i. i) Missing True (Inr (0, [])) 10) = Present md \<and> and (md_mode md) 0x3F = 0)"
proof -
  let ?md = "\<lparr>md_is_symlink = False, md_is_file = True, md_mode = 420\<rparr>"
  have m: "and (420 :: u32) 0x3F \<noteq> 0" by code_simp
  obtain r path' where a: "sqlite_open table_db (\<lambda>i. i) (Present ?md) True (Inr (0, [])) 10 = (r, path')" by fastforce
  obtain r2 path2 where b: "sqlite_open table_db (\<lambda>i. i) Missing True (Inr (0, [])) 10 = (r2, path2)" by fastforce
  have "\<exists>store. r2 = Inr store"
    using b by (auto simp: sqlite_open_def prepare_database_file_def initialize_def table_db_def SCHEMA_VERSION_def)
  with sqlite_open_secure [OF a] sqlite_open_secure [OF b] m a b show ?thesis by auto
qed

end
