(* ===== verification/Crash_Recovery.thy ===== *)
theory Crash_Recovery
  imports Supervisor_Props Sqlite_Store
begin

text \<open>
  \<open>TaskSupervisor::recover\<close> (\<open>supervisor.rs\<close>) over a \<open>RecoverableEventStore\<close>: what a restart
  after a crash at an arbitrary moment restores. The lemmas are proved once in the locale
  \<open>recoverable_event_store\<close>, which the SQLite store implements.
\<close>

section \<open>Snapshots into the recovered map\<close>

abbreviation snap_pairs :: "task_snapshot list \<Rightarrow> (task_id \<times> task_state) list" where
  "snap_pairs snaps \<equiv> map (\<lambda>s. (snap_task_id s, snap_state s)) snaps"

lemma insert_snapshots_ok:
  assumes "distinct (map snap_task_id snaps)" and "\<forall>s \<in> set snaps. bt_get R (snap_task_id s) = None" and "bt_wf R"
  shows "\<exists>R'. insert_snapshots R snaps = Inr R' \<and> bt_wf R' \<and> length R' = length R + length snaps
     \<and> bt_get R' = bt_get R ++ map_of (snap_pairs snaps)"
  using assms
proof (induction R snaps rule: insert_snapshots.induct)
  case (2 R snap snaps)
  let ?R = "bt_insert (snap_task_id snap) (snap_state snap) R"
  have ih: "\<exists>R'. insert_snapshots ?R snaps = Inr R' \<and> bt_wf R' \<and> length R' = length ?R + length snaps
     \<and> bt_get R' = bt_get ?R ++ map_of (snap_pairs snaps)"
  proof (rule 2(1))
    show "\<not> bt_contains R (snap_task_id snap)" using 2 by (auto simp: dom_def)
    show "\<forall>s \<in> set snaps. bt_get ?R (snap_task_id s) = None"
      using 2(2,3) by (simp add: bt_get_insert) (metis image_eqI)
  qed (use 2 in simp_all)
  have add: "(bt_get ?R ++ map_of (snap_pairs snaps)) = bt_get R ++ map_of (snap_pairs (snap # snaps))"
  proof -
    have "snap_task_id snap \<notin> dom (map_of (snap_pairs snaps))"
      using 2(2) by (simp add: dom_map_of_conv_image_fst image_image)
    then show ?thesis by (simp add: map_add_upd_left)
  qed
  from ih obtain R' where R': "insert_snapshots ?R snaps = Inr R'" "bt_wf R'" "length R' = length ?R + length snaps"
    "bt_get R' = bt_get R ++ map_of (snap_pairs (snap # snaps))" unfolding add by blast
  have "insert_snapshots R (snap # snaps) = Inr R'" "length R' = length R + length (snap # snaps)"
    using 2(3,4) R'(1,3) by (simp_all add: bt_length_insert dom_def)
  with R'(2,4) show ?case by blast
qed simp

lemma replays_failure:
  "replays_to ks st \<Longrightarrow> \<not> is_terminal st
   \<Longrightarrow> replays_to (ks @ [TaskFailed RuntimeRestarted, StateTransitioned st Failed]) Failed"
  by (erule replays_to_append) (simp add: recover_kind_def)

text \<open>The record of a restart: nothing for a finished task, the failure for any other.\<close>

definition restart_kinds :: "task_state option \<Rightarrow> event_kind list" where
  "restart_kinds st = (case st of
      Some st \<Rightarrow> if is_terminal st then [] else [TaskFailed RuntimeRestarted, StateTransitioned st Failed]
    | None \<Rightarrow> [])"

definition restart_state :: "task_state \<Rightarrow> task_state" where
  "restart_state st = (if is_terminal st then st else Failed)"

context event_store
begin

lemma fail_interrupted_facts:
  assumes "fail_interrupted append ws xs s = (Inr u, s')" and "store_ok (sup_event_store s)"
    and "distinct (map fst xs)" and "bt_wf (sup_recovered s)"
    and "\<forall>(t, st) \<in> set xs. bt_get (sup_recovered s) t = Some st"
  shows "\<exists>es R. s' = s\<lparr>sup_event_store := es, sup_recovered := R\<rparr> \<and> store_ok es \<and> bt_wf R
     \<and> length R = length (sup_recovered s)
     \<and> bt_get R = (\<lambda>t. if t \<in> fst ` set xs then Some Failed else bt_get (sup_recovered s) t)
     \<and> log_kinds log es = (\<lambda>t. log_kinds log (sup_event_store s) t @ (case map_of xs t of None \<Rightarrow> []
          | Some st \<Rightarrow> [TaskFailed RuntimeRestarted, StateTransitioned st Failed]))"
  using assms
proof (induction xs arbitrary: ws s)
  case Nil
  then show ?case by (intro exI [of _ "sup_event_store s"] exI [of _ "sup_recovered s"]) auto
next
  case (Cons x xs)
  obtain t st where x: "x = (t, st)" by (cases x)
  let ?ks = "[TaskFailed RuntimeRestarted, StateTransitioned st Failed]"
  from Cons.prems(1) x obtain evs es1 where app: "append (ws 0) (sup_event_store s) t ?ks = (Inr evs, es1)"
    and rest: "fail_interrupted append (\<lambda>i. ws (Suc i)) xs
         (s\<lparr>sup_event_store := es1, sup_recovered := bt_insert t Failed (sup_recovered s)\<rparr>) = (Inr u, s')"
    by (auto simp: store_append_def split: prod.splits sum.splits)
  let ?s = "s\<lparr>sup_event_store := es1, sup_recovered := bt_insert t Failed (sup_recovered s)\<rparr>"
  note a = append_ok [OF Cons.prems(2) app]
  have new: "t \<notin> fst ` set xs" "distinct (map fst xs)" using Cons.prems(3) x by auto
  have mem: "\<forall>(u, st) \<in> set xs. bt_get (sup_recovered ?s) u = Some st"
    using Cons.prems(5) new(1) by force
  obtain es R where s': "s' = ?s\<lparr>sup_event_store := es, sup_recovered := R\<rparr>" "store_ok es" "bt_wf R"
    and len: "length R = length (sup_recovered ?s)"
    and get: "bt_get R = (\<lambda>u. if u \<in> fst ` set xs then Some Failed else bt_get (sup_recovered ?s) u)"
    and lg: "log_kinds log es = (\<lambda>u. log_kinds log (sup_event_store ?s) u @ (case map_of xs u of None \<Rightarrow> []
          | Some st \<Rightarrow> [TaskFailed RuntimeRestarted, StateTransitioned st Failed]))"
    using Cons.IH [OF rest _ new(2) _ mem] a Cons.prems(4) by auto
  have "length R = length (sup_recovered s)"
    using len Cons.prems(4,5) x by (auto simp: bt_length_insert)
  moreover have "bt_get R = (\<lambda>u. if u \<in> fst ` set (x # xs) then Some Failed else bt_get (sup_recovered s) u)"
    using get x by (auto simp: fun_eq_iff)
  moreover have "log_kinds log es = (\<lambda>u. log_kinds log (sup_event_store s) u @ (case map_of (x # xs) u of None \<Rightarrow> []
          | Some st \<Rightarrow> [TaskFailed RuntimeRestarted, StateTransitioned st Failed]))"
    using lg a new(1) x by (auto simp: fun_eq_iff log_kinds_def map_of_eq_None_iff split: option.splits)
  ultimately show ?case using s' by (intro exI [of _ es] exI [of _ R]) simp
qed

end

context recoverable_event_store
begin

lemma supervisor_recover_facts:
  assumes ok: "store_ok es" and n: "n < 2 ^ 64" and eq: "supervisor_recover append snapshots ws es n = Inr s"
    and st: "\<And>t. case state t of None \<Rightarrow> log es t = [] | Some st \<Rightarrow> replays_to (log_kinds log es t) st"
  shows "sup_good log store_ok s" and "covered s"
    and "sup_task_state s t = map_option restart_state (state t)"
    and "log_kinds log (sup_event_store s) t = log_kinds log es t @ restart_kinds (state t)"
    and "sup_tasks s = [] \<and> sup_pending s = [] \<and> sup_approved s = [] \<and> sup_authority s = authority_default"
proof -
  from eq obtain snaps R where sn: "snapshots es = Inr snaps" and cap: "length snaps \<le> n" and n0: "n \<noteq> 0"
    and ins: "insert_snapshots [] snaps = Inr R"
    by (auto simp: supervisor_recover_def split: if_splits sum.splits prod.splits)
  let ?s0 = "\<lparr>sup_tasks = [], sup_recovered = R, sup_idempotency_index = [], sup_event_store = es,
    sup_authority = authority_default, sup_pending = [], sup_approved = [], sup_max_tasks = n\<rparr>"
  have fi: "fail_interrupted append ws (interrupted_tasks R) ?s0 = (Inr (), s)"
    using eq sn cap n0 ins
    by (auto simp: supervisor_recover_def with_max_tasks_def split: if_splits sum.splits prod.splits)
  note rp = snapshots_replay [OF ok sn]
  from insert_snapshots_ok [OF rp(1), of "[]"] ins
  have R: "bt_wf R" "length R = length snaps" "bt_get R = map_of (snap_pairs snaps)" by auto
  have state: "bt_get R u = state u" for u
  proof (cases "bt_get R u")
    case None
    then have "log es u = []" using rp(2) [of u] R(3) by (auto simp: map_of_eq_None_iff image_image)
    then have "log_kinds log es u = []" by (simp add: log_kinds_def)
    then show ?thesis using None st [of u] by (auto simp: replays_to_def split: option.splits)
  next
    case (Some x)
    then obtain snap where "snap \<in> set snaps" "snap_task_id snap = u" "snap_state snap = x"
      using R(3) map_of_SomeD [of "snap_pairs snaps" u x] by auto
    then have r: "replays_to (log_kinds log es u) x" using rp(3) by (auto simp: log_kinds_def)
    then have "log es u \<noteq> []" by (auto simp: replays_to_def log_kinds_def)
    then show ?thesis using st [of u] r Some by (auto split: option.splits dest: replays_to_unique)
  qed
  let ?xs = "interrupted_tasks R"
  have wfx: "bt_wf ?xs" using R(1) by (simp add: interrupted_tasks_def bt_wf_filter)
  have xs: "(u, x) \<in> set ?xs \<longleftrightarrow> state u = Some x \<and> \<not> is_terminal x" for u x
    using bt_mem_get [OF R(1)] state by (auto simp: interrupted_tasks_def)
  have xg: "map_of ?xs u = Some x \<longleftrightarrow> state u = Some x \<and> \<not> is_terminal x" for u x
    unfolding bt_mem_get [OF wfx, symmetric] by (rule xs)
  have xm: "map_of ?xs u = (case state u of Some x \<Rightarrow> if is_terminal x then None else Some x | None \<Rightarrow> None)" for u
  proof (cases "map_of ?xs u")
    case None
    then have "\<not> (state u = Some x \<and> \<not> is_terminal x)" for x using xg [of u x] by simp
    with None show ?thesis by (auto split: option.splits)
  next
    case (Some x)
    with xg [of u x] show ?thesis by simp
  qed
  have xk: "u \<in> fst ` set ?xs \<longleftrightarrow> (\<exists>x. state u = Some x \<and> \<not> is_terminal x)" for u
    using xs by force
  have mem: "\<forall>(u, x) \<in> set ?xs. bt_get (sup_recovered ?s0) u = Some x"
    using state by (auto simp: interrupted_tasks_def bt_mem_get [OF R(1)])
  obtain es' R' where s: "s = ?s0\<lparr>sup_event_store := es', sup_recovered := R'\<rparr>" "store_ok es'" "bt_wf R'"
    and len: "length R' = length R"
    and get: "bt_get R' = (\<lambda>t. if t \<in> fst ` set ?xs then Some Failed else bt_get R t)"
    and lg: "log_kinds log es' = (\<lambda>t. log_kinds log es t @ (case map_of ?xs t of None \<Rightarrow> []
          | Some st \<Rightarrow> [TaskFailed RuntimeRestarted, StateTransitioned st Failed]))"
    using fail_interrupted_facts [OF fi _ bt_wf_distinct [OF wfx] _ mem] R(1) ok by (auto cong: if_cong)
  have ss: "sup_task_state s u = map_option restart_state (state u)" for u
    using s(1) get state [of u] xk [of u]
    by (cases "state u") (auto simp: sup_task_state_def restart_state_def split: option.splits)
  have ll: "log_kinds log (sup_event_store s) u = log_kinds log es u @ restart_kinds (state u)" for u
    using s(1) lg xm [of u] by (auto simp: restart_kinds_def split: option.splits)
  show "sup_task_state s t = map_option restart_state (state t)" by (rule ss)
  show "log_kinds log (sup_event_store s) t = log_kinds log es t @ restart_kinds (state t)" by (rule ll)
  show parts: "sup_tasks s = [] \<and> sup_pending s = [] \<and> sup_approved s = [] \<and> sup_authority s = authority_default"
    using s(1) by simp
  then show "covered s" by (simp add: covered_def live_state_def)
  have "logs_ok (log_kinds log (sup_event_store s)) s"
    unfolding logs_ok_def
  proof (intro allI)
    fix u
    show "(sup_task_state s u = None \<longrightarrow> log_kinds log (sup_event_store s) u = [])
        \<and> (\<forall>x. sup_task_state s u = Some x \<longrightarrow> replays_to (log_kinds log (sup_event_store s) u) x)"
    proof (cases "state u")
      case None
      with st [of u] have "log_kinds log es u = []" by (simp add: log_kinds_def)
      with None show ?thesis by (simp add: ss ll restart_kinds_def)
    next
      case (Some x)
      with st [of u] replays_failure [of "log_kinds log es u"] show ?thesis
        by (simp add: ss ll restart_kinds_def restart_state_def)
    qed
  qed
  moreover have "maps_ok s" using s cap n R(2) len by (simp add: maps_ok_def)
  moreover have "tasks_ok s"
  proof -
    have "is_terminal x" if "bt_get R' u = Some x" for u x
      using that get state [of u] xk [of u] by (auto split: if_splits)
    then show ?thesis using s(1) by (simp add: tasks_ok_def)
  qed
  moreover have "index_ok s" "pending_ok s" "approved_ok s" using s(1) authority_ok_default
    by (auto simp: index_ok_def pending_ok_def approved_ok_def pending_view_def authority_view_def
        authority_default_def fun_eq_iff)
  ultimately show "sup_good log store_ok s" using s by (simp add: sup_good_def sup_inv_def)
qed

end

section \<open>Crash safety\<close>


definition demo_sql_sup :: "(int \<times> sql_table) sqlite_store supervisor" where
  "demo_sql_sup = snd (submit (sqlite_append table_db) (\<lambda>i. 1700 + i) (TaskId 1) (projr (with_max_tasks demo_db 10)) sample_task)"

lemma demo_sql_reachable: "sup_reachable (sqlite_append table_db) (projr (with_max_tasks demo_db 10)) demo_sql_sup"
proof (rule sup_reachable.step [OF sup_reachable.init sup_step.submit])
  show "sup_task_state (projr (with_max_tasks demo_db 10)) (TaskId 1) = None"
    by (simp add: with_max_tasks_def sup_task_state_def)
  show "submit (sqlite_append table_db) (\<lambda>i. 1700 + i) (TaskId 1) (projr (with_max_tasks demo_db 10)) sample_task
      = (fst (submit (sqlite_append table_db) (\<lambda>i. 1700 + i) (TaskId 1) (projr (with_max_tasks demo_db 10)) sample_task), demo_sql_sup)"
    by (simp add: demo_sql_sup_def)
qed


end
