(* ===== verification/Local_Api.thy ===== *)
theory Local_Api
  imports Crash_Recovery Std_Str
begin

text \<open>
  \<open>aios-local-api/src/lib.rs\<close> and the programs \<open>aiosd\<close> and \<open>aiosctl\<close>: framing, request handling,
  the Unix socket server, the command line. A byte stream to read is the bytes that still
  arrive and whether it then fails or ends; a stream to write keeps what was written and
  may run out of room. \<open>serde_json\<close>, the text form of a task identifier and the file system
  calls are arguments. \<open>ab\<close>, \<open>listing\<close> are the event store of the supervisor, \<open>w\<close>, \<open>now\<close>,
  \<open>new_id\<close> what one request reads from outside.
\<close>

section \<open>Protocol data\<close>

definition DEFAULT_MAX_FRAME_BYTES :: nat where "DEFAULT_MAX_FRAME_BYTES = 64 * 1024"
definition DEFAULT_EVENT_PAGE_SIZE :: u16 where "DEFAULT_EVENT_PAGE_SIZE = 100"
definition MAX_EVENT_PAGE_SIZE :: u16 where "MAX_EVENT_PAGE_SIZE = 256"
definition MIN_SUPPORTED_PROTOCOL_VERSION :: u16 where "MIN_SUPPORTED_PROTOCOL_VERSION = 4"
definition MAX_SUPPORTED_PROTOCOL_VERSION :: u16 where "MAX_SUPPORTED_PROTOCOL_VERSION = 4"
definition PROTOCOL_VERSION :: u16 where "PROTOCOL_VERSION = MAX_SUPPORTED_PROTOCOL_VERSION"
definition MIN_MAX_FRAME_BYTES :: nat where "MIN_MAX_FRAME_BYTES = 1024"
definition MAX_MAX_FRAME_BYTES :: nat where "MAX_MAX_FRAME_BYTES = 1024 * 1024"

definition is_supported_protocol_version :: "u16 \<Rightarrow> bool" where
  "is_supported_protocol_version version \<longleftrightarrow>
     MIN_SUPPORTED_PROTOCOL_VERSION \<le> version \<and> version \<le> MAX_SUPPORTED_PROTOCOL_VERSION"

datatype local_api_error =
  ApiInvalidConfig | UnsafeSocketDirectory | SocketAlreadyExists | FrameTooLarge | Protocol | Io

definition local_api_error_message :: "local_api_error \<Rightarrow> string" where
  "local_api_error_message e = (case e of
      ApiInvalidConfig \<Rightarrow> ''invalid local API configuration''
    | UnsafeSocketDirectory \<Rightarrow> ''socket directory permissions are unsafe''
    | SocketAlreadyExists \<Rightarrow> ''socket path already exists''
    | FrameTooLarge \<Rightarrow> ''frame exceeds configured limit''
    | Protocol \<Rightarrow> ''invalid local API protocol data''
    | Io \<Rightarrow> ''local API I/O failure'')"

record server_config =
  sc_max_frame_bytes :: nat
  sc_connection_timeout :: duration

definition server_config_default :: server_config where
  "server_config_default = \<lparr>sc_max_frame_bytes = DEFAULT_MAX_FRAME_BYTES, sc_connection_timeout = from_secs 5\<rparr>"

definition server_config_validate :: "server_config \<Rightarrow> local_api_error + server_config" where
  "server_config_validate config =
     (if \<not> (MIN_MAX_FRAME_BYTES \<le> sc_max_frame_bytes config \<and> sc_max_frame_bytes config \<le> MAX_MAX_FRAME_BYTES)
         \<or> sc_connection_timeout config = 0
      then Inl ApiInvalidConfig else Inr config)"

datatype api_method =
  Health | Submit task_spec | GetTask task_id | Events task_id nat u16
  | Start task_id | Succeed task_id | Fail task_id | Cancel task_id

record api_request =
  rq_protocol_version :: u16
  rq_request :: api_method

definition api_request_new :: "api_method \<Rightarrow> api_request" where
  "api_request_new request = \<lparr>rq_protocol_version = PROTOCOL_VERSION, rq_request = request\<rparr>"

record protocol_version_range =
  pv_minimum :: u16
  pv_maximum :: u16

definition protocol_version_supported :: protocol_version_range where
  "protocol_version_supported =
     \<lparr>pv_minimum = MIN_SUPPORTED_PROTOCOL_VERSION, pv_maximum = MAX_SUPPORTED_PROTOCOL_VERSION\<rparr>"

datatype submission_disposition = DispAccepted | DispExisting | DispRejected

record task_view =
  tv_task_id :: task_id
  tv_state :: task_state

definition task_view_from :: "task_snapshot \<Rightarrow> task_view" where
  "task_view_from task = \<lparr>tv_task_id = snap_task_id task, tv_state = snap_state task\<rparr>"

record validation_issue =
  vi_field :: string
  vi_message :: string

datatype api_result =
  Healthy protocol_version_range
  | SubmittedResult submission_disposition task_view "validation_issue list"
  | TaskResult task_view
  | EventsResult "task_event list" bool
  | CancelledResult task_view bool

datatype api_error_code =
  ApiInvalidRequest | UnsupportedProtocolVersion | ApiFrameTooLarge | ApiTaskNotFound | ApiIdempotencyConflict
  | ApiCapacityExceeded | ApiInvalidStateTransition | ApiApprovalFailed | StorageUnavailable | ApiResponseTooLarge

record api_error =
  ae_code :: api_error_code
  ae_message :: string

datatype api_outcome = ApiOk api_result | ApiErr api_error

record api_response =
  rs_protocol_version :: u16
  rs_outcome :: api_outcome

definition ok_response :: "api_result \<Rightarrow> api_response" where
  "ok_response result = \<lparr>rs_protocol_version = PROTOCOL_VERSION, rs_outcome = ApiOk result\<rparr>"

definition error_response :: "api_error_code \<Rightarrow> string \<Rightarrow> api_response" where
  "error_response code message =
     \<lparr>rs_protocol_version = PROTOCOL_VERSION, rs_outcome = ApiErr \<lparr>ae_code = code, ae_message = message\<rparr>\<rparr>"

definition invalid_request_response :: api_response where
  "invalid_request_response = error_response ApiInvalidRequest ''request is invalid''"

definition validation_issues :: "validation_errors \<Rightarrow> validation_issue list" where
  "validation_issues errors = map (\<lambda>e. \<lparr>vi_field = ve_field e, vi_message = ve_message e\<rparr>) errors"

definition submission_response :: "submit_result \<Rightarrow> api_response" where
  "submission_response result = (case result of
      Accepted task \<Rightarrow> ok_response (SubmittedResult DispAccepted (task_view_from task) [])
    | Existing task \<Rightarrow> ok_response (SubmittedResult DispExisting (task_view_from task) [])
    | RejectedTask task errors \<Rightarrow>
        ok_response (SubmittedResult DispRejected (task_view_from task) (validation_issues errors)))"

text \<open>\<open>Panicked\<close> stands for a panic, which no operation called here raises.\<close>

definition supervisor_error_response :: "supervisor_error \<Rightarrow> api_response" where
  "supervisor_error_response e = (case e of
      TaskNotFound \<Rightarrow> error_response ApiTaskNotFound ''task not found''
    | IdempotencyConflict \<Rightarrow> error_response ApiIdempotencyConflict ''idempotency key conflicts with existing input''
    | CapacityExceeded \<Rightarrow> error_response ApiCapacityExceeded ''task capacity exceeded''
    | TaskNotRunning \<Rightarrow> error_response ApiInvalidStateTransition ''requested task transition is not allowed''
    | InvalidStateTransition _ \<Rightarrow> error_response ApiInvalidStateTransition ''requested task transition is not allowed''
    | ApprovalFailed _ \<Rightarrow> error_response ApiApprovalFailed ''approval operation failed''
    | EventStoreFailed _ \<Rightarrow> error_response StorageUnavailable ''event storage is unavailable''
    | Panicked \<Rightarrow> error_response StorageUnavailable ''event storage is unavailable'')"

definition task_response :: "'s supervisor \<Rightarrow> task_id \<Rightarrow> (task_view \<Rightarrow> api_result) \<Rightarrow> api_response" where
  "task_response s task_id result =
     (case supervisor_get s task_id of
        None \<Rightarrow> error_response ApiTaskNotFound ''task not found''
      | Some task \<Rightarrow> ok_response (result (task_view_from task)))"

definition transition_response ::
  "'s supervisor \<Rightarrow> task_id \<Rightarrow> ('s supervisor \<Rightarrow> task_id \<Rightarrow> ('s, unit) sup_result) \<Rightarrow> api_response \<times> 's supervisor" where
  "transition_response s task_id step =
     (case step s task_id of
        (Inr _, s) \<Rightarrow> (task_response s task_id TaskResult, s)
      | (Inl e, s) \<Rightarrow> (supervisor_error_response e, s))"

section \<open>The service\<close>

definition handle_request ::
  "('w, 's) append_fn \<Rightarrow> 's list_fn \<Rightarrow> 'w \<Rightarrow> instant \<Rightarrow> task_id \<Rightarrow> 's supervisor \<Rightarrow> api_request
   \<Rightarrow> api_response \<times> 's supervisor" where
  "handle_request ab listing w now new_id s request =
     (if \<not> is_supported_protocol_version (rq_protocol_version request)
      then (error_response UnsupportedProtocolVersion ''protocol version is not supported'', s)
      else
        (case rq_request request of
           Health \<Rightarrow> (ok_response (Healthy protocol_version_supported), s)
         | Submit task \<Rightarrow>
             (case submit ab w new_id s task of
                (Inr result, s) \<Rightarrow> (submission_response result, s)
              | (Inl e, s) \<Rightarrow> (supervisor_error_response e, s))
         | GetTask task_id \<Rightarrow> (task_response s task_id TaskResult, s)
         | Events task_id after_sequence limit \<Rightarrow>
             if limit = 0 \<or> MAX_EVENT_PAGE_SIZE < limit then (invalid_request_response, s)
             else
               (case supervisor_events listing s task_id after_sequence of
                  Inr events \<Rightarrow>
                    (ok_response (EventsResult (take (unat limit) events) (unat limit < length events)), s)
                | Inl e \<Rightarrow> (supervisor_error_response e, s))
         | Start task_id \<Rightarrow> transition_response s task_id (start ab w now)
         | Succeed task_id \<Rightarrow> transition_response s task_id (succeed ab w)
         | Fail task_id \<Rightarrow> transition_response s task_id (fail ab w)
         | Cancel task_id \<Rightarrow>
             (case cancel ab w s task_id of
                (Inr changed, s) \<Rightarrow> (task_response s task_id (\<lambda>task. CancelledResult task changed), s)
              | (Inl e, s) \<Rightarrow> (supervisor_error_response e, s))))"

section \<open>Frames\<close>

record byte_source =
  src_bytes :: "u8 list"
  src_fails :: bool

record byte_sink =
  snk_bytes :: "u8 list"
  snk_room :: "nat option"
  snk_flush_fails :: bool

definition read_exact :: "nat \<Rightarrow> byte_source \<Rightarrow> (unit + u8 list) \<times> byte_source" where
  "read_exact n src =
     (if n \<le> length (src_bytes src)
      then (Inr (take n (src_bytes src)), src\<lparr>src_bytes := drop n (src_bytes src)\<rparr>)
      else (Inl (), src\<lparr>src_bytes := []\<rparr>))"

definition write_all :: "u8 list \<Rightarrow> byte_sink \<Rightarrow> (unit + unit) \<times> byte_sink" where
  "write_all bytes snk =
     (case snk_room snk of
        None \<Rightarrow> (Inr (), snk\<lparr>snk_bytes := snk_bytes snk @ bytes\<rparr>)
      | Some room \<Rightarrow>
          if length bytes \<le> room
          then (Inr (), snk\<lparr>snk_bytes := snk_bytes snk @ bytes, snk_room := Some (room - length bytes)\<rparr>)
          else (Inl (), snk\<lparr>snk_bytes := snk_bytes snk @ take room bytes, snk_room := Some 0\<rparr>))"

definition u32_to_be_bytes :: "u32 \<Rightarrow> u8 list" where
  "u32_to_be_bytes w = [ucast (drop_bit 24 w), ucast (drop_bit 16 w), ucast (drop_bit 8 w), ucast w]"

definition u32_from_be_bytes :: "u8 \<Rightarrow> u8 \<Rightarrow> u8 \<Rightarrow> u8 \<Rightarrow> u32" where
  "u32_from_be_bytes a b c d = u32_from_ne_bytes d c b a"

definition read_frame :: "byte_source \<Rightarrow> nat \<Rightarrow> (local_api_error + u8 list option) \<times> byte_source" where
  "read_frame src max_frame_bytes =
     (case src_bytes src of
        [] \<Rightarrow> (if src_fails src then Inl Io else Inr None, src)
      | first # rest \<Rightarrow>
          (case read_exact 3 (src\<lparr>src_bytes := rest\<rparr>) of
             (Inl _, src) \<Rightarrow> (Inl Protocol, src)
           | (Inr header, src) \<Rightarrow>
               (let len = unat (u32_from_be_bytes first (header ! 0) (header ! 1) (header ! 2)) in
                if len = 0 then (Inl Protocol, src)
                else if max_frame_bytes < len then (Inl FrameTooLarge, src)
                else
                  (case read_exact len src of
                     (Inl _, src) \<Rightarrow> (Inl Protocol, src)
                   | (Inr payload, src) \<Rightarrow> (Inr (Some payload), src)))))"

definition write_frame :: "byte_sink \<Rightarrow> u8 list \<Rightarrow> nat \<Rightarrow> (local_api_error + unit) \<times> byte_sink" where
  "write_frame snk payload max_frame_bytes =
     (if payload = [] \<or> max_frame_bytes < length payload then (Inl FrameTooLarge, snk)
      else if 2 ^ 32 \<le> length payload then (Inl FrameTooLarge, snk)
      else
        (case write_all (u32_to_be_bytes (of_nat (length payload))) snk of
           (Inl _, snk) \<Rightarrow> (Inl Io, snk)
         | (Inr _, snk) \<Rightarrow>
             (case write_all payload snk of
                (Inl _, snk) \<Rightarrow> (Inl Io, snk)
              | (Inr _, snk) \<Rightarrow> (if snk_flush_fails snk then Inl Io else Inr (), snk))))"

section \<open>One connection\<close>

record json_api =
  js_probe :: "u8 list \<Rightarrow> u16 option"
  js_read_request :: "u8 list \<Rightarrow> api_request option"
  js_write_request :: "api_request \<Rightarrow> u8 list option"
  js_read_response :: "u8 list \<Rightarrow> api_response option"
  js_write_response :: "api_response \<Rightarrow> u8 list option"

definition write_response :: "json_api \<Rightarrow> byte_sink \<Rightarrow> api_response \<Rightarrow> nat \<Rightarrow> (local_api_error + unit) \<times> byte_sink" where
  "write_response js snk response max_frame_bytes =
     (case js_write_response js response of
        None \<Rightarrow> (Inl Protocol, snk)
      | Some payload \<Rightarrow>
          if max_frame_bytes < length payload then
            (case js_write_response js (error_response ApiResponseTooLarge ''response exceeds configured limit'') of
               None \<Rightarrow> (Inl Protocol, snk)
             | Some payload \<Rightarrow> write_frame snk payload max_frame_bytes)
          else write_frame snk payload max_frame_bytes)"

definition serve_stream ::
  "('w, 's) append_fn \<Rightarrow> 's list_fn \<Rightarrow> json_api \<Rightarrow> 'w \<Rightarrow> instant \<Rightarrow> task_id \<Rightarrow> byte_source \<Rightarrow> byte_sink
   \<Rightarrow> 's supervisor \<Rightarrow> nat \<Rightarrow> (local_api_error + unit) \<times> byte_sink \<times> 's supervisor" where
  "serve_stream ab listing js w now new_id src snk s max_frame_bytes =
     (case fst (read_frame src max_frame_bytes) of
        Inr (Some payload) \<Rightarrow>
          (case
             (case js_probe js payload of
                Some version \<Rightarrow>
                  if \<not> is_supported_protocol_version version
                  then (error_response UnsupportedProtocolVersion ''protocol version is not supported'', s)
                  else
                    (case js_read_request js payload of
                       Some request \<Rightarrow> handle_request ab listing w now new_id s request
                     | None \<Rightarrow> (invalid_request_response, s))
              | None \<Rightarrow> (invalid_request_response, s)) of
             (response, s) \<Rightarrow> (case write_response js snk response max_frame_bytes of (r, snk) \<Rightarrow> (r, snk, s)))
      | Inr None \<Rightarrow> (Inl Protocol, snk, s)
      | Inl FrameTooLarge \<Rightarrow>
          (case write_response js snk (error_response ApiFrameTooLarge ''request frame is too large'') max_frame_bytes of
             (r, snk) \<Rightarrow> (r, snk, s))
      | Inl e \<Rightarrow> (Inl e, snk, s))"

text \<open>The client side: \<open>exchange\<close> is the connection, which takes the request's bytes and gives
  the bytes of the answer.\<close>

definition send_request ::
  "json_api \<Rightarrow> (unit + (u8 list \<Rightarrow> byte_source)) \<Rightarrow> byte_sink \<Rightarrow> bool \<Rightarrow> api_request \<Rightarrow> server_config
   \<Rightarrow> local_api_error + api_response" where
  "send_request js exchange snk configured request config =
     (case server_config_validate config of Inl e \<Rightarrow> Inl e | Inr config \<Rightarrow>
      case exchange of Inl _ \<Rightarrow> Inl Io | Inr answer \<Rightarrow>
      if \<not> configured then Inl Io
      else
        (case js_write_request js request of None \<Rightarrow> Inl Protocol | Some payload \<Rightarrow>
         case write_frame snk payload (sc_max_frame_bytes config) of (Inl e, snk) \<Rightarrow> Inl e | (Inr _, snk) \<Rightarrow>
         case fst (read_frame (answer (snk_bytes snk)) (sc_max_frame_bytes config)) of
           Inl e \<Rightarrow> Inl e
         | Inr None \<Rightarrow> Inl Protocol
         | Inr (Some response) \<Rightarrow>
             (case js_read_response js response of
                None \<Rightarrow> Inl Protocol
              | Some response \<Rightarrow>
                  if rs_protocol_version response \<noteq> PROTOCOL_VERSION then Inl Protocol else Inr response)))"

section \<open>The server\<close>

record dir_metadata =
  dm_is_symlink :: bool
  dm_is_dir :: bool
  dm_mode :: u32

datatype dir_entry = DirError | DirMissing | DirPresent dir_metadata

text \<open>\<open>parent\<close> is the parent path when it is not empty, \<open>create\<close> whether \<open>DirBuilder\<close> succeeds;
  448 is \<open>0o700\<close>, 63 is \<open>0o077\<close>.\<close>

definition prepare_socket_parent :: "bool \<Rightarrow> dir_entry \<Rightarrow> bool \<Rightarrow> (local_api_error + unit) \<times> dir_entry" where
  "prepare_socket_parent parent entry create =
     (if \<not> parent then (Inl ApiInvalidConfig, entry)
      else
        (case entry of
           DirPresent metadata \<Rightarrow>
             if dm_is_symlink metadata \<or> \<not> dm_is_dir metadata \<or> and (dm_mode metadata) 63 \<noteq> 0
             then (Inl UnsafeSocketDirectory, entry) else (Inr (), entry)
         | DirMissing \<Rightarrow>
             if create then (Inr (), DirPresent \<lparr>dm_is_symlink = False, dm_is_dir = True, dm_mode = 448\<rparr>)
             else (Inl Io, entry)
         | DirError \<Rightarrow> (Inl Io, entry)))"

record socket_file =
  sf_is_socket :: bool
  sf_device :: nat
  sf_inode :: nat
  sf_mode :: u32

datatype socket_entry = SocketError | SocketMissing | SocketPresent socket_file

record local_server =
  ls_socket_device :: nat
  ls_socket_inode :: nat
  ls_config :: server_config

text \<open>\<open>bound\<close> is what \<open>UnixListener::bind\<close> creates, \<open>chmod\<close> and \<open>stat\<close> whether the permissions could
  be set and the metadata read; 384 is \<open>0o600\<close>. A failure after the bind leaves the socket file.\<close>

definition local_server_bind ::
  "bool \<Rightarrow> dir_entry \<Rightarrow> bool \<Rightarrow> socket_entry \<Rightarrow> unit + socket_file \<Rightarrow> bool \<Rightarrow> bool \<Rightarrow> server_config
   \<Rightarrow> (local_api_error + local_server) \<times> dir_entry \<times> socket_entry" where
  "local_server_bind parent entry create socket bound chmod stat config =
     (case server_config_validate config of Inl e \<Rightarrow> (Inl e, entry, socket) | Inr config \<Rightarrow>
      case prepare_socket_parent parent entry create of (Inl e, entry) \<Rightarrow> (Inl e, entry, socket) | (Inr _, entry) \<Rightarrow>
      case socket of
        SocketPresent _ \<Rightarrow> (Inl SocketAlreadyExists, entry, socket)
      | SocketError \<Rightarrow> (Inl Io, entry, socket)
      | SocketMissing \<Rightarrow>
          (case bound of
             Inl _ \<Rightarrow> (Inl Io, entry, SocketMissing)
           | Inr file \<Rightarrow>
               if \<not> chmod then (Inl Io, entry, SocketPresent file)
               else if \<not> stat then (Inl Io, entry, SocketPresent (file\<lparr>sf_mode := 384\<rparr>))
               else (Inr \<lparr>ls_socket_device = sf_device file, ls_socket_inode = sf_inode file, ls_config = config\<rparr>,
                     entry, SocketPresent (file\<lparr>sf_mode := 384\<rparr>))))"

text \<open>\<open>removable\<close> is whether \<open>remove_file\<close> succeeds; its error is ignored.\<close>

definition local_server_drop :: "local_server \<Rightarrow> bool \<Rightarrow> socket_entry \<Rightarrow> socket_entry" where
  "local_server_drop server removable socket =
     (case socket of
        SocketPresent file \<Rightarrow>
          if sf_is_socket file \<and> sf_device file = ls_socket_device server \<and> sf_inode file = ls_socket_inode server
          then (if removable then SocketMissing else socket) else socket
      | _ \<Rightarrow> socket)"

text \<open>What \<open>accept\<close> delivers: a failure, or a connection, with the stream configured or not.\<close>

record ('w) connection =
  cn_configured :: bool
  cn_source :: byte_source
  cn_sink :: byte_sink
  cn_world :: 'w
  cn_now :: instant
  cn_new_id :: task_id

definition serve_once ::
  "('w, 's) append_fn \<Rightarrow> 's list_fn \<Rightarrow> json_api \<Rightarrow> local_server \<Rightarrow> unit + 'w connection \<Rightarrow> 's supervisor
   \<Rightarrow> (local_api_error + unit) \<times> 's supervisor" where
  "serve_once ab listing js server accepted s =
     (case accepted of
        Inl _ \<Rightarrow> (Inl Io, s)
      | Inr c \<Rightarrow>
          if \<not> cn_configured c then (Inl Io, s)
          else (case serve_stream ab listing js (cn_world c) (cn_now c) (cn_new_id c) (cn_source c) (cn_sink c) s
                       (sc_max_frame_bytes (ls_config server)) of (r, snk, s) \<Rightarrow> (r, s)))"

text \<open>The loop of \<open>serve_forever\<close> over the accepted connections; it ends only when \<open>accept\<close> fails,
  and \<open>None\<close> is the daemon still listening.\<close>

fun serve_forever ::
  "('w, 's) append_fn \<Rightarrow> 's list_fn \<Rightarrow> json_api \<Rightarrow> local_server \<Rightarrow> (unit + 'w connection) list \<Rightarrow> 's supervisor
   \<Rightarrow> local_api_error option \<times> 's supervisor" where
  "serve_forever ab listing js server [] s = (None, s)"
| "serve_forever ab listing js server (Inl _ # cs) s = (Some Io, s)"
| "serve_forever ab listing js server (Inr c # cs) s =
     (if \<not> cn_configured c then serve_forever ab listing js server cs s
      else
        (case serve_stream ab listing js (cn_world c) (cn_now c) (cn_new_id c) (cn_source c) (cn_sink c) s
                (sc_max_frame_bytes (ls_config server)) of
           (r, snk, s) \<Rightarrow> serve_forever ab listing js server cs s))"

section \<open>The daemon's options\<close>

record daemon_options =
  do_socket :: string
  do_database :: string
  do_cgroup_root :: "string option"

fun daemon_options_loop ::
  "string option \<Rightarrow> string option \<Rightarrow> string option \<Rightarrow> string list \<Rightarrow> unit + daemon_options" where
  "daemon_options_loop socket database cgroup_root (argument # value # arguments) =
     (if argument = ''--socket'' \<and> socket = None
      then daemon_options_loop (Some value) database cgroup_root arguments
      else if argument = ''--database'' \<and> database = None
      then daemon_options_loop socket (Some value) cgroup_root arguments
      else if argument = ''--cgroup-root'' \<and> cgroup_root = None
      then daemon_options_loop socket database (Some value) arguments
      else Inl ())"
| "daemon_options_loop socket database cgroup_root [argument] = Inl ()"
| "daemon_options_loop socket database cgroup_root [] =
     (case (socket, database) of
        (Some socket, Some database) \<Rightarrow>
          Inr \<lparr>do_socket = socket, do_database = database, do_cgroup_root = cgroup_root\<rparr>
      | _ \<Rightarrow> Inl ())"

definition daemon_options_parse :: "string list \<Rightarrow> unit + daemon_options" where
  "daemon_options_parse arguments = daemon_options_loop None None None arguments"

section \<open>The client's commands\<close>

datatype cli_error =
  Usage | InvalidTaskId | InvalidNumber | TaskFileTooLarge | InvalidTaskFile | TaskFileIo | Transport local_api_error

datatype cli_command =
  CmdHealth | CmdSubmit string | CmdGet task_id | CmdEvents task_id nat u16
  | CmdStart task_id | CmdSucceed task_id | CmdFail task_id | CmdCancel task_id

definition parse_number :: "nat \<Rightarrow> string \<Rightarrow> cli_error + nat" where
  "parse_number bound value = ok_or InvalidNumber (parse_unsigned bound value)"

definition parse_task_id :: "(string \<Rightarrow> task_id option) \<Rightarrow> string \<Rightarrow> cli_error + task_id" where
  "parse_task_id uuid value = ok_or InvalidTaskId (uuid value)"

definition command_parse :: "(string \<Rightarrow> task_id option) \<Rightarrow> string \<Rightarrow> string list \<Rightarrow> cli_error + cli_command" where
  "command_parse uuid name values =
     (case values of
        [] \<Rightarrow> if name = ''health'' then Inr CmdHealth else Inl Usage
      | [v] \<Rightarrow>
          if name = ''submit'' then Inr (CmdSubmit v)
          else if name = ''get'' then map_result CmdGet (parse_task_id uuid v)
          else if name = ''events'' then map_result (\<lambda>t. CmdEvents t 0 DEFAULT_EVENT_PAGE_SIZE) (parse_task_id uuid v)
          else if name = ''start'' then map_result CmdStart (parse_task_id uuid v)
          else if name = ''succeed'' then map_result CmdSucceed (parse_task_id uuid v)
          else if name = ''fail'' then map_result CmdFail (parse_task_id uuid v)
          else if name = ''cancel'' then map_result CmdCancel (parse_task_id uuid v)
          else Inl Usage
      | [v, after] \<Rightarrow>
          if name = ''events'' then
            (case parse_task_id uuid v of Inl e \<Rightarrow> Inl e | Inr t \<Rightarrow>
             case parse_number (2 ^ 64) after of Inl e \<Rightarrow> Inl e | Inr after_sequence \<Rightarrow>
               Inr (CmdEvents t after_sequence DEFAULT_EVENT_PAGE_SIZE))
          else Inl Usage
      | [v, after, lim] \<Rightarrow>
          if name = ''events'' then
            (case parse_task_id uuid v of Inl e \<Rightarrow> Inl e | Inr t \<Rightarrow>
             case parse_number (2 ^ 64) after of Inl e \<Rightarrow> Inl e | Inr after_sequence \<Rightarrow>
             case parse_number (2 ^ 16) lim of Inl e \<Rightarrow> Inl e | Inr limit \<Rightarrow>
               Inr (CmdEvents t after_sequence (of_nat limit)))
          else Inl Usage
      | _ \<Rightarrow> Inl Usage)"

definition cli_options_parse :: "(string \<Rightarrow> task_id option) \<Rightarrow> string list \<Rightarrow> cli_error + string \<times> cli_command" where
  "cli_options_parse uuid arguments =
     (case arguments of
        flag # socket # command # values \<Rightarrow>
          if flag \<noteq> ''--socket'' then Inl Usage
          else if socket = [] then Inl Usage
          else map_result (\<lambda>command. (socket, command)) (command_parse uuid command values)
      | _ \<Rightarrow> Inl Usage)"

definition load_task :: "(u8 list \<Rightarrow> task_spec option) \<Rightarrow> unit + byte_source \<Rightarrow> cli_error + task_spec" where
  "load_task json file =
     (case file of
        Inl _ \<Rightarrow> Inl TaskFileIo
      | Inr src \<Rightarrow>
          (let bytes = take (DEFAULT_MAX_FRAME_BYTES + 1) (src_bytes src) in
           if src_fails src \<and> length bytes < DEFAULT_MAX_FRAME_BYTES + 1 then Inl TaskFileIo
           else if DEFAULT_MAX_FRAME_BYTES < length bytes then Inl TaskFileTooLarge
           else ok_or InvalidTaskFile (json bytes)))"

definition into_method :: "(u8 list \<Rightarrow> task_spec option) \<Rightarrow> (string \<Rightarrow> unit + byte_source) \<Rightarrow> cli_command \<Rightarrow> cli_error + api_method" where
  "into_method json files command = (case command of
      CmdHealth \<Rightarrow> Inr Health
    | CmdSubmit path \<Rightarrow> map_result Submit (load_task json (files path))
    | CmdGet t \<Rightarrow> Inr (GetTask t)
    | CmdEvents t after_sequence limit \<Rightarrow> Inr (Events t after_sequence limit)
    | CmdStart t \<Rightarrow> Inr (Start t)
    | CmdSucceed t \<Rightarrow> Inr (Succeed t)
    | CmdFail t \<Rightarrow> Inr (Fail t)
    | CmdCancel t \<Rightarrow> Inr (Cancel t))"

text \<open>\<open>run\<close> and the exit code of \<open>main\<close>; \<open>pretty\<close> is whether the answer can be printed.\<close>

definition cli_run ::
  "(string \<Rightarrow> task_id option) \<Rightarrow> (u8 list \<Rightarrow> task_spec option) \<Rightarrow> (string \<Rightarrow> unit + byte_source) \<Rightarrow> json_api
   \<Rightarrow> (string \<Rightarrow> unit + (u8 list \<Rightarrow> byte_source)) \<Rightarrow> byte_sink \<Rightarrow> bool \<Rightarrow> string list \<Rightarrow> cli_error + api_response" where
  "cli_run uuid json files js connect snk configured arguments =
     (case cli_options_parse uuid arguments of Inl e \<Rightarrow> Inl e | Inr (socket, command) \<Rightarrow>
      case into_method json files command of Inl e \<Rightarrow> Inl e | Inr request \<Rightarrow>
      map_err Transport (send_request js (connect socket) snk configured (api_request_new request) server_config_default))"

definition cli_exit_code :: "bool \<Rightarrow> cli_error + api_response \<Rightarrow> u8" where
  "cli_exit_code pretty result =
     (case result of
        Inr response \<Rightarrow> if \<not> pretty then 1 else (case rs_outcome response of ApiErr _ \<Rightarrow> 2 | ApiOk _ \<Rightarrow> 0)
      | Inl (Transport _) \<Rightarrow> 1
      | Inl _ \<Rightarrow> 2)"

section \<open>Frames round trip\<close>

lemma u32_be_roundtrip:
  "u32_from_be_bytes (ucast (drop_bit 24 w)) (ucast (drop_bit 16 w)) (ucast (drop_bit 8 w)) (ucast w) = w"
  by (simp add: u32_from_be_bytes_def u32_ne_roundtrip)

lemma write_all_ok: "write_all bytes snk = (Inr u, snk') \<Longrightarrow>
   snk_bytes snk' = snk_bytes snk @ bytes \<and> snk_flush_fails snk' = snk_flush_fails snk"
  by (auto simp: write_all_def split: option.splits if_splits)

lemma write_all_length: "write_all bytes snk = (r, snk') \<Longrightarrow> length (snk_bytes snk') \<le> length (snk_bytes snk) + length bytes"
  by (auto simp: write_all_def split: option.splits if_splits)

lemma write_frame_ok:
  assumes "write_frame snk payload limit = (Inr u, snk')"
  shows "snk_bytes snk' = snk_bytes snk @ u32_to_be_bytes (of_nat (length payload)) @ payload"
    "payload \<noteq> []" "length payload \<le> limit" "length payload < 2 ^ 32"
  using assms by (auto simp: write_frame_def split: if_splits prod.splits sum.splits dest!: write_all_ok)

lemma write_frame_length:
  assumes "write_frame snk payload limit = (r, snk')"
  shows "length (snk_bytes snk') \<le> length (snk_bytes snk) + 4 + limit"
proof (cases "payload = [] \<or> limit < length payload \<or> 2 ^ 32 \<le> length payload")
  case True
  with assms have "snk' = snk" by (auto simp: write_frame_def split: if_splits)
  then show ?thesis by simp
next
  case False
  let ?h = "u32_to_be_bytes (of_nat (length payload))"
  obtain r1 snk1 where w1: "write_all ?h snk = (r1, snk1)" by fastforce
  obtain r2 snk2 where w2: "write_all payload snk1 = (r2, snk2)" by fastforce
  have "snk' = snk1 \<or> snk' = snk2"
    using assms False w1 w2 by (cases r1; cases r2) (auto simp: write_frame_def split: if_splits)
  moreover have "length ?h = 4" by (simp add: u32_to_be_bytes_def)
  ultimately show ?thesis using write_all_length [OF w1] write_all_length [OF w2] False by auto
qed

lemma read_frame_encoded:
  assumes "payload \<noteq> []" "length payload \<le> limit" "length payload < 2 ^ 32"
  shows "read_frame \<lparr>src_bytes = (u32_to_be_bytes (of_nat (length payload)) @ payload) @ rest, src_fails = b\<rparr> limit
     = (Inr (Some payload), \<lparr>src_bytes = rest, src_fails = b\<rparr>)"
proof -
  have "unat (of_nat (length payload) :: u32) = length payload"
    using assms(3) by (simp add: unat_of_nat)
  with assms show ?thesis
    by (simp add: read_frame_def read_exact_def u32_to_be_bytes_def numeral_3_eq_3 u32_be_roundtrip)
qed

lemma read_frame_length:
  "fst (read_frame src limit) = Inr (Some payload) \<Longrightarrow> 0 < length payload \<and> length payload \<le> limit"
  by (auto simp: read_frame_def read_exact_def Let_def split: list.splits if_splits)

lemma write_response_length:
  "write_response js snk response limit = (r, snk') \<Longrightarrow> length (snk_bytes snk') \<le> length (snk_bytes snk) + 4 + limit"
  by (auto simp: write_response_def split: option.splits if_splits dest: write_frame_length)

section \<open>The socket\<close>

text \<open>The socket is private to its owner and never taken from or given to anyone else. A
  server is bound only in a real directory without any permission for group and others, at
  a path where nothing was, and then the socket file has mode 600; whatever fails, no
  existing file is replaced; and dropping the server removes a file only if it is a socket
  with the device and inode that were bound.\<close>

theorem socket_private:
  "case local_server_bind parent entry create socket bound chmod stat config of
     (r, entry', socket') \<Rightarrow>
       (socket \<noteq> SocketMissing \<longrightarrow> socket' = socket \<and> isl r)
       \<and> (\<forall>server. r = Inr server \<longrightarrow>
            (\<exists>metadata file. entry' = DirPresent metadata \<and> \<not> dm_is_symlink metadata \<and> dm_is_dir metadata
               \<and> and (dm_mode metadata) 63 = 0
               \<and> socket' = SocketPresent file \<and> sf_mode file = 384
               \<and> sf_device file = ls_socket_device server \<and> sf_inode file = ls_socket_inode server
               \<and> (\<forall>later. local_server_drop server removable later \<noteq> later \<longrightarrow>
                    (\<exists>g. later = SocketPresent g \<and> sf_is_socket g \<and> sf_device g = sf_device file \<and> sf_inode g = sf_inode file))))"
proof -
  have "and (448 :: u32) 63 = 0" by code_simp
  then show ?thesis
    by (auto simp: local_server_bind_def prepare_socket_parent_def local_server_drop_def
        split: sum.splits prod.splits dir_entry.splits socket_entry.splits if_splits)
qed

definition demo_bind :: "(local_api_error + local_server) \<times> dir_entry \<times> socket_entry" where
  "demo_bind = local_server_bind True DirMissing True SocketMissing
     (Inr \<lparr>sf_is_socket = True, sf_device = 1, sf_inode = 7, sf_mode = 511\<rparr>) True True server_config_default"

theorem socket_private_witness:
  "\<exists>server file. fst demo_bind = Inr server \<and> snd (snd demo_bind) = SocketPresent file \<and> sf_mode file = 384
     \<and> local_server_drop server True (SocketPresent \<lparr>sf_is_socket = True, sf_device = 1, sf_inode = 8, sf_mode = 384\<rparr>)
         = SocketPresent \<lparr>sf_is_socket = True, sf_device = 1, sf_inode = 8, sf_mode = 384\<rparr>"
proof -
  obtain r entry' socket' where b: "demo_bind = (r, entry', socket')" by (cases demo_bind rule: prod_cases3)
  have "fst demo_bind = Inr \<lparr>ls_socket_device = 1, ls_socket_inode = 7, ls_config = server_config_default\<rparr>" by code_simp
  with socket_private [where parent = True and entry = DirMissing and create = True and socket = SocketMissing
      and bound = "Inr \<lparr>sf_is_socket = True, sf_device = 1, sf_inode = 7, sf_mode = 511\<rparr>" and chmod = True and stat = True
      and config = server_config_default and removable = True] b
  show ?thesis by (fastforce simp: demo_bind_def)
qed

end
