(* ===== verification/Daemon.thy ===== *)
theory Daemon
  imports Local_Api
begin

text \<open>
  The daemon \<open>aiosd\<close>: the API service of \<open>aios-local-api/src/lib.rs\<close> on a supervisor that is
  rebuilt from its event store at every start. What a request may change, what a client
  reads back, and the history over connections and restarts.
\<close>

section \<open>The service and the supervisor\<close>

definition no_waiting :: "'s supervisor \<Rightarrow> bool" where
  "no_waiting s \<longleftrightarrow> (\<forall>t. sup_task_state s t \<noteq> Some WaitingApproval)"

text \<open>Which task states a call may change.\<close>

definition changes_only :: "task_id \<Rightarrow> 's supervisor \<Rightarrow> 's supervisor \<Rightarrow> bool" where
  "changes_only t s s' \<longleftrightarrow> (\<forall>u. u \<noteq> t \<longrightarrow> sup_task_state s' u = sup_task_state s u)
     \<and> (sup_task_state s' t = sup_task_state s t \<or> sup_task_state s' t \<noteq> Some WaitingApproval)"

lemma changes_only_same: "sup_tasks s' = sup_tasks s \<Longrightarrow> sup_recovered s' = sup_recovered s \<Longrightarrow> changes_only t s s'"
  by (simp add: changes_only_def sup_task_state_def split: option.splits)

lemma apply_transition_changes:
  assumes eq: "apply_transition_with_failure ab w s t cur nxt failure = (r, s')" and nxt: "nxt \<noteq> WaitingApproval"
  shows "changes_only t s s'"
proof -
  let ?ks = "(if is_terminal nxt then revocation_events s t else [])
    @ (case failure of None \<Rightarrow> [] | Some code \<Rightarrow> [TaskFailed code]) @ [StateTransitioned cur nxt]"
  obtain r1 s1 where a: "store_append ab w s t ?ks = (r1, s1)" by fastforce
  have s1: "sup_tasks s1 = sup_tasks s" "sup_recovered s1 = sup_recovered s"
    using a by (auto simp: store_append_def split: prod.splits sum.splits)
  show ?thesis
  proof (cases r1)
    case (Inl e)
    with eq a have "s' = s1" by (simp add: apply_transition_with_failure_def Let_def)
    with s1 show ?thesis by (simp add: changes_only_same)
  next
    case (Inr u)
    define s2 where "s2 = (if is_terminal nxt then invalidate_approvals s1 t else s1)"
    have s2: "sup_tasks s2 = sup_tasks s" "sup_recovered s2 = sup_recovered s"
      using s1 by (simp_all add: s2_def invalidate_approvals_eq)
    have "s' = (if bt_contains (sup_tasks s2) t
           then s2\<lparr>sup_tasks := bt_modify t (\<lambda>r. r\<lparr>tr_state := nxt\<rparr>) (sup_tasks s2)\<rparr>
           else if bt_contains (sup_recovered s2) t
           then s2\<lparr>sup_recovered := bt_modify t (\<lambda>_. nxt) (sup_recovered s2)\<rparr> else s2)"
      using eq a Inr by (simp add: apply_transition_with_failure_def Let_def s2_def split: if_splits)
    then show ?thesis
      using nxt s2 by (auto simp: changes_only_def sup_task_state_def split: option.splits)
  qed
qed

lemma transition_changes:
  "transition ab w s t nxt = (r, s') \<Longrightarrow> nxt \<noteq> WaitingApproval \<Longrightarrow> changes_only t s s'"
  by (auto simp: transition_def apply_transition_def split: option.splits sum.splits dest: apply_transition_changes)
    (auto simp: changes_only_def)

lemma start_changes: "start ab w now s t = (r, s') \<Longrightarrow> changes_only t s s'"
proof -
  assume eq: "start ab w now s t = (r, s')"
  obtain r1 s1 where tr: "transition ab w s t Running = (r1, s1)" by fastforce
  have "changes_only t s s1" using transition_changes [OF tr] by simp
  moreover have "sup_task_state s' = sup_task_state s1"
    using eq tr by (auto simp: start_def sup_task_state_def fun_eq_iff split: sum.splits option.splits if_splits)
  ultimately show ?thesis by (simp add: changes_only_def)
qed

lemma cancel_changes: "cancel ab w s t = (r, s') \<Longrightarrow> changes_only t s s'"
  by (auto simp: cancel_def apply_transition_def split: option.splits if_splits sum.splits prod.splits
      dest!: apply_transition_changes) (auto simp: changes_only_def)


lemma changes_no_waiting: "changes_only t s s' \<Longrightarrow> no_waiting s \<Longrightarrow> no_waiting s'"
  unfolding changes_only_def no_waiting_def by metis

section \<open>What a request changes\<close>

definition mutating :: "api_method \<Rightarrow> bool" where
  "mutating m = (case m of Health \<Rightarrow> False | GetTask _ \<Rightarrow> False | Events _ _ _ \<Rightarrow> False | _ \<Rightarrow> True)"

lemma response_version [simp]:
  "rs_protocol_version (ok_response r) = PROTOCOL_VERSION" "rs_protocol_version (error_response c m) = PROTOCOL_VERSION"
  "rs_protocol_version invalid_request_response = PROTOCOL_VERSION"
  "rs_protocol_version (submission_response sr) = PROTOCOL_VERSION"
  "rs_protocol_version (supervisor_error_response e) = PROTOCOL_VERSION"
  "rs_protocol_version (task_response s t f) = PROTOCOL_VERSION"
  "rs_protocol_version (fst (transition_response s t step)) = PROTOCOL_VERSION"
  by (simp_all add: ok_response_def error_response_def invalid_request_response_def submission_response_def
      supervisor_error_response_def task_response_def transition_response_def
      split: submit_result.splits supervisor_error.splits option.splits prod.splits sum.splits)

lemma handle_request_version: "rs_protocol_version (fst (handle_request ab listing w now new_id s rq)) = PROTOCOL_VERSION"
  by (simp add: handle_request_def split: api_method.splits prod.splits sum.splits)

lemma transition_response_state: "snd (transition_response s t step) = snd (step s t)"
  by (simp add: transition_response_def split: prod.splits sum.splits)

lemma handle_request_state:
  "snd (handle_request ab listing w now new_id s rq) =
     (if \<not> is_supported_protocol_version (rq_protocol_version rq) then s
      else (case rq_request rq of
         Submit task \<Rightarrow> snd (submit ab w new_id s task)
       | Start t \<Rightarrow> snd (start ab w now s t)
       | Succeed t \<Rightarrow> snd (succeed ab w s t)
       | Fail t \<Rightarrow> snd (fail ab w s t)
       | Cancel t \<Rightarrow> snd (cancel ab w s t)
       | _ \<Rightarrow> s))"
  by (simp add: handle_request_def transition_response_state split: api_method.splits prod.splits sum.splits)

lemma serve_stream_effect:
  assumes "serve_stream ab listing js w now new_id src snk s limit = (r, snk', s')"
  obtains "s' = s"
  | payload version rq where "fst (read_frame src limit) = Inr (Some payload)" "js_probe js payload = Some version"
    "is_supported_protocol_version version" "js_read_request js payload = Some rq"
    "s' = snd (handle_request ab listing w now new_id s rq)"
  using assms
  by (auto simp: serve_stream_def split: sum.splits option.splits if_splits prod.splits local_api_error.splits)

lemma serve_stream_length:
  "serve_stream ab listing js w now new_id src snk s limit = (r, snk', s')
   \<Longrightarrow> length (snk_bytes snk') \<le> length (snk_bytes snk) + 4 + limit"
  by (auto simp: serve_stream_def split: sum.splits option.splits prod.splits local_api_error.splits
      dest: write_response_length)

context event_store
begin

lemma submit_no_waiting:
  assumes g: "good s" and new: "sup_task_state s t = None" and eq: "submit append w t s spec = (r, s')"
    and nw: "no_waiting s"
  shows "no_waiting s'"
  using g new eq
proof (cases rule: submit_cases)
  case (added st es)
  have "sup_task_state s' u = (if u = t then Some st else sup_task_state s u)" for u
    by (simp add: added(3) sup_task_state_def add_task_def split: option.splits)
  then show ?thesis using nw added(2) by (simp add: no_waiting_def)
qed (use nw in \<open>simp_all add: no_waiting_def sup_task_state_def\<close>)

lemma request_step:
  assumes g: "good s" and nw: "no_waiting s" and new: "sup_task_state s new_id = None"
    and s': "s' = snd (handle_request append listing w now new_id s rq)"
  shows "(s' = s \<or> sup_step append s s') \<and> no_waiting s'"
proof (cases "is_supported_protocol_version (rq_protocol_version rq) \<and> mutating (rq_request rq)")
  case False
  then have "s' = s" using s' by (simp add: handle_request_state mutating_def split: api_method.splits)
  with nw show ?thesis by simp
next
  case True
  note st = s' [unfolded handle_request_state]
  show ?thesis
  proof (cases "rq_request rq")
    case (Submit task)
    then have eq: "submit append w new_id s task = (fst (submit append w new_id s task), s')" using st True by simp
    from sup_step.submit [OF new eq] submit_no_waiting [OF g new eq nw] show ?thesis by simp
  next
    case (Start t)
    then have eq: "start append w now s t = (fst (start append w now s t), s')" using st True by simp
    have "sup_task_state s t \<noteq> Some WaitingApproval" using nw by (simp add: no_waiting_def)
    from sup_step.start [OF this eq] changes_no_waiting [OF start_changes [OF eq] nw] show ?thesis by simp
  next
    case (Succeed t)
    then have eq: "succeed append w s t = (fst (succeed append w s t), s')" using st True by simp
    from sup_step.succeed [OF eq] changes_no_waiting [OF transition_changes [OF eq [unfolded succeed_def]] nw]
    show ?thesis by simp
  next
    case (Fail t)
    then have eq: "fail append w s t = (fst (fail append w s t), s')" using st True by simp
    from sup_step.fail [OF eq] changes_no_waiting [OF transition_changes [OF eq [unfolded fail_def]] nw]
    show ?thesis by simp
  next
    case (Cancel t)
    then have eq: "cancel append w s t = (fst (cancel append w s t), s')" using st True by simp
    from sup_step.cancel [OF eq] changes_no_waiting [OF cancel_changes [OF eq] nw] show ?thesis by simp
  qed (use True in \<open>simp_all add: mutating_def\<close>)
qed

end

section \<open>The life of a daemon\<close>

text \<open>Over one database a daemon serves connections, each with a task identifier that is not in
  use, and may stop at any moment between two connections; the next one starts with what
  \<open>TaskSupervisor::recover\<close> makes of the database. \<open>main\<close> in \<open>aiosd.rs\<close>: the first start is on an
  empty database.\<close>

definition AIOSD_MAX_TASKS :: nat where "AIOSD_MAX_TASKS = 10000"

inductive daemon_step ::
  "('w, 's) append_fn \<Rightarrow> 's list_fn \<Rightarrow> ('s \<Rightarrow> event_store_error + task_snapshot list) \<Rightarrow> json_api \<Rightarrow> local_server
   \<Rightarrow> 's supervisor \<Rightarrow> 's supervisor \<Rightarrow> bool" for ab listing snapshots js server where
  serve: "(\<forall>c. accepted = Inr c \<longrightarrow> sup_task_state s (cn_new_id c) = None)
    \<Longrightarrow> serve_once ab listing js server accepted s = (r, s') \<Longrightarrow> daemon_step ab listing snapshots js server s s'"
| restart: "supervisor_recover ab snapshots ws (sup_event_store s) AIOSD_MAX_TASKS = Inr s'
    \<Longrightarrow> daemon_step ab listing snapshots js server s s'"

lemma serve_once_effect:
  assumes "serve_once ab listing js server accepted s = (r, s')"
  obtains "s' = s"
  | c rq where "accepted = Inr c" "s' = snd (handle_request ab listing (cn_world c) (cn_now c) (cn_new_id c) s rq)"
  using assms
  by (auto simp: serve_once_def split: sum.splits if_splits prod.splits elim!: serve_stream_effect)

context recoverable_event_store
begin

definition daemon_ok :: "'s supervisor \<Rightarrow> bool" where
  "daemon_ok s \<longleftrightarrow> good s \<and> covered s \<and> no_waiting s"

lemma daemon_ok_pending:
  assumes "daemon_ok s" shows "sup_pending s = []"
proof -
  have "pending_ok s" "maps_ok s" "no_waiting s" using assms by (simp_all add: daemon_ok_def sup_good_def sup_inv_def)
  then have "bt_get (sup_pending s) i = None" for i
    by (auto simp: pending_ok_def no_waiting_def sup_task_state_live split: option.splits)
  then have "map_of (sup_pending s) = Map.empty" by (simp add: fun_eq_iff)
  then show ?thesis by simp
qed

lemma recover_daemon_ok:
  assumes ok: "store_ok es" and eq: "supervisor_recover append snapshots ws es AIOSD_MAX_TASKS = Inr s"
    and st: "\<And>t. case state t of None \<Rightarrow> log es t = [] | Some st \<Rightarrow> replays_to (log_kinds log es t) st"
  shows "daemon_ok s" and "sup_task_state s t = map_option restart_state (state t)"
    and "log_kinds log (sup_event_store s) t = log_kinds log es t @ restart_kinds (state t)"
proof -
  have "AIOSD_MAX_TASKS < 2 ^ 64" by (simp add: AIOSD_MAX_TASKS_def)
  note f = supervisor_recover_facts [OF ok this eq st]
  have "restart_state x \<noteq> WaitingApproval" for x by (cases x) (simp_all add: restart_state_def)
  then have "no_waiting s" using f(3) by (auto simp: no_waiting_def)
  with f(1,2) show "daemon_ok s" by (simp add: daemon_ok_def)
  show "sup_task_state s t = map_option restart_state (state t)"
    and "log_kinds log (sup_event_store s) t = log_kinds log es t @ restart_kinds (state t)" by (rule f)+
qed

lemma good_states:
  assumes "good s"
  shows "store_ok (sup_event_store s)"
    and "case sup_task_state s t of None \<Rightarrow> log (sup_event_store s) t = []
       | Some st \<Rightarrow> replays_to (log_kinds log (sup_event_store s) t) st"
  using assms by (auto simp: sup_good_def sup_inv_def logs_ok_def log_kinds_def split: option.splits)

lemma daemon_step_ok:
  assumes step: "daemon_step append listing snapshots js server s s'" and ok: "daemon_ok s"
  shows "daemon_ok s' \<and> keeps_terminal s s'
      \<and> prefix (log_kinds log (sup_event_store s) t) (log_kinds log (sup_event_store s') t)"
  using step
proof cases
  case (serve accepted r)
  have "(s' = s \<or> sup_step append s s') \<and> no_waiting s'"
    using serve(2)
  proof (cases rule: serve_once_effect)
    case (2 c rq)
    then show ?thesis using request_step [OF _ _ _ 2(2)] serve(1) ok by (simp add: daemon_ok_def)
  qed (use ok in \<open>simp add: daemon_ok_def\<close>)
  then have run: "sup_reachable append s s'" and nw: "no_waiting s'"
    using sup_reachable.init sup_reachable.step [of append s s s'] by auto
  have "prefix (log (sup_event_store s) t) (log (sup_event_store s') t)"
    using reachable_prefix [OF run] ok by (simp add: daemon_ok_def sup_good_def)
  then show ?thesis
    using reachable_ok [OF run] ok nw by (simp add: daemon_ok_def log_kinds_def map_mono_prefix)
next
  case (restart ws)
  have g: "good s" using ok by (simp add: daemon_ok_def)
  note r = recover_daemon_ok [OF good_states(1) [OF g] restart good_states(2) [OF g]]
  show ?thesis
    using r by (auto simp: keeps_terminal_def restart_state_def)
qed

lemma daemon_steps_ok:
  assumes "(daemon_step append listing snapshots js server)\<^sup>*\<^sup>* s s'" and "daemon_ok s"
  shows "daemon_ok s' \<and> keeps_terminal s s'
     \<and> prefix (log_kinds log (sup_event_store s) t) (log_kinds log (sup_event_store s') t)"
  using assms
proof induction
  case base
  then show ?case by (simp add: keeps_terminal_def)
next
  case (step u v)
  then show ?case using daemon_step_ok [OF step(2)] keeps_terminal_trans by (meson prefix_order.trans)
qed

end

section \<open>A whole exchange\<close>

definition open_sink :: byte_sink where
  "open_sink = \<lparr>snk_bytes = [], snk_room = None, snk_flush_fails = False\<rparr>"

abbreviation whole_source :: "u8 list \<Rightarrow> byte_source" where
  "whole_source bytes \<equiv> \<lparr>src_bytes = bytes, src_fails = False\<rparr>"

text \<open>What \<open>serde_json\<close> promises: what it wrote it reads back, as the request and as the probe.\<close>

definition json_faithful :: "json_api \<Rightarrow> bool" where
  "json_faithful js \<longleftrightarrow>
     (\<forall>rq p. js_write_request js rq = Some p \<longrightarrow>
        js_probe js p = Some (rq_protocol_version rq) \<and> js_read_request js p = Some rq)
     \<and> (\<forall>rs p. js_write_response js rs = Some p \<longrightarrow> js_read_response js p = Some rs)"

definition too_large_response :: api_response where
  "too_large_response = error_response ApiResponseTooLarge ''response exceeds configured limit''"

lemma write_frame_open:
  assumes "p \<noteq> []" "length p \<le> limit" "length p < 2 ^ 32"
  shows "write_frame open_sink p limit
     = (Inr (), open_sink\<lparr>snk_bytes := u32_to_be_bytes (of_nat (length p)) @ p\<rparr>)"
  using assms by (simp add: write_frame_def write_all_def open_sink_def)

lemma read_frame_whole:
  assumes "p \<noteq> []" "length p \<le> limit" "length p < 2 ^ 32"
  shows "fst (read_frame (whole_source (u32_to_be_bytes (of_nat (length p)) @ p)) limit) = Inr (Some p)"
  using read_frame_encoded [OF assms, of "[]" False] by simp

lemma write_response_open:
  assumes q: "js_write_response js rs = Some q" "q \<noteq> []"
    and big: "js_write_response js too_large_response = Some big" "big \<noteq> []" "length big \<le> limit"
    and limit: "limit < 2 ^ 32" and sent: "sent = (if length q \<le> limit then q else big)"
  shows "write_response js open_sink rs limit
     = (Inr (), open_sink\<lparr>snk_bytes := u32_to_be_bytes (of_nat (length sent)) @ sent\<rparr>)"
  using assms by (simp add: write_response_def write_frame_open too_large_response_def [symmetric])

lemma serve_stream_open:
  assumes js: "json_faithful js" and p: "js_write_request js rq = Some p" "p \<noteq> []" "length p \<le> limit" "limit < 2 ^ 32"
    and h: "handle_request ab listing w now new_id s rq = (rs, s')"
  shows "serve_stream ab listing js w now new_id (whole_source (u32_to_be_bytes (of_nat (length p)) @ p)) snk s limit
     = (case write_response js snk rs limit of (r, snk) \<Rightarrow> (r, snk, s'))"
proof -
  have rd: "js_probe js p = Some (rq_protocol_version rq)" "js_read_request js p = Some rq"
    using js p(1) by (simp_all add: json_faithful_def)
  have "rs = error_response UnsupportedProtocolVersion ''protocol version is not supported'' \<and> s' = s"
    if "\<not> is_supported_protocol_version (rq_protocol_version rq)"
    using h that by (auto simp: handle_request_def)
  then show ?thesis using p h rd by (simp add: serve_stream_def read_frame_whole)
qed

section \<open>Properties\<close>

text \<open>C31: a client receives exactly what the service answers. When the request and the answer
  fit the configured frame size, \<open>send_request\<close> against \<open>serve_stream\<close> over the byte stream
  returns the response of \<open>handle\<close>, and the supervisor moves as \<open>handle\<close> moves it; an answer
  that does not fit is replaced by the error \<open>ResponseTooLarge\<close>, never truncated.\<close>

theorem api_exchange_exact:
  assumes "json_faithful js" and "server_config_validate config = Inr config" and "limit = sc_max_frame_bytes config"
    and "js_write_request js request = Some p" "p \<noteq> []" "length p \<le> limit"
    and "handle_request ab listing w now new_id s request = (response, s')"
    and "js_write_response js response = Some q" "q \<noteq> []"
    and "js_write_response js too_large_response = Some big" "big \<noteq> []" "length big \<le> limit"
    and "server = (\<lambda>bytes. serve_stream ab listing js w now new_id (whole_source bytes) open_sink s limit)"
  shows "send_request js (Inr (\<lambda>bytes. whole_source (snk_bytes (fst (snd (server bytes)))))) open_sink True request config
       = Inr (if length q \<le> limit then response else too_large_response)
     \<and> snd (snd (server (snk_bytes (snd (write_frame open_sink p limit))))) = s'"
proof -
  have limit: "limit < 2 ^ 32"
    using assms(2,3) by (auto simp: server_config_validate_def MAX_MAX_FRAME_BYTES_def split: if_splits)
  define sent where "sent = (if length q \<le> limit then q else big)"
  define answer where "answer = (if length q \<le> limit then response else too_large_response)"
  have wf: "write_frame open_sink p limit = (Inr (), open_sink\<lparr>snk_bytes := u32_to_be_bytes (of_nat (length p)) @ p\<rparr>)"
    using assms(5,6) limit by (intro write_frame_open) simp_all
  have srv: "server (u32_to_be_bytes (of_nat (length p)) @ p)
      = (Inr (), open_sink\<lparr>snk_bytes := u32_to_be_bytes (of_nat (length sent)) @ sent\<rparr>, s')"
    using serve_stream_open [OF assms(1,4-6) limit assms(7)] write_response_open [OF assms(8-12) limit sent_def] assms(13)
    by simp
  have s: "sent \<noteq> []" "length sent \<le> limit" "length sent < 2 ^ 32"
    using assms(9,11,12) limit by (auto simp: sent_def)
  have rd: "js_read_response js sent = Some answer"
    using assms(1,8,10) by (auto simp: sent_def answer_def json_faithful_def)
  have v: "rs_protocol_version answer = PROTOCOL_VERSION"
    using handle_request_version [of ab listing w now new_id s request] assms(7)
    by (simp add: answer_def too_large_response_def)
  show ?thesis
    using assms(2-4) wf srv read_frame_whole [OF s] rd v by (simp add: send_request_def answer_def)
qed

definition demo_api_request :: api_request where
  "demo_api_request = api_request_new (GetTask (TaskId 1))"

definition demo_api_response :: api_response where
  "demo_api_response = ok_response (TaskResult \<lparr>tv_task_id = TaskId 1, tv_state = Queued\<rparr>)"

definition demo_json :: json_api where
  "demo_json = \<lparr>
     js_probe = (\<lambda>p. if p = [1] then Some PROTOCOL_VERSION else None),
     js_read_request = (\<lambda>p. if p = [1] then Some demo_api_request else None),
     js_write_request = (\<lambda>rq. if rq = demo_api_request then Some [1] else None),
     js_read_response = (\<lambda>p. if p = [2] then Some demo_api_response else if p = [3] then Some too_large_response else None),
     js_write_response = (\<lambda>rs. if rs = demo_api_response then Some [2] else if rs = too_large_response then Some [3] else None)\<rparr>"

lemma demo_json_faithful: "json_faithful demo_json"
  by (auto simp: json_faithful_def demo_json_def demo_api_request_def api_request_new_def split: if_splits)

theorem api_exchange_exact_witness:
  "send_request demo_json (Inr (\<lambda>bytes. whole_source (snk_bytes (fst (snd (serve_stream in_memory_append in_memory_list demo_json
       demo_clock 5 (TaskId 2) (whole_source bytes) open_sink (snd demo_submitted) DEFAULT_MAX_FRAME_BYTES))))))
     open_sink True demo_api_request server_config_default = Inr demo_api_response"
proof -
  have h: "handle_request in_memory_append in_memory_list demo_clock 5 (TaskId 2) (snd demo_submitted) demo_api_request
      = (demo_api_response, snd demo_submitted)"
  proof -
    have "sup_task_state (snd demo_submitted) (TaskId 1) = Some Queued" by code_simp
    then show ?thesis
      by (simp add: handle_request_def demo_api_request_def api_request_new_def demo_api_response_def task_response_def
          supervisor_get_def task_view_from_def is_supported_protocol_version_def PROTOCOL_VERSION_def
          MIN_SUPPORTED_PROTOCOL_VERSION_def MAX_SUPPORTED_PROTOCOL_VERSION_def)
  qed
  have "demo_api_response \<noteq> too_large_response"
    by (simp add: demo_api_response_def too_large_response_def ok_response_def error_response_def)
  then show ?thesis
    using api_exchange_exact [OF demo_json_faithful, of server_config_default DEFAULT_MAX_FRAME_BYTES demo_api_request "[1]",
        OF _ _ _ _ _ h, of "[2]" "[3]"]
    by (simp add: server_config_validate_def server_config_default_def DEFAULT_MAX_FRAME_BYTES_def MIN_MAX_FRAME_BYTES_def
        MAX_MAX_FRAME_BYTES_def from_secs_def demo_json_def)
qed

text \<open>C10: only an understood request acts. Whatever bytes arrive on a connection, the supervisor
  changes only if they begin with one frame of at most the configured size, whose payload
  decodes to a request of the supported protocol version for a submission, a start, an end
  or a cancellation, and then it changes exactly as \<open>handle\<close> says; the server writes at most
  one frame of the configured size.\<close>

theorem api_effect_confined:
  assumes "serve_stream ab listing js w now new_id src snk s limit = (r, snk', s')"
  shows "length (snk_bytes snk') \<le> length (snk_bytes snk) + 4 + limit
    \<and> (s' \<noteq> s \<longrightarrow> (\<exists>payload request. fst (read_frame src limit) = Inr (Some payload)
          \<and> payload \<noteq> [] \<and> length payload \<le> limit
          \<and> js_probe js payload = Some 4 \<and> js_read_request js payload = Some request
          \<and> rq_protocol_version request = 4 \<and> mutating (rq_request request)
          \<and> s' = snd (handle_request ab listing w now new_id s request)))"
proof (intro conjI impI)
  show "length (snk_bytes snk') \<le> length (snk_bytes snk) + 4 + limit" by (rule serve_stream_length [OF assms])
  have four: "is_supported_protocol_version v \<longleftrightarrow> v = 4" for v
    by (auto simp: is_supported_protocol_version_def MIN_SUPPORTED_PROTOCOL_VERSION_def MAX_SUPPORTED_PROTOCOL_VERSION_def)
  assume "s' \<noteq> s"
  with assms obtain payload version rq where *: "fst (read_frame src limit) = Inr (Some payload)"
    "js_probe js payload = Some version" "is_supported_protocol_version version" "js_read_request js payload = Some rq"
    "s' = snd (handle_request ab listing w now new_id s rq)"
    by (cases rule: serve_stream_effect) auto
  have "is_supported_protocol_version (rq_protocol_version rq)" "mutating (rq_request rq)"
    using *(5) \<open>s' \<noteq> s\<close>
    by (auto simp: handle_request_state mutating_def split: if_splits api_method.splits)
  with * read_frame_length [OF *(1)] show "\<exists>payload request. fst (read_frame src limit) = Inr (Some payload)
          \<and> payload \<noteq> [] \<and> length payload \<le> limit
          \<and> js_probe js payload = Some 4 \<and> js_read_request js payload = Some request
          \<and> rq_protocol_version request = 4 \<and> mutating (rq_request request)
          \<and> s' = snd (handle_request ab listing w now new_id s request)"
    unfolding four by blast
qed

theorem api_effect_confined_witness:
  "length (snk_bytes (fst (snd (serve_stream in_memory_append in_memory_list demo_json demo_clock 5 (TaskId 2)
      (whole_source [0, 1, 0, 1]) open_sink (snd demo_submitted) DEFAULT_MAX_FRAME_BYTES)))) \<le> 4 + DEFAULT_MAX_FRAME_BYTES
   \<and> snd (snd (serve_stream in_memory_append in_memory_list demo_json demo_clock 5 (TaskId 2)
      (whole_source [0, 1, 0, 1]) open_sink (snd demo_submitted) DEFAULT_MAX_FRAME_BYTES)) = snd demo_submitted"
proof -
  let ?r = "serve_stream in_memory_append in_memory_list demo_json demo_clock 5 (TaskId 2)
      (whole_source [0, 1, 0, 1]) open_sink (snd demo_submitted) DEFAULT_MAX_FRAME_BYTES"
  have "fst (read_frame (whole_source [0, 1, 0, 1]) DEFAULT_MAX_FRAME_BYTES) = Inl FrameTooLarge" by code_simp
  moreover obtain r snk' s' where r: "?r = (r, snk', s')" by (cases ?r rule: prod_cases3)
  ultimately show ?thesis using api_effect_confined [OF r] by (simp add: open_sink_def)
qed

text \<open>An event page is the next piece of the log. For a known task and a page size from 1 to
  256, a request for the events after sequence number \<open>n\<close> answers, when the store can be read,
  with the first \<open>limit\<close> events of the task's log after position \<open>n\<close>, in order and with no gap,
  and says that there are more exactly when the log is longer; the supervisor is unchanged.\<close>

theorem events_page:
  assumes "event_store ab listing lg ok" and "ok (sup_event_store s)"
    and "is_supported_protocol_version (rq_protocol_version request)" "rq_request request = Events t n limit"
    and "1 \<le> limit" "limit \<le> 256" and "sup_task_state s t \<noteq> None"
    and "listing (sup_event_store s) t n = Inr events"
  shows "handle_request ab listing w now new_id s request =
     (ok_response (EventsResult (take (unat limit) (drop n (lg (sup_event_store s) t)))
        (n + unat limit < length (lg (sup_event_store s) t))), s)"
proof -
  have "events = drop n (lg (sup_event_store s) t)"
    using event_store.list_ok [OF assms(1,2,8)] log_wf_after [OF event_store.log_wf [OF assms(1,2)]] by simp
  moreover have "limit \<noteq> 0" "\<not> MAX_EVENT_PAGE_SIZE < limit"
    using assms(5,6) by (auto simp: MAX_EVENT_PAGE_SIZE_def not_less)
  ultimately show ?thesis
    using assms(3,4,7,8) by (auto simp: handle_request_def supervisor_events_def less_diff_conv add.commute)
qed

theorem events_page_witness:
  "handle_request in_memory_append in_memory_list demo_clock 5 (TaskId 2) (snd demo_started)
      (api_request_new (Events (TaskId 1) 1 2))
     = (ok_response (EventsResult (take 2 (drop 1 (in_memory_log (sup_event_store (snd demo_started)) (TaskId 1)))) True),
        snd demo_started)"
proof -
  have len: "length (in_memory_log (sup_event_store (snd demo_started)) (TaskId 1)) = 4"
    and st: "sup_task_state (snd demo_started) (TaskId 1) \<noteq> None"
    and v: "is_supported_protocol_version (rq_protocol_version (api_request_new (Events (TaskId 1) 1 2)))"
    by code_simp+
  have ok: "in_memory_ok (sup_event_store (snd demo_started))"
    using reachable_good(1) [OF im.event_store_axioms demo_init(2,3,1,4) demo_started_reachable] by (simp add: sup_good_def)
  obtain events where "in_memory_list (sup_event_store (snd demo_started)) (TaskId 1) 1 = Inr events"
    by (simp add: in_memory_list_def)
  from events_page [OF im.event_store_axioms ok v _ _ _ st this] len show ?thesis by (simp add: api_request_new_def)
qed

text \<open>C5: the daemon keeps one history over all connections and restarts. In every state it can
  reach from an empty database, whatever the clients send, no task waits for approval and
  none is pending (the API has no way to ask for one), the log of every task rebuilds the state
  the daemon reports, and in every later state finished tasks are still finished the same
  way and the earlier history of every task is the beginning of the later one.\<close>

theorem daemon_history:
  assumes "recoverable_event_store ab listing lg ok snapshots" and "ok es" "\<forall>t. lg es t = []"
    and "supervisor_recover ab snapshots ws es AIOSD_MAX_TASKS = Inr s0"
    and "(daemon_step ab listing snapshots js server)\<^sup>*\<^sup>* s0 s" "(daemon_step ab listing snapshots js server)\<^sup>*\<^sup>* s s'"
  shows "sup_task_state s t \<noteq> Some WaitingApproval \<and> sup_pending s = []
    \<and> (length (lg (sup_event_store s) t) < 2 ^ 64 - 1 \<longrightarrow>
        (case supervisor_get s t of None \<Rightarrow> lg (sup_event_store s) t = []
         | Some snapshot \<Rightarrow> recover_snapshot t (lg (sup_event_store s) t) = Inr snapshot))
    \<and> (\<forall>st. sup_task_state s t = Some st \<longrightarrow> is_terminal st \<longrightarrow> sup_task_state s' t = Some st)
    \<and> prefix (log_kinds lg (sup_event_store s) t) (log_kinds lg (sup_event_store s') t)"
proof -
  have es: "event_store ab listing lg ok" using assms(1) by (rule recoverable_event_store.axioms(1))
  note steps = recoverable_event_store.daemon_steps_ok [OF assms(1)]
  note defs = recoverable_event_store.daemon_ok_def [OF assms(1)]
  have "recoverable_event_store.daemon_ok lg ok s0"
    by (rule recoverable_event_store.recover_daemon_ok(1) [OF assms(1,2,4), of "\<lambda>_. None"]) (simp add: assms(3))
  with steps [OF assms(5)] have ok: "recoverable_event_store.daemon_ok lg ok s" by blast
  then have g: "sup_good lg ok s" and nw: "no_waiting s" by (simp_all add: defs)
  have "sup_pending s = []" using recoverable_event_store.daemon_ok_pending [OF assms(1) ok] .
  moreover have "keeps_terminal s s'" "prefix (log_kinds lg (sup_event_store s) t) (log_kinds lg (sup_event_store s') t)"
    using steps [OF assms(6) ok] by blast+
  ultimately show ?thesis
    using nw event_store.good_recovers [OF es g] by (simp add: no_waiting_def keeps_terminal_def)
qed

definition demo_submit_json :: json_api where
  "demo_submit_json = \<lparr>
     js_probe = (\<lambda>p. Some PROTOCOL_VERSION), js_read_request = (\<lambda>p. Some (api_request_new (Submit sample_task))),
     js_write_request = (\<lambda>rq. Some [1]), js_read_response = (\<lambda>p. None), js_write_response = (\<lambda>rs. Some [2])\<rparr>"

definition demo_server :: local_server where
  "demo_server = \<lparr>ls_socket_device = 1, ls_socket_inode = 2, ls_config = server_config_default\<rparr>"

definition demo_connection :: "(nat \<Rightarrow> nat) connection" where
  "demo_connection = \<lparr>cn_configured = True, cn_source = whole_source [0, 0, 0, 1, 1], cn_sink = open_sink,
     cn_world = (\<lambda>i. 1700 + i), cn_now = 5, cn_new_id = TaskId 1\<rparr>"

definition demo_recover :: "(int \<times> sql_table) sqlite_store \<Rightarrow> supervisor_error + (int \<times> sql_table) sqlite_store supervisor" where
  "demo_recover store = supervisor_recover (sqlite_append table_db) (recover_task_snapshots table_db (\<lambda>i. i)) (\<lambda>_ i. 1800 + i)
     store AIOSD_MAX_TASKS"

definition demo_daemon :: "(int \<times> sql_table) sqlite_store supervisor" where
  "demo_daemon = projr (demo_recover demo_db)"

definition demo_served :: "(local_api_error + unit) \<times> (int \<times> sql_table) sqlite_store supervisor" where
  "demo_served = serve_once (sqlite_append table_db) (sqlite_list table_db (\<lambda>i. i)) demo_submit_json demo_server
     (Inr demo_connection) demo_daemon"

theorem daemon_history_witness:
  "sup_task_state (snd demo_served) (TaskId 1) = Some Queued \<and> sup_pending (snd demo_served) = []
   \<and> (\<exists>s'. demo_recover (sup_event_store (snd demo_served)) = Inr s'
       \<and> prefix (log_kinds (\<lambda>store. table_log table_db (snd (sqs_connection store))) (sup_event_store (snd demo_served)) (TaskId 1))
           (log_kinds (\<lambda>store. table_log table_db (snd (sqs_connection store))) (sup_event_store s') (TaskId 1)))"
proof -
  let ?step = "daemon_step (sqlite_append table_db) (sqlite_list table_db (\<lambda>i. i)) (recover_task_snapshots table_db (\<lambda>i. i))
    demo_submit_json demo_server"
  have "\<not> isl (demo_recover demo_db)" by code_simp
  then have s0: "demo_recover demo_db = Inr demo_daemon" by (simp add: demo_daemon_def isl_def split: sum.splits)
  have new: "sup_task_state demo_daemon (TaskId 1) = None" by code_simp
  have serve: "?step demo_daemon (snd demo_served)"
    by (rule daemon_step.serve [of "Inr demo_connection", where r = "fst demo_served"])
      (simp_all add: demo_served_def demo_connection_def new)
  have "\<not> isl (demo_recover (sup_event_store (snd demo_served)))" by code_simp
  then obtain s' where s': "demo_recover (sup_event_store (snd demo_served)) = Inr s'"
    by (cases "demo_recover (sup_event_store (snd demo_served))") auto
  have restart: "?step (snd demo_served) s'" by (rule daemon_step.restart) (rule s' [unfolded demo_recover_def])
  have e: "\<forall>t. table_log table_db (snd (sqs_connection demo_db)) t = []"
    by (simp add: demo_db_def table_log_def table_for_def)
  have st: "sup_task_state (snd demo_served) (TaskId 1) = Some Queued" by code_simp
  from daemon_history [OF sqlite_recoverable [OF tdb.sqlite_db_axioms] demo_db_ok e s0 [unfolded demo_recover_def]
      r_into_rtranclp [of ?step, OF serve] r_into_rtranclp [of ?step, OF restart], of "TaskId 1"] st s'
  show ?thesis by blast
qed

end
