(* ===== verification/Daemon_Main.thy ===== *)
theory Daemon_Main
  imports Daemon Cgroup
begin

text \<open>
  \<open>main\<close> of \<open>aios-local-api/src/bin/aiosd.rs\<close>: the options, the socket, the database, the recovery of
  the supervisor, the clean-up of the cgroups of the tasks that did not survive, and the loop
  that serves. One life of the daemon process from any database, with every way it can end.
\<close>

section \<open>Start-up\<close>

definition AIOSD_MAX_EVENTS :: nat where "AIOSD_MAX_EVENTS = 10000"

text \<open>What is outside the process when it starts: the directories, sockets and database files by
  their paths, and the answers of the calls that may fail. \<open>st_replaced\<close> is what another process
  has put in place of the socket when \<open>aiosd\<close> ends.\<close>

record ('w, 'c) startup =
  st_directory :: "component list \<Rightarrow> dir_entry"
  st_create_directory :: bool
  st_socket :: "string \<Rightarrow> socket_entry"
  st_bound :: "unit + socket_file"
  st_chmod :: bool
  st_stat :: bool
  st_replaced :: "socket_entry option"
  st_removable :: bool
  st_database :: "string \<Rightarrow> path_metadata"
  st_create_database :: bool
  st_open :: "string \<Rightarrow> unit + 'c"
  st_world :: 'w
  st_recovery_world :: 'w
  st_recovery_worlds :: "nat \<Rightarrow> 'w"

datatype startup_error =
  StartOptions | StartSocket local_api_error | StartStore event_store_error | StartRecovery supervisor_error
  | StartCgroup process_adapter_error

definition daemon_bind ::
  "('w, 'c) startup \<Rightarrow> string \<Rightarrow> (startup_error + local_server) \<times> ('w, 'c) startup" where
  "daemon_bind env path =
     (let parent = (case path_parent path of None \<Rightarrow> [] | Some parent \<Rightarrow> parent) in
      case local_server_bind (parent \<noteq> []) (st_directory env parent) (st_create_directory env) (st_socket env path)
             (st_bound env) (st_chmod env) (st_stat env) server_config_default of
        (r, entry, socket) \<Rightarrow>
          (map_err StartSocket r,
           env\<lparr>st_directory := (st_directory env)(parent := entry), st_socket := (st_socket env)(path := socket)\<rparr>))"

text \<open>\<open>server\<close> goes out of scope at every return of \<open>main\<close> after the bind.\<close>

definition daemon_drop :: "('w, 'c) startup \<Rightarrow> string \<Rightarrow> local_server \<Rightarrow> ('w, 'c) startup" where
  "daemon_drop env path server =
     (let socket = (case st_replaced env of None \<Rightarrow> st_socket env path | Some socket \<Rightarrow> socket) in
      env\<lparr>st_socket := (st_socket env)(path := local_server_drop server (st_removable env) socket)\<rparr>)"

definition daemon_recover ::
  "('w, 'c, 't) sqlite_api \<Rightarrow> ('w, 'c) startup \<Rightarrow> string
   \<Rightarrow> (startup_error + 'c sqlite_store supervisor) \<times> ('w, 'c) startup" where
  "daemon_recover db env path =
     (case sqlite_open db (st_world env) (st_database env path) (st_create_database env) (st_open env path) AIOSD_MAX_EVENTS of
        (r, metadata) \<Rightarrow>
          (case r of
             Inl e \<Rightarrow> Inl (StartStore e)
           | Inr store \<Rightarrow>
               map_err StartRecovery (supervisor_recover (sqlite_append db) (recover_task_snapshots db (st_recovery_world env))
                 (st_recovery_worlds env) store AIOSD_MAX_TASKS),
           env\<lparr>st_database := (st_database env)(path := metadata)\<rparr>))"

definition daemon_cgroups ::
  "bool \<Rightarrow> 'k host_api \<Rightarrow> (task_id \<Rightarrow> string) \<Rightarrow> string option \<Rightarrow> task_id list \<Rightarrow> 'k \<Rightarrow> ((startup_error + unit) \<times> 'k) option" where
  "daemon_cgroups linux h uuid cgroup_root task_ids k =
     (case cgroup_root of
        None \<Rightarrow> Some (Inr (), k)
      | Some root \<Rightarrow>
          (case cgroup_manager_new linux h root k of
             (Inl e, k) \<Rightarrow> Some (Inl (StartCgroup e), k)
           | (Inr m, k) \<Rightarrow>
               map_option (\<lambda>(r, k). (map_err StartCgroup (map_result (\<lambda>removed. ()) r), k))
                 (reconcile_stale_task_cgroups h uuid m task_ids k)))"

text \<open>\<open>main\<close> up to the call of \<open>serve_forever\<close>. \<open>None\<close> would be not returning.\<close>

definition daemon_start ::
  "bool \<Rightarrow> ('w, 'c, 't) sqlite_api \<Rightarrow> 'k host_api \<Rightarrow> (task_id \<Rightarrow> string) \<Rightarrow> ('w, 'c) startup \<Rightarrow> string list \<Rightarrow> 'k
   \<Rightarrow> ((startup_error + daemon_options \<times> local_server \<times> 'c sqlite_store supervisor) \<times> ('w, 'c) startup \<times> 'k) option" where
  "daemon_start linux db h uuid env arguments k =
     (case daemon_options_parse arguments of
        Inl _ \<Rightarrow> Some (Inl StartOptions, env, k)
      | Inr options \<Rightarrow>
          (case daemon_bind env (do_socket options) of
             (Inl e, env) \<Rightarrow> Some (Inl e, env, k)
           | (Inr server, env) \<Rightarrow>
               (case daemon_recover db env (do_database options) of
                  (Inl e, env) \<Rightarrow> Some (Inl e, daemon_drop env (do_socket options) server, k)
                | (Inr s, env) \<Rightarrow>
                    map_option (\<lambda>(r, k). case r of
                        Inl e \<Rightarrow> (Inl e, daemon_drop env (do_socket options) server, k)
                      | Inr _ \<Rightarrow> (Inr (options, server, s), env, k))
                      (daemon_cgroups linux h uuid (do_cgroup_root options) (recovered_task_ids s) k))))"

text \<open>The whole of \<open>main\<close>, given the connections that arrive: an error of the start-up, or the
  supervisor after the last connection, with \<open>None\<close> for a daemon that still listens.\<close>

definition daemon_main ::
  "bool \<Rightarrow> ('w, 'c, 't) sqlite_api \<Rightarrow> 'w \<Rightarrow> json_api \<Rightarrow> 'k host_api \<Rightarrow> (task_id \<Rightarrow> string) \<Rightarrow> ('w, 'c) startup \<Rightarrow> string list
   \<Rightarrow> (unit + 'w connection) list \<Rightarrow> 'k
   \<Rightarrow> ((startup_error + local_api_error option \<times> 'c sqlite_store supervisor) \<times> ('w, 'c) startup \<times> 'k) option" where
  "daemon_main linux db w js h uuid env arguments accepted k =
     map_option (\<lambda>(r, env, k). case r of
         Inl e \<Rightarrow> (Inl e, env, k)
       | Inr (options, server, s) \<Rightarrow>
           (case serve_forever (sqlite_append db) (sqlite_list db w) js server accepted s of
              (None, s) \<Rightarrow> (Inr (None, s), env, k)
            | (Some e, s) \<Rightarrow> (Inr (Some e, s), daemon_drop env (do_socket options) server, k)))
       (daemon_start linux db h uuid env arguments k)"

section \<open>What recovery finds\<close>

context recoverable_event_store
begin

lemma recovered_states:
  assumes "store_ok es" and "snapshots es = Inr snaps"
  obtains state where "\<And>t. case state t of None \<Rightarrow> log es t = [] | Some st \<Rightarrow> replays_to (log_kinds log es t) st"
proof
  note rp = snapshots_replay [OF assms]
  define state where "state t = map_option snap_state (find (\<lambda>snap. snap_task_id snap = t) snaps)" for t
  fix t show "case state t of None \<Rightarrow> log es t = [] | Some st \<Rightarrow> replays_to (log_kinds log es t) st"
  proof (cases "find (\<lambda>snap. snap_task_id snap = t) snaps")
    case None
    then have "t \<notin> snap_task_id ` set snaps" by (auto simp: find_None_iff)
    with rp(2) [of t] None show ?thesis by (simp add: state_def)
  next
    case (Some snap)
    then have "snap \<in> set snaps" "snap_task_id snap = t" by (auto simp: find_Some_iff)
    with rp(3) [of snap] Some show ?thesis by (simp add: state_def log_kinds_def)
  qed
qed

lemma recover_from_any:
  assumes ok: "store_ok es" and eq: "supervisor_recover append snapshots ws es AIOSD_MAX_TASKS = Inr s"
  shows "daemon_ok s" and "sup_task_state s t = None \<longleftrightarrow> log es t = []"
    and "sup_task_state s t = Some st \<Longrightarrow> is_terminal st"
    and "prefix (log_kinds log es t) (log_kinds log (sup_event_store s) t)"
    and "t \<in> set (recovered_task_ids s) \<longleftrightarrow> log es t \<noteq> []"
    and "sup_pending s = [] \<and> sup_approved s = []"
proof -
  obtain snaps where "snapshots es = Inr snaps"
    using eq by (auto simp: supervisor_recover_def split: if_splits sum.splits)
  from recovered_states [OF ok this] obtain state
    where st: "\<And>t. case state t of None \<Rightarrow> log es t = [] | Some st \<Rightarrow> replays_to (log_kinds log es t) st" by blast
  note r = recover_daemon_ok [OF ok eq st]
  have parts: "sup_tasks s = [] \<and> sup_pending s = [] \<and> sup_approved s = [] \<and> sup_authority s = authority_default"
    by (rule supervisor_recover_facts(5) [OF ok _ eq st]) (simp add: AIOSD_MAX_TASKS_def)
  show "daemon_ok s" by (rule r(1))
  show none: "sup_task_state s t = None \<longleftrightarrow> log es t = []" for t
    using r(2) [of t] st [of t] by (auto simp: replays_to_def log_kinds_def split: option.splits)
  show "is_terminal st" if "sup_task_state s t = Some st"
    using that r(2) [of t] by (auto simp: restart_state_def split: if_splits)
  show "prefix (log_kinds log es t) (log_kinds log (sup_event_store s) t)" using r(3) [of t] by simp
  show "sup_pending s = [] \<and> sup_approved s = []" using parts by simp
  have "t \<in> set (recovered_task_ids s) \<longleftrightarrow> sup_task_state s t \<noteq> None"
    using parts by (auto simp: recovered_task_ids_def sup_task_state_def map_of_eq_None_iff)
  then show "t \<in> set (recovered_task_ids s) \<longleftrightarrow> log es t \<noteq> []" by (simp add: none)
qed

end

section \<open>The serving loop\<close>

fun new_ids :: "(unit + 'w connection) list \<Rightarrow> task_id list" where
  "new_ids [] = []"
| "new_ids (Inl _ # cs) = new_ids cs"
| "new_ids (Inr c # cs) = cn_new_id c # new_ids cs"

lemma unknown_stays:
  "transition ab w s t nxt = (r, s') \<Longrightarrow> sup_task_state s t = None \<Longrightarrow> sup_task_state s' t = None"
  "start ab w now s t = (r1, s1) \<Longrightarrow> sup_task_state s t = None \<Longrightarrow> sup_task_state s1 t = None"
  "cancel ab w s t = (r2, s2) \<Longrightarrow> sup_task_state s t = None \<Longrightarrow> sup_task_state s2 t = None"
  by (simp_all add: transition_def start_def cancel_def split: option.splits)

lemma changes_only_unknown:
  "changes_only t s s' \<Longrightarrow> (sup_task_state s t = None \<Longrightarrow> sup_task_state s' t = None)
   \<Longrightarrow> sup_task_state s u = None \<Longrightarrow> sup_task_state s' u = None"
  by (cases "u = t") (simp_all add: changes_only_def)

context event_store
begin

lemma request_unknown:
  assumes g: "good s" and new: "sup_task_state s new_id = None" and u: "u \<noteq> new_id" "sup_task_state s u = None"
    and s': "s' = snd (handle_request append listing w now new_id s rq)"
  shows "sup_task_state s' u = None"
proof (cases "is_supported_protocol_version (rq_protocol_version rq) \<and> mutating (rq_request rq)")
  case False
  then have "s' = s" using s' by (simp add: handle_request_state mutating_def split: api_method.splits)
  with u show ?thesis by simp
next
  case True
  note st = s' [unfolded handle_request_state]
  show ?thesis
  proof (cases "rq_request rq")
    case (Submit task)
    then have "submit append w new_id s task = (fst (submit append w new_id s task), s')" using st True by simp
    with g new show ?thesis
      by (cases rule: submit_cases) (use u in \<open>auto simp: sup_task_state_def add_task_def split: option.splits\<close>)
  next
    case (Start t)
    then have "start append w now s t = (fst (start append w now s t), s')" using st True by simp
    from changes_only_unknown [OF start_changes [OF this] unknown_stays(2) [OF this] u(2)] show ?thesis by simp
  next
    case (Succeed t)
    then have "transition append w s t Succeeded = (fst (succeed append w s t), s')" using st True by (simp add: succeed_def)
    from changes_only_unknown [OF transition_changes [OF this] unknown_stays(1) [OF this] u(2)] show ?thesis by simp
  next
    case (Fail t)
    then have "transition append w s t Failed = (fst (fail append w s t), s')" using st True by (simp add: fail_def)
    from changes_only_unknown [OF transition_changes [OF this] unknown_stays(1) [OF this] u(2)] show ?thesis by simp
  next
    case (Cancel t)
    then have "cancel append w s t = (fst (cancel append w s t), s')" using st True by simp
    from changes_only_unknown [OF cancel_changes [OF this] unknown_stays(3) [OF this] u(2)] show ?thesis by simp
  qed (use True in \<open>simp_all add: mutating_def\<close>)
qed

end

context recoverable_event_store
begin

text \<open>One round of the loop is \<open>serve_once\<close> with its error ignored.\<close>

lemma serve_round:
  assumes eq: "serve_once append listing js server (Inr c) s = (r, s')" and ok: "daemon_ok s"
    and new: "sup_task_state s (cn_new_id c) = None"
  shows "daemon_step append listing snapshots js server s s'"
    and "u \<noteq> cn_new_id c \<Longrightarrow> sup_task_state s u = None \<Longrightarrow> sup_task_state s' u = None"
proof -
  show "daemon_step append listing snapshots js server s s'" by (rule daemon_step.serve [OF _ eq]) (simp add: new)
  assume u: "u \<noteq> cn_new_id c" "sup_task_state s u = None"
  from eq show "sup_task_state s' u = None"
  proof (cases rule: serve_once_effect)
    case (2 c' rq)
    then show ?thesis using request_unknown [OF _ new u] ok by (simp add: daemon_ok_def)
  qed (simp add: u)
qed

lemma serve_forever_steps:
  assumes "serve_forever append listing js server accepted s = (r, s')" and "daemon_ok s"
    and "distinct (new_ids accepted)" "\<forall>t \<in> set (new_ids accepted). sup_task_state s t = None"
  shows "(daemon_step append listing snapshots js server)\<^sup>*\<^sup>* s s'"
  using assms
proof (induction accepted arbitrary: s rule: new_ids.induct)
  case (3 c cs)
  obtain r1 s1 where once: "serve_once append listing js server (Inr c) s = (r1, s1)" by fastforce
  have new: "sup_task_state s (cn_new_id c) = None" using 3(5) by simp
  note round = serve_round [OF once 3(3) new]
  have "serve_forever append listing js server cs s1 = (r, s')"
    using 3(2) once by (auto simp: serve_once_def split: if_splits prod.splits)
  moreover have "daemon_ok s1" using daemon_step_ok [OF round(1) 3(3)] by blast
  moreover have "\<forall>t \<in> set (new_ids cs). sup_task_state s1 t = None"
  proof
    fix t assume "t \<in> set (new_ids cs)"
    then have "t \<noteq> cn_new_id c" "sup_task_state s t = None" using 3(4,5) by auto
    then show "sup_task_state s1 t = None" by (rule round(2))
  qed
  ultimately have "(daemon_step append listing snapshots js server)\<^sup>*\<^sup>* s1 s'" using 3(1,4) by simp
  with round(1) show ?case by (rule converse_rtranclp_into_rtranclp)
qed simp_all

end

section \<open>A settled start\<close>

text \<open>A supervisor that knows exactly the tasks with a log, each of them finished, with no approval.\<close>

definition settled :: "(task_id \<Rightarrow> task_event list) \<Rightarrow> 's supervisor \<Rightarrow> bool" where
  "settled lg s \<longleftrightarrow>
     (\<forall>t. (sup_task_state s t = None \<longleftrightarrow> lg t = []) \<and> (t \<in> set (recovered_task_ids s) \<longleftrightarrow> lg t \<noteq> [])
        \<and> (\<forall>st. sup_task_state s t = Some st \<longrightarrow> is_terminal st))
     \<and> sup_pending s = [] \<and> sup_approved s = []"

text \<open>The socket is new and private, the database a private regular file.\<close>

definition private_files :: "('w, 'c) startup \<Rightarrow> ('w, 'c) startup \<Rightarrow> daemon_options \<Rightarrow> bool" where
  "private_files env env' options \<longleftrightarrow>
     st_socket env (do_socket options) = SocketMissing
     \<and> (case st_socket env' (do_socket options) of SocketPresent sf \<Rightarrow> sf_mode sf = 384 | _ \<Rightarrow> False)
     \<and> (case st_database env' (do_database options) of
          Present md \<Rightarrow> \<not> file_metadata.md_is_symlink md \<and> file_metadata.md_is_file md \<and> and (file_metadata.md_mode md) 63 = 0
        | _ \<Rightarrow> False)"

section \<open>The steps of the start-up\<close>

lemma daemon_bind_Inr:
  assumes "daemon_bind env path = (Inr server, env')"
  obtains sf directory where "st_socket env path = SocketMissing" "st_bound env = Inr sf"
    "ls_socket_device server = sf_device sf" "ls_socket_inode server = sf_inode sf"
    "env' = env\<lparr>st_directory := directory, st_socket := (st_socket env)(path := SocketPresent (sf\<lparr>sf_mode := 384\<rparr>))\<rparr>"
  using assms
  by (auto simp: daemon_bind_def local_server_bind_def Let_def
      split: prod.splits sum.splits if_splits socket_entry.splits option.splits)

lemma daemon_bind_Inl:
  assumes "daemon_bind env path = (Inl e, env')" and "st_chmod env" "st_stat env"
  shows "st_socket env' = st_socket env"
  using assms
  by (auto simp: daemon_bind_def local_server_bind_def Let_def
      split: prod.splits sum.splits if_splits socket_entry.splits option.splits)

lemma daemon_recover_frame:
  assumes "daemon_recover db env path = (r, env')"
  obtains metadata where "env' = env\<lparr>st_database := (st_database env)(path := metadata)\<rparr>"
  using assms by (auto simp: daemon_recover_def split: prod.splits)

lemma daemon_cgroups_returns:
  "monotone_clock h clock \<Longrightarrow> \<exists>r k'. daemon_cgroups linux h uuid root ids k = Some (r, k')"
  using reconcile_returns [of h clock uuid]
  by (fastforce simp: daemon_cgroups_def split: option.splits prod.splits sum.splits)

lemma daemon_cgroups_Inr:
  assumes "daemon_cgroups linux h uuid (Some root) ids k = Some (Inr u, k')"
  obtains m k1 n where "cgroup_manager_new linux h root k = (Inr m, k1)"
    "reconcile_stale_task_cgroups h uuid m ids k1 = Some (Inr n, k')"
  using assms by (auto simp: daemon_cgroups_def split: prod.splits sum.splits)

text \<open>The socket of a daemon that stops is gone, and nothing else changed.\<close>

lemma daemon_drop_own:
  assumes "daemon_bind env path = (Inr server, env1)" and "st_socket env2 = st_socket env1"
    and "st_replaced env2 = None" "st_removable env2" and "\<forall>sf. st_bound env = Inr sf \<longrightarrow> sf_is_socket sf"
  shows "st_socket (daemon_drop env2 path server) = st_socket env"
  using assms(1)
proof (cases rule: daemon_bind_Inr)
  case (1 sf directory)
  then show ?thesis using assms(2-5) by (auto simp: daemon_drop_def local_server_drop_def)
qed

lemma daemon_start_cases:
  assumes eq: "daemon_start linux db h uuid env arguments k = Some (r, env', k')"
  obtains (options) "r = Inl StartOptions" "env' = env" "k' = k"
  | (bind) options :: daemon_options and e where "daemon_bind env (do_socket options) = (Inl e, env')" "r = Inl e" "k' = k"
  | (recover) options :: daemon_options and server env1 e env2 where "daemon_bind env (do_socket options) = (Inr server, env1)"
      "daemon_recover db env1 (do_database options) = (Inl e, env2)"
      "r = Inl e" "env' = daemon_drop env2 (do_socket options) server" "k' = k"
  | (cgroups) options :: daemon_options and server env1 s env2 e where "daemon_bind env (do_socket options) = (Inr server, env1)"
      "daemon_recover db env1 (do_database options) = (Inr s, env2)"
      "r = Inl e" "env' = daemon_drop env2 (do_socket options) server"
  | (serving) options server env1 s where "daemon_options_parse arguments = Inr options"
      "daemon_bind env (do_socket options) = (Inr server, env1)" "daemon_recover db env1 (do_database options) = (Inr s, env')"
      "daemon_cgroups linux h uuid (do_cgroup_root options) (recovered_task_ids s) k = Some (Inr (), k')"
      "r = Inr (options, server, s)"
proof (cases "daemon_options_parse arguments")
  case (Inl u)
  then show thesis using eq options by (simp add: daemon_start_def)
next
  case o: (Inr opts)
  obtain b env1 where b: "daemon_bind env (do_socket opts) = (b, env1)" by fastforce
  show thesis
  proof (cases b)
    case (Inl e)
    then show thesis using eq o b by (intro bind [of opts e]) (simp_all add: daemon_start_def)
  next
    case server: (Inr server)
    obtain d env2 where d: "daemon_recover db env1 (do_database opts) = (d, env2)" by fastforce
    show thesis
    proof (cases d)
      case (Inl e)
      then show thesis using eq o b server d by (intro recover [of opts server env1 e env2]) (simp_all add: daemon_start_def)
    next
      case s: (Inr s)
      obtain c k2 where c: "daemon_cgroups linux h uuid (do_cgroup_root opts) (recovered_task_ids s) k = Some (c, k2)"
        using eq o b server d s by (auto simp: daemon_start_def)
      show thesis
      proof (cases c)
        case (Inl e)
        then show thesis using eq o b server d s c by (intro cgroups [of opts server env1 s env2 e]) (simp_all add: daemon_start_def)
      next
        case (Inr u)
        then show thesis using eq o b server d s c by (intro serving [of opts server env1 s]) (simp_all add: daemon_start_def)
      qed
    qed
  qed
qed

context sqlite_setup
begin

lemma daemon_recover_Inr:
  assumes eq: "daemon_recover db env path = (Inr s, env')"
  obtains c store where "st_open env path = Inr c" "rows (sqs_connection store) = rows c"
    "supervisor_recover (sqlite_append db) (recover_task_snapshots db (st_recovery_world env)) (st_recovery_worlds env) store
       AIOSD_MAX_TASKS = Inr s"
proof -
  obtain store md where o: "sqlite_open db (st_world env) (st_database env path) (st_create_database env) (st_open env path)
      AIOSD_MAX_EVENTS = (Inr store, md)"
    and rec: "supervisor_recover (sqlite_append db) (recover_task_snapshots db (st_recovery_world env)) (st_recovery_worlds env)
      store AIOSD_MAX_TASKS = Inr s"
    using eq by (auto simp: daemon_recover_def split: prod.splits sum.splits)
  from o show thesis by (cases rule: sqlite_open_keeps) (rule that [OF _ _ rec])
qed

lemma daemon_start_Inr:
  assumes eq: "daemon_start linux db h uuid env arguments k = Some (Inr (options, server, s), env', k')"
    and ok: "\<forall>path c. st_open env path = Inr c \<longrightarrow> table_ok db (rows c)"
  obtains c store ws w where "daemon_options_parse arguments = Inr options" "st_open env (do_database options) = Inr c"
    "rows (sqs_connection store) = rows c" "table_ok db (rows (sqs_connection store))"
    "supervisor_recover (sqlite_append db) (recover_task_snapshots db w) ws store AIOSD_MAX_TASKS = Inr s"
proof -
  obtain env1 where o: "daemon_options_parse arguments = Inr options"
    and b: "daemon_bind env (do_socket options) = (Inr server, env1)"
    and r: "daemon_recover db env1 (do_database options) = (Inr s, env')"
    using eq by (cases rule: daemon_start_cases) auto
  obtain directory socket where env1: "env1 = env\<lparr>st_directory := directory, st_socket := socket\<rparr>"
    using b by (cases rule: daemon_bind_Inr)
  from r show thesis
  proof (cases rule: daemon_recover_Inr)
    case (1 c store)
    then have "st_open env (do_database options) = Inr c" using env1 by simp
    with 1 o ok show thesis by (intro that [of c store]) auto
  qed
qed

end

text \<open>The files and cgroups of a daemon that serves.\<close>

lemma daemon_start_private:
  assumes "daemon_start linux db h uuid env arguments k = Some (Inr (options, server, s), env', k')"
  shows "private_files env env' options"
proof -
  obtain env1 where b: "daemon_bind env (do_socket options) = (Inr server, env1)"
    and r: "daemon_recover db env1 (do_database options) = (Inr s, env')"
    using assms by (cases rule: daemon_start_cases) auto
  obtain store md where o: "sqlite_open db (st_world env1) (st_database env1 (do_database options)) (st_create_database env1)
      (st_open env1 (do_database options)) AIOSD_MAX_EVENTS = (Inr store, md)"
    and env': "env' = env1\<lparr>st_database := (st_database env1)(do_database options := md)\<rparr>"
    using r by (auto simp: daemon_recover_def split: prod.splits sum.splits)
  from b show ?thesis
    by (cases rule: daemon_bind_Inr, cases rule: sqlite_open_private [OF o]) (simp add: env' private_files_def)
qed

lemma daemon_start_cgroups:
  assumes "daemon_start linux db h uuid env arguments k = Some (Inr (options, server, s), env', k')"
    and "do_cgroup_root options = Some root"
  shows "\<exists>m k1 n. cgroup_manager_new linux h root k = (Inr m, k1)
     \<and> reconcile_stale_task_cgroups h uuid m (recovered_task_ids s) k1 = Some (Inr n, k')"
proof -
  have "daemon_cgroups linux h uuid (Some root) (recovered_task_ids s) k = Some (Inr (), k')"
    using assms by (cases rule: daemon_start_cases) auto
  then show ?thesis by (cases rule: daemon_cgroups_Inr) blast
qed

lemma daemon_start_settled:
  assumes "sqlite_setup db rows tx_rows tx_base" and "\<forall>path c. st_open env path = Inr c \<longrightarrow> table_ok db (rows c)"
    and eq: "daemon_start linux db h uuid env arguments k = Some (Inr (options, server, s), env', k')"
  shows "\<exists>c. st_open env (do_database options) = Inr c \<and> settled (table_log db (rows c)) s"
proof -
  note db = sqlite_setup.axioms(1) [OF assms(1)]
  obtain c store ws w where "daemon_options_parse arguments = Inr options" and c: "st_open env (do_database options) = Inr c"
      "rows (sqs_connection store) = rows c" "table_ok db (rows (sqs_connection store))"
    and rec: "supervisor_recover (sqlite_append db) (recover_task_snapshots db w) ws store AIOSD_MAX_TASKS = Inr s"
    by (rule sqlite_setup.daemon_start_Inr [OF assms(1) eq assms(2)])
  note f = recoverable_event_store.recover_from_any [OF sqlite_recoverable [OF db] c(3) rec]
  from f(2,3,5,6) have "settled (table_log db (rows c)) s" unfolding settled_def c(2) by simp
  with c(1) show ?thesis by blast
qed

lemma daemon_start_returns:
  assumes "monotone_clock h clock"
  shows "\<exists>r env' k'. daemon_start linux db h uuid env arguments k = Some (r, env', k')"
proof -
  have "daemon_cgroups linux h uuid root ids k \<noteq> None" for root ids
    using daemon_cgroups_returns [OF assms, of linux uuid root ids k] by auto
  then have "daemon_start linux db h uuid env arguments k \<noteq> None"
    by (simp add: daemon_start_def del: not_None_eq split: sum.splits prod.splits)
  then show ?thesis by auto
qed

lemma daemon_drop_restores:
  assumes b: "daemon_bind env path = (Inr server, env1)" and r: "daemon_recover db env1 path' = (x, env2)"
    and "st_removable env" "st_replaced env = None" "\<forall>sf. st_bound env = Inr sf \<longrightarrow> sf_is_socket sf"
  shows "st_socket (daemon_drop env2 path server) = st_socket env"
proof -
  obtain directory socket where "env1 = env\<lparr>st_directory := directory, st_socket := socket\<rparr>"
    using b by (cases rule: daemon_bind_Inr)
  moreover obtain metadata where "env2 = env1\<lparr>st_database := (st_database env1)(path' := metadata)\<rparr>"
    using r by (cases rule: daemon_recover_frame)
  ultimately show ?thesis using daemon_drop_own [OF b, of env2] assms(3-5) by simp
qed

lemma daemon_start_error:
  assumes "daemon_start linux db h uuid env arguments k = Some (Inl e, env', k')"
    and "st_chmod env" "st_stat env" "st_removable env" "st_replaced env = None"
    and "\<forall>sf. st_bound env = Inr sf \<longrightarrow> sf_is_socket sf"
  shows "st_socket env' = st_socket env"
  using assms(1)
  by (cases rule: daemon_start_cases) (use daemon_bind_Inl assms(2,3) daemon_drop_restores [OF _ _ assms(4-6)] in auto)

section \<open>One life of the process\<close>

text \<open>What a life of the daemon makes of the logs \<open>lg\<close> it found: the later logs \<open>lg'\<close> begin with
  them, they say what the supervisor reports, and what was found is finished.\<close>

definition continues :: "(task_id \<Rightarrow> task_event list) \<Rightarrow> (task_id \<Rightarrow> task_event list) \<Rightarrow> 's supervisor \<Rightarrow> bool" where
  "continues lg lg' s \<longleftrightarrow> sup_pending s = []
     \<and> (\<forall>t. prefix (map ev_kind (lg t)) (map ev_kind (lg' t)) \<and> sup_task_state s t \<noteq> Some WaitingApproval
          \<and> (case supervisor_get s t of None \<Rightarrow> lg' t = [] | Some snapshot \<Rightarrow> recover_snapshot t (lg' t) = Inr snapshot)
          \<and> (lg t \<noteq> [] \<longrightarrow> (\<exists>st. sup_task_state s t = Some st \<and> is_terminal st)))"

lemma serve_forever_ends:
  "fst (serve_forever ab listing js server accepted s) = None \<longleftrightarrow> list_all (\<lambda>a. \<not> isl a) accepted"
  by (induction ab listing js server accepted s rule: serve_forever.induct) (auto split: prod.splits)

lemma daemon_main_returns:
  assumes "monotone_clock h clock"
  shows "\<exists>r env' k'. daemon_main linux db w js h uuid env arguments accepted k = Some (r, env', k')"
proof -
  have "daemon_main linux db w js h uuid env arguments accepted k \<noteq> None"
    using daemon_start_returns [OF assms, of linux db uuid env arguments k] by (auto simp: daemon_main_def)
  then show ?thesis by auto
qed

lemma daemon_main_Inr:
  assumes eq: "daemon_main linux db w js h uuid env arguments accepted k = Some (Inr (x, s'), env', k')"
  obtains options server s env1 where
    "daemon_start linux db h uuid env arguments k = Some (Inr (options, server, s), env1, k')"
    "serve_forever (sqlite_append db) (sqlite_list db w) js server accepted s = (x, s')"
    "env' = (if x = None then env1 else daemon_drop env1 (do_socket options) server)"
proof -
  obtain r env1 k1 where st: "daemon_start linux db h uuid env arguments k = Some (r, env1, k1)"
    using eq by (auto simp: daemon_main_def)
  show thesis
  proof (cases r)
    case (Inl e)
    then show thesis using eq st by (simp add: daemon_main_def)
  next
    case (Inr a)
    obtain options server s where a: "a = (options, server, s)" by (cases a)
    obtain y u where sv: "serve_forever (sqlite_append db) (sqlite_list db w) js server accepted s = (y, u)" by fastforce
    show thesis
      using eq st Inr a sv by (intro that [of options server s env1]) (auto simp: daemon_main_def split: option.splits)
  qed
qed

context sqlite_setup
begin

lemma daemon_life_ok:
  assumes rec: "supervisor_recover (sqlite_append db) (recover_task_snapshots db v) ws store AIOSD_MAX_TASKS = Inr s"
    and ok: "sq_ok store" and serve: "serve_forever (sqlite_append db) (sqlite_list db w) js server accepted s = (x, s')"
    and ids: "distinct (new_ids accepted)" "\<forall>t \<in> set (new_ids accepted). sq_log store t = []"
  shows "sq_ok (sup_event_store s') \<and> continues (sq_log store) (sq_log (sup_event_store s')) s'"
proof -
  note f = sq.recover_from_any [OF ok rec]
  have "\<forall>t \<in> set (new_ids accepted). sup_task_state s t = None" using ids(2) f(2) by simp
  note steps = sq.serve_forever_steps [OF serve f(1) ids(1) this]
  note later = sq.daemon_steps_ok [OF steps f(1)]
  have d: "sq.daemon_ok s'" and kt: "keeps_terminal s s'" using later by blast+
  then have g: "sup_good sq_log sq_ok s'" and nw: "no_waiting s'" by (simp_all add: sq.daemon_ok_def)
  have ok': "sq_ok (sup_event_store s')" using g by (simp add: sup_good_def)
  have "length (sq_log (sup_event_store s') t) < 2 ^ 63" for t
    using ok' unfolding sq_ok_def table_ok_def sq_log_def table_log_def length_map by blast
  then have "length (sq_log (sup_event_store s') t) < 2 ^ 64 - 1" for t by (rule less_trans) simp
  then have "case supervisor_get s' t of None \<Rightarrow> sq_log (sup_event_store s') t = []
      | Some snapshot \<Rightarrow> recover_snapshot t (sq_log (sup_event_store s') t) = Inr snapshot" for t
    using event_store.good_recovers [OF sqlite_event_store g] by blast
  moreover have "prefix (map ev_kind (sq_log store t)) (map ev_kind (sq_log (sup_event_store s') t))" for t
    using f(4) [of t] later [of t] by (auto simp: log_kinds_def intro: prefix_order.trans)
  moreover have "\<exists>st. sup_task_state s' t = Some st \<and> is_terminal st" if "sq_log store t \<noteq> []" for t
    using that f(2,3) [of t] kt by (cases "sup_task_state s t") (auto simp: keeps_terminal_def)
  ultimately show ?thesis
    using ok' nw sq.daemon_ok_pending [OF d] by (simp add: continues_def no_waiting_def)
qed

end

lemma daemon_main_keeps:
  assumes "sqlite_setup db rows tx_rows tx_base" and ok: "\<forall>path c. st_open env path = Inr c \<longrightarrow> table_ok db (rows c)"
    and ids: "distinct (new_ids accepted)"
      "\<forall>t \<in> set (new_ids accepted). \<forall>path c. st_open env path = Inr c \<longrightarrow> table_log db (rows c) t = []"
    and eq: "daemon_main linux db w js h uuid env arguments accepted k = Some (Inr (x, s'), env', k')"
  shows "table_ok db (rows (sqs_connection (sup_event_store s')))
    \<and> (\<exists>options c. daemon_options_parse arguments = Inr options \<and> st_open env (do_database options) = Inr c
         \<and> continues (table_log db (rows c)) (table_log db (rows (sqs_connection (sup_event_store s')))) s')"
proof -
  note defs = sqlite_db.sq_log_def [OF sqlite_setup.axioms(1) [OF assms(1)]] sqlite_db.sq_ok_def [OF sqlite_setup.axioms(1) [OF assms(1)]]
  obtain options server s env1 where st: "daemon_start linux db h uuid env arguments k = Some (Inr (options, server, s), env1, k')"
    and sv: "serve_forever (sqlite_append db) (sqlite_list db w) js server accepted s = (x, s')"
    using eq by (rule daemon_main_Inr)
  obtain c store ws v where o: "daemon_options_parse arguments = Inr options" "st_open env (do_database options) = Inr c"
      and c: "rows (sqs_connection store) = rows c" "table_ok db (rows (sqs_connection store))"
      and rec: "supervisor_recover (sqlite_append db) (recover_task_snapshots db v) ws store AIOSD_MAX_TASKS = Inr s"
    by (rule sqlite_setup.daemon_start_Inr [OF assms(1) st ok])
  have "\<forall>t \<in> set (new_ids accepted). table_log db (rows (sqs_connection store)) t = []" using ids(2) o(2) c(1) by simp
  from sqlite_setup.daemon_life_ok [OF assms(1) rec, unfolded defs, OF c(2) sv ids(1) this] c(1) o show ?thesis by auto
qed

lemma daemon_main_socket:
  assumes "daemon_main linux db w js h uuid env arguments accepted k = Some (Inr (x, s'), env', k')" and "x \<noteq> None"
    and "st_removable env \<and> st_replaced env = None \<and> (\<forall>sf. st_bound env = Inr sf \<longrightarrow> sf_is_socket sf)"
  shows "st_socket env' = st_socket env"
proof -
  obtain options server s env1 where st: "daemon_start linux db h uuid env arguments k = Some (Inr (options, server, s), env1, k')"
    and env': "env' = daemon_drop env1 (do_socket options) server"
    using assms(1,2) by (auto elim: daemon_main_Inr)
  from st obtain env0 where "daemon_bind env (do_socket options) = (Inr server, env0)"
      "daemon_recover db env0 (do_database options) = (Inr s, env1)"
    by (cases rule: daemon_start_cases) auto
  from daemon_drop_restores [OF this] assms(3) env' show ?thesis by simp
qed

section \<open>Properties\<close>


definition demo_startup :: "(nat \<Rightarrow> nat, int \<times> sql_table) startup" where
  "demo_startup = \<lparr>st_directory = (\<lambda>_. DirMissing), st_create_directory = True, st_socket = (\<lambda>_. SocketMissing),
     st_bound = Inr \<lparr>sf_is_socket = True, sf_device = 1, sf_inode = 7, sf_mode = 511\<rparr>, st_chmod = True, st_stat = True,
     st_replaced = None, st_removable = True,
     st_database = (\<lambda>_. Present (file_metadata.make False True 384)), st_create_database = True,
     st_open = (\<lambda>_. Inr (sqs_connection (snd demo_stored))), st_world = (\<lambda>i. i), st_recovery_world = (\<lambda>i. i),
     st_recovery_worlds = (\<lambda>_ i. 1800 + i)\<rparr>"

definition demo_arguments :: "string list" where
  "demo_arguments = [''--socket'', ''/run/s'', ''--database'', ''/d'', ''--cgroup-root'', ''/sys/fs/cgroup/a'']"

definition demo_start ::
  "((startup_error + daemon_options \<times> local_server \<times> (int \<times> sql_table) sqlite_store supervisor)
    \<times> (nat \<Rightarrow> nat, int \<times> sql_table) startup \<times> sim_host) option" where
  "demo_start = daemon_start True table_db sim_host_api (\<lambda>_. ''1'') demo_startup demo_arguments demo_delegated_host"

lemma demo_stored_ok: "table_ok table_db (snd (sqs_connection (snd demo_stored)))"
proof -
  have "sqlite_append table_db (\<lambda>i. 1700 + i) demo_db (TaskId 7) demo_batch = (fst demo_stored, snd demo_stored)"
    by (simp add: demo_stored_def)
  from tdb.sq.append_keeps_ok [OF _ this] demo_db_ok show ?thesis by (simp add: tdb.sq_ok_def)
qed

lemma demo_start_serves:
  "map_option (\<lambda>(r, env', k'). map_result (\<lambda>(options, server, s). (do_cgroup_root options, sup_task_state s (TaskId 7))) r) demo_start
     = Some (Inr (Some ''/sys/fs/cgroup/a'', Some Failed))"
  by code_simp



definition demo_accepted :: "(unit + (nat \<Rightarrow> nat) connection) list" where
  "demo_accepted = [Inr demo_connection, Inl ()]"

definition demo_main ::
  "((startup_error + local_api_error option \<times> (int \<times> sql_table) sqlite_store supervisor)
    \<times> (nat \<Rightarrow> nat, int \<times> sql_table) startup \<times> sim_host) option" where
  "demo_main = daemon_main True table_db (\<lambda>i. i) demo_submit_json sim_host_api (\<lambda>_. ''1'') demo_startup demo_arguments
     demo_accepted demo_delegated_host"

lemma demo_main_serves:
  "map_option (\<lambda>(r, env', k'). map_result (\<lambda>(x, s). (x, map (sup_task_state s) [TaskId 1, TaskId 7])) r) demo_main
     = Some (Inr (Some Io, [Some Queued, Some Failed]))"
  by code_simp


end
