(* ===== verification/Filesystem_Adapter.thy ===== *)
theory Filesystem_Adapter
  imports Execution_Gate Std_Path
begin

text \<open>
  \<open>aios-adapter-filesystem/src/lib.rs\<close>: create one new regular file beneath a trusted root and
  write bounded bytes to it. The system calls and the clock are the record \<open>fs_api\<close> over a state
  \<open>k\<close> of the operating system; the locale \<open>fs_calls\<close> says what Linux documents of them.
\<close>

section \<open>System calls\<close>

record ('k, 'd) fs_api =
  fs_now :: "'k \<Rightarrow> instant \<times> 'k"
  fs_canonicalize :: "string \<Rightarrow> 'k \<Rightarrow> (unit + string) \<times> 'k"
  fs_open_host_root :: "'k \<Rightarrow> (unit + 'd) \<times> 'k"
  fs_openat2 :: "'d \<Rightarrow> component list \<Rightarrow> o_flag list \<Rightarrow> mode_flag list \<Rightarrow> resolve_flag list \<Rightarrow> 'k \<Rightarrow> (unit + 'd) \<times> 'k"
  fs_write_all :: "'d \<Rightarrow> u8 list \<Rightarrow> 'k \<Rightarrow> (unit + unit) \<times> 'k"
  fs_sync_data :: "'d \<Rightarrow> 'k \<Rightarrow> (unit + unit) \<times> 'k"

section \<open>Data\<close>

definition MAX_FILESYSTEM_PATH_BYTES :: nat where "MAX_FILESYSTEM_PATH_BYTES = 4096"
definition MAX_CREATE_BYTES :: nat where "MAX_CREATE_BYTES = 1024 * 1024"

datatype filesystem_adapter_error =
  FsInvalidConfig | FsInvalidOperation | FsUnsupportedPlatform | FsScopeMismatch | FsBudgetExceeded
  | FsCreateFailed | FsWriteFailed

definition filesystem_error_message :: "filesystem_adapter_error \<Rightarrow> string" where
  "filesystem_error_message e = (case e of
      FsInvalidConfig \<Rightarrow> ''invalid Filesystem Adapter configuration''
    | FsInvalidOperation \<Rightarrow> ''invalid filesystem operation''
    | FsUnsupportedPlatform \<Rightarrow> ''Filesystem Adapter is unsupported on this platform''
    | FsScopeMismatch \<Rightarrow> ''filesystem operation scope does not match the Task''
    | FsBudgetExceeded \<Rightarrow> ''filesystem operation exceeded the Task Budget''
    | FsCreateFailed \<Rightarrow> ''filesystem create operation failed''
    | FsWriteFailed \<Rightarrow> ''filesystem write operation failed'')"

record filesystem_write_operation =
  fw_path :: string
  fw_contents :: "u8 list"
  fw_execution_context :: "task_execution_context option"

definition fs_capability_request :: "filesystem_write_operation \<Rightarrow> capability_request" where
  "fs_capability_request operation = FileRequest (fw_path operation) Write"

record filesystem_write_receipt =
  bytes_written :: nat

record ('k, 'd) filesystem_adapter =
  fa_root :: 'd
  fa_os :: 'k

section \<open>Validation\<close>

definition fs_validate_operation :: "string \<Rightarrow> u8 list \<Rightarrow> filesystem_adapter_error + unit" where
  "fs_validate_operation path contents =
     (if MAX_CREATE_BYTES < length contents
         \<or> \<not> starts_with path ''/''
         \<or> path = ''/''
         \<or> MAX_FILESYSTEM_PATH_BYTES < length path
         \<or> CHR 0x00 \<in> set path
         \<or> \<not> list_all (\<lambda>component. component \<noteq> [] \<and> component \<noteq> ''.'' \<and> component \<noteq> ''..'')
               (drop 1 (split_on (CHR ''/'') path))
      then Inl FsInvalidOperation
      else Inr ())"

definition prepare_create :: "string \<Rightarrow> u8 list \<Rightarrow> filesystem_adapter_error + filesystem_write_operation" where
  "prepare_create path contents =
     (case fs_validate_operation path contents of
        Inl e \<Rightarrow> Inl e
      | Inr _ \<Rightarrow> Inr \<lparr>fw_path = path, fw_contents = contents, fw_execution_context = None\<rparr>)"

section \<open>The root\<close>

definition open_root ::
  "('k, 'd) fs_api \<Rightarrow> string \<Rightarrow> 'k \<Rightarrow> filesystem_adapter_error + ('k, 'd) filesystem_adapter" where
  "open_root fs path k =
     (if \<not> path_is_absolute path \<or> MAX_FILESYSTEM_PATH_BYTES < length path \<or> path_eq path ''/''
      then Inl FsInvalidConfig
      else
        (case fs_canonicalize fs path k of
           (Inl _, k) \<Rightarrow> Inl FsInvalidConfig
         | (Inr canonical, k) \<Rightarrow>
             if path_eq canonical ''/'' then Inl FsInvalidConfig
             else
               (case path_strip_prefix canonical ''/'' of
                  None \<Rightarrow> Inl FsInvalidConfig
                | Some relative \<Rightarrow>
                    (case fs_open_host_root fs k of
                       (Inl _, k) \<Rightarrow> Inl FsInvalidConfig
                     | (Inr host_root, k) \<Rightarrow>
                         (case fs_openat2 fs host_root relative [O_PATH, O_DIRECTORY, O_CLOEXEC] []
                                 [BENEATH, NO_MAGICLINKS, NO_SYMLINKS] k of
                            (Inl _, k) \<Rightarrow> Inl FsInvalidConfig
                          | (Inr root, k) \<Rightarrow> Inr \<lparr>fa_root = root, fa_os = k\<rparr>)))))"

text \<open>\<open>linux\<close> is \<open>cfg!(target_os = "linux")\<close>.\<close>

definition filesystem_adapter_new ::
  "bool \<Rightarrow> ('k, 'd) fs_api \<Rightarrow> string \<Rightarrow> 'k \<Rightarrow> filesystem_adapter_error + ('k, 'd) filesystem_adapter" where
  "filesystem_adapter_new linux fs root k =
     (if \<not> linux then Inl FsUnsupportedPlatform else open_root fs root k)"

section \<open>The operation\<close>

definition fs_require_remaining_budget ::
  "('k, 'd) fs_api \<Rightarrow> task_execution_context \<Rightarrow> 'k \<Rightarrow> (filesystem_adapter_error + unit) \<times> 'k" where
  "fs_require_remaining_budget fs ctx k =
     (case fs_now fs k of (now, k) \<Rightarrow>
        (if remaining_wall_time now ctx = 0 then Inl FsBudgetExceeded else Inr (), k))"

definition create_new ::
  "('k, 'd) fs_api \<Rightarrow> 'd \<Rightarrow> filesystem_write_operation \<Rightarrow> 'k
   \<Rightarrow> (filesystem_adapter_error + filesystem_write_receipt) \<times> 'k" where
  "create_new fs root operation k =
     (case fw_execution_context operation of
        None \<Rightarrow> (Inl FsScopeMismatch, k)
      | Some ctx \<Rightarrow>
      case fs_require_remaining_budget fs ctx k of
        (Inl e, k) \<Rightarrow> (Inl e, k)
      | (Inr _, k) \<Rightarrow>
      case path_strip_prefix (fw_path operation) ''/'' of
        None \<Rightarrow> (Inl FsInvalidOperation, k)
      | Some relative \<Rightarrow>
      case fs_openat2 fs root relative [O_WRONLY, O_CREATE, O_EXCL, O_CLOEXEC] [RUSR, WUSR]
             [BENEATH, NO_MAGICLINKS, NO_SYMLINKS, NO_XDEV] k of
        (Inl _, k) \<Rightarrow> (Inl FsCreateFailed, k)
      | (Inr file, k) \<Rightarrow>
      case fs_require_remaining_budget fs ctx k of
        (Inl e, k) \<Rightarrow> (Inl e, k)
      | (Inr _, k) \<Rightarrow>
      case fs_write_all fs file (fw_contents operation) k of
        (Inl _, k) \<Rightarrow> (Inl FsWriteFailed, k)
      | (Inr _, k) \<Rightarrow>
      case fs_sync_data fs file k of
        (Inl _, k) \<Rightarrow> (Inl FsWriteFailed, k)
      | (Inr _, k) \<Rightarrow>
      case fs_require_remaining_budget fs ctx k of
        (Inl e, k) \<Rightarrow> (Inl e, k)
      | (Inr _, k) \<Rightarrow> (Inr \<lparr>bytes_written = length (fw_contents operation)\<rparr>, k))"

definition filesystem_execute ::
  "('k, 'd) fs_api \<Rightarrow> (unit, ('k, 'd) filesystem_adapter, filesystem_write_operation, filesystem_adapter_error,
     filesystem_write_receipt) execute_fn" where
  "filesystem_execute fs x adapter operation =
     (case fs_validate_operation (fw_path operation) (fw_contents operation) of
        Inl e \<Rightarrow> (Inl e, adapter)
      | Inr _ \<Rightarrow>
          (case create_new fs (fa_root adapter) operation (fa_os adapter) of (r, k) \<Rightarrow> (r, adapter\<lparr>fa_os := k\<rparr>)))"

section \<open>The gate\<close>

type_synonym ('k, 'd) filesystem_gate = "(('k, 'd) filesystem_adapter, filesystem_write_operation) execution_gate"

definition filesystem_gate_new ::
  "bool \<Rightarrow> ('k, 'd) fs_api \<Rightarrow> string \<Rightarrow> 'k \<Rightarrow> filesystem_adapter_error + ('k, 'd) filesystem_gate" where
  "filesystem_gate_new linux fs root k = map_result gate_new (filesystem_adapter_new linux fs root k)"

definition filesystem_gate_request ::
  "('w, 's) append_fn \<Rightarrow> ('k, 'd) fs_api \<Rightarrow> (nat \<Rightarrow> 'w) \<Rightarrow> 'w \<Rightarrow> instant \<Rightarrow> instant
   \<Rightarrow> operation_id \<Rightarrow> approval_id \<Rightarrow> ('k, 'd) filesystem_gate \<Rightarrow> 's supervisor \<Rightarrow> task_id \<Rightarrow> filesystem_write_operation \<Rightarrow> duration
   \<Rightarrow> (('k, 'd) filesystem_adapter, filesystem_write_operation, 's, filesystem_adapter_error,
       filesystem_write_receipt execution_outcome) gate_result" where
  "filesystem_gate_request ab fs ws w now1 now2 new_op new_approval g s task_id operation approval_ttl =
     (case execution_context s task_id of
        Inl e \<Rightarrow> (Inl (ExecSupervisor e), g, s)
      | Inr ctx \<Rightarrow>
          gate_request ab fs_capability_request (filesystem_execute fs) ws w () now1 now2 new_op new_approval g s
            task_id (operation\<lparr>fw_execution_context := Some ctx\<rparr>) approval_ttl)"

definition filesystem_gate_approve_and_execute ::
  "('w, 's) append_fn \<Rightarrow> ('k, 'd) fs_api \<Rightarrow> (nat \<Rightarrow> 'w) \<Rightarrow> 'w \<Rightarrow> 'w \<Rightarrow> instant \<Rightarrow> instant \<Rightarrow> instant
   \<Rightarrow> ('k, 'd) filesystem_gate \<Rightarrow> 's supervisor \<Rightarrow> approval_id
   \<Rightarrow> (('k, 'd) filesystem_adapter, filesystem_write_operation, 's, filesystem_adapter_error,
       filesystem_write_receipt executed) gate_result" where
  "filesystem_gate_approve_and_execute ab fs ws w1 w2 =
     approve_and_execute ab fs_capability_request (filesystem_execute fs) ws w1 w2 ()"

definition filesystem_gate_deny ::
  "('w, 's) append_fn \<Rightarrow> (nat \<Rightarrow> 'w) \<Rightarrow> 'w \<Rightarrow> instant \<Rightarrow> ('k, 'd) filesystem_gate \<Rightarrow> 's supervisor \<Rightarrow> approval_id
   \<Rightarrow> (('k, 'd) filesystem_adapter, filesystem_write_operation, 's, filesystem_adapter_error, task_snapshot) gate_result" where
  "filesystem_gate_deny = gate_deny"

definition filesystem_gate_expire ::
  "('w, 's) append_fn \<Rightarrow> (nat \<Rightarrow> 'w) \<Rightarrow> instant \<Rightarrow> ('k, 'd) filesystem_gate \<Rightarrow> 's supervisor
   \<Rightarrow> (('k, 'd) filesystem_adapter, filesystem_write_operation, 's, filesystem_adapter_error, nat) gate_result" where
  "filesystem_gate_expire = gate_expire"

definition filesystem_gate_cancel ::
  "('w, 's) append_fn \<Rightarrow> 'w \<Rightarrow> ('k, 'd) filesystem_gate \<Rightarrow> 's supervisor \<Rightarrow> task_id
   \<Rightarrow> (('k, 'd) filesystem_adapter, filesystem_write_operation, 's, filesystem_adapter_error, bool) gate_result" where
  "filesystem_gate_cancel = gate_cancel"

definition filesystem_gate_pending_count :: "('k, 'd) filesystem_gate \<Rightarrow> nat" where
  "filesystem_gate_pending_count = gate_pending_count"

section \<open>The documented behaviour of the system calls\<close>

text \<open>\<open>files k\<close> are the regular files with their contents, by the names from the host's root;
  \<open>place\<close> is what a descriptor was opened on. An exclusive creation that resolves beneath its
  directory without symbolic links makes exactly one empty file, at a name that was free, and
  a write appends to the file of its descriptor, possibly not everything.\<close>

locale fs_calls =
  fixes fs :: "('k, 'd) fs_api" and files :: "'k \<Rightarrow> string list \<rightharpoonup> u8 list" and place :: "'d \<Rightarrow> string list"
  assumes now_ok: "fs_now fs k = (now, k') \<Longrightarrow> files k' = files k"
    and open_err: "fs_openat2 fs d relative flags mode resolve k = (Inl e, k') \<Longrightarrow> files k' = files k"
    and create_ok: "fs_openat2 fs d (map Normal cs) flags mode resolve k = (Inr f, k')
      \<Longrightarrow> O_CREATE \<in> set flags \<Longrightarrow> O_EXCL \<in> set flags \<Longrightarrow> BENEATH \<in> set resolve \<Longrightarrow> NO_SYMLINKS \<in> set resolve
      \<Longrightarrow> files k (place d @ cs) = None \<and> place f = place d @ cs \<and> files k' = (files k)(place d @ cs \<mapsto> [])"
    and write_ok: "fs_write_all fs f bytes k = (r, k') \<Longrightarrow> files k (place f) = Some old
      \<Longrightarrow> \<exists>n. files k' = (files k)(place f \<mapsto> old @ take n bytes) \<and> (is_ok r \<longrightarrow> length bytes \<le> n)"
    and sync_ok: "fs_sync_data fs f k = (u, k') \<Longrightarrow> files k' = files k"
begin

lemma budget_files: "fs_require_remaining_budget fs ctx k = (u, k') \<Longrightarrow> files k' = files k"
  by (auto simp: fs_require_remaining_budget_def split: prod.splits dest: now_ok)

text \<open>What a run of \<open>create_new\<close> may leave behind at \<open>target\<close>.\<close>

definition created :: "string list \<Rightarrow> u8 list \<Rightarrow> 'k \<Rightarrow> 'k \<Rightarrow> nat \<Rightarrow> bool" where
  "created target contents k k' n \<longleftrightarrow> files k target = None \<and> files k' = (files k)(target \<mapsto> take n contents)"

lemma create_new_files:
  assumes ok: "path_components (fw_path op) = RootDir # map Normal cs" and run: "create_new fs root op k = (r, k')"
  shows "files k' = files k \<and> (\<exists>e. r = Inl e)
     \<or> (\<exists>n. created (place root @ cs) (fw_contents op) k k' n
          \<and> (\<forall>rc. r = Inr rc \<longrightarrow> length (fw_contents op) \<le> n \<and> bytes_written rc = length (fw_contents op)))"
proof (cases "fw_execution_context op")
  case None
  with run show ?thesis by (auto simp: create_new_def)
next
  case (Some ctx)
  let ?flags = "[O_WRONLY, O_CREATE, O_EXCL, O_CLOEXEC]" and ?res = "[BENEATH, NO_MAGICLINKS, NO_SYMLINKS, NO_XDEV]"
  let ?target = "place root @ cs" and ?cont = "fw_contents op"
  obtain r1 k1 where s1: "fs_require_remaining_budget fs ctx k = (r1, k1)" by fastforce
  obtain r2 k2 where s2: "fs_openat2 fs root (map Normal cs) ?flags [RUSR, WUSR] ?res k1 = (r2, k2)" by fastforce
  obtain r3 k3 where s3: "fs_require_remaining_budget fs ctx k2 = (r3, k3)" by fastforce
  note run' = run [unfolded create_new_def path_strip_root [OF ok] Some, simplified, unfolded s1, simplified]
  have f1: "files k1 = files k" and f3: "files k3 = files k2" by (rule budget_files [OF s1], rule budget_files [OF s3])
  show ?thesis
  proof (cases "is_ok r1 \<and> is_ok r2")
    case False
    then have "(\<exists>e. r = Inl e) \<and> files k' = files k"
      using run' s2 f1 by (cases r1; cases r2) (auto dest: open_err)
    then show ?thesis by blast
  next
    case True
    then obtain f where f: "r2 = Inr f" by (cases r2) auto
    have c: "files k ?target = None" "place f = ?target" "files k2 = (files k)(?target \<mapsto> [])"
      using create_ok [OF s2 [unfolded f]] f1 by simp_all
    obtain r4 k4 where s4: "fs_write_all fs f ?cont k3 = (r4, k4)" by fastforce
    have "files k3 (place f) = Some []" using c f3 by simp
    from write_ok [OF s4 this] obtain n where
      n: "files k4 = (files k)(?target \<mapsto> take n ?cont)" "is_ok r4 \<longrightarrow> length ?cont \<le> n" using c f3 by auto
    obtain r5 k5 where s5: "fs_sync_data fs f k4 = (r5, k5)" by fastforce
    obtain r6 k6 where s6: "fs_require_remaining_budget fs ctx k5 = (r6, k6)" by fastforce
    have f6: "files k5 = files k4" "files k6 = files k4" using sync_ok [OF s5] budget_files [OF s6] by simp_all
    have "k' \<in> (if is_ok r3 then {k4, k5, k6} else {k3}) \<and> (\<forall>rc. r = Inr rc \<longrightarrow> is_ok r4 \<and> is_ok r3 \<and> bytes_written rc = length ?cont)"
      using run' True s2 s3 f s4 s5 s6 by (cases r1; cases r3; cases r4; cases r5; cases r6) auto
    then have "created ?target ?cont k k' (if is_ok r3 then n else 0)
        \<and> (\<forall>rc. r = Inr rc \<longrightarrow> length ?cont \<le> (if is_ok r3 then n else 0) \<and> bytes_written rc = length ?cont)"
      using c n f3 f6 by (auto simp: created_def split: if_splits)
    then show ?thesis by blast
  qed
qed

end

section \<open>A simulated file system\<close>

text \<open>The hypotheses can hold: directories by name, files with contents, a clock that advances at
  every reading and a device with limited room.\<close>

record sim_fs =
  sf_clock :: instant
  sf_dirs :: "string list list"
  sf_files :: "(string list \<times> u8 list) list"
  sf_space :: nat

definition normal_names :: "component list \<Rightarrow> string list option" where
  "normal_names cs = (if list_all component_normal cs
     then Some (map (\<lambda>c. case c of Normal n \<Rightarrow> n | _ \<Rightarrow> []) cs) else None)"

lemma normal_names_map [simp]: "normal_names (map Normal cs) = Some cs"
  by (simp add: normal_names_def list_all_iff comp_def)

definition sim_fs_api :: "(sim_fs, string list) fs_api" where
  "sim_fs_api = \<lparr>
     fs_now = (\<lambda>k. (sf_clock k, k\<lparr>sf_clock := Suc (sf_clock k)\<rparr>)),
     fs_canonicalize = (\<lambda>path k. (Inr path, k)),
     fs_open_host_root = (\<lambda>k. (Inr [], k)),
     fs_openat2 = (\<lambda>d relative flags mode resolve k.
       case normal_names relative of None \<Rightarrow> (Inl (), k) | Some cs \<Rightarrow>
       if O_CREATE \<in> set flags
       then (if butlast (d @ cs) \<in> set (sf_dirs k) \<and> d @ cs \<notin> set (sf_dirs k) \<and> map_of (sf_files k) (d @ cs) = None
             then (Inr (d @ cs), k\<lparr>sf_files := (d @ cs, []) # sf_files k\<rparr>) else (Inl (), k))
       else (if d @ cs \<in> set (sf_dirs k) then (Inr (d @ cs), k) else (Inl (), k))),
     fs_write_all = (\<lambda>f bytes k.
       let old = (case map_of (sf_files k) f of None \<Rightarrow> [] | Some old \<Rightarrow> old) in
       (if length bytes \<le> sf_space k then Inr () else Inl (),
        k\<lparr>sf_files := (f, old @ take (sf_space k) bytes) # sf_files k, sf_space := sf_space k - length bytes\<rparr>)),
     fs_sync_data = (\<lambda>f k. (Inr (), k))\<rparr>"

interpretation sim_fs: fs_calls sim_fs_api "\<lambda>k. map_of (sf_files k)" id
proof
  fix f bytes k r k' old
  assume "fs_write_all sim_fs_api f bytes k = (r, k')" and "map_of (sf_files k) (id f) = Some old"
  then show "\<exists>n. map_of (sf_files k') = (map_of (sf_files k))(id f \<mapsto> old @ take n bytes) \<and> (is_ok r \<longrightarrow> length bytes \<le> n)"
    by (intro exI [of _ "sf_space k"]) (auto simp: sim_fs_api_def split: if_splits)
qed (auto simp: sim_fs_api_def split: option.splits if_splits)

section \<open>Properties\<close>

lemma gate_request_output:
  "gate_request ab capreq execute ws w x now1 now2 oi ai g s t op ttl = (Inr (Executed out), g', s')
   \<Longrightarrow> fst (execute x (gate_adapter g) op) = Inr (ex_output out)"
  by (auto simp: gate_request_def split: prod.splits sum.splits operation_authorization.splits)

lemma fs_validate_ok:
  assumes "fs_validate_operation path contents = Inr u"
  shows "path_components path = RootDir # map Normal (drop 1 (split_on (CHR ''/'') path))" "length contents \<le> 1048576"
proof -
  have "starts_with path ''/''"
    and ok: "\<forall>c \<in> set (drop 1 (split_on (CHR ''/'') path)). c \<noteq> [] \<and> c \<noteq> ''.'' \<and> c \<noteq> ''..''"
    and len: "length contents \<le> 1048576"
    using assms by (auto simp: fs_validate_operation_def list_all_iff MAX_CREATE_BYTES_def split: if_splits)
  then show "path_components path = RootDir # map Normal (drop 1 (split_on (CHR ''/'') path))" "length contents \<le> 1048576"
    using path_components_normal by (simp_all add: path_is_absolute_def)
qed

lemma allow_within:
  assumes "evaluate \<lparr>cp_task = task\<rparr> (FileRequest path access) = Allow"
  shows "\<exists>c \<in> set (cs_filesystem (ts_capabilities task)). fc_access c = access \<and> path_is_within path (fc_path c)"
  using assms by (auto simp: evaluate_cases request_granted_def path_is_within_iff split: if_splits)

text \<open>C9: a write reaches exactly one new file of the task. From a reachable supervisor state,
  \<open>FilesystemExecutionGate::request\<close> either changes no file and reports no receipt, or the task
  is running, its policy allows the write outright, a write capability of the task covers
  the path, the decision is the last event of the task's audit log, and the only file that
  changes is the one at that path beneath the root, which did not exist: it holds a prefix of
  the contents (at most 1 MiB), and all of them when a receipt is returned.\<close>

theorem filesystem_gate_confined:
  assumes "event_store ab listing lg ok" and "ok es" "\<forall>t. lg es t = []"
    and "with_max_tasks es n = Inr s0" "n < 2 ^ 64" and "sup_reachable ab s0 s"
    and "bt_get (aa_pending (sup_authority s)) ai = None"
    and "fs_calls fs files place"
    and "filesystem_gate_request ab fs ws w now1 now2 oi ai g s t op ttl = (r, g', s')"
  shows "files (fa_os (gate_adapter g')) = files (fa_os (gate_adapter g)) \<and> (\<forall>out. r \<noteq> Inr (Executed out))
     \<or> (\<exists>rec earlier c target m. bt_get (sup_tasks s) t = Some rec \<and> tr_state rec = Running
          \<and> evaluate \<lparr>cp_task = tr_spec rec\<rparr> (FileRequest (fw_path op) Write) = Allow
          \<and> c \<in> set (cs_filesystem (ts_capabilities (tr_spec rec))) \<and> fc_access c = Write
          \<and> path_is_within (fw_path op) (fc_path c)
          \<and> map ev_kind (lg (sup_event_store s') t) = earlier @ [OperationAllowed]
          \<and> path_components (fw_path op) = RootDir # map Normal target
          \<and> length (fw_contents op) \<le> 1048576
          \<and> files (fa_os (gate_adapter g)) (place (fa_root (gate_adapter g)) @ target) = None
          \<and> files (fa_os (gate_adapter g')) =
              (files (fa_os (gate_adapter g)))(place (fa_root (gate_adapter g)) @ target \<mapsto> take m (fw_contents op))
          \<and> (\<forall>out. r = Inr (Executed out) \<longrightarrow> bytes_written (ex_output out) = length (fw_contents op)
               \<and> length (fw_contents op) \<le> m))"
proof (cases "execution_context s t")
  case (Inl e)
  with assms(9) show ?thesis by (auto simp: filesystem_gate_request_def)
next
  case (Inr ctx)
  let ?op = "op\<lparr>fw_execution_context := Some ctx\<rparr>" and ?a = "gate_adapter g" and ?a' = "gate_adapter g'"
  have run: "gate_request ab fs_capability_request (filesystem_execute fs) ws w () now1 now2 oi ai g s t ?op ttl = (r, g', s')"
    using assms(9) Inr by (simp add: filesystem_gate_request_def)
  from gate_request_effect [OF assms(1-7) run] show ?thesis
  proof (elim disjE exE conjE, goal_cases)
    case (2 rec res earlier)
    note rec = 2(1,2,4)
    have allow: "evaluate \<lparr>cp_task = tr_spec rec\<rparr> (FileRequest (fw_path op) Write) = Allow"
      using 2(3) by (simp add: fs_capability_request_def)
    have out: "res = Inr (ex_output out)" if "r = Inr (Executed out)" for out
      using gate_request_output run that 2(5) by (metis fst_conv)
    show ?thesis
    proof (cases "fs_validate_operation (fw_path op) (fw_contents op)")
      case (Inl e)
      then have "?a' = ?a" "res = Inl e" using 2(5) by (simp_all add: filesystem_execute_def)
      with out show ?thesis by auto
    next
      case (Inr u)
      let ?cs = "drop 1 (split_on (CHR ''/'') (fw_path op))"
      note v = fs_validate_ok [OF Inr]
      obtain k' where k': "create_new fs (fa_root ?a) ?op (fa_os ?a) = (res, k')" "?a' = ?a\<lparr>fa_os := k'\<rparr>"
        using 2(5) Inr by (auto simp: filesystem_execute_def split: prod.splits)
      have pc: "path_components (fw_path ?op) = RootDir # map Normal ?cs" using v(1) by simp
      from fs_calls.create_new_files [OF assms(8) pc k'(1)] show ?thesis
      proof (elim disjE exE conjE, goal_cases)
        case (1 e)
        with out k'(2) show ?case by auto
      next
        case (2 m)
        obtain c where c: "c \<in> set (cs_filesystem (ts_capabilities (tr_spec rec)))" "fc_access c = Write"
          "path_is_within (fw_path op) (fc_path c)" using allow_within [OF allow] by blast
        have f: "files (fa_os ?a) (place (fa_root ?a) @ ?cs) = None"
          "files (fa_os ?a') = (files (fa_os ?a))(place (fa_root ?a) @ ?cs \<mapsto> take m (fw_contents op))"
          using 2(1) k'(2) by (simp_all add: fs_calls.created_def [OF assms(8)])
        have o: "\<forall>out. r = Inr (Executed out) \<longrightarrow> bytes_written (ex_output out) = length (fw_contents op) \<and> length (fw_contents op) \<le> m"
          using 2(2) out by fastforce
        show ?case
          by (intro disjI2 exI [of _ rec] exI [of _ earlier] exI [of _ c] exI [of _ ?cs] exI [of _ m]
              conjI rec allow c v f o)
      qed
    qed
  qed simp
qed

definition fs_task :: task_spec where
  "fs_task = sample_task\<lparr>ts_approval := \<lparr>required_for = []\<rparr>\<rparr>"

definition fs_submitted :: "(in_memory_store, submit_result) sup_result" where
  "fs_submitted = submit in_memory_append demo_clock (TaskId 1) supervisor_default fs_task"

definition fs_started :: "(in_memory_store, unit) sup_result" where
  "fs_started = start in_memory_append demo_clock 5 (snd fs_submitted) (TaskId 1)"

definition demo_fs :: sim_fs where
  "demo_fs = \<lparr>sf_clock = 6, sf_dirs = [[], [''srv''], [''srv'', ''workspace'']], sf_files = [], sf_space = 100\<rparr>"

definition demo_fs_gate :: "(sim_fs, string list) filesystem_gate" where
  "demo_fs_gate = projr (filesystem_gate_new True sim_fs_api ''/srv'' demo_fs)"

definition demo_fs_op :: filesystem_write_operation where
  "demo_fs_op = projr (prepare_create ''/workspace/out.txt'' [104, 105])"

definition demo_fs_run ::
  "((sim_fs, string list) filesystem_adapter, filesystem_write_operation, in_memory_store, filesystem_adapter_error,
     filesystem_write_receipt execution_outcome) gate_result" where
  "demo_fs_run = filesystem_gate_request in_memory_append sim_fs_api (\<lambda>_. demo_clock) demo_clock 6 6 (OperationId 2)
     (ApprovalId 3) demo_fs_gate (snd fs_started) (TaskId 1) demo_fs_op (from_secs 60)"

lemma fs_started_reachable: "sup_reachable in_memory_append supervisor_default (snd fs_started)"
proof -
  have "sup_task_state supervisor_default (TaskId 1) = None" by code_simp
  then have "sup_step in_memory_append supervisor_default (snd fs_submitted)"
    by (rule sup_step.submit [where r = "fst fs_submitted"]) (simp add: fs_submitted_def)
  moreover have "sup_task_state (snd fs_submitted) (TaskId 1) \<noteq> Some WaitingApproval" by code_simp
  then have "sup_step in_memory_append (snd fs_submitted) (snd fs_started)"
    by (rule sup_step.start [where r = "fst fs_started"]) (simp add: fs_started_def)
  ultimately show ?thesis by (blast intro: sup_reachable.intros)
qed

theorem filesystem_gate_confined_witness:
  "\<exists>out. fst demo_fs_run = Inr (Executed out) \<and> bytes_written (ex_output out) = 2
     \<and> map_of (sf_files demo_fs) [''srv'', ''workspace'', ''out.txt''] = None
     \<and> map_of (sf_files (fa_os (gate_adapter (fst (snd demo_fs_run))))) [''srv'', ''workspace'', ''out.txt''] = Some [104, 105]"
proof -
  obtain r g' s' where run: "demo_fs_run = (r, g', s')" by (cases demo_fs_run)
  have f: "bt_get (aa_pending (sup_authority (snd fs_started))) (ApprovalId 3) = None"
    and rr: "fst demo_fs_run = Inr (Executed \<lparr>ex_output = \<lparr>bytes_written = 2\<rparr>, ex_approval = None\<rparr>)"
    and pc: "path_components (fw_path demo_fs_op) = [RootDir, Normal ''workspace'', Normal ''out.txt'']"
    and rt: "fa_root (gate_adapter demo_fs_gate) = [''srv'']" and cont: "fw_contents demo_fs_op = [104, 105]"
    and os: "sf_files (fa_os (gate_adapter demo_fs_gate)) = []"
    by code_simp+
  have r: "r = Inr (Executed \<lparr>ex_output = \<lparr>bytes_written = 2\<rparr>, ex_approval = None\<rparr>)" using rr unfolding run by simp
  from filesystem_gate_confined [OF im.event_store_axioms demo_init(2,3,1,4) fs_started_reachable f sim_fs.fs_calls_axioms
      run [unfolded demo_fs_run_def]] r pc rt cont os
  show ?thesis unfolding run by (auto simp: map_eq_Cons_conv demo_fs_def)
qed

end
